(* ===== verification/Prelude.thy ===== *)
theory Prelude
  imports Main "HOL-Library.Word"
begin

text \<open>
  Vocabulary shared by every component: Rust's fixed-width unsigned integers as words, their
  checked operations, the \<open>?\<close> operator on results, and little-endian byte strings.
  A checked operation is characterised once, through the natural number a word stands for
  (\<^const>\<open>unat\<close>); the collection \<open>checked\<close> holds those equivalences, so that a proof about
  checked arithmetic becomes a proof about \<^typ>\<open>nat\<close>.
\<close>

section \<open>Integers\<close>

type_synonym u8 = "8 word"
type_synonym u32 = "32 word"
type_synonym u64 = "64 word"
type_synonym u128 = "128 word"
type_synonym u192 = "192 word"
type_synonym byte = "8 word"

abbreviation u64_max :: u64 where
  "u64_max \<equiv> 18446744073709551615"

named_theorems checked \<open>checked operations read as arithmetic on natural numbers\<close>
named_theorems run \<open>definitions to unfold when an operation is evaluated on concrete values\<close>

definition checked_add :: "'a::len word \<Rightarrow> 'a word \<Rightarrow> 'a word option" where
  "checked_add x y = (if unat x + unat y < 2 ^ LENGTH('a) then Some (x + y) else None)"

definition checked_sub :: "'a::len word \<Rightarrow> 'a word \<Rightarrow> 'a word option" where
  "checked_sub x y = (if y \<le> x then Some (x - y) else None)"

definition checked_mul :: "'a::len word \<Rightarrow> 'a word \<Rightarrow> 'a word option" where
  "checked_mul x y = (if unat x * unat y < 2 ^ LENGTH('a) then Some (x * y) else None)"

definition checked_div :: "'a::len word \<Rightarrow> 'a word \<Rightarrow> 'a word option" where
  "checked_div x y = (if y = 0 then None else Some (x div y))"

text \<open>\<open>10u64.checked_pow(n)\<close>: the power when it fits the width.\<close>

definition checked_pow :: "'a::len word \<Rightarrow> nat \<Rightarrow> 'a word option" where
  "checked_pow x n = (if unat x ^ n < 2 ^ LENGTH('a) then Some (x ^ n) else None)"

text \<open>\<open>u64::try_from(x)\<close> and its kin: a narrowing conversion that fails out of range.\<close>

definition try_narrow :: "'a::len word \<Rightarrow> 'b::len word option" where
  "try_narrow x = (if unat x < 2 ^ LENGTH('b) then Some (ucast x) else None)"


lemmas [run] = checked_add_def checked_sub_def checked_mul_def checked_div_def checked_pow_def
  try_narrow_def min_def max_def Let_def

lemma unat_of_nat_small: "n < 2 ^ LENGTH('a) \<Longrightarrow> unat (of_nat n :: 'a::len word) = n"
  by (simp add: unat_of_nat)

lemma word_eq_of_nat_unat: "(w :: 'a::len word) = of_nat n \<longleftrightarrow> unat w = n" if "n < 2 ^ LENGTH('a)"
  using that by (metis of_nat_unat ucast_id unat_of_nat_small)

lemma checked_add_Some [checked]:
  "checked_add x y = Some z \<longleftrightarrow> unat z = unat x + unat (y :: 'a::len word)"
proof
  assume "checked_add x y = Some z"
  then show "unat z = unat x + unat y"
    by (auto simp: checked_add_def unat_word_ariths split: if_splits)
next
  assume eq: "unat z = unat x + unat y"
  then have "unat x + unat y < 2 ^ LENGTH('a)" by (metis unsigned_less)
  with eq show "checked_add x y = Some z"
    by (simp add: checked_add_def word_unat_eq_iff unat_word_ariths)
qed

lemma checked_sub_Some [checked]:
  "checked_sub x y = Some z \<longleftrightarrow> unat x = unat y + unat (z :: 'a::len word)"
proof
  assume "checked_sub x y = Some z"
  then show "unat x = unat y + unat z"
    by (auto simp: checked_sub_def unat_sub word_le_nat_alt split: if_splits)
next
  assume eq: "unat x = unat y + unat z"
  then have "y \<le> x" by (simp add: word_le_nat_alt)
  with eq show "checked_sub x y = Some z"
    by (simp add: checked_sub_def word_unat_eq_iff unat_sub)
qed

lemma checked_mul_Some [checked]:
  "checked_mul x y = Some z \<longleftrightarrow> unat z = unat x * unat (y :: 'a::len word)"
proof
  assume "checked_mul x y = Some z"
  then show "unat z = unat x * unat y"
    by (auto simp: checked_mul_def unat_word_ariths split: if_splits)
next
  assume eq: "unat z = unat x * unat y"
  then have "unat x * unat y < 2 ^ LENGTH('a)" by (metis unsigned_less)
  with eq show "checked_mul x y = Some z"
    by (simp add: checked_mul_def word_unat_eq_iff unat_word_ariths)
qed

lemma checked_div_Some [checked]:
  "checked_div x y = Some z \<longleftrightarrow> unat y \<noteq> 0 \<and> unat z = unat x div unat (y :: 'a::len word)"
  by (auto simp: checked_div_def word_unat_eq_iff unat_div split: if_splits)

lemma unat_power_small:
  "unat x ^ n < 2 ^ LENGTH('a) \<Longrightarrow> unat ((x :: 'a::len word) ^ n) = unat x ^ n"
  by (metis of_nat_power of_nat_unat ucast_id unat_of_nat_small)

lemma checked_pow_Some [checked]:
  "checked_pow x n = Some z \<longleftrightarrow> unat z = unat (x :: 'a::len word) ^ n"
proof
  assume "checked_pow x n = Some z"
  then show "unat z = unat x ^ n"
    by (auto simp: checked_pow_def unat_power_small split: if_splits)
next
  assume eq: "unat z = unat x ^ n"
  then have "unat x ^ n < 2 ^ LENGTH('a)" by (metis unsigned_less)
  with eq show "checked_pow x n = Some z"
    by (simp add: checked_pow_def word_unat_eq_iff unat_power_small)
qed

lemma try_narrow_Some [checked]:
  "(try_narrow (x :: 'a::len word) :: 'b::len word option) = Some z \<longleftrightarrow> unat z = unat x"
proof
  assume "(try_narrow x :: 'b word option) = Some z"
  then show "unat z = unat x"
    by (auto simp: try_narrow_def unsigned_ucast_eq take_bit_eq_mod split: if_splits)
next
  assume eq: "unat z = unat x"
  then have "unat x < 2 ^ LENGTH('b)" by (metis unsigned_less)
  with eq show "(try_narrow x :: 'b word option) = Some z"
    by (simp add: try_narrow_def word_unat_eq_iff unsigned_ucast_eq take_bit_eq_mod)
qed

text \<open>The failures, read the same way.\<close>

lemma checked_add_None [checked]:
  "checked_add x y = None \<longleftrightarrow> 2 ^ LENGTH('a) \<le> unat x + unat (y :: 'a::len word)"
  by (auto simp: checked_add_def)

lemma checked_sub_None [checked]:
  "checked_sub x y = None \<longleftrightarrow> unat x < unat (y :: 'a::len word)"
  by (auto simp: checked_sub_def word_le_nat_alt)

lemma checked_mul_None [checked]:
  "checked_mul x y = None \<longleftrightarrow> 2 ^ LENGTH('a) \<le> unat x * unat (y :: 'a::len word)"
  by (auto simp: checked_mul_def)

lemma checked_div_None [checked]:
  "checked_div x y = None \<longleftrightarrow> unat (y :: 'a::len word) = 0"
  by (auto simp: checked_div_def unat_eq_0)

lemma unat_add_small:
  "unat x + unat y < 2 ^ LENGTH('a) \<Longrightarrow> unat (x + (y :: 'a::len word)) = unat x + unat y"
  by (simp add: unat_word_ariths)

lemma unat_mult_small:
  "unat x * unat y < 2 ^ LENGTH('a) \<Longrightarrow> unat (x * (y :: 'a::len word)) = unat x * unat y"
  by (simp add: unat_word_ariths)

text \<open>A signed integer is the word of its two's complement representation.\<close>

definition signed_val :: "'a::len word \<Rightarrow> int" where
  "signed_val x =
     (if unat x < 2 ^ (LENGTH('a) - 1) then int (unat x) else int (unat x) - 2 ^ LENGTH('a))"

lemma unat_minus_word:
  assumes "0 < unat (x :: 'a::len word)"
  shows "unat (- x) = 2 ^ LENGTH('a) - unat x"
proof -
  have "(unat (- x) + unat x) mod 2 ^ LENGTH('a) = 0"
    by (metis add.left_inverse unat_0 unat_word_ariths(1))
  then obtain k where k: "unat (- x) + unat x = 2 ^ LENGTH('a) * k" by auto
  have "unat (- x) < 2 ^ LENGTH('a)" "unat x < 2 ^ LENGTH('a)" by simp_all
  then have "2 ^ LENGTH('a) * k < 2 ^ LENGTH('a) * 2" using k by linarith
  then have "k < 2" by simp
  moreover have "k \<noteq> 0"
  proof
    assume "k = 0"
    with k assms show False by (simp only: mult_0_right add_is_0)
  qed
  ultimately have "k = 1" by simp
  with k show ?thesis by simp
qed

section \<open>Results\<close>

text \<open>
  A fallible function returns a sum: \<^term>\<open>Inl e\<close> for an error, \<^term>\<open>Inr v\<close> for a value.
  \<open>attempt m f\<close> is Rust's \<open>?\<close>: go on with the value of \<open>m\<close>, or return its error.
\<close>

definition attempt :: "'e + 'a \<Rightarrow> ('a \<Rightarrow> 'e + 'b) \<Rightarrow> 'e + 'b" where
  "attempt m f = (case m of Inl e \<Rightarrow> Inl e | Inr x \<Rightarrow> f x)"

definition ok_or :: "'a option \<Rightarrow> 'e \<Rightarrow> 'e + 'a" where
  "ok_or v e = (case v of None \<Rightarrow> Inl e | Some x \<Rightarrow> Inr x)"

lemma attempt_simps [simp]:
  "attempt (Inl e) f = Inl e"
  "attempt (Inr x) f = f x"
  by (simp_all add: attempt_def)

lemma attempt_Inr_iff [simp]: "attempt m f = Inr y \<longleftrightarrow> (\<exists>x. m = Inr x \<and> f x = Inr y)"
  by (cases m) auto

lemma attempt_Inl_iff:
  "attempt m f = Inl e \<longleftrightarrow> m = Inl e \<or> (\<exists>x. m = Inr x \<and> f x = Inl e)"
  by (cases m) auto

lemma attempt_assoc: "attempt (attempt m f) g = attempt m (\<lambda>x. attempt (f x) g)"
  by (cases m) auto

lemma attempt_cong [fundef_cong]:
  "m = m' \<Longrightarrow> (\<And>x. m' = Inr x \<Longrightarrow> f x = g x) \<Longrightarrow> attempt m f = attempt m' g"
  by (cases m') auto

lemma ok_or_simps [simp]:
  "ok_or None e = Inl e"
  "ok_or (Some x) e = Inr x"
  by (simp_all add: ok_or_def)

lemma ok_or_Inr_iff [simp]: "ok_or v e = Inr x \<longleftrightarrow> v = Some x"
  by (cases v) auto

lemma ok_or_Inl_iff [simp]: "ok_or v e = Inl e' \<longleftrightarrow> v = None \<and> e' = e"
  by (cases v) auto

lemma if_Inl_eq_Inr [simp]: "(if c then Inl e else m) = Inr x \<longleftrightarrow> \<not> c \<and> m = Inr x"
  by simp

section \<open>Little-endian bytes\<close>

text \<open>
  \<open>x.to_le_bytes()\<close> and \<open>from_le_bytes\<close>, for a word of \<open>8 * k\<close> bits. The two work on natural
  numbers; the word versions read and build the word.
\<close>

fun nat_to_le :: "nat \<Rightarrow> nat \<Rightarrow> byte list" where
  "nat_to_le 0 n = []"
| "nat_to_le (Suc k) n = of_nat n # nat_to_le k (n div 256)"

fun nat_of_le :: "byte list \<Rightarrow> nat" where
  "nat_of_le [] = 0"
| "nat_of_le (b # bs) = unat b + 256 * nat_of_le bs"

definition to_le_bytes :: "nat \<Rightarrow> 'a::len word \<Rightarrow> byte list" where
  "to_le_bytes k w = nat_to_le k (unat w)"

definition from_le_bytes :: "byte list \<Rightarrow> 'a::len word" where
  "from_le_bytes bs = of_nat (nat_of_le bs)"

lemma length_nat_to_le [simp]: "length (nat_to_le k n) = k"
  by (induction k arbitrary: n) auto

lemma length_to_le_bytes [simp]: "length (to_le_bytes k w) = k"
  by (simp add: to_le_bytes_def)

lemma nat_of_to_le: "nat_of_le (nat_to_le k n) = n mod 256 ^ k"
proof (induction k arbitrary: n)
  case 0
  then show ?case by simp
next
  case (Suc k)
  have "nat_of_le (nat_to_le (Suc k) n) = n mod 256 + 256 * (n div 256 mod 256 ^ k)"
    by (simp add: Suc.IH unat_of_nat)
  also have "\<dots> = n mod 256 ^ Suc k"
    by (simp add: mod_mult2_eq)
  finally show ?case .
qed

lemma nat_of_le_less: "nat_of_le bs < 256 ^ length bs"
proof (induction bs)
  case Nil
  then show ?case by simp
next
  case (Cons b bs)
  have "unat b < 256" using unsigned_less [of b, where ?'a = nat] by simp
  with Cons show ?case by simp
qed

lemma nat_to_of_le: "nat_to_le (length bs) (nat_of_le bs) = bs"
proof (induction bs)
  case Nil
  then show ?case by simp
next
  case (Cons b bs)
  have less: "unat b < 256" using unsigned_less [of b, where ?'a = nat] by simp
  then have div: "(unat b + 256 * nat_of_le bs) div 256 = nat_of_le bs" by simp
  have "(of_nat 256 :: byte) = 0" by simp
  then have "of_nat (unat b + 256 * nat_of_le bs) = b"
    by (simp only: of_nat_add of_nat_mult) simp
  with Cons div show ?case by simp
qed

lemma from_to_le_bytes:
  "LENGTH('a) = 8 * k \<Longrightarrow> from_le_bytes (to_le_bytes k (w :: 'a::len word)) = w"
proof -
  assume len: "LENGTH('a) = 8 * k"
  have "(256::nat) ^ k = 2 ^ LENGTH('a)"
    unfolding len power_mult by simp
  then have "unat w mod 256 ^ k = unat w" by simp
  then show ?thesis
    by (simp add: from_le_bytes_def to_le_bytes_def nat_of_to_le)
qed

lemma from_to_le [simp]:
  "from_le_bytes (to_le_bytes 1 (x8 :: u8)) = x8"
  "from_le_bytes (to_le_bytes 8 (x64 :: u64)) = x64"
  "from_le_bytes (to_le_bytes 16 (x128 :: u128)) = x128"
  "from_le_bytes (to_le_bytes 32 (x256 :: 256 word)) = x256"
  by (simp_all add: from_to_le_bytes)

lemma to_from_le_bytes:
  "LENGTH('a) = 8 * length bs \<Longrightarrow> to_le_bytes (length bs) (from_le_bytes bs :: 'a::len word) = bs"
proof -
  assume len: "LENGTH('a) = 8 * length bs"
  have "(256::nat) ^ length bs = 2 ^ LENGTH('a)"
    unfolding len power_mult by simp
  then have "nat_of_le bs < 2 ^ LENGTH('a)" using nat_of_le_less [of bs] by simp
  then show ?thesis
    by (simp add: from_le_bytes_def to_le_bytes_def unat_of_nat_small nat_to_of_le)
qed

section \<open>Fixed layouts\<close>

text \<open>
  \<open>layout ns bs\<close> cuts a buffer into consecutive fields of the given lengths, as
  \<open>arrayref::array_refs!\<close> does with a layout known when the program is compiled.
\<close>

fun layout :: "nat list \<Rightarrow> 'a list \<Rightarrow> 'a list list" where
  "layout [] bs = []"
| "layout (n # ns) bs = take n bs # layout ns (drop n bs)"

lemma layout_append [simp]:
  "length b = n \<Longrightarrow> layout (n # ns) (b @ bs) = b # layout ns bs"
  by simp

lemma layout_last: "length b = n \<Longrightarrow> layout [n] b = [b]"
  by simp

end
