(* ===== verification/Errors.thy ===== *)
theory Errors
  imports Prelude
begin

text \<open>
  Errors of the lending program (token-lending/program/src/error.rs) and the result type of every
  fallible function of the model. \<open>ProgramError\<close> is Solana's enum; the code itself builds two of
  its variants, \<open>Custom\<close> and \<open>InvalidAccountData\<close>, and \<open>Other_Error\<close> stands for the others, which
  only library calls return. A panic (a failed \<open>unwrap\<close>, a slice out of range) is a second kind of
  failure: \<open>map_err\<close> and \<open>match\<close> on a result never see it.
\<close>

datatype program_error = Custom u32 | InvalidAccountData | Other_Error nat

datatype fault = Err program_error | Panic

type_synonym 'a result = "fault + 'a"

datatype (plugins only: size) lending_error =
    InstructionUnpackError | AlreadyInitialized | NotRentExempt | InvalidMarketAuthority
  | InvalidMarketOwner | InvalidAccountOwner | InvalidTokenOwner | InvalidTokenAccount
  | InvalidTokenMint | InvalidTokenProgram | InvalidAmount | InvalidConfig
  | InvalidSigner | InvalidAccountInput | MathOverflow | TokenInitializeMintFailed
  | TokenInitializeAccountFailed | TokenTransferFailed | TokenMintToFailed | TokenBurnFailed
  | InsufficientLiquidity | ReserveCollateralDisabled | ReserveStale | WithdrawTooSmall
  | WithdrawTooLarge | BorrowTooSmall | BorrowTooLarge | RepayTooSmall
  | LiquidationTooSmall | ObligationHealthy | ObligationStale | ObligationReserveLimit
  | InvalidObligationOwner | ObligationDepositsEmpty | ObligationBorrowsEmpty | ObligationDepositsZero
  | ObligationBorrowsZero | InvalidObligationCollateral | InvalidObligationLiquidity | ObligationCollateralEmpty
  | ObligationLiquidityEmpty | NegativeInterestRate | InvalidOracleConfig | InvalidFlashLoanReceiverProgram
  | NotEnoughLiquidityAfterFlashLoan | InvalidStakingPool | InvalidStakeAccount | InvalidReserveFeeAccount

text \<open>\<open>e as u32\<close>: the discriminant, in declaration order.\<close>

primrec lending_code :: "lending_error \<Rightarrow> u32" where
  "lending_code InstructionUnpackError = 0"
| "lending_code AlreadyInitialized = 1"
| "lending_code NotRentExempt = 2"
| "lending_code InvalidMarketAuthority = 3"
| "lending_code InvalidMarketOwner = 4"
| "lending_code InvalidAccountOwner = 5"
| "lending_code InvalidTokenOwner = 6"
| "lending_code InvalidTokenAccount = 7"
| "lending_code InvalidTokenMint = 8"
| "lending_code InvalidTokenProgram = 9"
| "lending_code InvalidAmount = 10"
| "lending_code InvalidConfig = 11"
| "lending_code InvalidSigner = 12"
| "lending_code InvalidAccountInput = 13"
| "lending_code MathOverflow = 14"
| "lending_code TokenInitializeMintFailed = 15"
| "lending_code TokenInitializeAccountFailed = 16"
| "lending_code TokenTransferFailed = 17"
| "lending_code TokenMintToFailed = 18"
| "lending_code TokenBurnFailed = 19"
| "lending_code InsufficientLiquidity = 20"
| "lending_code ReserveCollateralDisabled = 21"
| "lending_code ReserveStale = 22"
| "lending_code WithdrawTooSmall = 23"
| "lending_code WithdrawTooLarge = 24"
| "lending_code BorrowTooSmall = 25"
| "lending_code BorrowTooLarge = 26"
| "lending_code RepayTooSmall = 27"
| "lending_code LiquidationTooSmall = 28"
| "lending_code ObligationHealthy = 29"
| "lending_code ObligationStale = 30"
| "lending_code ObligationReserveLimit = 31"
| "lending_code InvalidObligationOwner = 32"
| "lending_code ObligationDepositsEmpty = 33"
| "lending_code ObligationBorrowsEmpty = 34"
| "lending_code ObligationDepositsZero = 35"
| "lending_code ObligationBorrowsZero = 36"
| "lending_code InvalidObligationCollateral = 37"
| "lending_code InvalidObligationLiquidity = 38"
| "lending_code ObligationCollateralEmpty = 39"
| "lending_code ObligationLiquidityEmpty = 40"
| "lending_code NegativeInterestRate = 41"
| "lending_code InvalidOracleConfig = 42"
| "lending_code InvalidFlashLoanReceiverProgram = 43"
| "lending_code NotEnoughLiquidityAfterFlashLoan = 44"
| "lending_code InvalidStakingPool = 45"
| "lending_code InvalidStakeAccount = 46"
| "lending_code InvalidReserveFeeAccount = 47"

definition lending :: "lending_error \<Rightarrow> fault" where
  "lending e = Err (Custom (lending_code e))"

text \<open>The inverse that \<open>#[derive(FromPrimitive)]\<close> generates.\<close>

definition lending_errors :: "lending_error list" where
  "lending_errors =
  [InstructionUnpackError, AlreadyInitialized, NotRentExempt, InvalidMarketAuthority,
   InvalidMarketOwner, InvalidAccountOwner, InvalidTokenOwner, InvalidTokenAccount,
   InvalidTokenMint, InvalidTokenProgram, InvalidAmount, InvalidConfig,
   InvalidSigner, InvalidAccountInput, MathOverflow, TokenInitializeMintFailed,
   TokenInitializeAccountFailed, TokenTransferFailed, TokenMintToFailed, TokenBurnFailed,
   InsufficientLiquidity, ReserveCollateralDisabled, ReserveStale, WithdrawTooSmall,
   WithdrawTooLarge, BorrowTooSmall, BorrowTooLarge, RepayTooSmall,
   LiquidationTooSmall, ObligationHealthy, ObligationStale, ObligationReserveLimit,
   InvalidObligationOwner, ObligationDepositsEmpty, ObligationBorrowsEmpty, ObligationDepositsZero,
   ObligationBorrowsZero, InvalidObligationCollateral, InvalidObligationLiquidity, ObligationCollateralEmpty,
   ObligationLiquidityEmpty, NegativeInterestRate, InvalidOracleConfig, InvalidFlashLoanReceiverProgram,
   NotEnoughLiquidityAfterFlashLoan, InvalidStakingPool, InvalidStakeAccount, InvalidReserveFeeAccount]"

definition lending_of_code :: "u32 \<Rightarrow> lending_error option" where
  "lending_of_code n =
     (if unat n < length lending_errors then Some (lending_errors ! unat n) else None)"

lemma lending_of_code_code [simp]: "lending_of_code (lending_code e) = Some e"
  by (cases e) (simp_all add: lending_of_code_def lending_errors_def)

lemma lending_code_inject [simp]: "lending_code e = lending_code e' \<longleftrightarrow> e = e'"
  by (metis lending_of_code_code option.inject)

lemma lending_inject [simp]: "lending e = lending e' \<longleftrightarrow> e = e'"
  by (simp add: lending_def)

lemma lending_not_Panic [simp]: "lending e \<noteq> Panic" "Panic \<noteq> lending e"
  by (simp_all add: lending_def)

text \<open>\<open>r.map_err(|_| e)\<close>: an error is replaced, a panic is not.\<close>

definition map_err :: "'a result \<Rightarrow> fault \<Rightarrow> 'a result" where
  "map_err r e = (case r of Inl (Err _) \<Rightarrow> Inl e | _ \<Rightarrow> r)"

lemma map_err_Inr [simp]: "map_err (Inr x) e = Inr x"
  by (simp add: map_err_def)

lemma map_err_Inr_iff [simp]: "map_err r e = Inr x \<longleftrightarrow> r = Inr x"
  by (auto simp: map_err_def split: sum.splits fault.splits)

end
