(* ===== verification/Fixed_Point.thy ===== *)
theory Fixed_Point
  imports Errors
begin

text \<open>
  The contract of the fixed-point types: a number of \<open>bits\<close> bits read as a multiple of 1/WAD, with
  checked addition, subtraction, multiplication and division (the traits of math/common.rs). The
  locale states what every operation returns, errors included; the lemmas inside it hold for
  \<open>Decimal\<close> (192 bits) and \<open>Rate\<close> (128 bits), which interpret it in their theories.
\<close>

definition WAD :: u64 where
  "WAD = 1000000000000000000"

definition HALF_WAD :: u64 where
  "HALF_WAD = 500000000000000000"

definition PERCENT_SCALER :: u64 where
  "PERCENT_SCALER = 10000000000000000"

text \<open>The scale as a natural number, for statements.\<close>

definition wad :: nat where
  "wad = 1000000000000000000"

lemma wad_pos [simp]: "0 < wad" "wad \<noteq> 0"
  by (simp_all add: wad_def)

lemma unat_WAD [simp]: "unat WAD = wad"
  by (simp add: WAD_def wad_def)

lemma div_mult_le_nat: "(a :: nat) div b * b \<le> a"
  by (rule div_times_less_eq_dividend)

lemma less_div_Suc_mult: "0 < b \<Longrightarrow> (a :: nat) < (a div b + 1) * b"
  by (metis add.commute dividend_less_div_times mult_Suc plus_1_eq_Suc)

lemma div_le_iff_nat: "0 < b \<Longrightarrow> (a :: nat) div b \<le> c \<longleftrightarrow> a < (c + 1) * b"
  by (metis Suc_eq_plus1 less_Suc_eq_le less_mult_imp_div_less div_less_iff_less_mult)

lemma le_div_iff_nat: "0 < b \<Longrightarrow> c \<le> (a :: nat) div b \<longleftrightarrow> c * b \<le> a"
  by (rule less_eq_div_iff_mult_less_eq)

locale fixed_point =
  fixes val :: "'a \<Rightarrow> nat"
    and bits :: nat
    and overflow :: fault
    and add sub mul quo :: "'a \<Rightarrow> 'a \<Rightarrow> 'a result"
  assumes val_less: "val a < 2 ^ bits"
    and val_inject: "val a = val b \<Longrightarrow> a = b"
    and add_ok: "add a b = Inr c \<longleftrightarrow> val c = val a + val b"
    and add_err: "add a b = Inl e \<longleftrightarrow> e = overflow \<and> 2 ^ bits \<le> val a + val b"
    and sub_ok: "sub a b = Inr c \<longleftrightarrow> val a = val b + val c"
    and sub_err: "sub a b = Inl e \<longleftrightarrow> e = overflow \<and> val a < val b"
    and mul_ok: "mul a b = Inr c \<longleftrightarrow> val a * val b < 2 ^ bits \<and> val c = val a * val b div wad"
    and mul_err: "mul a b = Inl e \<longleftrightarrow> e = overflow \<and> 2 ^ bits \<le> val a * val b"
    and div_ok: "quo a b = Inr c \<longleftrightarrow>
      val b \<noteq> 0 \<and> val a * wad < 2 ^ bits \<and> val c = val a * wad div val b"
    and div_err: "quo a b = Inl e \<longleftrightarrow>
      e = overflow \<and> (val b = 0 \<or> 2 ^ bits \<le> val a * wad)"
begin

lemmas ops_ok = add_ok sub_ok mul_ok div_ok
lemmas ops_err = add_err sub_err mul_err div_err

lemma add_mono: "add a b = Inr c \<Longrightarrow> val a \<le> val c \<and> val b \<le> val c"
  by (simp add: add_ok)

lemma add_sub_cancel: "add a b = Inr c \<Longrightarrow> sub c b = Inr a"
  by (simp add: add_ok sub_ok)

lemma sub_add_cancel: "sub a b = Inr c \<Longrightarrow> add c b = Inr a"
  by (simp add: add_ok sub_ok)

lemma sub_total: "val b \<le> val a \<Longrightarrow> \<exists>c. sub a b = Inr c"
  by (cases "sub a b") (auto simp: sub_err)

lemma mul_total: "val a * val b < 2 ^ bits \<Longrightarrow> \<exists>c. mul a b = Inr c"
  by (cases "mul a b") (auto simp: mul_err)

lemma div_total: "val b \<noteq> 0 \<Longrightarrow> val a * wad < 2 ^ bits \<Longrightarrow> \<exists>c. quo a b = Inr c"
  by (cases "quo a b") (auto simp: div_err)

lemma mul_commute: "mul a b = mul b a"
proof (cases "mul a b")
  case (Inl e)
  then have "mul b a = Inl e" by (simp add: mul_err mult.commute)
  with Inl show ?thesis by simp
next
  case (Inr c)
  then have "mul b a = Inr c" by (simp add: mul_ok mult.commute)
  with Inr show ?thesis by simp
qed

text \<open>A product is rounded down by less than one unit.\<close>

lemma mul_bounds: "mul a b = Inr c \<Longrightarrow> val c * wad \<le> val a * val b \<and> val a * val b < (val c + 1) * wad"
  using less_div_Suc_mult [of wad "val a * val b"] by (auto simp: mul_ok)

lemma div_bounds:
  "quo a b = Inr c \<Longrightarrow> val c * val b \<le> val a * wad \<and> val a * wad < (val c + 1) * val b"
  using less_div_Suc_mult [of "val b" "val a * wad"] by (auto simp: div_ok)

lemma mul_le_left: "mul a b = Inr c \<Longrightarrow> val b \<le> wad \<Longrightarrow> val c \<le> val a"
proof -
  assume c: "mul a b = Inr c" and b: "val b \<le> wad"
  from c have "val c * wad \<le> val a * val b" by (simp add: mul_bounds)
  also have "\<dots> \<le> val a * wad" using b by simp
  finally show ?thesis by simp
qed

lemma mul_ge_left: "mul a b = Inr c \<Longrightarrow> wad \<le> val b \<Longrightarrow> val a \<le> val c"
proof -
  assume c: "mul a b = Inr c" and b: "wad \<le> val b"
  from b have "val a * wad \<le> val a * val b" by simp
  with c show ?thesis by (simp add: mul_ok le_div_iff_nat)
qed

lemma mul_one: "val b = wad \<Longrightarrow> mul a b = Inr c \<Longrightarrow> c = a"
  by (auto simp: mul_ok intro: val_inject)

lemma mul_zero_iff: "mul a b = Inr c \<Longrightarrow> val c = 0 \<longleftrightarrow> val a * val b < wad"
  by (auto simp: mul_ok div_eq_0_iff)

lemma mul_mono:
  "mul a b = Inr c \<Longrightarrow> mul a' b' = Inr c' \<Longrightarrow> val a \<le> val a' \<Longrightarrow> val b \<le> val b' \<Longrightarrow> val c \<le> val c'"
  by (auto simp: mul_ok intro!: div_le_mono mult_le_mono)

lemma div_mono_left:
  "quo a b = Inr c \<Longrightarrow> quo a' b = Inr c' \<Longrightarrow> val a \<le> val a' \<Longrightarrow> val c \<le> val c'"
  by (auto simp: div_ok intro!: div_le_mono mult_le_mono)

lemma div_le_one: "quo a b = Inr c \<Longrightarrow> val a \<le> val b \<Longrightarrow> val c \<le> wad"
proof -
  assume c: "quo a b = Inr c" and le: "val a \<le> val b"
  then have "val c = val a * wad div val b" and pos: "0 < val b" by (auto simp: div_ok)
  moreover have "val a * wad div val b \<le> val b * wad div val b"
    using le by (intro div_le_mono mult_le_mono) auto
  ultimately show ?thesis using pos by simp
qed

lemma div_ge_one: "quo a b = Inr c \<Longrightarrow> val b \<le> val a \<Longrightarrow> wad \<le> val c"
proof -
  assume c: "quo a b = Inr c" and le: "val b \<le> val a"
  then have pos: "0 < val b" by (auto simp: div_ok)
  from le have "wad * val b \<le> val a * wad" by simp
  with c pos show ?thesis by (simp add: div_ok le_div_iff_nat)
qed

text \<open>Dividing, then multiplying by the same number, never gains.\<close>

lemma div_mul_le: "quo a b = Inr q \<Longrightarrow> mul q b = Inr c \<Longrightarrow> val c \<le> val a"
proof -
  assume q: "quo a b = Inr q" and c: "mul q b = Inr c"
  from c have "val c * wad \<le> val q * val b" by (simp add: mul_bounds)
  also from q have "\<dots> \<le> val a * wad" by (simp add: div_bounds)
  finally show ?thesis by simp
qed

lemma mul_div_le: "mul a b = Inr p \<Longrightarrow> quo p b = Inr c \<Longrightarrow> val c \<le> val a"
proof -
  assume p: "mul a b = Inr p" and c: "quo p b = Inr c"
  then have pos: "0 < val b" by (auto simp: div_ok)
  from c have "val c * val b \<le> val p * wad" by (simp add: div_bounds)
  also from p have "\<dots> \<le> val a * val b" by (simp add: mul_bounds)
  finally show ?thesis using pos by simp
qed

end

end
