(* ===== verification/Decimals.thy ===== *)
theory Decimals
  imports Fixed_Point
begin

text \<open>
  \<open>Decimal\<close>, the large fixed-point type (token-lending/program/src/math/decimal.rs): a 192-bit
  integer (\<open>construct_uint! U192(3)\<close>, taken as \<^typ>\<open>u192\<close>) scaled by WAD. The definitions follow
  the methods and trait implementations one by one; \<open>dec\<close> reads a value as a natural number, and
  the interpretation \<open>decimal\<close> of the locale \<open>fixed_point\<close> gives the arithmetic laws.
\<close>

section \<open>Operations\<close>

datatype decimal = Decimal (decimal_bits: u192)

abbreviation math_overflow :: fault where
  "math_overflow \<equiv> lending MathOverflow"

definition dec :: "decimal \<Rightarrow> nat" where
  "dec d = unat (decimal_bits d)"

instantiation decimal :: linorder
begin

definition less_eq_decimal :: "decimal \<Rightarrow> decimal \<Rightarrow> bool" where
  "less_eq_decimal a b = (decimal_bits a \<le> decimal_bits b)"

definition less_decimal :: "decimal \<Rightarrow> decimal \<Rightarrow> bool" where
  "less_decimal a b = (decimal_bits a < decimal_bits b)"

instance
  by standard (auto simp: less_eq_decimal_def less_decimal_def decimal.expand)

end

definition decimal_wad :: u192 where
  "decimal_wad = ucast WAD"

definition decimal_half_wad :: u192 where
  "decimal_half_wad = ucast HALF_WAD"

definition decimal_one :: decimal where
  "decimal_one = Decimal decimal_wad"

definition decimal_zero :: decimal where
  "decimal_zero = Decimal 0"

definition decimal_from_percent :: "u8 \<Rightarrow> decimal" where
  "decimal_from_percent percent = Decimal (ucast ((ucast percent :: u64) * PERCENT_SCALER))"

definition decimal_to_scaled_val :: "decimal \<Rightarrow> u128 result" where
  "decimal_to_scaled_val d = ok_or (try_narrow (decimal_bits d)) math_overflow"

definition decimal_from_scaled_val :: "u128 \<Rightarrow> decimal" where
  "decimal_from_scaled_val v = Decimal (ucast v)"

definition decimal_try_round_u64 :: "decimal \<Rightarrow> u64 result" where
  "decimal_try_round_u64 d =
     attempt (ok_or (checked_add decimal_half_wad (decimal_bits d)) math_overflow) (\<lambda>sum.
     attempt (ok_or (checked_div sum decimal_wad) math_overflow) (\<lambda>rounded_val.
     ok_or (try_narrow rounded_val) math_overflow))"

definition decimal_try_ceil_u64 :: "decimal \<Rightarrow> u64 result" where
  "decimal_try_ceil_u64 d =
     attempt (ok_or (checked_sub decimal_wad 1) math_overflow) (\<lambda>wad_less_1.
     attempt (ok_or (checked_add wad_less_1 (decimal_bits d)) math_overflow) (\<lambda>sum.
     attempt (ok_or (checked_div sum decimal_wad) math_overflow) (\<lambda>ceil_val.
     ok_or (try_narrow ceil_val) math_overflow)))"

definition decimal_try_floor_u64 :: "decimal \<Rightarrow> u64 result" where
  "decimal_try_floor_u64 d =
     attempt (ok_or (checked_div (decimal_bits d) decimal_wad) math_overflow) (\<lambda>floor_val.
     ok_or (try_narrow floor_val) math_overflow)"

definition decimal_from_u64 :: "u64 \<Rightarrow> decimal" where
  "decimal_from_u64 v = Decimal (decimal_wad * ucast v)"

definition decimal_from_u128 :: "u128 \<Rightarrow> decimal" where
  "decimal_from_u128 v = Decimal (decimal_wad * ucast v)"

definition decimal_try_add :: "decimal \<Rightarrow> decimal \<Rightarrow> decimal result" where
  "decimal_try_add a b =
     attempt (ok_or (checked_add (decimal_bits a) (decimal_bits b)) math_overflow) (\<lambda>v.
     Inr (Decimal v))"

definition decimal_try_sub :: "decimal \<Rightarrow> decimal \<Rightarrow> decimal result" where
  "decimal_try_sub a b =
     attempt (ok_or (checked_sub (decimal_bits a) (decimal_bits b)) math_overflow) (\<lambda>v.
     Inr (Decimal v))"

definition decimal_try_div_u64 :: "decimal \<Rightarrow> u64 \<Rightarrow> decimal result" where
  "decimal_try_div_u64 a b =
     attempt (ok_or (checked_div (decimal_bits a) (ucast b)) math_overflow) (\<lambda>v.
     Inr (Decimal v))"

definition decimal_try_div :: "decimal \<Rightarrow> decimal \<Rightarrow> decimal result" where
  "decimal_try_div a b =
     attempt (ok_or (checked_mul (decimal_bits a) decimal_wad) math_overflow) (\<lambda>scaled.
     attempt (ok_or (checked_div scaled (decimal_bits b)) math_overflow) (\<lambda>v.
     Inr (Decimal v)))"

definition decimal_try_mul_u64 :: "decimal \<Rightarrow> u64 \<Rightarrow> decimal result" where
  "decimal_try_mul_u64 a b =
     attempt (ok_or (checked_mul (decimal_bits a) (ucast b)) math_overflow) (\<lambda>v.
     Inr (Decimal v))"

definition decimal_try_mul :: "decimal \<Rightarrow> decimal \<Rightarrow> decimal result" where
  "decimal_try_mul a b =
     attempt (ok_or (checked_mul (decimal_bits a) (decimal_bits b)) math_overflow) (\<lambda>product.
     attempt (ok_or (checked_div product decimal_wad) math_overflow) (\<lambda>v.
     Inr (Decimal v)))"

lemmas [run] = WAD_def HALF_WAD_def PERCENT_SCALER_def
  decimal_wad_def decimal_half_wad_def decimal_one_def decimal_zero_def
  decimal_from_percent_def decimal_to_scaled_val_def decimal_from_scaled_val_def
  decimal_try_round_u64_def decimal_try_ceil_u64_def decimal_try_floor_u64_def decimal_from_u64_def
  decimal_from_u128_def decimal_try_add_def decimal_try_sub_def decimal_try_div_u64_def
  decimal_try_div_def decimal_try_mul_u64_def decimal_try_mul_def dec_def

section \<open>Reading the operations on natural numbers\<close>

named_theorems decimal_ok \<open>successful decimal operations, on natural numbers\<close>
named_theorems decimal_err \<open>failing decimal operations, on natural numbers\<close>

lemma dec_less: "dec d < 2 ^ 192"
  using unsigned_less [of "decimal_bits d", where ?'a = nat] by (simp add: dec_def)

lemma dec_inject: "dec a = dec b \<Longrightarrow> a = b"
  by (simp add: dec_def decimal.expand word_unat_eq_iff)

lemma dec_eq_iff: "a = b \<longleftrightarrow> dec a = dec b"
  by (auto intro: dec_inject)

lemma less_eq_decimal_dec [simp]: "a \<le> b \<longleftrightarrow> dec a \<le> dec b"
  by (simp add: less_eq_decimal_def dec_def word_le_nat_alt)

lemma less_decimal_dec [simp]: "a < b \<longleftrightarrow> dec a < dec b"
  by (simp add: less_decimal_def dec_def word_less_nat_alt)

lemma dec_min: "dec (min a b) = min (dec a) (dec b)"
  by (auto simp: min_def)

lemma dec_max: "dec (max a b) = max (dec a) (dec b)"
  by (auto simp: max_def)

lemma unat_decimal_wad [simp]: "unat decimal_wad = wad"
  by (simp add: decimal_wad_def WAD_def wad_def unsigned_ucast_eq)

lemma unat_decimal_half_wad [simp]: "unat decimal_half_wad = wad div 2"
  by (simp add: decimal_half_wad_def HALF_WAD_def wad_def unsigned_ucast_eq)

lemma decimal_wad_nonzero [simp]: "decimal_wad \<noteq> 0"
  using unat_decimal_wad wad_pos by (metis less_irrefl unat_0)

lemma dec_Decimal [simp]: "dec (Decimal v) = unat v"
  by (simp add: dec_def)

lemma dec_zero [simp]: "dec decimal_zero = 0"
  by (simp add: decimal_zero_def)

lemma dec_one [simp]: "dec decimal_one = wad"
  by (simp add: decimal_one_def)

lemma eq_decimal_zero_iff: "d = decimal_zero \<longleftrightarrow> dec d = 0"
  by (simp add: dec_eq_iff)

lemma unat_ucast_up:
  "LENGTH('a) \<le> LENGTH('b) \<Longrightarrow> unat (ucast (x :: 'a::len word) :: 'b::len word) = unat x"
proof -
  assume le: "LENGTH('a) \<le> LENGTH('b)"
  have "unat x < 2 ^ LENGTH('a)" by simp
  also have "\<dots> \<le> 2 ^ LENGTH('b)" using le by simp
  finally show ?thesis by (simp add: unsigned_ucast_eq take_bit_eq_mod)
qed

lemma dec_from_u64 [simp]: "dec (decimal_from_u64 v) = unat v * wad"
proof -
  have v: "unat v < 2 ^ 64" using unsigned_less [of v, where ?'a = nat] by simp
  then have "wad * unat v < 2 ^ 192" by (simp add: wad_def)
  then show ?thesis
    by (simp add: decimal_from_u64_def unat_word_ariths unat_ucast_up mult.commute)
qed

lemma dec_from_u128 [simp]: "dec (decimal_from_u128 v) = unat v * wad"
proof -
  have v: "unat v < 2 ^ 128" using unsigned_less [of v, where ?'a = nat] by simp
  then have "wad * unat v < 2 ^ 192" by (simp add: wad_def)
  then show ?thesis
    by (simp add: decimal_from_u128_def unat_word_ariths unat_ucast_up mult.commute)
qed

lemma dec_from_scaled_val [simp]: "dec (decimal_from_scaled_val v) = unat v"
  by (simp add: decimal_from_scaled_val_def unat_ucast_up)

lemma dec_from_percent [simp]: "dec (decimal_from_percent p) = unat p * (wad div 100)"
proof -
  have p: "unat p < 256" using unsigned_less [of p, where ?'a = nat] by simp
  then have "unat ((ucast p :: u64) * PERCENT_SCALER) = unat p * (wad div 100)"
    by (simp add: unat_word_ariths unat_ucast_up PERCENT_SCALER_def wad_def)
  then show ?thesis by (simp add: decimal_from_percent_def unat_ucast_up)
qed

lemma to_scaled_val_ok [decimal_ok]: "decimal_to_scaled_val d = Inr v \<longleftrightarrow> unat v = dec d"
  by (simp add: decimal_to_scaled_val_def checked dec_def)

lemma to_scaled_val_err [decimal_err]:
  "decimal_to_scaled_val d = Inl e \<longleftrightarrow> e = math_overflow \<and> 2 ^ 128 \<le> dec d"
  by (auto simp: decimal_to_scaled_val_def try_narrow_def dec_def)

lemma from_to_scaled_val: "decimal_to_scaled_val d = Inr v \<Longrightarrow> decimal_from_scaled_val v = d"
  by (simp add: to_scaled_val_ok dec_eq_iff)

lemma to_from_scaled_val [simp]: "decimal_to_scaled_val (decimal_from_scaled_val v) = Inr v"
  by (simp add: to_scaled_val_ok)

text \<open>Rounding to whole units: to the nearest, up and down.\<close>

lemma ex_unat_eq:
  "(\<exists>s :: 'a::len word. unat s = n \<and> P (unat s)) \<longleftrightarrow> n < 2 ^ LENGTH('a) \<and> P n"
  by (metis unat_of_nat_small unsigned_less)

lemma unat_decimal_wad_less: "unat (decimal_wad - 1) = wad - 1"
  by (simp add: decimal_wad_def WAD_def wad_def)

lemma round_sum: "checked_add decimal_half_wad b = Some s \<longleftrightarrow> unat s = unat b + wad div 2"
  by (subst checked_add_Some) auto

lemma div_narrow:
  "attempt (ok_or (checked_div s decimal_wad) math_overflow) (\<lambda>q. ok_or (try_narrow q) math_overflow)
     = (Inr v :: u64 result) \<longleftrightarrow> unat v = unat s div wad"
  by (simp add: checked_div_def checked unat_div)

lemma try_round_ok [decimal_ok]:
  "decimal_try_round_u64 d = Inr v \<longleftrightarrow>
     dec d + wad div 2 < 2 ^ 192 \<and> unat v = (dec d + wad div 2) div wad"
proof -
  have "decimal_try_round_u64 d = Inr v \<longleftrightarrow>
      (\<exists>s :: u192. unat s = dec d + wad div 2 \<and> unat v = unat s div wad)"
    unfolding decimal_try_round_u64_def attempt_Inr_iff ok_or_Inr_iff round_sum dec_def
    using div_narrow by (simp only: attempt_Inr_iff ok_or_Inr_iff)
  then show ?thesis by (simp add: ex_unat_eq [where P = "\<lambda>s. unat v = s div wad"])
qed

lemma try_ceil_ok [decimal_ok]:
  "decimal_try_ceil_u64 d = Inr v \<longleftrightarrow>
     dec d + (wad - 1) < 2 ^ 192 \<and> unat v = (dec d + (wad - 1)) div wad"
proof -
  have less: "checked_sub decimal_wad 1 = Some w \<longleftrightarrow> unat w = wad - 1" for w
    using wad_pos by (subst checked_sub_Some) auto
  have "decimal_try_ceil_u64 d = Inr v \<longleftrightarrow>
      (\<exists>w :: u192. unat w = wad - 1 \<and>
        (\<exists>s :: u192. unat s = unat w + dec d \<and> unat v = unat s div wad))"
    unfolding decimal_try_ceil_u64_def attempt_Inr_iff ok_or_Inr_iff less checked_add_Some dec_def
    using div_narrow by (simp only: attempt_Inr_iff ok_or_Inr_iff)
  also have "\<dots> \<longleftrightarrow> (\<exists>s :: u192. unat s = dec d + (wad - 1) \<and> unat v = unat s div wad)"
    using unat_decimal_wad_less by (metis add.commute)
  finally show ?thesis by (simp add: ex_unat_eq [where P = "\<lambda>s. unat v = s div wad"])
qed

lemma try_floor_ok [decimal_ok]: "decimal_try_floor_u64 d = Inr v \<longleftrightarrow> unat v = dec d div wad"
  by (simp add: decimal_try_floor_u64_def checked_div_def checked dec_def unat_div)

lemma try_floor_err [decimal_err]:
  "decimal_try_floor_u64 d = Inl e \<longleftrightarrow> e = math_overflow \<and> 2 ^ 64 \<le> dec d div wad"
  by (auto simp: decimal_try_floor_u64_def checked_div_def try_narrow_def dec_def unat_div)

lemma try_add_ok [decimal_ok]: "decimal_try_add a b = Inr c \<longleftrightarrow> dec c = dec a + dec b"
  by (cases c) (auto simp: decimal_try_add_def checked dec_def)

lemma try_sub_ok [decimal_ok]: "decimal_try_sub a b = Inr c \<longleftrightarrow> dec a = dec b + dec c"
  by (cases c) (auto simp: decimal_try_sub_def checked dec_def)

lemma try_mul_u64_ok [decimal_ok]: "decimal_try_mul_u64 a n = Inr c \<longleftrightarrow> dec c = dec a * unat n"
  by (cases c) (auto simp: decimal_try_mul_u64_def checked dec_def unat_ucast_up)

lemma try_div_u64_ok [decimal_ok]:
  "decimal_try_div_u64 a n = Inr c \<longleftrightarrow> n \<noteq> 0 \<and> dec c = dec a div unat n"
  by (cases c) (auto simp: decimal_try_div_u64_def checked dec_def unat_ucast_up unat_eq_0)

lemma try_mul_ok [decimal_ok]:
  "decimal_try_mul a b = Inr c \<longleftrightarrow> dec a * dec b < 2 ^ 192 \<and> dec c = dec a * dec b div wad"
  by (cases c; cases "dec a * dec b < 2 ^ 192")
    (auto simp: decimal_try_mul_def checked_mul_def checked_div_def dec_def unat_mult_small
      unat_div word_unat_eq_iff)

lemma try_div_ok [decimal_ok]:
  "decimal_try_div a b = Inr c \<longleftrightarrow>
     dec b \<noteq> 0 \<and> dec a * wad < 2 ^ 192 \<and> dec c = dec a * wad div dec b"
proof -
  have "decimal_try_div a b = Inr c \<longleftrightarrow>
      (\<exists>s :: u192. unat s = dec a * wad \<and> dec b \<noteq> 0 \<and> dec c = unat s div dec b)"
    by (cases c) (auto simp: decimal_try_div_def checked dec_def)
  then show ?thesis by (simp only: ex_unat_eq [where P = "\<lambda>s. dec b \<noteq> 0 \<and> dec c = s div dec b"]) auto
qed

text \<open>Every failure is \<open>MathOverflow\<close>, under exactly these conditions.\<close>

lemma try_add_err [decimal_err]:
  "decimal_try_add a b = Inl e \<longleftrightarrow> e = math_overflow \<and> 2 ^ 192 \<le> dec a + dec b"
  by (auto simp: decimal_try_add_def attempt_Inl_iff checked dec_def)

lemma try_sub_err [decimal_err]:
  "decimal_try_sub a b = Inl e \<longleftrightarrow> e = math_overflow \<and> dec a < dec b"
  by (auto simp: decimal_try_sub_def attempt_Inl_iff checked dec_def)

lemma try_mul_u64_err [decimal_err]:
  "decimal_try_mul_u64 a n = Inl e \<longleftrightarrow> e = math_overflow \<and> 2 ^ 192 \<le> dec a * unat n"
  by (auto simp: decimal_try_mul_u64_def attempt_Inl_iff checked dec_def unat_ucast_up)

lemma try_div_u64_err [decimal_err]:
  "decimal_try_div_u64 a n = Inl e \<longleftrightarrow> e = math_overflow \<and> n = 0"
  by (auto simp: decimal_try_div_u64_def attempt_Inl_iff checked dec_def unat_ucast_up unat_eq_0)

lemma try_mul_err [decimal_err]:
  "decimal_try_mul a b = Inl e \<longleftrightarrow> e = math_overflow \<and> 2 ^ 192 \<le> dec a * dec b"
  by (auto simp: decimal_try_mul_def checked_mul_def checked_div_def dec_def)

lemma try_div_err [decimal_err]:
  "decimal_try_div a b = Inl e \<longleftrightarrow>
     e = math_overflow \<and> (dec b = 0 \<or> 2 ^ 192 \<le> dec a * wad)"
  by (auto simp: decimal_try_div_def checked_mul_def checked_div_def dec_def unat_eq_0)

interpretation decimal: fixed_point dec 192 math_overflow
  decimal_try_add decimal_try_sub decimal_try_mul decimal_try_div
  by unfold_locales (rule dec_less, simp_all only: dec_inject decimal_ok decimal_err)

lemma floor_le: "decimal_try_floor_u64 d = Inr v \<Longrightarrow> unat v * wad \<le> dec d"
  by (simp add: decimal_ok)

lemma floor_gt: "decimal_try_floor_u64 d = Inr v \<Longrightarrow> dec d < (unat v + 1) * wad"
  using less_div_Suc_mult [of wad "dec d"] by (simp add: decimal_ok)

lemma ceil_ge: "decimal_try_ceil_u64 d = Inr v \<Longrightarrow> dec d \<le> unat v * wad"
  using less_div_Suc_mult [of wad "dec d + (wad - 1)"] by (simp add: decimal_ok)

lemma ceil_lt: "decimal_try_ceil_u64 d = Inr v \<Longrightarrow> 0 < dec d \<Longrightarrow> unat v * wad < dec d + wad"
proof -
  assume "decimal_try_ceil_u64 d = Inr v" and pos: "0 < dec d"
  then have "unat v = (dec d + (wad - 1)) div wad" by (simp only: decimal_ok)
  then have "unat v * wad \<le> dec d + (wad - 1)" by (simp only: div_mult_le_nat)
  with wad_pos(1) show ?thesis by linarith
qed

end
