(* ===== verification/Codec.thy ===== *)
theory Codec
  imports Decimals
begin

text \<open>
  How account data is laid out (the helpers of token-lending/program/src/state/mod.rs, shared by
  every \<open>Pack\<close> implementation). A 32-byte array (\<open>Pubkey\<close>, \<open>[u8; 32]\<close>) is a 256-bit word, byte
  \<open>i\<close> of the array being the \<open>i\<close>-th least significant. A function that writes into a buffer
  takes the old contents and returns the new ones: bytes it does not write keep their value.
  The locale \<open>packed\<close> is the contract of a \<open>Pack\<close> implementation.
\<close>

type_synonym pubkey = "256 word"
type_synonym bytes32 = "256 word"

definition bytes32_to :: "bytes32 \<Rightarrow> byte list" where
  "bytes32_to k = to_le_bytes 32 k"

definition bytes32_from :: "byte list \<Rightarrow> bytes32" where
  "bytes32_from bs = from_le_bytes bs"

definition u8_to :: "u8 \<Rightarrow> byte list" where "u8_to v = to_le_bytes 1 v"
definition u8_from :: "byte list \<Rightarrow> u8" where "u8_from bs = from_le_bytes bs"
definition u64_to :: "u64 \<Rightarrow> byte list" where "u64_to v = to_le_bytes 8 v"
definition u64_from :: "byte list \<Rightarrow> u64" where "u64_from bs = from_le_bytes bs"
definition u128_to :: "u128 \<Rightarrow> byte list" where "u128_to v = to_le_bytes 16 v"
definition u128_from :: "byte list \<Rightarrow> u128" where "u128_from bs = from_le_bytes bs"

lemma bytes_roundtrip [simp]:
  "bytes32_from (bytes32_to k) = k" "u8_from (u8_to b) = b"
  "u64_from (u64_to v) = v" "u128_from (u128_to w) = w"
  using from_to_le(1) [of b]
  by (simp_all add: bytes32_from_def bytes32_to_def u8_from_def u8_to_def u64_from_def u64_to_def
      u128_from_def u128_to_def)

lemma bytes_lengths [simp]:
  "length (bytes32_to k) = 32" "length (u8_to b) = 1"
  "length (u64_to v) = 8" "length (u128_to w) = 16"
  by (simp_all add: bytes32_to_def u8_to_def u64_to_def u128_to_def)

section \<open>Helpers\<close>

definition pack_decimal :: "decimal \<Rightarrow> byte list result" where
  "pack_decimal d = (case decimal_to_scaled_val d of Inl _ \<Rightarrow> Inl Panic | Inr v \<Rightarrow> Inr (u128_to v))"

definition unpack_decimal :: "byte list \<Rightarrow> decimal" where
  "unpack_decimal src = decimal_from_scaled_val (u128_from src)"

definition pack_bool :: "bool \<Rightarrow> byte list" where
  "pack_bool b = u8_to (if b then 1 else 0)"

definition unpack_bool :: "byte list \<Rightarrow> bool result" where
  "unpack_bool src =
     (let v = u8_from src in
      if v = 0 then Inr False else if v = 1 then Inr True else Inl (Err InvalidAccountData))"

text \<open>\<open>None\<close> writes the tag and leaves the 32 bytes of the body as they were.\<close>

definition pack_coption_key :: "pubkey option \<Rightarrow> byte list \<Rightarrow> byte list" where
  "pack_coption_key src dst =
     (case src of
        Some key \<Rightarrow> [1, 0, 0, 0] @ bytes32_to key
      | None \<Rightarrow> [0, 0, 0, 0] @ drop 4 dst)"

definition unpack_coption_key :: "byte list \<Rightarrow> pubkey option result" where
  "unpack_coption_key src =
     (let tag = take 4 src; body = drop 4 src in
      if tag = [0, 0, 0, 0] then Inr None
      else if tag = [1, 0, 0, 0] then Inr (Some (bytes32_from body))
      else Inl (Err InvalidAccountData))"

definition pack_coption_key_compact :: "pubkey option \<Rightarrow> byte list \<Rightarrow> byte list" where
  "pack_coption_key_compact src dst =
     (case src of
        Some key \<Rightarrow> [1] @ bytes32_to key
      | None \<Rightarrow> [0] @ drop 1 dst)"

definition unpack_coption_key_compact :: "byte list \<Rightarrow> pubkey option result" where
  "unpack_coption_key_compact src =
     (let tag = src ! 0 in
      if tag = 0 then Inr None
      else if tag = 1 then Inr (Some (bytes32_from (drop 1 src)))
      else Inl (Err InvalidAccountData))"

lemma pack_decimal_ok: "pack_decimal d = Inr bs \<longleftrightarrow> (\<exists>v. decimal_to_scaled_val d = Inr v \<and> bs = u128_to v)"
  by (auto simp: pack_decimal_def split: sum.splits)

lemma unpack_pack_decimal [simp]: "pack_decimal d = Inr bs \<Longrightarrow> unpack_decimal bs = d"
  by (auto simp: pack_decimal_ok unpack_decimal_def from_to_scaled_val)

lemma length_pack_decimal [simp]: "pack_decimal d = Inr bs \<Longrightarrow> length bs = 16"
  by (auto simp: pack_decimal_ok)

lemma pack_decimal_total: "dec d < 2 ^ 128 \<Longrightarrow> \<exists>bs. pack_decimal d = Inr bs"
  by (cases "decimal_to_scaled_val d") (auto simp: pack_decimal_def decimal_err)

lemma unpack_pack_bool [simp]: "unpack_bool (pack_bool b) = Inr b"
  by (simp add: pack_bool_def unpack_bool_def)

lemma length_pack_bool [simp]: "length (pack_bool b) = 1"
  by (simp add: pack_bool_def)

lemma unpack_pack_coption_key [simp]: "unpack_coption_key (pack_coption_key k dst) = Inr k"
  by (simp add: pack_coption_key_def unpack_coption_key_def split: option.split)

lemma length_pack_coption_key [simp]: "length dst = 36 \<Longrightarrow> length (pack_coption_key k dst) = 36"
  by (simp add: pack_coption_key_def split: option.split)

lemma unpack_pack_coption_key_compact [simp]:
  "unpack_coption_key_compact (pack_coption_key_compact k dst) = Inr k"
  by (simp add: pack_coption_key_compact_def unpack_coption_key_compact_def split: option.split)

lemma length_pack_coption_key_compact [simp]:
  "length dst = 33 \<Longrightarrow> length (pack_coption_key_compact k dst) = 33"
  by (simp add: pack_coption_key_compact_def split: option.split)

section \<open>Implementations of Pack\<close>

text \<open>
  \<open>array_mut_ref![output, 0, LEN]\<close> and \<open>array_ref![input, 0, LEN]\<close>: the first \<open>LEN\<close> bytes, a panic
  when there are fewer.
\<close>

definition write_array :: "nat \<Rightarrow> (byte list \<Rightarrow> byte list result) \<Rightarrow> byte list \<Rightarrow> byte list result" where
  "write_array n f output =
     (if length output < n then Inl Panic
      else attempt (f (take n output)) (\<lambda>bs. Inr (bs @ drop n output)))"

definition read_array :: "nat \<Rightarrow> (byte list \<Rightarrow> 'a result) \<Rightarrow> byte list \<Rightarrow> 'a result" where
  "read_array n f input = (if length input < n then Inl Panic else f (take n input))"

lemma write_array_ok:
  "write_array n f dst = Inr bs \<longleftrightarrow>
     n \<le> length dst \<and> (\<exists>hd. f (take n dst) = Inr hd \<and> bs = hd @ drop n dst)"
  by (auto simp: write_array_def)

text \<open>
  The contract of an implementation, on the array of \<open>size\<close> bytes it works in: writing keeps the
  length, a value that \<open>fits\<close> can be written, and reading it gives the value back. It lifts to
  buffers of any length at least \<open>size\<close>, whose other bytes are untouched.
\<close>

locale packed =
  fixes size :: nat
    and fits :: "'a \<Rightarrow> bool"
    and put :: "'a \<Rightarrow> byte list \<Rightarrow> byte list result"
    and get :: "byte list \<Rightarrow> 'a result"
  assumes put_total: "fits x \<Longrightarrow> length dst = size \<Longrightarrow> \<exists>bs. put x dst = Inr bs"
    and put_length: "length dst = size \<Longrightarrow> put x dst = Inr bs \<Longrightarrow> length bs = size"
    and get_put: "fits x \<Longrightarrow> length dst = size \<Longrightarrow> put x dst = Inr bs \<Longrightarrow> get bs = Inr x"
begin

lemma pack_total:
  assumes "fits x" "size \<le> length dst"
  shows "\<exists>bs. write_array size (put x) dst = Inr bs"
proof -
  from assms(2) have "length (take size dst) = size" by simp
  from put_total [OF assms(1) this] assms(2) show ?thesis by (auto simp: write_array_ok)
qed

lemma pack_cases:
  assumes "write_array size (put x) dst = Inr bs"
  obtains hd where "size \<le> length dst" "put x (take size dst) = Inr hd" "length hd = size"
    "bs = hd @ drop size dst"
proof -
  from assms obtain hd where *: "size \<le> length dst" "put x (take size dst) = Inr hd"
    "bs = hd @ drop size dst"
    by (auto simp: write_array_ok)
  then have "length (take size dst) = size" by simp
  from put_length [OF this *(2)] * that show ?thesis by blast
qed

lemma pack_length: "write_array size (put x) dst = Inr bs \<Longrightarrow> length bs = length dst"
  by (erule pack_cases) simp

lemma pack_frame: "write_array size (put x) dst = Inr bs \<Longrightarrow> drop size bs = drop size dst"
  by (erule pack_cases) simp

lemma pack_short: "length dst < size \<Longrightarrow> write_array size (put x) dst = Inl Panic"
  by (simp add: write_array_def)

lemma unpack_pack:
  assumes "fits x" "write_array size (put x) dst = Inr bs"
  shows "read_array size get bs = Inr x"
  using assms(2)
proof (rule pack_cases)
  fix hd
  assume *: "size \<le> length dst" "put x (take size dst) = Inr hd" "length hd = size"
    "bs = hd @ drop size dst"
  then have "length (take size dst) = size" by simp
  from get_put [OF assms(1) this *(2)] have "get hd = Inr x" .
  with * show ?thesis by (simp add: read_array_def)
qed

lemma roundtrip:
  "fits x \<Longrightarrow> size \<le> length dst \<Longrightarrow>
     attempt (write_array size (put x) dst) (read_array size get) = Inr x"
  using pack_total [of x dst] by (auto intro: unpack_pack)

lemma pack_inject:
  "fits x \<Longrightarrow> fits y \<Longrightarrow> write_array size (put x) dst = Inr bs \<Longrightarrow>
     write_array size (put y) dst' = Inr bs \<Longrightarrow> x = y"
  using unpack_pack [of x dst bs] unpack_pack [of y dst' bs] by simp

end

end
