(* ===== verification/Wire.thy ===== *)
theory Wire
  imports Codec
begin

text \<open>
  Instruction data as a stream: a reader takes a value off the front of the input and returns the
  rest. The two programs' \<open>unpack_u8\<close>, \<open>unpack_u64\<close> and so on (token-lending/program/src/instruction.rs,
  staking/program/src/instruction.rs) are the same readers with each program's own error. The
  locale \<open>wire\<close> is the contract between a reader and its writer.
\<close>

definition read_bytes :: "nat \<Rightarrow> fault \<Rightarrow> byte list \<Rightarrow> (byte list \<times> byte list) result" where
  "read_bytes n e input =
     (if length input < n then Inl e else Inr (take n input, drop n input))"

definition read_u8 :: "fault \<Rightarrow> byte list \<Rightarrow> (u8 \<times> byte list) result" where
  "read_u8 e input = attempt (read_bytes 1 e input) (\<lambda>(bytes, rest). Inr (u8_from bytes, rest))"

definition read_u64 :: "fault \<Rightarrow> byte list \<Rightarrow> (u64 \<times> byte list) result" where
  "read_u64 e input = attempt (read_bytes 8 e input) (\<lambda>(bytes, rest). Inr (u64_from bytes, rest))"

definition read_bytes32 :: "fault \<Rightarrow> byte list \<Rightarrow> (bytes32 \<times> byte list) result" where
  "read_bytes32 e input = attempt (read_bytes 32 e input) (\<lambda>(bytes, rest). Inr (bytes32_from bytes, rest))"

lemma read_bytes_append [simp]: "length b = n \<Longrightarrow> read_bytes n e (b @ rest) = Inr (b, rest)"
  by (simp add: read_bytes_def)

lemma read_bytes_ok:
  "read_bytes n e input = Inr (b, rest) \<longleftrightarrow> length b = n \<and> input = b @ rest"
  by (auto simp: read_bytes_def min_def)

text \<open>
  A reader gives back what its writer wrote, whatever follows. So the encoding is prefix free: the
  values in a stream are determined by it.
\<close>

locale wire =
  fixes fits :: "'a \<Rightarrow> bool"
    and encode :: "'a \<Rightarrow> byte list"
    and decode :: "byte list \<Rightarrow> ('a \<times> byte list) result"
  assumes decode_encode: "fits x \<Longrightarrow> decode (encode x @ rest) = Inr (x, rest)"
begin

lemma decode_all: "fits x \<Longrightarrow> decode (encode x) = Inr (x, [])"
  using decode_encode [of x "[]"] by simp

lemma prefix_free:
  assumes "fits x" "fits y" "encode x @ r = encode y @ s"
  shows "x = y \<and> r = s"
  using decode_encode [OF assms(1), of r] decode_encode [OF assms(2), of s]
  unfolding assms(3) by simp

lemma encode_inject: "fits x \<Longrightarrow> fits y \<Longrightarrow> encode x = encode y \<longleftrightarrow> x = y"
  using prefix_free [of x y "[]" "[]"] by auto

end

interpretation wire_u8: wire "\<lambda>_. True" u8_to "read_u8 e" for e
  by unfold_locales (simp only: read_u8_def read_bytes_append bytes_lengths attempt_simps prod.case bytes_roundtrip)

interpretation wire_u64: wire "\<lambda>_. True" u64_to "read_u64 e" for e
  by unfold_locales (simp only: read_u64_def read_bytes_append bytes_lengths attempt_simps prod.case bytes_roundtrip)

interpretation wire_bytes32: wire "\<lambda>_. True" bytes32_to "read_bytes32 e" for e
  by unfold_locales (simp only: read_bytes32_def read_bytes_append bytes_lengths attempt_simps prod.case bytes_roundtrip)

lemmas read_written = wire_u8.decode_encode [OF TrueI] wire_u64.decode_encode [OF TrueI]
  wire_bytes32.decode_encode [OF TrueI] wire_u8.decode_all [OF TrueI]
  wire_u64.decode_all [OF TrueI] wire_bytes32.decode_all [OF TrueI]

end
