(* ===== verification/Lending_Market.thy ===== *)
theory Lending_Market
  imports Codec
begin

text \<open>
  The lending market account (token-lending/program/src/state/lending_market.rs) and the versions
  of state/mod.rs.
\<close>

definition PROGRAM_VERSION :: u8 where
  "PROGRAM_VERSION = 1"

definition UNINITIALIZED_VERSION :: u8 where
  "UNINITIALIZED_VERSION = 0"

record lending_market =
  market_version :: u8
  market_bump_seed :: u8
  market_owner :: pubkey
  quote_currency :: bytes32
  token_program_id :: pubkey

record init_lending_market_params =
  param_bump_seed :: u8
  param_owner :: pubkey
  param_quote_currency :: bytes32
  param_token_program_id :: pubkey

definition lending_market_default :: lending_market where
  "lending_market_default =
     \<lparr> market_version = 0, market_bump_seed = 0, market_owner = 0, quote_currency = 0, token_program_id = 0 \<rparr>"

definition lending_market_init :: "init_lending_market_params \<Rightarrow> lending_market \<Rightarrow> lending_market" where
  "lending_market_init params m = m\<lparr>
     market_version := PROGRAM_VERSION,
     market_bump_seed := param_bump_seed params,
     market_owner := param_owner params,
     quote_currency := param_quote_currency params,
     token_program_id := param_token_program_id params \<rparr>"

definition lending_market_new :: "init_lending_market_params \<Rightarrow> lending_market" where
  "lending_market_new params = lending_market_init params lending_market_default"

definition lending_market_is_initialized :: "lending_market \<Rightarrow> bool" where
  "lending_market_is_initialized m = (market_version m \<noteq> UNINITIALIZED_VERSION)"

definition LENDING_MARKET_LEN :: nat where
  "LENDING_MARKET_LEN = 258"

definition lending_market_write :: "lending_market \<Rightarrow> byte list \<Rightarrow> byte list result" where
  "lending_market_write m output =
     Inr (u8_to (market_version m) @ u8_to (market_bump_seed m) @ bytes32_to (market_owner m) @
       bytes32_to (quote_currency m) @ bytes32_to (token_program_id m) @ drop 98 output)"

definition lending_market_pack_into_slice :: "lending_market \<Rightarrow> byte list \<Rightarrow> byte list result" where
  "lending_market_pack_into_slice m = write_array LENDING_MARKET_LEN (lending_market_write m)"

definition lending_market_read :: "byte list \<Rightarrow> lending_market result" where
  "lending_market_read input =
     (case layout [1, 1, 32, 32, 32, 160] input of
        [ver, bump, own, quote_cur, token_program, padding] \<Rightarrow>
          (if PROGRAM_VERSION < u8_from ver then Inl (Err InvalidAccountData)
           else Inr \<lparr> market_version = u8_from ver, market_bump_seed = u8_from bump,
             market_owner = bytes32_from own, quote_currency = bytes32_from quote_cur,
             token_program_id = bytes32_from token_program \<rparr>)
      | _ \<Rightarrow> Inl Panic)"

definition lending_market_unpack_from_slice :: "byte list \<Rightarrow> lending_market result" where
  "lending_market_unpack_from_slice = read_array LENDING_MARKET_LEN lending_market_read"

definition lending_market_fits :: "lending_market \<Rightarrow> bool" where
  "lending_market_fits m = (market_version m \<le> PROGRAM_VERSION)"

lemma lending_market_new_fits [simp]: "lending_market_fits (lending_market_new p)"
  by (simp add: lending_market_fits_def lending_market_new_def lending_market_init_def)

lemma lending_market_new_initialized [simp]: "lending_market_is_initialized (lending_market_new p)"
  by (simp add: lending_market_is_initialized_def lending_market_new_def lending_market_init_def
      PROGRAM_VERSION_def UNINITIALIZED_VERSION_def)

interpretation market_pack: packed LENDING_MARKET_LEN lending_market_fits
  lending_market_write lending_market_read
  by unfold_locales
    (auto simp: lending_market_write_def lending_market_read_def lending_market_fits_def
      LENDING_MARKET_LEN_def not_less [symmetric])

end
