(* ===== verification/Rates.thy ===== *)
theory Rates
  imports Decimals
begin

text \<open>
  \<open>Rate\<close>, the small fixed-point type (token-lending/program/src/math/rate.rs): 128 bits scaled by
  WAD, with the conversions between \<open>Rate\<close> and \<open>Decimal\<close>. Interest compounds through \<open>try_pow\<close>,
  exponentiation by squaring whose every multiplication truncates; the section on it bounds the
  result from both sides.
\<close>

section \<open>Operations\<close>

datatype rate = Rate (rate_bits: u128)

definition rat :: "rate \<Rightarrow> nat" where
  "rat r = unat (rate_bits r)"

instantiation rate :: linorder
begin

definition less_eq_rate :: "rate \<Rightarrow> rate \<Rightarrow> bool" where
  "less_eq_rate a b = (rate_bits a \<le> rate_bits b)"

definition less_rate :: "rate \<Rightarrow> rate \<Rightarrow> bool" where
  "less_rate a b = (rate_bits a < rate_bits b)"

instance
  by standard (auto simp: less_eq_rate_def less_rate_def rate.expand)

end

definition rate_wad :: u128 where
  "rate_wad = ucast WAD"

definition rate_half_wad :: u128 where
  "rate_half_wad = ucast HALF_WAD"

definition rate_one :: rate where
  "rate_one = Rate rate_wad"

definition rate_zero :: rate where
  "rate_zero = Rate 0"

definition rate_from_percent :: "u8 \<Rightarrow> rate" where
  "rate_from_percent percent = Rate (ucast ((ucast percent :: u64) * PERCENT_SCALER))"

definition rate_to_scaled_val :: "rate \<Rightarrow> u128" where
  "rate_to_scaled_val r = rate_bits r"

definition rate_from_scaled_val :: "u64 \<Rightarrow> rate" where
  "rate_from_scaled_val v = Rate (ucast v)"

definition rate_try_round_u64 :: "rate \<Rightarrow> u64 result" where
  "rate_try_round_u64 r =
     attempt (ok_or (checked_add rate_half_wad (rate_bits r)) math_overflow) (\<lambda>sum.
     attempt (ok_or (checked_div sum rate_wad) math_overflow) (\<lambda>rounded_val.
     ok_or (try_narrow rounded_val) math_overflow))"

definition rate_try_add :: "rate \<Rightarrow> rate \<Rightarrow> rate result" where
  "rate_try_add a b =
     attempt (ok_or (checked_add (rate_bits a) (rate_bits b)) math_overflow) (\<lambda>v. Inr (Rate v))"

definition rate_try_sub :: "rate \<Rightarrow> rate \<Rightarrow> rate result" where
  "rate_try_sub a b =
     attempt (ok_or (checked_sub (rate_bits a) (rate_bits b)) math_overflow) (\<lambda>v. Inr (Rate v))"

definition rate_try_div_u64 :: "rate \<Rightarrow> u64 \<Rightarrow> rate result" where
  "rate_try_div_u64 a b =
     attempt (ok_or (checked_div (rate_bits a) (ucast b)) math_overflow) (\<lambda>v. Inr (Rate v))"

definition rate_try_div :: "rate \<Rightarrow> rate \<Rightarrow> rate result" where
  "rate_try_div a b =
     attempt (ok_or (checked_mul (rate_bits a) rate_wad) math_overflow) (\<lambda>scaled.
     attempt (ok_or (checked_div scaled (rate_bits b)) math_overflow) (\<lambda>v. Inr (Rate v)))"

definition rate_try_mul_u64 :: "rate \<Rightarrow> u64 \<Rightarrow> rate result" where
  "rate_try_mul_u64 a b =
     attempt (ok_or (checked_mul (rate_bits a) (ucast b)) math_overflow) (\<lambda>v. Inr (Rate v))"

definition rate_try_mul :: "rate \<Rightarrow> rate \<Rightarrow> rate result" where
  "rate_try_mul a b =
     attempt (ok_or (checked_mul (rate_bits a) (rate_bits b)) math_overflow) (\<lambda>product.
     attempt (ok_or (checked_div product rate_wad) math_overflow) (\<lambda>v. Inr (Rate v)))"

text \<open>The loop of \<open>try_pow\<close>; every turn halves the exponent.\<close>

function rate_pow_loop :: "rate \<Rightarrow> rate \<Rightarrow> u64 \<Rightarrow> rate result" where
  "rate_pow_loop base ret exp =
     (if 0 < exp then
        attempt (rate_try_mul base base) (\<lambda>base'.
          if exp div 2 mod 2 \<noteq> 0
          then attempt (rate_try_mul ret base') (\<lambda>ret'. rate_pow_loop base' ret' (exp div 2))
          else rate_pow_loop base' ret (exp div 2))
      else Inr ret)"
  by pat_completeness auto

termination
proof (relation "measure (\<lambda>(base, ret, exp). unat exp)", goal_cases)
  case 1
  show ?case by simp
qed (simp_all add: unat_div word_gt_0 unat_gt_0)

declare rate_pow_loop.simps [simp del]

definition rate_try_pow :: "rate \<Rightarrow> u64 \<Rightarrow> rate result" where
  "rate_try_pow base exp =
     rate_pow_loop base (if exp mod 2 \<noteq> 0 then base else Rate rate_wad) exp"

definition rate_of_decimal :: "decimal \<Rightarrow> rate result" where
  "rate_of_decimal d = attempt (decimal_to_scaled_val d) (\<lambda>v. Inr (Rate v))"

text \<open>\<open>From<Rate> for Decimal\<close>, of math/decimal.rs.\<close>

definition decimal_from_rate :: "rate \<Rightarrow> decimal" where
  "decimal_from_rate r = Decimal (ucast (rate_to_scaled_val r))"

definition decimal_try_div_rate :: "decimal \<Rightarrow> rate \<Rightarrow> decimal result" where
  "decimal_try_div_rate d r = decimal_try_div d (decimal_from_rate r)"

definition decimal_try_mul_rate :: "decimal \<Rightarrow> rate \<Rightarrow> decimal result" where
  "decimal_try_mul_rate d r = decimal_try_mul d (decimal_from_rate r)"

lemmas [run] = rate_wad_def rate_half_wad_def rate_one_def rate_zero_def rate_from_percent_def
  rate_to_scaled_val_def rate_from_scaled_val_def rate_try_add_def rate_try_sub_def
  rate_try_div_u64_def rate_try_div_def rate_try_mul_u64_def rate_try_mul_def rate_try_pow_def
  rate_pow_loop.simps rate_of_decimal_def decimal_from_rate_def decimal_try_div_rate_def
  decimal_try_mul_rate_def rat_def

section \<open>Reading the operations on natural numbers\<close>

named_theorems rate_ok \<open>successful rate operations, on natural numbers\<close>
named_theorems rate_err \<open>failing rate operations, on natural numbers\<close>

lemma rat_less: "rat r < 2 ^ 128"
  using unsigned_less [of "rate_bits r", where ?'a = nat] by (simp add: rat_def)

lemma rat_inject: "rat a = rat b \<Longrightarrow> a = b"
  by (simp add: rat_def rate.expand word_unat_eq_iff)

lemma rat_eq_iff: "a = b \<longleftrightarrow> rat a = rat b"
  by (auto intro: rat_inject)

lemma less_eq_rate_rat [simp]: "a \<le> b \<longleftrightarrow> rat a \<le> rat b"
  by (simp add: less_eq_rate_def rat_def word_le_nat_alt)

lemma less_rate_rat [simp]: "a < b \<longleftrightarrow> rat a < rat b"
  by (simp add: less_rate_def rat_def word_less_nat_alt)

lemma rat_Rate [simp]: "rat (Rate v) = unat v"
  by (simp add: rat_def)

lemma unat_rate_wad [simp]: "unat rate_wad = wad"
  by (simp add: rate_wad_def WAD_def wad_def unsigned_ucast_eq)

lemma unat_rate_half_wad [simp]: "unat rate_half_wad = wad div 2"
  by (simp add: rate_half_wad_def HALF_WAD_def wad_def unsigned_ucast_eq)

lemma rate_wad_nonzero [simp]: "rate_wad \<noteq> 0"
  using unat_rate_wad wad_pos by (metis less_irrefl unat_0)

lemma rat_zero [simp]: "rat rate_zero = 0"
  by (simp add: rate_zero_def)

lemma rat_one [simp]: "rat rate_one = wad"
  by (simp add: rate_one_def)

lemma rat_from_scaled_val [simp]: "rat (rate_from_scaled_val v) = unat v"
  by (simp add: rate_from_scaled_val_def unat_ucast_up)

lemma rat_from_percent [simp]: "rat (rate_from_percent p) = unat p * (wad div 100)"
proof -
  have p: "unat p < 256" using unsigned_less [of p, where ?'a = nat] by simp
  then have "unat ((ucast p :: u64) * PERCENT_SCALER) = unat p * (wad div 100)"
    by (simp add: unat_word_ariths unat_ucast_up PERCENT_SCALER_def wad_def)
  then show ?thesis by (simp add: rate_from_percent_def unat_ucast_up)
qed

lemma dec_from_rate [simp]: "dec (decimal_from_rate r) = rat r"
  by (simp add: decimal_from_rate_def rate_to_scaled_val_def unat_ucast_up rat_def)

lemma try_div_rate_ok [decimal_ok]:
  "decimal_try_div_rate d r = Inr c \<longleftrightarrow>
     rat r \<noteq> 0 \<and> dec d * wad < 2 ^ 192 \<and> dec c = dec d * wad div rat r"
  by (simp only: decimal_try_div_rate_def decimal_ok dec_from_rate)

lemma try_mul_rate_ok [decimal_ok]:
  "decimal_try_mul_rate d r = Inr c \<longleftrightarrow> dec d * rat r < 2 ^ 192 \<and> dec c = dec d * rat r div wad"
  by (simp only: decimal_try_mul_rate_def decimal_ok dec_from_rate)

lemma try_div_rate_err [decimal_err]:
  "decimal_try_div_rate d r = Inl e \<longleftrightarrow> e = math_overflow \<and> (rat r = 0 \<or> 2 ^ 192 \<le> dec d * wad)"
  by (simp only: decimal_try_div_rate_def decimal_err dec_from_rate)

lemma try_mul_rate_err [decimal_err]:
  "decimal_try_mul_rate d r = Inl e \<longleftrightarrow> e = math_overflow \<and> 2 ^ 192 \<le> dec d * rat r"
  by (simp only: decimal_try_mul_rate_def decimal_err dec_from_rate)

lemma rate_of_decimal_ok [rate_ok]: "rate_of_decimal d = Inr r \<longleftrightarrow> rat r = dec d"
  by (cases r) (auto simp: rate_of_decimal_def decimal_ok)

lemma rate_of_decimal_err [rate_err]:
  "rate_of_decimal d = Inl e \<longleftrightarrow> e = math_overflow \<and> 2 ^ 128 \<le> dec d"
  by (auto simp: rate_of_decimal_def attempt_Inl_iff decimal_err)

lemma rate_of_decimal_from_rate [simp]: "rate_of_decimal (decimal_from_rate r) = Inr r"
  by (simp add: rate_ok)

lemma rate_add_ok [rate_ok]: "rate_try_add a b = Inr c \<longleftrightarrow> rat c = rat a + rat b"
  by (cases c) (auto simp: rate_try_add_def checked rat_def)

lemma rate_sub_ok [rate_ok]: "rate_try_sub a b = Inr c \<longleftrightarrow> rat a = rat b + rat c"
  by (cases c) (auto simp: rate_try_sub_def checked rat_def)

lemma rate_mul_u64_ok [rate_ok]: "rate_try_mul_u64 a n = Inr c \<longleftrightarrow> rat c = rat a * unat n"
  by (cases c) (auto simp: rate_try_mul_u64_def checked rat_def unat_ucast_up)

lemma rate_div_u64_ok [rate_ok]:
  "rate_try_div_u64 a n = Inr c \<longleftrightarrow> n \<noteq> 0 \<and> rat c = rat a div unat n"
  by (cases c) (auto simp: rate_try_div_u64_def checked rat_def unat_ucast_up unat_eq_0)

lemma rate_mul_ok [rate_ok]:
  "rate_try_mul a b = Inr c \<longleftrightarrow> rat a * rat b < 2 ^ 128 \<and> rat c = rat a * rat b div wad"
  by (cases c; cases "rat a * rat b < 2 ^ 128")
    (auto simp: rate_try_mul_def checked_mul_def checked_div_def rat_def unat_mult_small
      unat_div word_unat_eq_iff)

lemma rate_div_ok [rate_ok]:
  "rate_try_div a b = Inr c \<longleftrightarrow>
     rat b \<noteq> 0 \<and> rat a * wad < 2 ^ 128 \<and> rat c = rat a * wad div rat b"
proof -
  have "rate_try_div a b = Inr c \<longleftrightarrow>
      (\<exists>s :: u128. unat s = rat a * wad \<and> rat b \<noteq> 0 \<and> rat c = unat s div rat b)"
    by (cases c) (auto simp: rate_try_div_def checked rat_def)
  then show ?thesis by (simp only: ex_unat_eq [where P = "\<lambda>s. rat b \<noteq> 0 \<and> rat c = s div rat b"]) auto
qed

lemma rate_add_err [rate_err]:
  "rate_try_add a b = Inl e \<longleftrightarrow> e = math_overflow \<and> 2 ^ 128 \<le> rat a + rat b"
  by (auto simp: rate_try_add_def attempt_Inl_iff checked rat_def)

lemma rate_sub_err [rate_err]:
  "rate_try_sub a b = Inl e \<longleftrightarrow> e = math_overflow \<and> rat a < rat b"
  by (auto simp: rate_try_sub_def attempt_Inl_iff checked rat_def)

lemma rate_mul_u64_err [rate_err]:
  "rate_try_mul_u64 a n = Inl e \<longleftrightarrow> e = math_overflow \<and> 2 ^ 128 \<le> rat a * unat n"
  by (auto simp: rate_try_mul_u64_def attempt_Inl_iff checked rat_def unat_ucast_up)

lemma rate_div_u64_err [rate_err]:
  "rate_try_div_u64 a n = Inl e \<longleftrightarrow> e = math_overflow \<and> n = 0"
  by (auto simp: rate_try_div_u64_def attempt_Inl_iff checked rat_def unat_ucast_up unat_eq_0)

lemma rate_mul_err [rate_err]:
  "rate_try_mul a b = Inl e \<longleftrightarrow> e = math_overflow \<and> 2 ^ 128 \<le> rat a * rat b"
  by (auto simp: rate_try_mul_def checked_mul_def checked_div_def rat_def)

lemma rate_div_err [rate_err]:
  "rate_try_div a b = Inl e \<longleftrightarrow>
     e = math_overflow \<and> (rat b = 0 \<or> 2 ^ 128 \<le> rat a * wad)"
  by (auto simp: rate_try_div_def checked_mul_def checked_div_def rat_def unat_eq_0)

interpretation rate: fixed_point rat 128 math_overflow
  rate_try_add rate_try_sub rate_try_mul rate_try_div
  by unfold_locales (rule rat_less, simp_all only: rat_inject rate_ok rate_err)

section \<open>Exponentiation\<close>

text \<open>
  The upper bound: with \<open>b\<close> the base at the start of a turn and \<open>r\<close> the accumulated result, the
  final result is at most \<open>r * (b / WAD) ^ n\<close>, where \<open>n\<close> is the exponent without its lowest bit.
\<close>

lemma pow_step_bound:
  assumes sq: "b' * wad \<le> b * b" and rest: "r * wad ^ (2 * (h div 2)) \<le> t * b' ^ (2 * (h div 2))"
    and t: "if odd h then t * wad \<le> s * b' else t = s"
  shows "r * wad ^ (2 * h) \<le> s * b ^ (2 * (h :: nat))"
proof -
  have "t * b' ^ (2 * (h div 2)) * wad ^ (h mod 2) \<le> s * b' ^ h"
  proof (cases "odd h")
    case True
    then have h: "h = Suc (2 * (h div 2))" by presburger
    from True have "t * b' ^ (2 * (h div 2)) * wad ^ (h mod 2) = t * wad * b' ^ (2 * (h div 2))"
      by (simp add: odd_iff_mod_2_eq_one)
    also have "\<dots> \<le> s * b' * b' ^ (2 * (h div 2))"
      using t True by (intro mult_le_mono1) simp
    also have "\<dots> = s * b' ^ h"
      by (subst (2) h) simp
    finally show ?thesis .
  next
    case False
    then have "2 * (h div 2) = h" by simp
    with False t show ?thesis by simp
  qed
  moreover have "wad ^ h = wad ^ (2 * (h div 2)) * wad ^ (h mod 2)"
    by (simp add: power_add [symmetric])
  ultimately have "r * wad ^ h \<le> s * b' ^ h"
    using mult_le_mono1 [OF rest, of "wad ^ (h mod 2)"] by (simp only: mult.assoc)
  then have "r * wad ^ h * wad ^ h \<le> s * b' ^ h * wad ^ h" by (rule mult_le_mono1)
  also have "\<dots> = s * (b' * wad) ^ h" by (simp add: power_mult_distrib)
  also have "\<dots> \<le> s * (b * b) ^ h" using sq by (intro mult_le_mono2 power_mono) simp_all
  finally show ?thesis by (simp add: power_mult power2_eq_square power_mult_distrib mult_ac)
qed

text \<open>A run of the loop that returns, turn by turn, with the exponent as a natural number.\<close>

lemma rate_pow_loop_run [consumes 1, case_names stop odd_turn even_turn]:
  assumes "rate_pow_loop base ret exp = Inr r"
    and stop: "\<And>b s. P b s 0 s"
    and odd_turn: "\<And>b s n b' s' r. 0 < n \<Longrightarrow> odd (n div 2) \<Longrightarrow> rate_try_mul b b = Inr b' \<Longrightarrow>
      rate_try_mul s b' = Inr s' \<Longrightarrow> P b' s' (n div 2) r \<Longrightarrow> P b s n r"
    and even_turn: "\<And>b s n b' r. 0 < n \<Longrightarrow> even (n div 2) \<Longrightarrow> rate_try_mul b b = Inr b' \<Longrightarrow>
      P b' s (n div 2) r \<Longrightarrow> P b s n r"
  shows "P base ret (unat exp) r"
  using assms(1)
proof (induction base ret exp arbitrary: r rule: rate_pow_loop.induct)
  case (1 base ret exp)
  have half: "unat (exp div 2) = unat exp div 2" by (simp add: unat_div)
  have odd_iff: "(exp div 2 mod 2 \<noteq> 0) = odd (unat exp div 2)"
    by (simp add: word_unat_eq_iff unat_mod unat_div odd_iff_mod_2_eq_one)
  show ?case
  proof (cases "0 < exp")
    case False
    with "1.prems" stop show ?thesis by (simp add: rate_pow_loop.simps word_gt_0)
  next
    case True
    then have pos: "0 < unat exp" by (simp add: word_less_nat_alt)
    from "1.prems" True obtain base' where sq: "rate_try_mul base base = Inr base'"
      by (subst (asm) rate_pow_loop.simps) auto
    show ?thesis
    proof (cases "exp div 2 mod 2 \<noteq> 0")
      case o: True
      with "1.prems" True sq obtain ret' where m: "rate_try_mul ret base' = Inr ret'"
        and rest: "rate_pow_loop base' ret' (exp div 2) = Inr r"
        by (subst (asm) rate_pow_loop.simps) auto
      show ?thesis
        using odd_turn [OF pos _ sq m] "1.IH"(1) [OF True sq o m rest] o odd_iff half by simp
    next
      case e: False
      with "1.prems" True sq have rest: "rate_pow_loop base' ret (exp div 2) = Inr r"
        by (subst (asm) rate_pow_loop.simps) auto
      show ?thesis
        using even_turn [OF pos _ sq] "1.IH"(2) [OF True sq e rest] e odd_iff half by simp
    qed
  qed
qed

lemma rate_pow_loop_upper:
  "rate_pow_loop base ret exp = Inr r \<Longrightarrow>
     rat r * wad ^ (2 * (unat exp div 2)) \<le> rat ret * rat base ^ (2 * (unat exp div 2))"
proof (induction rule: rate_pow_loop_run)
  case (stop b s)
  then show ?case by simp
next
  case (odd_turn b s n b' s' r)
  have "rat b' * wad \<le> rat b * rat b" "rat s' * wad \<le> rat s * rat b'"
    using rate.mul_bounds [OF odd_turn(3)] rate.mul_bounds [OF odd_turn(4)] by blast+
  with odd_turn(2) show ?case
    by (intro pow_step_bound [OF _ odd_turn(5)]) (simp_all only: if_True not_False_eq_True)
next
  case (even_turn b s n b' r)
  have "rat b' * wad \<le> rat b * rat b"
    using rate.mul_bounds [OF even_turn(3)] by blast
  with even_turn(2) show ?case
    by (intro pow_step_bound [OF _ even_turn(4)]) (simp_all only: not_True_eq_False if_False)
qed

lemma rate_pow_loop_lower:
  "rate_pow_loop base ret exp = Inr r \<Longrightarrow> wad \<le> rat base \<Longrightarrow> rat ret \<le> rat r"
proof (induction rule: rate_pow_loop_run)
  case (stop b s)
  then show ?case by simp
next
  case (odd_turn b s n b' s' r)
  then have "wad \<le> rat b'" by (metis rate.mul_ge_left le_trans)
  with odd_turn show ?case using rate.mul_ge_left [OF odd_turn(4)] by simp
next
  case (even_turn b s n b' r)
  then have "wad \<le> rat b'" by (metis rate.mul_ge_left le_trans)
  with even_turn show ?case by simp
qed

text \<open>Only the overflow of a multiplication can stop the loop.\<close>

lemma rate_pow_loop_err: "rate_pow_loop base ret exp = Inl e \<Longrightarrow> e = math_overflow"
proof (induction base ret exp rule: rate_pow_loop.induct)
  case (1 base ret exp)
  from "1.prems" have pos: "0 < exp"
    by (subst (asm) rate_pow_loop.simps) (simp split: if_splits)
  show ?case
  proof (cases "rate_try_mul base base")
    case (Inl f)
    with "1.prems" pos show ?thesis by (subst (asm) rate_pow_loop.simps) (simp add: rate_err)
  next
    case sq: (Inr base')
    show ?thesis
    proof (cases "exp div 2 mod 2 \<noteq> 0")
      case True
      with "1.prems" pos sq
      have "attempt (rate_try_mul ret base') (\<lambda>ret'. rate_pow_loop base' ret' (exp div 2)) = Inl e"
        by (subst (asm) rate_pow_loop.simps) (simp only: attempt_simps if_True not_False_eq_True)
      then show ?thesis
        using "1.IH"(1) [OF pos sq True] by (auto simp only: attempt_Inl_iff rate_err)
    next
      case False
      with "1.prems" pos sq have "rate_pow_loop base' ret (exp div 2) = Inl e"
        by (subst (asm) rate_pow_loop.simps) (simp only: attempt_simps if_True if_False not_False_eq_True)
      then show ?thesis using "1.IH"(2) [OF pos sq False] by blast
    qed
  qed
qed

lemma rate_try_pow_upper:
  assumes "rate_try_pow base exp = Inr r" and "0 < exp"
  shows "rat r * wad ^ (unat exp - 1) \<le> rat base ^ unat exp"
proof -
  define h where "h = unat exp div 2"
  have odd_iff: "(exp mod 2 \<noteq> 0) = odd (unat exp)"
    by (simp add: word_unat_eq_iff unat_mod odd_iff_mod_2_eq_one)
  have pos: "0 < unat exp" using assms(2) by (simp add: word_less_nat_alt)
  have bound: "rat r * wad ^ (2 * h) \<le> rat (if odd (unat exp) then base else Rate rate_wad) * rat base ^ (2 * h)"
    using assms(1) rate_pow_loop_upper unfolding rate_try_pow_def h_def odd_iff by blast
  show ?thesis
  proof (cases "odd (unat exp)")
    case True
    then have "unat exp = Suc (2 * h)" unfolding h_def by presburger
    with bound True show ?thesis by simp
  next
    case False
    with pos have n: "unat exp = Suc (2 * h - 1)" "2 * h = Suc (2 * h - 1)" unfolding h_def by presburger+
    have "rat r * wad ^ (2 * h - 1) * wad \<le> rat base ^ (2 * h) * wad"
      using bound False by (subst (asm) (1) n(2)) (simp only: if_False rat_Rate unat_rate_wad power_Suc mult_ac)
    then have "rat r * wad ^ (2 * h - 1) \<le> rat base ^ (2 * h)" by (simp only: mult_le_cancel2 wad_pos simp_thms)
    then show ?thesis using n by (metis diff_Suc_1)
  qed
qed

lemma rate_try_pow_ge_one:
  assumes "rate_try_pow base exp = Inr r" and "wad \<le> rat base"
  shows "wad \<le> rat r"
  using rate_pow_loop_lower [OF assms(1) [unfolded rate_try_pow_def] assms(2)] assms(2)
  by (auto split: if_splits)

lemma rate_try_pow_zero: "rate_try_pow base 0 = Inr rate_one"
  by (simp add: rate_try_pow_def rate_pow_loop.simps rate_one_def)

lemma rate_try_pow_err: "rate_try_pow base exp = Inl e \<Longrightarrow> e = math_overflow"
  by (simp add: rate_try_pow_def rate_pow_loop_err)

end
