(* ===== verification/Last_Update.thy ===== *)
theory Last_Update
  imports Errors
begin

text \<open>
  The slot of the last refresh of a reserve or an obligation, and its staleness
  (token-lending/program/src/state/last_update.rs). Equality and order look at the slot only, as
  the code's \<open>PartialEq\<close> and \<open>PartialOrd\<close> do; HOL's \<open>=\<close> on the record is finer.
\<close>

definition STALE_AFTER_SLOTS_ELAPSED :: u64 where
  "STALE_AFTER_SLOTS_ELAPSED = 1"

record last_update =
  slot :: u64
  stale :: bool

definition last_update_default :: last_update where
  "last_update_default = \<lparr> slot = 0, stale = False \<rparr>"

definition last_update_new :: "u64 \<Rightarrow> last_update" where
  "last_update_new s = \<lparr> slot = s, stale = True \<rparr>"

definition slots_elapsed :: "last_update \<Rightarrow> u64 \<Rightarrow> u64 result" where
  "slots_elapsed lu s = ok_or (checked_sub s (slot lu)) (lending MathOverflow)"

definition update_slot :: "u64 \<Rightarrow> last_update \<Rightarrow> last_update" where
  "update_slot s lu = lu\<lparr> slot := s, stale := False \<rparr>"

definition mark_stale :: "last_update \<Rightarrow> last_update" where
  "mark_stale lu = lu\<lparr> stale := True \<rparr>"

text \<open>\<open>||\<close> is lazy: the slots are compared only when the mark is not set.\<close>

definition is_stale :: "last_update \<Rightarrow> u64 \<Rightarrow> bool result" where
  "is_stale lu s =
     (if stale lu then Inr True
      else attempt (slots_elapsed lu s) (\<lambda>elapsed. Inr (STALE_AFTER_SLOTS_ELAPSED \<le> elapsed)))"

definition last_update_eq :: "last_update \<Rightarrow> last_update \<Rightarrow> bool" where
  "last_update_eq a b = (slot a = slot b)"

definition last_update_less :: "last_update \<Rightarrow> last_update \<Rightarrow> bool" where
  "last_update_less a b = (slot a < slot b)"

lemmas [run] = STALE_AFTER_SLOTS_ELAPSED_def last_update_default_def last_update_new_def
  slots_elapsed_def update_slot_def mark_stale_def is_stale_def

lemma slots_elapsed_ok: "slots_elapsed lu s = Inr n \<longleftrightarrow> unat s = unat (slot lu) + unat n"
  by (simp add: slots_elapsed_def checked)

lemma slots_elapsed_err:
  "slots_elapsed lu s = Inl e \<longleftrightarrow> e = lending MathOverflow \<and> unat s < unat (slot lu)"
  by (auto simp: slots_elapsed_def checked)

text \<open>A state passes the staleness check in the slot of its refresh and in no other.\<close>

lemma not_stale_iff: "is_stale lu s = Inr False \<longleftrightarrow> \<not> stale lu \<and> s = slot lu"
  by (auto simp: is_stale_def STALE_AFTER_SLOTS_ELAPSED_def slots_elapsed_ok
      word_le_nat_alt word_unat_eq_iff intro!: exI [of _ "0 :: u64"])

lemma is_stale_err:
  "is_stale lu s = Inl e \<longleftrightarrow> e = lending MathOverflow \<and> \<not> stale lu \<and> unat s < unat (slot lu)"
  by (auto simp: is_stale_def attempt_Inl_iff slots_elapsed_err)

lemma fresh_after_update: "is_stale (update_slot s lu) s = Inr False"
  by (simp add: not_stale_iff update_slot_def)

lemma stale_after_mark: "is_stale (mark_stale lu) s = Inr True"
  by (simp add: is_stale_def mark_stale_def)

lemma mark_stale_simps [simp]:
  "slot (mark_stale lu) = slot lu" "stale (mark_stale lu)"
  "slot (update_slot s lu) = s" "\<not> stale (update_slot s lu)"
  by (simp_all add: mark_stale_def update_slot_def)

end
