(* ===== verification/Positions.thy ===== *)
theory Positions
  imports Errors
begin

text \<open>
  Lists of entries unique by key, as an obligation holds its deposits and its borrows: the search
  of \<open>iter().position(..)\<close>, the removal of \<open>Vec::remove\<close>, and the reading of such a list as a map
  from keys to entries. The locale \<open>positions\<close> is the contract of the two
  \<open>find_or_add_.._to_..\<close> methods of state/obligation.rs.
\<close>

text \<open>\<open>xs.iter().position(P)\<close>: the index of the first element with \<open>P\<close>.\<close>

primrec position :: "('a \<Rightarrow> bool) \<Rightarrow> 'a list \<Rightarrow> nat option" where
  "position P [] = None"
| "position P (x # xs) = (if P x then Some 0 else map_option Suc (position P xs))"

text \<open>\<open>xs.remove(i)\<close>, for an index in range.\<close>

definition remove_at :: "nat \<Rightarrow> 'a list \<Rightarrow> 'a list" where
  "remove_at i xs = take i xs @ drop (Suc i) xs"

definition entry_map :: "('a \<Rightarrow> 'k) \<Rightarrow> 'a list \<Rightarrow> ('k \<rightharpoonup> 'a)" where
  "entry_map key xs = map_of (map (\<lambda>x. (key x, x)) xs)"

lemma position_Some:
  "position P xs = Some i \<Longrightarrow> i < length xs \<and> P (xs ! i) \<and> (\<forall>j < i. \<not> P (xs ! j))"
proof (induction xs arbitrary: i)
  case Nil
  then show ?case by simp
next
  case (Cons x xs)
  then show ?case by (auto split: if_splits simp: nth_Cons')
qed

lemma position_None: "position P xs = None \<longleftrightarrow> (\<forall>x \<in> set xs. \<not> P x)"
  by (induction xs) auto

lemma position_eq_Some:
  "i < length xs \<Longrightarrow> P (xs ! i) \<Longrightarrow> (\<forall>j < i. \<not> P (xs ! j)) \<Longrightarrow> position P xs = Some i"
proof (induction xs arbitrary: i)
  case Nil
  then show ?case by simp
next
  case (Cons x xs)
  show ?case
  proof (cases i)
    case 0
    with Cons.prems show ?thesis by simp
  next
    case (Suc k)
    with Cons.prems have "\<not> P x" "\<forall>j < k. \<not> P (xs ! j)" by (auto simp: nth_Cons')
    with Cons Suc show ?thesis by simp
  qed
qed

lemma length_remove_at [simp]: "i < length xs \<Longrightarrow> length (remove_at i xs) = length xs - 1"
  by (simp add: remove_at_def)

lemma set_remove_at: "set (remove_at i xs) \<subseteq> set xs"
  by (auto simp: remove_at_def dest: in_set_takeD in_set_dropD)

lemma map_remove_at: "map f (remove_at i xs) = remove_at i (map f xs)"
  by (simp add: remove_at_def take_map drop_map)

lemma distinct_remove_at: "distinct xs \<Longrightarrow> distinct (remove_at i xs)"
  by (metis append_take_drop_id distinct_append distinct_take distinct_drop remove_at_def
      set_take_disj_set_drop_if_distinct lessI less_imp_le)

lemma split_at: "i < length xs \<Longrightarrow> xs = take i xs @ xs ! i # drop (Suc i) xs"
  by (rule id_take_nth_drop)

lemma entry_map_None: "entry_map key xs k = None \<longleftrightarrow> (\<forall>x \<in> set xs. key x \<noteq> k)"
  by (induction xs) (auto simp: entry_map_def)

lemma entry_map_nth:
  "distinct (map key xs) \<Longrightarrow> i < length xs \<Longrightarrow> entry_map key xs (key (xs ! i)) = Some (xs ! i)"
  unfolding entry_map_def by (rule map_of_is_SomeI) (auto simp: comp_def)

lemma entry_map_position:
  "entry_map key xs k = map_option ((!) xs) (position (\<lambda>x. key x = k) xs)"
  by (induction xs) (auto simp: entry_map_def option.map_comp comp_def)

lemma entry_map_append:
  "\<forall>x \<in> set xs. key x \<noteq> key y \<Longrightarrow> entry_map key (xs @ [y]) = (entry_map key xs)(key y \<mapsto> y)"
  by (induction xs) (auto simp: entry_map_def)

lemma entry_map_update:
  assumes "distinct (map key xs)" "i < length xs" "key y = key (xs ! i)"
  shows "entry_map key (xs[i := y]) = (entry_map key xs)(key y \<mapsto> y)"
  using assms
proof (induction xs arbitrary: i)
  case Nil
  then show ?case by simp
next
  case (Cons x xs)
  show ?case
  proof (cases i)
    case 0
    with Cons show ?thesis by (auto simp: entry_map_def)
  next
    case (Suc j)
    with Cons have "key x \<noteq> key y" by auto
    with Cons Suc show ?thesis by (auto simp: entry_map_def)
  qed
qed

lemma entry_map_remove:
  assumes "distinct (map key xs)" "i < length xs"
  shows "entry_map key (remove_at i xs) = (entry_map key xs)(key (xs ! i) := None)"
  using assms
proof (induction xs arbitrary: i)
  case Nil
  then show ?case by simp
next
  case (Cons x xs)
  show ?case
  proof (cases i)
    case 0
    with Cons have "entry_map key xs (key x) = None" by (simp add: entry_map_None) (metis imageI)
    with 0 show ?thesis by (auto simp: entry_map_def remove_at_def)
  next
    case (Suc j)
    with Cons have "key x \<noteq> key (xs ! j)" by auto
    with Cons Suc show ?thesis by (auto simp: entry_map_def remove_at_def)
  qed
qed

text \<open>
  An owner of entries (the obligation) finds the entry of a key, or adds a fresh one while there
  is room. The method returns a mutable reference to the entry; here it returns its index.
\<close>

locale positions =
  fixes entries :: "'o \<Rightarrow> 'a list"
    and key :: "'a \<Rightarrow> 'k"
    and fresh :: "'k \<Rightarrow> 'a"
    and room :: "'o \<Rightarrow> bool"
    and full :: fault
    and find_or_add :: "'k \<Rightarrow> 'o \<Rightarrow> ('o \<times> nat) result"
  assumes fresh_key: "key (fresh k) = k"
    and found: "position (\<lambda>x. key x = k) (entries ob) = Some i \<Longrightarrow> find_or_add k ob = Inr (ob, i)"
    and no_room: "position (\<lambda>x. key x = k) (entries ob) = None \<Longrightarrow> \<not> room ob \<Longrightarrow>
      find_or_add k ob = Inl full"
    and added: "position (\<lambda>x. key x = k) (entries ob) = None \<Longrightarrow> room ob \<Longrightarrow>
      \<exists>ob'. find_or_add k ob = Inr (ob', length (entries ob)) \<and> entries ob' = entries ob @ [fresh k]"
begin

definition lookup :: "'o \<Rightarrow> 'k \<Rightarrow> 'a option" where
  "lookup ob = entry_map key (entries ob)"

definition unique :: "'o \<Rightarrow> bool" where
  "unique ob = distinct (map key (entries ob))"

lemma find_or_add_cases [consumes 1, case_names found added]:
  assumes "find_or_add k ob = Inr (ob', i)"
  obtains "position (\<lambda>x. key x = k) (entries ob) = Some i" "ob' = ob"
  | "position (\<lambda>x. key x = k) (entries ob) = None" "room ob" "i = length (entries ob)"
      "entries ob' = entries ob @ [fresh k]"
  using assms found [of k ob] no_room [of k ob] added [of k ob]
  by (cases "position (\<lambda>x. key x = k) (entries ob)"; cases "room ob") auto

lemma find_or_add_entry:
  assumes "find_or_add k ob = Inr (ob', i)"
  shows "i < length (entries ob')" and "key (entries ob' ! i) = k"
  using assms by (cases rule: find_or_add_cases; auto dest!: position_Some simp: fresh_key)+

lemma find_or_add_unique: "find_or_add k ob = Inr (ob', i) \<Longrightarrow> unique ob \<Longrightarrow> unique ob'"
  by (erule find_or_add_cases) (auto simp: unique_def position_None fresh_key)

text \<open>Seen as a map: the entry of \<open>k\<close> is the old one or a fresh one, every other key is as before.\<close>

lemma find_or_add_lookup:
  assumes "find_or_add k ob = Inr (ob', i)"
  shows "lookup ob' = (lookup ob)(k \<mapsto> case lookup ob k of None \<Rightarrow> fresh k | Some x \<Rightarrow> x)"
  using assms
proof (cases rule: find_or_add_cases)
  case found
  then have "lookup ob k = Some (entries ob ! i)" by (simp add: lookup_def entry_map_position)
  then show ?thesis using found by (simp add: fun_upd_idem)
next
  case added
  then have "\<forall>x \<in> set (entries ob). key x \<noteq> key (fresh k)" by (simp add: position_None fresh_key)
  from entry_map_append [OF this] have "lookup ob' = (lookup ob)(k \<mapsto> fresh k)"
    by (simp add: lookup_def added(4) fresh_key)
  moreover have "lookup ob k = None" using added(1) by (simp add: lookup_def entry_map_position)
  ultimately show ?thesis by simp
qed

lemma find_or_add_result:
  assumes "find_or_add k ob = Inr (ob', i)" "unique ob"
  shows "lookup ob' k = Some (entries ob' ! i)"
  using find_or_add_entry [OF assms(1)] find_or_add_unique [OF assms]
    entry_map_nth [of key "entries ob'" i] by (simp add: lookup_def unique_def)

lemma find_or_add_err:
  "find_or_add k ob = Inl e \<longleftrightarrow> e = full \<and> lookup ob k = None \<and> \<not> room ob"
  using found [of k ob] no_room [of k ob] added [of k ob]
  by (cases "position (\<lambda>x. key x = k) (entries ob)"; cases "room ob")
    (auto simp: lookup_def entry_map_position)

text \<open>Writing back through the reference.\<close>

lemma lookup_update:
  "unique ob \<Longrightarrow> i < length (entries ob) \<Longrightarrow> key y = key (entries ob ! i) \<Longrightarrow>
     entries ob' = (entries ob)[i := y] \<Longrightarrow> lookup ob' = (lookup ob)(key y \<mapsto> y) \<and> unique ob'"
  using entry_map_update [of key "entries ob" i y]
  by (auto simp: lookup_def unique_def map_update) (metis list_update_id map_update nth_map)

lemma lookup_remove:
  "unique ob \<Longrightarrow> i < length (entries ob) \<Longrightarrow> entries ob' = remove_at i (entries ob) \<Longrightarrow>
     lookup ob' = (lookup ob)(key (entries ob ! i) := None) \<and> unique ob'"
  using entry_map_remove [of key "entries ob" i]
  by (simp add: lookup_def unique_def map_remove_at distinct_remove_at)

end

end
