(* ===== verification/Obligation.thy ===== *)
theory Obligation
  imports Rates Last_Update Lending_Market Positions
begin

text \<open>
  An obligation: the collateral a borrower has deposited and the liquidity borrowed against it
  (token-lending/program/src/state/obligation.rs). The deposits and borrows are the two lists of
  entries of the locale \<open>positions\<close>, which is interpreted for both.
\<close>

section \<open>State\<close>

definition MAX_OBLIGATION_RESERVES :: nat where
  "MAX_OBLIGATION_RESERVES = 10"

definition LIQUIDATION_CLOSE_FACTOR :: u8 where
  "LIQUIDATION_CLOSE_FACTOR = 50"

definition LIQUIDATION_CLOSE_AMOUNT :: u64 where
  "LIQUIDATION_CLOSE_AMOUNT = 2"

record obligation_collateral =
  deposit_reserve :: pubkey
  deposited_amount :: u64
  coll_market_value :: decimal

record obligation_liquidity =
  borrow_reserve :: pubkey
  loan_cumulative_borrow_rate_wads :: decimal
  loan_borrowed_amount_wads :: decimal
  loan_market_value :: decimal

record obligation =
  ob_version :: u8
  ob_last_update :: last_update
  ob_lending_market :: pubkey
  ob_owner :: pubkey
  deposits :: "obligation_collateral list"
  borrows :: "obligation_liquidity list"
  deposited_value :: decimal
  borrowed_value :: decimal
  allowed_borrow_value :: decimal
  unhealthy_borrow_value :: decimal

record init_obligation_params =
  init_ob_current_slot :: u64
  init_ob_lending_market :: pubkey
  init_ob_owner :: pubkey
  init_ob_deposits :: "obligation_collateral list"
  init_ob_borrows :: "obligation_liquidity list"

definition obligation_default :: obligation where
  "obligation_default = \<lparr> ob_version = 0, ob_last_update = last_update_default,
     ob_lending_market = 0, ob_owner = 0, deposits = [], borrows = [],
     deposited_value = decimal_zero, borrowed_value = decimal_zero,
     allowed_borrow_value = decimal_zero, unhealthy_borrow_value = decimal_zero \<rparr>"

definition obligation_init :: "init_obligation_params \<Rightarrow> obligation \<Rightarrow> obligation" where
  "obligation_init params ob = ob\<lparr>
     ob_version := PROGRAM_VERSION,
     ob_last_update := last_update_new (init_ob_current_slot params),
     ob_lending_market := init_ob_lending_market params,
     ob_owner := init_ob_owner params,
     deposits := init_ob_deposits params,
     borrows := init_ob_borrows params \<rparr>"

definition obligation_new :: "init_obligation_params \<Rightarrow> obligation" where
  "obligation_new params = obligation_init params obligation_default"

definition obligation_is_initialized :: "obligation \<Rightarrow> bool" where
  "obligation_is_initialized ob = (ob_version ob \<noteq> UNINITIALIZED_VERSION)"

section \<open>Entries\<close>

definition obligation_collateral_new :: "pubkey \<Rightarrow> obligation_collateral" where
  "obligation_collateral_new reserve =
     \<lparr> deposit_reserve = reserve, deposited_amount = 0, coll_market_value = decimal_zero \<rparr>"

definition collateral_deposit :: "u64 \<Rightarrow> obligation_collateral \<Rightarrow> obligation_collateral result" where
  "collateral_deposit collateral_amount c =
     attempt (ok_or (checked_add (deposited_amount c) collateral_amount) math_overflow) (\<lambda>a.
     Inr (c\<lparr> deposited_amount := a \<rparr>))"

definition collateral_withdraw :: "u64 \<Rightarrow> obligation_collateral \<Rightarrow> obligation_collateral result" where
  "collateral_withdraw collateral_amount c =
     attempt (ok_or (checked_sub (deposited_amount c) collateral_amount) math_overflow) (\<lambda>a.
     Inr (c\<lparr> deposited_amount := a \<rparr>))"

definition obligation_liquidity_new :: "pubkey \<Rightarrow> obligation_liquidity" where
  "obligation_liquidity_new reserve =
     \<lparr> borrow_reserve = reserve, loan_cumulative_borrow_rate_wads = decimal_zero,
       loan_borrowed_amount_wads = decimal_zero, loan_market_value = decimal_zero \<rparr>"

definition loan_repay :: "decimal \<Rightarrow> obligation_liquidity \<Rightarrow> obligation_liquidity result" where
  "loan_repay settle_amount l =
     attempt (decimal_try_sub (loan_borrowed_amount_wads l) settle_amount) (\<lambda>a.
     Inr (l\<lparr> loan_borrowed_amount_wads := a \<rparr>))"

definition loan_borrow :: "decimal \<Rightarrow> obligation_liquidity \<Rightarrow> obligation_liquidity result" where
  "loan_borrow borrow_amount l =
     attempt (decimal_try_add (loan_borrowed_amount_wads l) borrow_amount) (\<lambda>a.
     Inr (l\<lparr> loan_borrowed_amount_wads := a \<rparr>))"

definition loan_accrue_interest :: "decimal \<Rightarrow> obligation_liquidity \<Rightarrow> obligation_liquidity result" where
  "loan_accrue_interest cumulative l =
     (if cumulative < loan_cumulative_borrow_rate_wads l then Inl (lending NegativeInterestRate)
      else if cumulative = loan_cumulative_borrow_rate_wads l then Inr l
      else
        attempt (attempt (decimal_try_div cumulative (loan_cumulative_borrow_rate_wads l))
          rate_of_decimal) (\<lambda>compounded_interest_rate.
        attempt (decimal_try_mul_rate (loan_borrowed_amount_wads l) compounded_interest_rate) (\<lambda>a.
        Inr (l\<lparr> loan_borrowed_amount_wads := a,
               loan_cumulative_borrow_rate_wads := cumulative \<rparr>))))"

section \<open>Operations on the obligation\<close>

definition loan_to_value :: "obligation \<Rightarrow> decimal result" where
  "loan_to_value ob = decimal_try_div (borrowed_value ob) (deposited_value ob)"

text \<open>An index out of range is a panic, as \<open>self.borrows[i]\<close> is.\<close>

definition obligation_repay :: "decimal \<Rightarrow> nat \<Rightarrow> obligation \<Rightarrow> obligation result" where
  "obligation_repay settle_amount liquidity_index ob =
     (if length (borrows ob) \<le> liquidity_index then Inl Panic
      else let liquidity = borrows ob ! liquidity_index in
        if settle_amount = loan_borrowed_amount_wads liquidity
        then Inr (ob\<lparr> borrows := remove_at liquidity_index (borrows ob) \<rparr>)
        else attempt (loan_repay settle_amount liquidity) (\<lambda>liquidity'.
          Inr (ob\<lparr> borrows := (borrows ob)[liquidity_index := liquidity'] \<rparr>)))"

definition obligation_withdraw :: "u64 \<Rightarrow> nat \<Rightarrow> obligation \<Rightarrow> obligation result" where
  "obligation_withdraw withdraw_amount collateral_index ob =
     (if length (deposits ob) \<le> collateral_index then Inl Panic
      else let collateral = deposits ob ! collateral_index in
        if withdraw_amount = deposited_amount collateral
        then Inr (ob\<lparr> deposits := remove_at collateral_index (deposits ob) \<rparr>)
        else attempt (collateral_withdraw withdraw_amount collateral) (\<lambda>collateral'.
          Inr (ob\<lparr> deposits := (deposits ob)[collateral_index := collateral'] \<rparr>)))"

definition max_withdraw_value :: "obligation \<Rightarrow> rate \<Rightarrow> decimal result" where
  "max_withdraw_value ob withdraw_collateral_ltv =
     (if allowed_borrow_value ob \<le> borrowed_value ob then Inr decimal_zero
      else if withdraw_collateral_ltv = rate_zero then Inr (deposited_value ob)
      else
        attempt (decimal_try_sub (allowed_borrow_value ob) (borrowed_value ob)) (\<lambda>spare.
        decimal_try_div_rate spare withdraw_collateral_ltv))"

definition remaining_borrow_value :: "obligation \<Rightarrow> decimal result" where
  "remaining_borrow_value ob = decimal_try_sub (allowed_borrow_value ob) (borrowed_value ob)"

definition max_liquidation_amount :: "obligation \<Rightarrow> obligation_liquidity \<Rightarrow> decimal result" where
  "max_liquidation_amount ob liquidity =
     attempt (decimal_try_mul_rate (borrowed_value ob) (rate_from_percent LIQUIDATION_CLOSE_FACTOR))
       (\<lambda>closable.
     let max_liquidation_value = min closable (loan_market_value liquidity) in
     attempt (decimal_try_div max_liquidation_value (loan_market_value liquidity))
       (\<lambda>max_liquidation_pct.
     decimal_try_mul (loan_borrowed_amount_wads liquidity) max_liquidation_pct))"

definition find_collateral_index_in_deposits :: "obligation \<Rightarrow> pubkey \<Rightarrow> nat option" where
  "find_collateral_index_in_deposits ob reserve =
     position (\<lambda>c. deposit_reserve c = reserve) (deposits ob)"

definition find_collateral_in_deposits ::
    "obligation \<Rightarrow> pubkey \<Rightarrow> (obligation_collateral \<times> nat) result" where
  "find_collateral_in_deposits ob reserve =
     (if deposits ob = [] then Inl (lending ObligationDepositsEmpty)
      else attempt (ok_or (find_collateral_index_in_deposits ob reserve)
          (lending InvalidObligationCollateral)) (\<lambda>i.
        Inr (deposits ob ! i, i)))"

definition find_or_add_collateral_to_deposits ::
    "pubkey \<Rightarrow> obligation \<Rightarrow> (obligation \<times> nat) result" where
  "find_or_add_collateral_to_deposits reserve ob =
     (case find_collateral_index_in_deposits ob reserve of
        Some i \<Rightarrow> Inr (ob, i)
      | None \<Rightarrow>
          if MAX_OBLIGATION_RESERVES \<le> length (deposits ob) + length (borrows ob)
          then Inl (lending ObligationReserveLimit)
          else Inr (ob\<lparr> deposits := deposits ob @ [obligation_collateral_new reserve] \<rparr>,
            length (deposits ob)))"

definition find_liquidity_index_in_borrows :: "obligation \<Rightarrow> pubkey \<Rightarrow> nat option" where
  "find_liquidity_index_in_borrows ob reserve =
     position (\<lambda>l. borrow_reserve l = reserve) (borrows ob)"

definition find_liquidity_in_borrows ::
    "obligation \<Rightarrow> pubkey \<Rightarrow> (obligation_liquidity \<times> nat) result" where
  "find_liquidity_in_borrows ob reserve =
     (if borrows ob = [] then Inl (lending ObligationBorrowsEmpty)
      else attempt (ok_or (find_liquidity_index_in_borrows ob reserve)
          (lending InvalidObligationLiquidity)) (\<lambda>i.
        Inr (borrows ob ! i, i)))"

definition find_or_add_liquidity_to_borrows ::
    "pubkey \<Rightarrow> obligation \<Rightarrow> (obligation \<times> nat) result" where
  "find_or_add_liquidity_to_borrows reserve ob =
     (case find_liquidity_index_in_borrows ob reserve of
        Some i \<Rightarrow> Inr (ob, i)
      | None \<Rightarrow>
          if MAX_OBLIGATION_RESERVES \<le> length (deposits ob) + length (borrows ob)
          then Inl (lending ObligationReserveLimit)
          else Inr (ob\<lparr> borrows := borrows ob @ [obligation_liquidity_new reserve] \<rparr>,
            length (borrows ob)))"

lemmas [run] = MAX_OBLIGATION_RESERVES_def LIQUIDATION_CLOSE_FACTOR_def
  LIQUIDATION_CLOSE_AMOUNT_def obligation_default_def obligation_init_def obligation_new_def
  obligation_is_initialized_def obligation_collateral_new_def collateral_deposit_def
  collateral_withdraw_def obligation_liquidity_new_def loan_repay_def loan_borrow_def
  loan_accrue_interest_def loan_to_value_def obligation_repay_def obligation_withdraw_def
  max_withdraw_value_def remaining_borrow_value_def max_liquidation_amount_def
  find_collateral_index_in_deposits_def find_collateral_in_deposits_def
  find_or_add_collateral_to_deposits_def find_liquidity_index_in_borrows_def
  find_liquidity_in_borrows_def find_or_add_liquidity_to_borrows_def

section \<open>Deposits and borrows as maps\<close>

abbreviation obligation_room :: "obligation \<Rightarrow> bool" where
  "obligation_room ob \<equiv> length (deposits ob) + length (borrows ob) < MAX_OBLIGATION_RESERVES"

interpretation deps: positions deposits deposit_reserve obligation_collateral_new obligation_room
  "lending ObligationReserveLimit" find_or_add_collateral_to_deposits
  by unfold_locales
    (simp_all add: obligation_collateral_new_def find_or_add_collateral_to_deposits_def
      find_collateral_index_in_deposits_def)

interpretation loans: positions borrows borrow_reserve obligation_liquidity_new obligation_room
  "lending ObligationReserveLimit" find_or_add_liquidity_to_borrows
  by unfold_locales
    (simp_all add: obligation_liquidity_new_def find_or_add_liquidity_to_borrows_def
      find_liquidity_index_in_borrows_def)

text \<open>
  The invariant of an obligation: deposits unique by deposit reserve, borrows unique by borrow
  reserve, at most ten entries in all.
\<close>

definition obligation_wf :: "obligation \<Rightarrow> bool" where
  "obligation_wf ob = (distinct (map deposit_reserve (deposits ob)) \<and>
     distinct (map borrow_reserve (borrows ob)) \<and>
     length (deposits ob) + length (borrows ob) \<le> MAX_OBLIGATION_RESERVES)"

lemma obligation_wf_iff:
  "obligation_wf ob \<longleftrightarrow> deps.unique ob \<and> loans.unique ob \<and>
     length (deposits ob) + length (borrows ob) \<le> MAX_OBLIGATION_RESERVES"
  by (simp add: obligation_wf_def deps.unique_def loans.unique_def)

lemma collateral_deposit_ok:
  "collateral_deposit a c = Inr c' \<longleftrightarrow>
     c' = c\<lparr> deposited_amount := deposited_amount c' \<rparr> \<and>
     unat (deposited_amount c') = unat (deposited_amount c) + unat a"
  by (auto simp: collateral_deposit_def checked)

lemma collateral_withdraw_ok:
  "collateral_withdraw a c = Inr c' \<longleftrightarrow>
     c' = c\<lparr> deposited_amount := deposited_amount c' \<rparr> \<and>
     unat (deposited_amount c) = unat a + unat (deposited_amount c')"
  by (auto simp: collateral_withdraw_def checked)

lemma loan_repay_ok:
  "loan_repay a l = Inr l' \<longleftrightarrow>
     l' = l\<lparr> loan_borrowed_amount_wads := loan_borrowed_amount_wads l' \<rparr> \<and>
     dec (loan_borrowed_amount_wads l) = dec a + dec (loan_borrowed_amount_wads l')"
  by (auto simp: loan_repay_def decimal_ok)

lemma loan_borrow_ok:
  "loan_borrow a l = Inr l' \<longleftrightarrow>
     l' = l\<lparr> loan_borrowed_amount_wads := loan_borrowed_amount_wads l' \<rparr> \<and>
     dec (loan_borrowed_amount_wads l') = dec (loan_borrowed_amount_wads l) + dec a"
  by (auto simp: loan_borrow_def decimal_ok)

section \<open>The invariant is kept\<close>

lemma obligation_new_wf: "obligation_wf (obligation_new \<lparr> init_ob_current_slot = s,
    init_ob_lending_market = m, init_ob_owner = w, init_ob_deposits = [], init_ob_borrows = [] \<rparr>)"
  by (simp add: obligation_wf_def obligation_new_def obligation_init_def)

lemma find_or_add_collateral_frame:
  "find_or_add_collateral_to_deposits k ob = Inr (ob', i) \<Longrightarrow> ob' = ob\<lparr> deposits := deposits ob' \<rparr>"
  by (auto simp: find_or_add_collateral_to_deposits_def split: option.splits if_splits)

lemma find_or_add_liquidity_frame:
  "find_or_add_liquidity_to_borrows k ob = Inr (ob', i) \<Longrightarrow> ob' = ob\<lparr> borrows := borrows ob' \<rparr>"
  by (auto simp: find_or_add_liquidity_to_borrows_def split: option.splits if_splits)

lemma find_or_add_collateral_wf:
  assumes "find_or_add_collateral_to_deposits k ob = Inr (ob', i)" "obligation_wf ob"
  shows "obligation_wf ob'"
proof -
  have "borrows ob' = borrows ob"
    using find_or_add_collateral_frame [OF assms(1)] by (metis obligation.select_convs(6) obligation.update_convs(5) obligation.surjective)
  moreover have "length (deposits ob') + length (borrows ob) \<le> MAX_OBLIGATION_RESERVES"
    using assms by (cases rule: deps.find_or_add_cases) (auto simp: obligation_wf_def)
  ultimately show ?thesis
    using assms deps.find_or_add_unique [OF assms(1)] by (simp add: obligation_wf_iff loans.unique_def)
qed

lemma find_or_add_liquidity_wf:
  assumes "find_or_add_liquidity_to_borrows k ob = Inr (ob', i)" "obligation_wf ob"
  shows "obligation_wf ob'"
proof -
  have "deposits ob' = deposits ob"
    using assms(1) by (auto simp: find_or_add_liquidity_to_borrows_def split: option.splits if_splits)
  moreover have "length (deposits ob) + length (borrows ob') \<le> MAX_OBLIGATION_RESERVES"
    using assms by (cases rule: loans.find_or_add_cases) (auto simp: obligation_wf_def)
  ultimately show ?thesis
    using assms loans.find_or_add_unique [OF assms(1)] by (simp add: obligation_wf_iff deps.unique_def)
qed

lemma update_deposit_wf:
  "obligation_wf ob \<Longrightarrow> i < length (deposits ob) \<Longrightarrow> deposit_reserve c = deposit_reserve (deposits ob ! i) \<Longrightarrow>
     obligation_wf (ob\<lparr> deposits := (deposits ob)[i := c] \<rparr>)"
  using deps.lookup_update [of ob i c "ob\<lparr> deposits := (deposits ob)[i := c] \<rparr>"]
  by (simp add: obligation_wf_iff loans.unique_def)

lemma update_loan_wf:
  "obligation_wf ob \<Longrightarrow> i < length (borrows ob) \<Longrightarrow> borrow_reserve l = borrow_reserve (borrows ob ! i) \<Longrightarrow>
     obligation_wf (ob\<lparr> borrows := (borrows ob)[i := l] \<rparr>)"
  using loans.lookup_update [of ob i l "ob\<lparr> borrows := (borrows ob)[i := l] \<rparr>"]
  by (simp add: obligation_wf_iff deps.unique_def)

lemma remove_deposit_wf:
  "obligation_wf ob \<Longrightarrow> i < length (deposits ob) \<Longrightarrow>
     obligation_wf (ob\<lparr> deposits := remove_at i (deposits ob) \<rparr>)"
  using deps.lookup_remove [of ob i "ob\<lparr> deposits := remove_at i (deposits ob) \<rparr>"]
  by (auto simp: obligation_wf_iff loans.unique_def)

lemma remove_loan_wf:
  "obligation_wf ob \<Longrightarrow> i < length (borrows ob) \<Longrightarrow>
     obligation_wf (ob\<lparr> borrows := remove_at i (borrows ob) \<rparr>)"
  using loans.lookup_remove [of ob i "ob\<lparr> borrows := remove_at i (borrows ob) \<rparr>"]
  by (auto simp: obligation_wf_iff deps.unique_def)

lemmas entry_wf = update_deposit_wf update_loan_wf remove_deposit_wf remove_loan_wf

lemma loan_repay_key: "loan_repay a l = Inr l' \<Longrightarrow> borrow_reserve l' = borrow_reserve l"
  by (auto simp: loan_repay_def)

lemma collateral_withdraw_key: "collateral_withdraw a c = Inr c' \<Longrightarrow> deposit_reserve c' = deposit_reserve c"
  by (auto simp: collateral_withdraw_def)

lemma obligation_repay_wf:
  "obligation_repay a i ob = Inr ob' \<Longrightarrow> obligation_wf ob \<Longrightarrow> obligation_wf ob'"
  by (auto simp: obligation_repay_def Let_def not_le loan_repay_key intro!: entry_wf split: if_splits)

lemma obligation_withdraw_wf:
  "obligation_withdraw a i ob = Inr ob' \<Longrightarrow> obligation_wf ob \<Longrightarrow> obligation_wf ob'"
  by (auto simp: obligation_withdraw_def Let_def not_le collateral_withdraw_key intro!: entry_wf
      split: if_splits)

section \<open>Behaviour\<close>

lemma find_collateral_ok:
  "find_collateral_in_deposits ob k = Inr (c, i) \<longleftrightarrow>
     find_collateral_index_in_deposits ob k = Some i \<and> c = deposits ob ! i"
  by (auto simp: find_collateral_in_deposits_def find_collateral_index_in_deposits_def)

lemma find_liquidity_ok:
  "find_liquidity_in_borrows ob k = Inr (l, i) \<longleftrightarrow>
     find_liquidity_index_in_borrows ob k = Some i \<and> l = borrows ob ! i"
  by (auto simp: find_liquidity_in_borrows_def find_liquidity_index_in_borrows_def)

lemma find_collateral_facts:
  assumes "find_collateral_in_deposits ob k = Inr (c, i)"
  shows "i < length (deposits ob)" "c = deposits ob ! i" "deposit_reserve c = k" "deps.lookup ob k = Some c"
proof -
  from assms have p: "position (\<lambda>c. deposit_reserve c = k) (deposits ob) = Some i" and c: "c = deposits ob ! i"
    by (simp_all add: find_collateral_ok find_collateral_index_in_deposits_def)
  from position_Some [OF p] c show "i < length (deposits ob)" "c = deposits ob ! i" "deposit_reserve c = k"
    by simp_all
  from p c show "deps.lookup ob k = Some c"
    by (simp add: deps.lookup_def entry_map_position)
qed

lemma find_liquidity_facts:
  assumes "find_liquidity_in_borrows ob k = Inr (l, i)"
  shows "i < length (borrows ob)" "l = borrows ob ! i" "borrow_reserve l = k" "loans.lookup ob k = Some l"
proof -
  from assms have p: "position (\<lambda>l. borrow_reserve l = k) (borrows ob) = Some i" and l: "l = borrows ob ! i"
    by (simp_all add: find_liquidity_ok find_liquidity_index_in_borrows_def)
  from position_Some [OF p] l show "i < length (borrows ob)" "l = borrows ob ! i" "borrow_reserve l = k"
    by simp_all
  from p l show "loans.lookup ob k = Some l"
    by (simp add: loans.lookup_def entry_map_position)
qed

text \<open>Repaying as an update of the map: a loan settled in full disappears, another one shrinks.\<close>

lemma obligation_repay_lookup:
  assumes "obligation_repay a i ob = Inr ob'" "obligation_wf ob"
    and "find_liquidity_in_borrows ob k = Inr (l, i)"
  shows "loans.lookup ob' =
      (loans.lookup ob)(k := if a = loan_borrowed_amount_wads l then None
        else (case loan_repay a l of Inl _ \<Rightarrow> None | Inr l' \<Rightarrow> Some l'))"
    and "deposits ob' = deposits ob"
    and "dec a \<le> dec (loan_borrowed_amount_wads l)"
proof -
  note f = find_liquidity_facts [OF assms(3)]
  from assms(2) have u: "loans.unique ob" by (simp add: obligation_wf_iff)
  from assms(1) f consider
      (all) "a = loan_borrowed_amount_wads l" "ob' = ob\<lparr> borrows := remove_at i (borrows ob) \<rparr>"
    | (part) l' where "a \<noteq> loan_borrowed_amount_wads l" "loan_repay a l = Inr l'"
        "ob' = ob\<lparr> borrows := (borrows ob)[i := l'] \<rparr>"
    by (auto simp: obligation_repay_def Let_def split: if_splits)
  then have "loans.lookup ob' =
      (loans.lookup ob)(k := if a = loan_borrowed_amount_wads l then None
        else (case loan_repay a l of Inl _ \<Rightarrow> None | Inr l' \<Rightarrow> Some l')) \<and>
      deposits ob' = deposits ob \<and> dec a \<le> dec (loan_borrowed_amount_wads l)"
  proof cases
    case all
    then show ?thesis using loans.lookup_remove [OF u f(1), of ob'] f by simp
  next
    case part
    have "dec a \<le> dec (loan_borrowed_amount_wads l)"
      using part(2) by (simp add: loan_repay_ok)
    with part show ?thesis
      using loans.lookup_update [OF u f(1), of l' ob'] f(2,3) loan_repay_key [OF part(2)] by simp
  qed
  then show "loans.lookup ob' =
      (loans.lookup ob)(k := if a = loan_borrowed_amount_wads l then None
        else (case loan_repay a l of Inl _ \<Rightarrow> None | Inr l' \<Rightarrow> Some l'))"
    "deposits ob' = deposits ob" "dec a \<le> dec (loan_borrowed_amount_wads l)" by blast+
qed

lemma obligation_withdraw_lookup:
  assumes "obligation_withdraw a i ob = Inr ob'" "obligation_wf ob"
    and "find_collateral_in_deposits ob k = Inr (c, i)"
  shows "deps.lookup ob' =
      (deps.lookup ob)(k := if a = deposited_amount c then None
        else Some (c\<lparr> deposited_amount := deposited_amount c - a \<rparr>))"
    and "borrows ob' = borrows ob"
    and "a \<le> deposited_amount c"
proof -
  note f = find_collateral_facts [OF assms(3)]
  from assms(2) have u: "deps.unique ob" by (simp add: obligation_wf_iff)
  from assms(1) f consider
      (all) "a = deposited_amount c" "ob' = ob\<lparr> deposits := remove_at i (deposits ob) \<rparr>"
    | (part) c' where "a \<noteq> deposited_amount c" "collateral_withdraw a c = Inr c'"
        "ob' = ob\<lparr> deposits := (deposits ob)[i := c'] \<rparr>"
    by (auto simp: obligation_withdraw_def Let_def split: if_splits)
  then have "deps.lookup ob' =
      (deps.lookup ob)(k := if a = deposited_amount c then None
        else Some (c\<lparr> deposited_amount := deposited_amount c - a \<rparr>)) \<and>
      borrows ob' = borrows ob \<and> a \<le> deposited_amount c"
  proof cases
    case all
    then show ?thesis using deps.lookup_remove [OF u f(1), of ob'] f by simp
  next
    case part
    from part(2) have c': "c' = c\<lparr> deposited_amount := deposited_amount c - a \<rparr>" "a \<le> deposited_amount c"
      by (auto simp: collateral_withdraw_def checked_sub_def split: if_splits)
    with part show ?thesis
      using deps.lookup_update [OF u f(1), of c' ob'] f by auto
  qed
  then show "deps.lookup ob' =
      (deps.lookup ob)(k := if a = deposited_amount c then None
        else Some (c\<lparr> deposited_amount := deposited_amount c - a \<rparr>))"
    "borrows ob' = borrows ob" "a \<le> deposited_amount c" by blast+
qed

text \<open>Interest never shrinks a debt, and only an index that went down is refused as negative.\<close>

lemma loan_accrue_interest_grows:
  assumes "loan_accrue_interest cumulative l = Inr l'"
  shows "dec (loan_borrowed_amount_wads l) \<le> dec (loan_borrowed_amount_wads l')"
    and "loan_cumulative_borrow_rate_wads l' = cumulative"
    and "borrow_reserve l' = borrow_reserve l \<and> loan_market_value l' = loan_market_value l"
proof -
  have "dec (loan_borrowed_amount_wads l) \<le> dec (loan_borrowed_amount_wads l') \<and>
      loan_cumulative_borrow_rate_wads l' = cumulative \<and>
      borrow_reserve l' = borrow_reserve l \<and> loan_market_value l' = loan_market_value l"
  proof (cases "cumulative = loan_cumulative_borrow_rate_wads l")
    case True
    with assms show ?thesis by (simp add: loan_accrue_interest_def)
  next
    case False
    with assms obtain q r a where
      ge: "dec (loan_cumulative_borrow_rate_wads l) \<le> dec cumulative"
      and q: "decimal_try_div cumulative (loan_cumulative_borrow_rate_wads l) = Inr q"
      and r: "rate_of_decimal q = Inr r"
      and a: "decimal_try_mul_rate (loan_borrowed_amount_wads l) r = Inr a"
      and l': "l' = l\<lparr> loan_borrowed_amount_wads := a, loan_cumulative_borrow_rate_wads := cumulative \<rparr>"
      by (auto simp: loan_accrue_interest_def split: if_splits)
    from decimal.div_ge_one [OF q ge] r have "wad \<le> dec (decimal_from_rate r)" by (simp add: rate_ok)
    with decimal.mul_ge_left [of _ "decimal_from_rate r" a] a l' show ?thesis
      by (simp add: decimal_try_mul_rate_def)
  qed
  then show "dec (loan_borrowed_amount_wads l) \<le> dec (loan_borrowed_amount_wads l')"
    "loan_cumulative_borrow_rate_wads l' = cumulative"
    "borrow_reserve l' = borrow_reserve l \<and> loan_market_value l' = loan_market_value l" by blast+
qed

lemma loan_accrue_interest_negative:
  "loan_accrue_interest cumulative l = Inl (lending NegativeInterestRate) \<longleftrightarrow>
     cumulative < loan_cumulative_borrow_rate_wads l"
  by (auto simp: loan_accrue_interest_def attempt_Inl_iff decimal_err rate_err)

text \<open>
  What may be withdrawn: taking out collateral worth at most this value, at its loan-to-value
  ratio, leaves the borrowed value within the allowed one.
\<close>

lemma max_withdraw_value_healthy:
  assumes "max_withdraw_value ob ltv = Inr m" "rat ltv \<noteq> 0" "borrowed_value ob \<le> allowed_borrow_value ob"
  shows "dec (borrowed_value ob) * wad + dec m * rat ltv \<le> dec (allowed_borrow_value ob) * wad"
proof (cases "allowed_borrow_value ob \<le> borrowed_value ob")
  case True
  with assms show ?thesis by (auto simp: max_withdraw_value_def)
next
  case False
  moreover have "ltv \<noteq> rate_zero" using assms(2) by auto
  ultimately obtain spare where s: "decimal_try_sub (allowed_borrow_value ob) (borrowed_value ob) = Inr spare"
    and m: "decimal_try_div spare (decimal_from_rate ltv) = Inr m"
    using assms(1) by (auto simp: max_withdraw_value_def decimal_try_div_rate_def)
  from decimal.div_bounds [OF m] have "dec m * rat ltv \<le> dec spare * wad" by simp
  moreover from s have "dec (allowed_borrow_value ob) = dec (borrowed_value ob) + dec spare"
    by (simp add: decimal_ok)
  ultimately show ?thesis by (simp add: add_mult_distrib)
qed

text \<open>
  One liquidation settles at most the whole loan, and at most the share of it that half of the
  obligation's debt stands for.
\<close>

lemma rat_close_factor: "rat (rate_from_percent LIQUIDATION_CLOSE_FACTOR) = wad div 2"
  by (simp add: LIQUIDATION_CLOSE_FACTOR_def wad_def)

lemma max_liquidation_amount_bounds:
  assumes "max_liquidation_amount ob l = Inr a"
  shows "dec a \<le> dec (loan_borrowed_amount_wads l)"
    and "dec a * dec (loan_market_value l) * 2 \<le> dec (loan_borrowed_amount_wads l) * dec (borrowed_value ob)"
proof -
  from assms obtain half pct where
    half: "decimal_try_mul (borrowed_value ob) (decimal_from_rate (rate_from_percent LIQUIDATION_CLOSE_FACTOR)) = Inr half"
    and pct: "decimal_try_div (min half (loan_market_value l)) (loan_market_value l) = Inr pct"
    and a: "decimal_try_mul (loan_borrowed_amount_wads l) pct = Inr a"
    by (auto simp: max_liquidation_amount_def decimal_try_mul_rate_def Let_def)
  have le: "dec pct \<le> wad" using decimal.div_le_one [OF pct] by (simp add: dec_min)
  from decimal.mul_le_left [OF a le] show "dec a \<le> dec (loan_borrowed_amount_wads l)" .
  from half have "dec half = dec (borrowed_value ob) * (wad div 2) div wad"
    by (simp only: decimal_ok dec_from_rate rat_close_factor)
  also have "\<dots> = dec (borrowed_value ob) div 2"
    by (simp add: wad_def div_mult2_eq [symmetric] flip: mult.assoc)
  finally have h: "dec half * 2 \<le> dec (borrowed_value ob)" by simp
  from decimal.mul_bounds [OF a] have "dec a * wad \<le> dec (loan_borrowed_amount_wads l) * dec pct" by simp
  moreover have "dec (min half (loan_market_value l)) * wad \<le> dec half * wad"
    by (intro mult_le_mono1) (simp add: dec_min)
  with decimal.div_bounds [OF pct] have "dec pct * dec (loan_market_value l) \<le> dec half * wad"
    by (blast intro: le_trans)
  ultimately have "dec a * wad * dec (loan_market_value l) \<le> dec (loan_borrowed_amount_wads l) * (dec half * wad)"
    using mult_le_mono1 [of "dec a * wad"] mult_le_mono2 [of "dec pct * dec (loan_market_value l)"]
    by (metis (no_types) le_trans mult.assoc)
  then have "dec a * dec (loan_market_value l) * wad \<le> dec (loan_borrowed_amount_wads l) * dec half * wad"
    by (simp only: mult_ac)
  then have "dec a * dec (loan_market_value l) \<le> dec (loan_borrowed_amount_wads l) * dec half"
    by (simp only: mult_le_cancel2 wad_pos simp_thms)
  then have "dec a * dec (loan_market_value l) * 2 \<le> dec (loan_borrowed_amount_wads l) * (dec half * 2)" by simp
  also have "\<dots> \<le> dec (loan_borrowed_amount_wads l) * dec (borrowed_value ob)" using h by (rule mult_le_mono2)
  finally show "dec a * dec (loan_market_value l) * 2 \<le> dec (loan_borrowed_amount_wads l) * dec (borrowed_value ob)" .
qed

end
