(* ===== verification/Obligation_Pack.thy ===== *)
theory Obligation_Pack
  imports Obligation
begin

text \<open>
  The account data of an obligation (\<open>impl Pack for Obligation\<close> of
  token-lending/program/src/state/obligation.rs): a fixed head and an area of 776 bytes in which
  the deposits (56 bytes each) and then the borrows (80 bytes each) are written one after the
  other. Both loops are instances of one loop over entries of a fixed size.
\<close>

section \<open>Entries of a fixed size\<close>

text \<open>
  \<open>for x in xs: array_mut_ref![data, offset, n] <- enc x; offset += n\<close>. The result is the offset
  after the loop and the data; a slice out of range is a panic.
\<close>

fun pack_entries ::
    "nat \<Rightarrow> ('a \<Rightarrow> byte list result) \<Rightarrow> 'a list \<Rightarrow> nat \<Rightarrow> byte list \<Rightarrow> (nat \<times> byte list) result" where
  "pack_entries n enc [] offset data = Inr (offset, data)"
| "pack_entries n enc (x # xs) offset data =
     (if length data < offset + n then Inl Panic
      else attempt (enc x) (\<lambda>b.
        pack_entries n enc xs (offset + n) (take offset data @ b @ drop (offset + n) data)))"

fun unpack_entries ::
    "nat \<Rightarrow> (byte list \<Rightarrow> 'a result) \<Rightarrow> nat \<Rightarrow> nat \<Rightarrow> byte list \<Rightarrow> (nat \<times> 'a list) result" where
  "unpack_entries n dcd 0 offset data = Inr (offset, [])"
| "unpack_entries n dcd (Suc k) offset data =
     (if length data < offset + n then Inl Panic
      else attempt (dcd (take n (drop offset data))) (\<lambda>x.
        attempt (unpack_entries n dcd k (offset + n) data) (\<lambda>(end_offset, xs).
        Inr (end_offset, x # xs))))"

lemma pack_entries_frame:
  assumes "pack_entries n enc xs offset data = Inr (end_offset, data')" "offset \<le> length data"
    and "\<And>x b. enc x = Inr b \<Longrightarrow> length b = n"
  shows "end_offset = offset + n * length xs \<and> length data' = length data \<and> end_offset \<le> length data \<and>
    take offset data' = take offset data \<and> drop end_offset data' = drop end_offset data"
  using assms(1,2)
proof (induction xs arbitrary: offset data)
  case Nil
  then show ?case by simp
next
  case (Cons x xs)
  then obtain b where b: "enc x = Inr b" and fit: "offset + n \<le> length data"
    and rest: "pack_entries n enc xs (offset + n) (take offset data @ b @ drop (offset + n) data) =
      Inr (end_offset, data')"
    by (auto simp: not_less)
  define mid where "mid = take offset data @ b @ drop (offset + n) data"
  have len: "length mid = length data" using assms(3) [OF b] fit by (simp add: mid_def)
  have "offset + n \<le> length mid" using len fit by simp
  from Cons.IH [OF rest [folded mid_def] this, unfolded len]
  have IH: "end_offset = offset + n + n * length xs" "length data' = length data" "end_offset \<le> length data"
    "take (offset + n) data' = take (offset + n) mid" "drop end_offset data' = drop end_offset mid"
    by blast+
  have "take offset data' = take offset mid"
    using IH(4) by (metis le_add1 min.absorb1 take_take)
  then have "take offset data' = take offset data" using fit by (simp add: mid_def)
  moreover have "drop end_offset mid = drop end_offset data"
    using IH(1) assms(3) [OF b] fit by (simp add: mid_def add.commute)
  ultimately show ?case using IH by (simp add: algebra_simps)
qed

lemma unpack_pack_entries:
  assumes "pack_entries n enc xs offset data = Inr (end_offset, data')" "offset \<le> length data"
    and enc: "\<And>x b. enc x = Inr b \<Longrightarrow> length b = n"
    and dcd: "\<And>x b. x \<in> set xs \<Longrightarrow> enc x = Inr b \<Longrightarrow> dcd b = Inr x"
    and same: "take end_offset final = take end_offset data'" "end_offset \<le> length final"
  shows "unpack_entries n dcd (length xs) offset final = Inr (end_offset, xs)"
  using assms(1,2,4,5,6)
proof (induction xs arbitrary: offset data)
  case Nil
  then show ?case by simp
next
  case (Cons x xs)
  from Cons.prems obtain b where b: "enc x = Inr b" and fit: "offset + n \<le> length data"
    and rest: "pack_entries n enc xs (offset + n) (take offset data @ b @ drop (offset + n) data) =
      Inr (end_offset, data')"
    by (auto simp: not_less)
  define mid where "mid = take offset data @ b @ drop (offset + n) data"
  have lb: "length b = n" using enc b by blast
  then have len: "length mid = length data" using fit by (simp add: mid_def)
  have fr: "end_offset = offset + n + n * length xs" "take (offset + n) data' = take (offset + n) mid"
    using pack_entries_frame [OF rest [folded mid_def] _ enc] len fit by simp_all
  from Cons.IH [OF rest [folded mid_def]] len fit Cons.prems(3,4,5)
  have IH: "unpack_entries n dcd (length xs) (offset + n) final = Inr (end_offset, xs)" by simp
  have "take (offset + n) final = take (offset + n) data'"
    using Cons.prems(4) fr(1) by (metis le_add1 min.absorb1 take_take)
  then have "take n (drop offset final) = take n (drop offset mid)"
    using fr(2) by (metis add.commute take_drop)
  also have "\<dots> = b" using fit lb by (simp add: mid_def)
  finally have "take n (drop offset final) = b" .
  moreover have "dcd b = Inr x" using Cons.prems(3) b by simp
  moreover have "offset + n \<le> length final" using Cons.prems(5) fr(1) by simp
  ultimately show ?case using IH by simp
qed

lemma pack_entries_total:
  assumes "\<And>x. x \<in> set xs \<Longrightarrow> \<exists>b. enc x = Inr b" "\<And>x b. enc x = Inr b \<Longrightarrow> length b = n"
    and "offset + n * length xs \<le> length data"
  shows "\<exists>r. pack_entries n enc xs offset data = Inr r"
  using assms(1,3)
proof (induction xs arbitrary: offset data)
  case Nil
  then show ?case by simp
next
  case (Cons x xs)
  from Cons.prems(1) [of x] obtain b where b: "enc x = Inr b" by auto
  then have lb: "length b = n" using assms(2) by blast
  define mid where "mid = take offset data @ b @ drop (offset + n) data"
  from Cons.prems(2) have fit: "offset + n \<le> length data" by simp
  with lb have "length mid = length data" by (simp add: mid_def)
  with Cons.IH [of "offset + n" mid] Cons.prems b fit show ?case
    by (auto simp: mid_def not_less)
qed

section \<open>The entries of an obligation\<close>

definition OBLIGATION_COLLATERAL_LEN :: nat where
  "OBLIGATION_COLLATERAL_LEN = 56"

definition OBLIGATION_LIQUIDITY_LEN :: nat where
  "OBLIGATION_LIQUIDITY_LEN = 80"

definition OBLIGATION_LEN :: nat where
  "OBLIGATION_LEN = 916"

definition collateral_entry_write :: "obligation_collateral \<Rightarrow> byte list result" where
  "collateral_entry_write c =
     attempt (pack_decimal (coll_market_value c)) (\<lambda>market_value.
     Inr (bytes32_to (deposit_reserve c) @ u64_to (deposited_amount c) @ market_value))"

definition collateral_entry_read :: "byte list \<Rightarrow> obligation_collateral result" where
  "collateral_entry_read flat =
     (case layout [32, 8, 16] flat of
        [reserve_key, amount, value] \<Rightarrow>
          Inr \<lparr> deposit_reserve = bytes32_from reserve_key, deposited_amount = u64_from amount,
            coll_market_value = unpack_decimal value \<rparr>
      | _ \<Rightarrow> Inl Panic)"

definition liquidity_entry_write :: "obligation_liquidity \<Rightarrow> byte list result" where
  "liquidity_entry_write l =
     attempt (pack_decimal (loan_cumulative_borrow_rate_wads l)) (\<lambda>cumulative.
     attempt (pack_decimal (loan_borrowed_amount_wads l)) (\<lambda>borrowed.
     attempt (pack_decimal (loan_market_value l)) (\<lambda>market_value.
     Inr (bytes32_to (borrow_reserve l) @ cumulative @ borrowed @ market_value))))"

definition liquidity_entry_read :: "byte list \<Rightarrow> obligation_liquidity result" where
  "liquidity_entry_read flat =
     (case layout [32, 16, 16, 16] flat of
        [reserve_key, cumulative, borrowed, value] \<Rightarrow>
          Inr \<lparr> borrow_reserve = bytes32_from reserve_key,
            loan_cumulative_borrow_rate_wads = unpack_decimal cumulative,
            loan_borrowed_amount_wads = unpack_decimal borrowed,
            loan_market_value = unpack_decimal value \<rparr>
      | _ \<Rightarrow> Inl Panic)"

lemma collateral_entry_length: "collateral_entry_write c = Inr b \<Longrightarrow> length b = OBLIGATION_COLLATERAL_LEN"
  by (auto simp: collateral_entry_write_def OBLIGATION_COLLATERAL_LEN_def)

lemma liquidity_entry_length: "liquidity_entry_write l = Inr b \<Longrightarrow> length b = OBLIGATION_LIQUIDITY_LEN"
  by (auto simp: liquidity_entry_write_def OBLIGATION_LIQUIDITY_LEN_def)

lemma collateral_entry_roundtrip: "collateral_entry_write c = Inr b \<Longrightarrow> collateral_entry_read b = Inr c"
  by (auto simp: collateral_entry_write_def collateral_entry_read_def)

lemma liquidity_entry_roundtrip: "liquidity_entry_write l = Inr b \<Longrightarrow> liquidity_entry_read b = Inr l"
  by (auto simp: liquidity_entry_write_def liquidity_entry_read_def)

section \<open>The obligation\<close>

definition obligation_data_flat :: "obligation \<Rightarrow> byte list \<Rightarrow> byte list result" where
  "obligation_data_flat ob data_flat =
     attempt (pack_entries OBLIGATION_COLLATERAL_LEN collateral_entry_write (deposits ob) 0 data_flat)
       (\<lambda>(offset, data).
     attempt (pack_entries OBLIGATION_LIQUIDITY_LEN liquidity_entry_write (borrows ob) offset data)
       (\<lambda>(offset, data). Inr data))"

definition obligation_write :: "obligation \<Rightarrow> byte list \<Rightarrow> byte list result" where
  "obligation_write ob output =
     attempt (pack_decimal (deposited_value ob)) (\<lambda>deposited.
     attempt (pack_decimal (borrowed_value ob)) (\<lambda>borrowed.
     attempt (pack_decimal (allowed_borrow_value ob)) (\<lambda>allowed.
     attempt (pack_decimal (unhealthy_borrow_value ob)) (\<lambda>unhealthy.
     if 256 \<le> length (deposits ob) \<or> 256 \<le> length (borrows ob) then Inl Panic
     else attempt (obligation_data_flat ob (drop 140 output)) (\<lambda>data_flat.
     Inr (u8_to (ob_version ob) @
       u64_to (slot (ob_last_update ob)) @
       pack_bool (stale (ob_last_update ob)) @
       bytes32_to (ob_lending_market ob) @
       bytes32_to (ob_owner ob) @
       deposited @ borrowed @ allowed @ unhealthy @
       u8_to (of_nat (length (deposits ob))) @
       u8_to (of_nat (length (borrows ob))) @
       data_flat))))))"

definition obligation_pack_into_slice :: "obligation \<Rightarrow> byte list \<Rightarrow> byte list result" where
  "obligation_pack_into_slice ob = write_array OBLIGATION_LEN (obligation_write ob)"

definition obligation_read :: "byte list \<Rightarrow> obligation result" where
  "obligation_read input =
     (case layout [1, 8, 1, 32, 32, 16, 16, 16, 16, 1, 1, 56 + 80 * (10 - 1)] input of
        [ver, last_update_slot, last_update_stale, market, own, deposited, borrowed, allowed,
         unhealthy, deposits_len, borrows_len, data_flat] \<Rightarrow>
       if PROGRAM_VERSION < u8_from ver then Inl (Err InvalidAccountData)
       else
         attempt (unpack_entries OBLIGATION_COLLATERAL_LEN collateral_entry_read
           (unat (u8_from deposits_len)) 0 data_flat) (\<lambda>(offset, deps).
         attempt (unpack_entries OBLIGATION_LIQUIDITY_LEN liquidity_entry_read
           (unat (u8_from borrows_len)) offset data_flat) (\<lambda>(offset, loans).
         attempt (unpack_bool last_update_stale) (\<lambda>stale_mark.
         Inr \<lparr>
           ob_version = u8_from ver,
           ob_last_update = \<lparr> slot = u64_from last_update_slot, stale = stale_mark \<rparr>,
           ob_lending_market = bytes32_from market,
           ob_owner = bytes32_from own,
           deposits = deps,
           borrows = loans,
           deposited_value = unpack_decimal deposited,
           borrowed_value = unpack_decimal borrowed,
           allowed_borrow_value = unpack_decimal allowed,
           unhealthy_borrow_value = unpack_decimal unhealthy \<rparr>)))
      | _ \<Rightarrow> Inl Panic)"

definition obligation_unpack_from_slice :: "byte list \<Rightarrow> obligation result" where
  "obligation_unpack_from_slice = read_array OBLIGATION_LEN obligation_read"

text \<open>
  What can be packed: a known version, entries that fit the 776 bytes, decimals that fit 128 bits.
\<close>

definition obligation_fits :: "obligation \<Rightarrow> bool" where
  "obligation_fits ob = (ob_version ob \<le> PROGRAM_VERSION \<and>
     56 * length (deposits ob) + 80 * length (borrows ob) \<le> 776 \<and>
     (\<forall>c \<in> set (deposits ob). dec (coll_market_value c) < 2 ^ 128) \<and>
     (\<forall>l \<in> set (borrows ob). dec (loan_cumulative_borrow_rate_wads l) < 2 ^ 128 \<and>
       dec (loan_borrowed_amount_wads l) < 2 ^ 128 \<and> dec (loan_market_value l) < 2 ^ 128) \<and>
     dec (deposited_value ob) < 2 ^ 128 \<and> dec (borrowed_value ob) < 2 ^ 128 \<and>
     dec (allowed_borrow_value ob) < 2 ^ 128 \<and> dec (unhealthy_borrow_value ob) < 2 ^ 128)"

text \<open>An obligation within the limit of ten entries always has room, if at least one is a deposit.\<close>

lemma obligation_wf_room:
  "obligation_wf ob \<Longrightarrow> deposits ob \<noteq> [] \<or> length (borrows ob) \<le> 9 \<Longrightarrow>
     56 * length (deposits ob) + 80 * length (borrows ob) \<le> 776"
  by (cases "deposits ob") (auto simp: obligation_wf_def MAX_OBLIGATION_RESERVES_def)

lemma collateral_entry_total:
  "dec (coll_market_value c) < 2 ^ 128 \<Longrightarrow> \<exists>b. collateral_entry_write c = Inr b"
  using pack_decimal_total [of "coll_market_value c"] by (auto simp: collateral_entry_write_def)

lemma liquidity_entry_total:
  "dec (loan_cumulative_borrow_rate_wads l) < 2 ^ 128 \<Longrightarrow> dec (loan_borrowed_amount_wads l) < 2 ^ 128 \<Longrightarrow>
     dec (loan_market_value l) < 2 ^ 128 \<Longrightarrow> \<exists>b. liquidity_entry_write l = Inr b"
  using pack_decimal_total [of "loan_cumulative_borrow_rate_wads l"]
    pack_decimal_total [of "loan_borrowed_amount_wads l"] pack_decimal_total [of "loan_market_value l"]
  by (auto simp: liquidity_entry_write_def)

lemma pack_deposits_frame:
  assumes "pack_entries OBLIGATION_COLLATERAL_LEN collateral_entry_write xs offset data = Inr (end_offset, data')"
    and "offset \<le> length data"
  shows "end_offset = offset + 56 * length xs \<and> length data' = length data \<and> end_offset \<le> length data \<and>
    take offset data' = take offset data"
  using pack_entries_frame [OF assms] collateral_entry_length
  unfolding OBLIGATION_COLLATERAL_LEN_def by blast

lemma pack_loans_frame:
  assumes "pack_entries OBLIGATION_LIQUIDITY_LEN liquidity_entry_write xs offset data = Inr (end_offset, data')"
    and "offset \<le> length data"
  shows "end_offset = offset + 80 * length xs \<and> length data' = length data \<and> end_offset \<le> length data \<and>
    take offset data' = take offset data"
  using pack_entries_frame [OF assms] liquidity_entry_length
  unfolding OBLIGATION_LIQUIDITY_LEN_def by blast

lemma data_flat_cases:
  assumes "obligation_data_flat ob data = Inr out"
  obtains mid where
    "pack_entries OBLIGATION_COLLATERAL_LEN collateral_entry_write (deposits ob) 0 data =
      Inr (56 * length (deposits ob), mid)"
    "pack_entries OBLIGATION_LIQUIDITY_LEN liquidity_entry_write (borrows ob) (56 * length (deposits ob)) mid =
      Inr (56 * length (deposits ob) + 80 * length (borrows ob), out)"
    "length mid = length data" "length out = length data"
    "56 * length (deposits ob) + 80 * length (borrows ob) \<le> length data"
    "take (56 * length (deposits ob)) out = take (56 * length (deposits ob)) mid"
proof -
  from assms obtain o1 mid o2 where
    d: "pack_entries OBLIGATION_COLLATERAL_LEN collateral_entry_write (deposits ob) 0 data = Inr (o1, mid)"
    and b: "pack_entries OBLIGATION_LIQUIDITY_LEN liquidity_entry_write (borrows ob) o1 mid = Inr (o2, out)"
    by (auto simp: obligation_data_flat_def)
  from pack_deposits_frame [OF d le0]
  have o1: "o1 = 56 * length (deposits ob)" "length mid = length data" "o1 \<le> length data" by simp_all
  then have "o1 \<le> length mid" by simp
  from pack_loans_frame [OF b this]
  have "o2 = o1 + 80 * length (borrows ob)" "length out = length mid" "o2 \<le> length mid"
    "take o1 out = take o1 mid" by blast+
  with d b o1 that show thesis by simp
qed

lemma data_flat_total:
  assumes "obligation_fits ob" "length data = 776"
  shows "\<exists>out. obligation_data_flat ob data = Inr out"
proof -
  have "\<exists>r. pack_entries OBLIGATION_COLLATERAL_LEN collateral_entry_write (deposits ob) 0 data = Inr r"
    using assms
    by (intro pack_entries_total collateral_entry_length collateral_entry_total)
      (auto simp: obligation_fits_def OBLIGATION_COLLATERAL_LEN_def)
  then obtain o1 mid where
    d: "pack_entries OBLIGATION_COLLATERAL_LEN collateral_entry_write (deposits ob) 0 data = Inr (o1, mid)"
    by auto
  from pack_deposits_frame [OF d le0]
  have "o1 + 80 * length (borrows ob) \<le> length mid"
    using assms by (simp add: obligation_fits_def)
  then have "\<exists>r. pack_entries OBLIGATION_LIQUIDITY_LEN liquidity_entry_write (borrows ob) o1 mid = Inr r"
    using assms
    by (intro pack_entries_total liquidity_entry_length liquidity_entry_total)
      (auto simp: obligation_fits_def OBLIGATION_LIQUIDITY_LEN_def)
  with d show ?thesis by (auto simp: obligation_data_flat_def)
qed

lemma obligation_write_cases:
  assumes "obligation_write ob output = Inr bs"
  obtains d b a u flat where "pack_decimal (deposited_value ob) = Inr d"
    "pack_decimal (borrowed_value ob) = Inr b" "pack_decimal (allowed_borrow_value ob) = Inr a"
    "pack_decimal (unhealthy_borrow_value ob) = Inr u"
    "length (deposits ob) < 256" "length (borrows ob) < 256"
    "obligation_data_flat ob (drop 140 output) = Inr flat"
    "bs = u8_to (ob_version ob) @ u64_to (slot (ob_last_update ob)) @ pack_bool (stale (ob_last_update ob)) @
       bytes32_to (ob_lending_market ob) @ bytes32_to (ob_owner ob) @ d @ b @ a @ u @
       u8_to (of_nat (length (deposits ob))) @ u8_to (of_nat (length (borrows ob))) @ flat"
  using assms by (auto simp: obligation_write_def not_le)

lemma unpack_data_flat:
  assumes "obligation_data_flat ob data = Inr flat"
  shows "unpack_entries OBLIGATION_COLLATERAL_LEN collateral_entry_read (length (deposits ob)) 0 flat =
      Inr (56 * length (deposits ob), deposits ob)"
    and "\<exists>o2. unpack_entries OBLIGATION_LIQUIDITY_LEN liquidity_entry_read (length (borrows ob))
      (56 * length (deposits ob)) flat = Inr (o2, borrows ob)"
proof -
  from assms obtain mid where
    d: "pack_entries OBLIGATION_COLLATERAL_LEN collateral_entry_write (deposits ob) 0 data =
      Inr (56 * length (deposits ob), mid)"
    and b: "pack_entries OBLIGATION_LIQUIDITY_LEN liquidity_entry_write (borrows ob) (56 * length (deposits ob)) mid =
      Inr (56 * length (deposits ob) + 80 * length (borrows ob), flat)"
    and len: "length mid = length data" "length flat = length data"
      "56 * length (deposits ob) + 80 * length (borrows ob) \<le> length data"
    and tk: "take (56 * length (deposits ob)) flat = take (56 * length (deposits ob)) mid"
    by (rule data_flat_cases)
  show "unpack_entries OBLIGATION_COLLATERAL_LEN collateral_entry_read (length (deposits ob)) 0 flat =
      Inr (56 * length (deposits ob), deposits ob)"
    by (rule unpack_pack_entries [OF d _ collateral_entry_length collateral_entry_roundtrip tk])
      (use len in simp_all)
  have "unpack_entries OBLIGATION_LIQUIDITY_LEN liquidity_entry_read (length (borrows ob))
      (56 * length (deposits ob)) flat = Inr (56 * length (deposits ob) + 80 * length (borrows ob), borrows ob)"
    by (rule unpack_pack_entries [OF b _ liquidity_entry_length liquidity_entry_roundtrip])
      (use len in simp_all)
  then show "\<exists>o2. unpack_entries OBLIGATION_LIQUIDITY_LEN liquidity_entry_read (length (borrows ob))
      (56 * length (deposits ob)) flat = Inr (o2, borrows ob)" ..
qed

interpretation obligation_pack: packed OBLIGATION_LEN obligation_fits obligation_write obligation_read
proof
  fix ob :: obligation and dst bs :: "byte list"
  assume fits: "obligation_fits ob" and len: "length dst = OBLIGATION_LEN"
  then obtain flat where "obligation_data_flat ob (drop 140 dst) = Inr flat"
    using data_flat_total [of ob "drop 140 dst"] by (auto simp: OBLIGATION_LEN_def)
  moreover have "length (deposits ob) < 256" "length (borrows ob) < 256"
    using fits by (simp_all add: obligation_fits_def)
  ultimately show "\<exists>bs. obligation_write ob dst = Inr bs"
    using fits pack_decimal_total [of "deposited_value ob"] pack_decimal_total [of "borrowed_value ob"]
      pack_decimal_total [of "allowed_borrow_value ob"] pack_decimal_total [of "unhealthy_borrow_value ob"]
    by (auto simp: obligation_write_def obligation_fits_def)
next
  fix ob :: obligation and dst bs :: "byte list"
  assume len: "length dst = OBLIGATION_LEN" and w: "obligation_write ob dst = Inr bs"
  from w show "length bs = OBLIGATION_LEN"
  proof (rule obligation_write_cases)
    fix d b a u flat
    assume "obligation_data_flat ob (drop 140 dst) = Inr flat"
    then have "length flat = 776"
      using len by (elim data_flat_cases) (simp add: OBLIGATION_LEN_def)
    moreover assume "bs = u8_to (ob_version ob) @ u64_to (slot (ob_last_update ob)) @
       pack_bool (stale (ob_last_update ob)) @
       bytes32_to (ob_lending_market ob) @ bytes32_to (ob_owner ob) @ d @ b @ a @ u @
       u8_to (of_nat (length (deposits ob))) @ u8_to (of_nat (length (borrows ob))) @ flat"
      "pack_decimal (deposited_value ob) = Inr d"
      "pack_decimal (borrowed_value ob) = Inr b" "pack_decimal (allowed_borrow_value ob) = Inr a"
      "pack_decimal (unhealthy_borrow_value ob) = Inr u"
    ultimately show ?thesis by (simp add: OBLIGATION_LEN_def)
  qed
next
  fix ob :: obligation and dst bs :: "byte list"
  assume fits: "obligation_fits ob" and len: "length dst = OBLIGATION_LEN" and w: "obligation_write ob dst = Inr bs"
  from w show "obligation_read bs = Inr ob"
  proof (rule obligation_write_cases)
    fix d b a u flat
    assume flat: "obligation_data_flat ob (drop 140 dst) = Inr flat"
      and n: "length (deposits ob) < 256" "length (borrows ob) < 256"
      and bs: "bs = u8_to (ob_version ob) @ u64_to (slot (ob_last_update ob)) @
       pack_bool (stale (ob_last_update ob)) @
       bytes32_to (ob_lending_market ob) @ bytes32_to (ob_owner ob) @ d @ b @ a @ u @
       u8_to (of_nat (length (deposits ob))) @ u8_to (of_nat (length (borrows ob))) @ flat"
      and p: "pack_decimal (deposited_value ob) = Inr d"
      "pack_decimal (borrowed_value ob) = Inr b" "pack_decimal (allowed_borrow_value ob) = Inr a"
      "pack_decimal (unhealthy_borrow_value ob) = Inr u"
    have fl: "length flat = 776"
      using flat len by (elim data_flat_cases) (simp add: OBLIGATION_LEN_def)
    have v: "\<not> PROGRAM_VERSION < ob_version ob" using fits by (simp add: obligation_fits_def not_less)
    have nd: "unat (of_nat (length (deposits ob)) :: u8) = length (deposits ob)"
      "unat (of_nat (length (borrows ob)) :: u8) = length (borrows ob)"
      using n by (simp_all add: unat_of_nat)
    note un = unpack_data_flat [OF flat]
    then obtain o2 where o2: "unpack_entries OBLIGATION_LIQUIDITY_LEN liquidity_entry_read (length (borrows ob))
      (56 * length (deposits ob)) flat = Inr (o2, borrows ob)" by blast
    note dec_len = p [THEN length_pack_decimal] and dec_val = p [THEN unpack_pack_decimal]
    show ?thesis unfolding bs obligation_read_def
      by (simp add: dec_len dec_val fl v nd un(1) o2 del: attempt_Inr_iff unpack_pack_decimal length_pack_decimal)
  qed
qed

end
