(* ===== verification/Reserve_Liquidity.thy ===== *)
theory Reserve_Liquidity
  imports Rates Codec
begin

text \<open>
  The liquidity side of a reserve (\<open>ReserveLiquidity\<close> of
  token-lending/program/src/state/reserve.rs): what is available, what is borrowed, and the index
  that compounds the interest. \<open>SLOTS_PER_YEAR\<close> is built from three constants of Solana's clock
  module, which are parameters here.
\<close>

section \<open>Operations\<close>

record clock_constants =
  default_ticks_per_second :: u64
  default_ticks_per_slot :: u64
  seconds_per_day :: u64

definition SLOTS_PER_YEAR :: "clock_constants \<Rightarrow> u64" where
  "SLOTS_PER_YEAR k =
     default_ticks_per_second k div default_ticks_per_slot k * seconds_per_day k * 365"

record reserve_liquidity =
  liq_mint_pubkey :: pubkey
  mint_decimals :: u8
  liq_supply_pubkey :: pubkey
  fee_receiver :: pubkey
  oracle_pubkey :: "pubkey option"
  available_amount :: u64
  borrowed_amount_wads :: decimal
  cumulative_borrow_rate_wads :: decimal
  market_price :: decimal

record new_reserve_liquidity_params =
  new_liq_mint_pubkey :: pubkey
  new_liq_mint_decimals :: u8
  new_liq_supply_pubkey :: pubkey
  new_liq_fee_receiver :: pubkey
  new_liq_oracle_pubkey :: "pubkey option"
  new_liq_market_price :: decimal

definition reserve_liquidity_new :: "new_reserve_liquidity_params \<Rightarrow> reserve_liquidity" where
  "reserve_liquidity_new params = \<lparr>
     liq_mint_pubkey = new_liq_mint_pubkey params,
     mint_decimals = new_liq_mint_decimals params,
     liq_supply_pubkey = new_liq_supply_pubkey params,
     fee_receiver = new_liq_fee_receiver params,
     oracle_pubkey = new_liq_oracle_pubkey params,
     available_amount = 0,
     borrowed_amount_wads = decimal_zero,
     cumulative_borrow_rate_wads = decimal_one,
     market_price = new_liq_market_price params \<rparr>"

definition total_supply :: "reserve_liquidity \<Rightarrow> decimal result" where
  "total_supply l = decimal_try_add (decimal_from_u64 (available_amount l)) (borrowed_amount_wads l)"

definition liquidity_deposit :: "u64 \<Rightarrow> reserve_liquidity \<Rightarrow> reserve_liquidity result" where
  "liquidity_deposit liquidity_amount l =
     attempt (ok_or (checked_add (available_amount l) liquidity_amount) math_overflow) (\<lambda>a.
     Inr (l\<lparr> available_amount := a \<rparr>))"

definition liquidity_withdraw :: "u64 \<Rightarrow> reserve_liquidity \<Rightarrow> reserve_liquidity result" where
  "liquidity_withdraw liquidity_amount l =
     (if available_amount l < liquidity_amount then Inl (lending InsufficientLiquidity)
      else attempt (ok_or (checked_sub (available_amount l) liquidity_amount) math_overflow) (\<lambda>a.
        Inr (l\<lparr> available_amount := a \<rparr>)))"

definition liquidity_borrow :: "decimal \<Rightarrow> reserve_liquidity \<Rightarrow> reserve_liquidity result" where
  "liquidity_borrow borrow_decimal l =
     attempt (decimal_try_floor_u64 borrow_decimal) (\<lambda>borrow_amount.
     if available_amount l < borrow_amount then Inl (lending InsufficientLiquidity)
     else
       attempt (ok_or (checked_sub (available_amount l) borrow_amount) math_overflow) (\<lambda>a.
       attempt (decimal_try_add (borrowed_amount_wads l) borrow_decimal) (\<lambda>b.
       Inr (l\<lparr> available_amount := a, borrowed_amount_wads := b \<rparr>))))"

definition liquidity_repay :: "u64 \<Rightarrow> decimal \<Rightarrow> reserve_liquidity \<Rightarrow> reserve_liquidity result" where
  "liquidity_repay repay_amount settle_amount l =
     attempt (ok_or (checked_add (available_amount l) repay_amount) math_overflow) (\<lambda>a.
     if borrowed_amount_wads l \<le> settle_amount
     then Inr (l\<lparr> available_amount := a, borrowed_amount_wads := decimal_zero \<rparr>)
     else attempt (decimal_try_sub (borrowed_amount_wads l) settle_amount) (\<lambda>b.
       Inr (l\<lparr> available_amount := a, borrowed_amount_wads := b \<rparr>)))"

definition utilization_rate :: "reserve_liquidity \<Rightarrow> rate result" where
  "utilization_rate l =
     attempt (total_supply l) (\<lambda>total.
     if total = decimal_zero then Inr rate_zero
     else attempt (decimal_try_div (borrowed_amount_wads l) total) rate_of_decimal)"

definition compound_interest ::
    "clock_constants \<Rightarrow> rate \<Rightarrow> u64 \<Rightarrow> reserve_liquidity \<Rightarrow> reserve_liquidity result" where
  "compound_interest k current_borrow_rate elapsed l =
     attempt (rate_try_div_u64 current_borrow_rate (SLOTS_PER_YEAR k)) (\<lambda>slot_interest_rate.
     attempt (rate_try_add rate_one slot_interest_rate) (\<lambda>base.
     attempt (rate_try_pow base elapsed) (\<lambda>compounded_interest_rate.
     attempt (decimal_try_mul_rate (cumulative_borrow_rate_wads l) compounded_interest_rate) (\<lambda>cumulative.
     attempt (decimal_try_mul_rate (borrowed_amount_wads l) compounded_interest_rate) (\<lambda>borrowed.
     Inr (l\<lparr> cumulative_borrow_rate_wads := cumulative, borrowed_amount_wads := borrowed \<rparr>))))))"

lemmas [run] = SLOTS_PER_YEAR_def reserve_liquidity_new_def total_supply_def liquidity_deposit_def
  liquidity_withdraw_def liquidity_borrow_def liquidity_repay_def utilization_rate_def
  compound_interest_def

section \<open>Behaviour\<close>

text \<open>Everything a reserve owns, in units of 1/WAD: the value of \<open>total_supply\<close> when it fits.\<close>

definition supply_wads :: "reserve_liquidity \<Rightarrow> nat" where
  "supply_wads l = unat (available_amount l) * wad + dec (borrowed_amount_wads l)"

lemma total_supply_ok: "total_supply l = Inr d \<longleftrightarrow> dec d = supply_wads l"
  by (simp only: total_supply_def decimal_ok supply_wads_def dec_from_u64)

lemma total_supply_err:
  "total_supply l = Inl e \<longleftrightarrow> e = math_overflow \<and> 2 ^ 192 \<le> supply_wads l"
  by (simp only: total_supply_def decimal_err supply_wads_def dec_from_u64)

lemma available_wads_less: "unat (a :: u64) * wad < 2 ^ 124"
proof -
  have "unat a < 2 ^ 64" using unsigned_less [of a, where ?'a = nat] by simp
  then show ?thesis by (simp add: wad_def)
qed

lemma liquidity_deposit_ok:
  "liquidity_deposit a l = Inr l' \<longleftrightarrow> l' = l\<lparr> available_amount := available_amount l' \<rparr> \<and>
     unat (available_amount l') = unat (available_amount l) + unat a"
  by (auto simp: liquidity_deposit_def checked)

lemma liquidity_withdraw_ok:
  "liquidity_withdraw a l = Inr l' \<longleftrightarrow> l' = l\<lparr> available_amount := available_amount l' \<rparr> \<and>
     unat (available_amount l) = unat a + unat (available_amount l')"
  by (auto simp: liquidity_withdraw_def checked word_less_nat_alt)

lemma liquidity_withdraw_err:
  "liquidity_withdraw a l = Inl e \<longleftrightarrow> e = lending InsufficientLiquidity \<and> available_amount l < a"
  by (auto simp: liquidity_withdraw_def attempt_Inl_iff checked_sub_def not_less split: if_splits)

lemma deposit_supply: "liquidity_deposit a l = Inr l' \<Longrightarrow> supply_wads l' = supply_wads l + unat a * wad"
  unfolding liquidity_deposit_ok supply_wads_def
  by (metis (no_types, lifting) add.assoc add.commute add_mult_distrib
      reserve_liquidity.select_convs(7) reserve_liquidity.surjective reserve_liquidity.update_convs(6))

lemma withdraw_supply: "liquidity_withdraw a l = Inr l' \<Longrightarrow> supply_wads l = supply_wads l' + unat a * wad"
  unfolding liquidity_withdraw_ok supply_wads_def
  by (metis (no_types, lifting) add.assoc add.commute add_mult_distrib
      reserve_liquidity.select_convs(7) reserve_liquidity.surjective reserve_liquidity.update_convs(6))

lemma liquidity_borrow_ok:
  "liquidity_borrow d l = Inr l' \<longleftrightarrow> (\<exists>n :: u64.
     l' = l\<lparr> available_amount := available_amount l', borrowed_amount_wads := borrowed_amount_wads l' \<rparr> \<and>
     unat n = dec d div wad \<and> unat (available_amount l) = unat n + unat (available_amount l') \<and>
     dec (borrowed_amount_wads l') = dec (borrowed_amount_wads l) + dec d)"
    (is "_ \<longleftrightarrow> (\<exists>n. ?spec n)")
proof
  show "liquidity_borrow d l = Inr l' \<Longrightarrow> \<exists>n. ?spec n"
    by (auto simp: liquidity_borrow_def decimal_ok checked)
  assume "\<exists>n. ?spec n"
  then obtain n where n: "?spec n" ..
  then have "decimal_try_floor_u64 d = Inr n" by (simp add: decimal_ok)
  moreover have "\<not> available_amount l < n" using n by (simp add: word_less_nat_alt)
  moreover have "checked_sub (available_amount l) n = Some (available_amount l')" using n by (simp add: checked)
  moreover have "decimal_try_add (borrowed_amount_wads l) d = Inr (borrowed_amount_wads l')"
    using n by (simp add: decimal_ok)
  ultimately show "liquidity_borrow d l = Inr l'" using n
    by (simp add: liquidity_borrow_def del: attempt_Inr_iff)
qed

text \<open>Borrowing a fraction of a unit adds that fraction to the supply; nothing else changes it.\<close>

lemma borrow_supply:
  assumes "liquidity_borrow d l = Inr l'"
  shows "supply_wads l' = supply_wads l + dec d mod wad"
proof -
  from assms obtain n :: u64 where n: "unat n = dec d div wad"
    and a: "unat (available_amount l) = unat n + unat (available_amount l')"
    and b: "dec (borrowed_amount_wads l') = dec (borrowed_amount_wads l) + dec d"
    by (auto simp: liquidity_borrow_ok)
  have "supply_wads l' + unat n * wad = supply_wads l + dec d"
    by (simp add: supply_wads_def a b add_mult_distrib)
  moreover have "dec d = unat n * wad + dec d mod wad" by (simp add: n)
  ultimately show ?thesis by simp
qed

lemma liquidity_repay_ok:
  "liquidity_repay p d l = Inr l' \<longleftrightarrow>
     l' = l\<lparr> available_amount := available_amount l', borrowed_amount_wads := borrowed_amount_wads l' \<rparr> \<and>
     unat (available_amount l') = unat (available_amount l) + unat p \<and>
     dec (borrowed_amount_wads l') = dec (borrowed_amount_wads l) - dec d" (is "_ \<longleftrightarrow> ?spec")
proof
  show "liquidity_repay p d l = Inr l' \<Longrightarrow> ?spec"
    by (auto simp: liquidity_repay_def decimal_ok checked split: if_splits)
  assume spec: "?spec"
  then have a: "checked_add (available_amount l) p = Some (available_amount l')" by (simp add: checked)
  show "liquidity_repay p d l = Inr l'"
  proof (cases "dec (borrowed_amount_wads l) \<le> dec d")
    case True
    with spec have "borrowed_amount_wads l' = decimal_zero" by (simp add: eq_decimal_zero_iff)
    with spec a True show ?thesis by (simp add: liquidity_repay_def del: attempt_Inr_iff)
  next
    case False
    with spec have "decimal_try_sub (borrowed_amount_wads l) d = Inr (borrowed_amount_wads l')"
      by (simp add: decimal_ok)
    with spec a False show ?thesis by (simp add: liquidity_repay_def del: attempt_Inr_iff)
  qed
qed

lemma repay_supply:
  assumes "liquidity_repay p d l = Inr l'" "dec d \<le> unat p * wad"
  shows "supply_wads l \<le> supply_wads l'"
  using assms by (simp add: liquidity_repay_ok supply_wads_def add_mult_distrib)

text \<open>Utilization: a ratio between 0 and 1, equal to borrowed/supply rounded down.\<close>

lemma utilization_rate_ok:
  "utilization_rate l = Inr u \<longleftrightarrow> supply_wads l < 2 ^ 192 \<and>
     (if supply_wads l = 0 then rat u = 0
      else dec (borrowed_amount_wads l) * wad < 2 ^ 192 \<and>
        rat u = dec (borrowed_amount_wads l) * wad div supply_wads l)"
proof (cases "total_supply l")
  case (Inl e)
  then have "utilization_rate l = Inl e" by (simp only: utilization_rate_def attempt_simps)
  with Inl show ?thesis by (simp add: total_supply_err)
next
  case (Inr d)
  then have d: "dec d = supply_wads l" by (simp add: total_supply_ok)
  have "dec d < 2 ^ 192" by (rule dec_less)
  with Inr d show ?thesis
    by (auto simp: utilization_rate_def eq_decimal_zero_iff decimal_ok rate_ok rat_eq_iff
        intro!: exI [of _ "decimal_from_rate u"])
qed

lemma utilization_le_one: "utilization_rate l = Inr u \<Longrightarrow> rat u \<le> wad"
proof (cases "supply_wads l = 0")
  case True
  then show "utilization_rate l = Inr u \<Longrightarrow> ?thesis" by (simp add: utilization_rate_ok)
next
  case False
  assume "utilization_rate l = Inr u"
  with False have "rat u = dec (borrowed_amount_wads l) * wad div supply_wads l"
    by (simp only: utilization_rate_ok if_False)
  also have "\<dots> \<le> supply_wads l * wad div supply_wads l"
    by (intro div_le_mono mult_le_mono1) (simp add: supply_wads_def)
  finally show ?thesis using False by simp
qed

lemma utilization_total:
  assumes "dec (borrowed_amount_wads l) < 2 ^ 128"
  shows "\<exists>u. utilization_rate l = Inr u"
proof -
  have a: "unat (available_amount l) * wad < 2 ^ 124" by (rule available_wads_less)
  have s: "supply_wads l < 2 ^ 192" using a assms by (simp add: supply_wads_def)
  have b: "dec (borrowed_amount_wads l) * wad < 2 ^ 192" using assms by (simp add: wad_def)
  define q where "q = (if supply_wads l = 0 then 0 else dec (borrowed_amount_wads l) * wad div supply_wads l)"
  have "q \<le> wad"
  proof (cases "supply_wads l = 0")
    case False
    have "dec (borrowed_amount_wads l) * wad div supply_wads l \<le> supply_wads l * wad div supply_wads l"
      by (intro div_le_mono mult_le_mono1) (simp add: supply_wads_def)
    with False show ?thesis by (simp add: q_def)
  qed (simp add: q_def)
  then have "q < 2 ^ LENGTH(128)" by (simp add: wad_def)
  then have "rat (Rate (of_nat q)) = q" by (simp only: rat_Rate unat_of_nat_small)
  with s b have "utilization_rate l = Inr (Rate (of_nat q))"
    by (auto simp: utilization_rate_ok q_def)
  then show ?thesis ..
qed

text \<open>Compounding multiplies the index and the debt by the same factor, which is at least one.\<close>

lemma compound_interest_cases:
  assumes "compound_interest k r n l = Inr l'"
  obtains f where "wad \<le> rat f"
    "decimal_try_mul_rate (cumulative_borrow_rate_wads l) f = Inr (cumulative_borrow_rate_wads l')"
    "decimal_try_mul_rate (borrowed_amount_wads l) f = Inr (borrowed_amount_wads l')"
    "l' = l\<lparr> cumulative_borrow_rate_wads := cumulative_borrow_rate_wads l',
      borrowed_amount_wads := borrowed_amount_wads l' \<rparr>"
proof -
  from assms obtain s b f c w where b: "rate_try_add rate_one s = Inr b" and f: "rate_try_pow b n = Inr f"
    and "decimal_try_mul_rate (cumulative_borrow_rate_wads l) f = Inr c"
    and "decimal_try_mul_rate (borrowed_amount_wads l) f = Inr w"
    and "l' = l\<lparr> cumulative_borrow_rate_wads := c, borrowed_amount_wads := w \<rparr>"
    by (auto simp: compound_interest_def)
  moreover from b have "wad \<le> rat b" by (simp add: rate_ok)
  with f have "wad \<le> rat f" by (rule rate_try_pow_ge_one)
  ultimately show thesis using that [of f] by simp
qed

lemma compound_interest_grows:
  assumes "compound_interest k r n l = Inr l'"
  shows "dec (cumulative_borrow_rate_wads l) \<le> dec (cumulative_borrow_rate_wads l')"
    and "dec (borrowed_amount_wads l) \<le> dec (borrowed_amount_wads l')"
    and "available_amount l' = available_amount l"
proof -
  from assms obtain f where f: "wad \<le> rat f"
    and c: "decimal_try_mul (cumulative_borrow_rate_wads l) (decimal_from_rate f) = Inr (cumulative_borrow_rate_wads l')"
    and b: "decimal_try_mul (borrowed_amount_wads l) (decimal_from_rate f) = Inr (borrowed_amount_wads l')"
    and l': "l' = l\<lparr> cumulative_borrow_rate_wads := cumulative_borrow_rate_wads l',
      borrowed_amount_wads := borrowed_amount_wads l' \<rparr>"
    by (rule compound_interest_cases) (auto simp: decimal_try_mul_rate_def)
  from decimal.mul_ge_left [OF c] f
  show "dec (cumulative_borrow_rate_wads l) \<le> dec (cumulative_borrow_rate_wads l')" by simp
  from decimal.mul_ge_left [OF b] f
  show "dec (borrowed_amount_wads l) \<le> dec (borrowed_amount_wads l')" by simp
  from l' show "available_amount l' = available_amount l"
    by (metis reserve_liquidity.select_convs(6) reserve_liquidity.surjective
        reserve_liquidity.update_convs(7,8))
qed

end
