(* ===== verification/Reserve_Collateral.thy ===== *)
theory Reserve_Collateral
  imports Rates Codec
begin

text \<open>
  The collateral side of a reserve: the supply of collateral tokens and the rate at which they
  exchange for liquidity (\<open>ReserveCollateral\<close> and \<open>CollateralExchangeRate\<close> of
  token-lending/program/src/state/reserve.rs, with the initial rate of state/mod.rs).
\<close>

section \<open>Operations\<close>

definition INITIAL_COLLATERAL_RATIO :: u64 where
  "INITIAL_COLLATERAL_RATIO = 1"

definition INITIAL_COLLATERAL_RATE :: u64 where
  "INITIAL_COLLATERAL_RATE = INITIAL_COLLATERAL_RATIO * WAD"

record reserve_collateral =
  coll_mint_pubkey :: pubkey
  mint_total_supply :: u64
  coll_supply_pubkey :: pubkey

record new_reserve_collateral_params =
  new_coll_mint_pubkey :: pubkey
  new_coll_supply_pubkey :: pubkey

datatype coll_exchange_rate = Exchange_Rate rate

definition reserve_collateral_new :: "new_reserve_collateral_params \<Rightarrow> reserve_collateral" where
  "reserve_collateral_new params = \<lparr>
     coll_mint_pubkey = new_coll_mint_pubkey params,
     mint_total_supply = 0,
     coll_supply_pubkey = new_coll_supply_pubkey params \<rparr>"

definition collateral_mint :: "u64 \<Rightarrow> reserve_collateral \<Rightarrow> reserve_collateral result" where
  "collateral_mint collateral_amount c =
     attempt (ok_or (checked_add (mint_total_supply c) collateral_amount) math_overflow) (\<lambda>s.
     Inr (c\<lparr> mint_total_supply := s \<rparr>))"

definition collateral_burn :: "u64 \<Rightarrow> reserve_collateral \<Rightarrow> reserve_collateral result" where
  "collateral_burn collateral_amount c =
     attempt (ok_or (checked_sub (mint_total_supply c) collateral_amount) math_overflow) (\<lambda>s.
     Inr (c\<lparr> mint_total_supply := s \<rparr>))"

definition exchange_rate :: "reserve_collateral \<Rightarrow> decimal \<Rightarrow> coll_exchange_rate result" where
  "exchange_rate c total_liquidity =
     attempt
       (if mint_total_supply c = 0 \<or> total_liquidity = decimal_zero
        then Inr (rate_from_scaled_val INITIAL_COLLATERAL_RATE)
        else attempt (decimal_try_div (decimal_from_u64 (mint_total_supply c)) total_liquidity)
          rate_of_decimal)
       (\<lambda>rate. Inr (Exchange_Rate rate))"

primrec decimal_collateral_to_liquidity :: "coll_exchange_rate \<Rightarrow> decimal \<Rightarrow> decimal result" where
  "decimal_collateral_to_liquidity (Exchange_Rate r) collateral_amount =
     decimal_try_div_rate collateral_amount r"

definition collateral_to_liquidity :: "coll_exchange_rate \<Rightarrow> u64 \<Rightarrow> u64 result" where
  "collateral_to_liquidity x collateral_amount =
     attempt (decimal_collateral_to_liquidity x (decimal_from_u64 collateral_amount))
       decimal_try_floor_u64"

primrec decimal_liquidity_to_collateral :: "coll_exchange_rate \<Rightarrow> decimal \<Rightarrow> decimal result" where
  "decimal_liquidity_to_collateral (Exchange_Rate r) liquidity_amount =
     decimal_try_mul_rate liquidity_amount r"

definition liquidity_to_collateral :: "coll_exchange_rate \<Rightarrow> u64 \<Rightarrow> u64 result" where
  "liquidity_to_collateral x liquidity_amount =
     attempt (decimal_liquidity_to_collateral x (decimal_from_u64 liquidity_amount))
       decimal_try_floor_u64"

primrec rate_of_exchange_rate :: "coll_exchange_rate \<Rightarrow> rate" where
  "rate_of_exchange_rate (Exchange_Rate r) = r"

lemmas [run] = INITIAL_COLLATERAL_RATIO_def INITIAL_COLLATERAL_RATE_def reserve_collateral_new_def
  collateral_mint_def collateral_burn_def exchange_rate_def collateral_to_liquidity_def
  liquidity_to_collateral_def

section \<open>Behaviour\<close>

lemma collateral_mint_ok:
  "collateral_mint a c = Inr c' \<longleftrightarrow> c' = c\<lparr> mint_total_supply := mint_total_supply c' \<rparr> \<and>
     unat (mint_total_supply c') = unat (mint_total_supply c) + unat a"
  by (auto simp: collateral_mint_def checked)

lemma collateral_burn_ok:
  "collateral_burn a c = Inr c' \<longleftrightarrow> c' = c\<lparr> mint_total_supply := mint_total_supply c' \<rparr> \<and>
     unat (mint_total_supply c) = unat a + unat (mint_total_supply c')"
  by (auto simp: collateral_burn_def checked)

lemma collateral_burn_mint: "collateral_mint a c = Inr c' \<Longrightarrow> collateral_burn a c' = Inr c"
  by (auto simp: collateral_mint_def collateral_burn_ok checked)

lemma unat_initial_rate [simp]: "unat INITIAL_COLLATERAL_RATE = wad"
  by (simp add: INITIAL_COLLATERAL_RATE_def INITIAL_COLLATERAL_RATIO_def)

text \<open>The exchange rate is the ratio of the two supplies rounded down, or one for an empty reserve.\<close>

lemma exchange_rate_ok:
  "exchange_rate c d = Inr (Exchange_Rate r) \<longleftrightarrow>
     (if mint_total_supply c = 0 \<or> dec d = 0 then rat r = wad
      else rat r = unat (mint_total_supply c) * wad * wad div dec d)"
proof (cases "mint_total_supply c = 0 \<or> d = decimal_zero")
  case True
  then show ?thesis
    by (auto simp: exchange_rate_def eq_decimal_zero_iff rat_eq_iff)
next
  case False
  define m where "m = unat (mint_total_supply c)"
  have "unat (mint_total_supply c) < 2 ^ 64" using unsigned_less [of "mint_total_supply c", where ?'a = nat] by simp
  then have "m * wad * wad < 2 ^ 192" by (simp add: wad_def m_def)
  then have div: "decimal_try_div (decimal_from_u64 (mint_total_supply c)) d = Inr q \<longleftrightarrow>
      dec q = m * wad * wad div dec d" for q
    using False by (simp only: decimal_ok dec_from_u64 eq_decimal_zero_iff m_def [symmetric]) simp
  have "exchange_rate c d = Inr (Exchange_Rate r) \<longleftrightarrow> (\<exists>q. dec q = m * wad * wad div dec d \<and> rat r = dec q)"
    using False by (simp add: exchange_rate_def div rate_ok)
  also have "\<dots> \<longleftrightarrow> rat r = m * wad * wad div dec d"
    by (metis dec_from_rate)
  finally show ?thesis using False by (simp add: eq_decimal_zero_iff m_def)
qed

lemma exchange_rate_one: "mint_total_supply c = 0 \<Longrightarrow> exchange_rate c d = Inr (Exchange_Rate r) \<Longrightarrow> rat r = wad"
  by (simp add: exchange_rate_ok)

lemma liquidity_to_collateral_ok:
  "liquidity_to_collateral (Exchange_Rate r) l = Inr c \<longleftrightarrow>
     unat l * wad * rat r < 2 ^ 192 \<and> unat c = unat l * rat r div wad"
proof -
  have *: "unat l * wad * rat r div wad div wad = unat l * rat r div wad"
    by (simp add: mult.assoc mult.left_commute [of _ wad])
  have "liquidity_to_collateral (Exchange_Rate r) l = Inr c \<longleftrightarrow>
      (\<exists>q. (unat l * wad * rat r < 2 ^ 192 \<and> dec q = unat l * wad * rat r div wad) \<and> unat c = dec q div wad)"
    unfolding liquidity_to_collateral_def decimal_liquidity_to_collateral.simps attempt_Inr_iff
      try_mul_rate_ok try_floor_ok dec_from_u64 ..
  also have "\<dots> \<longleftrightarrow> unat l * wad * rat r < 2 ^ 192 \<and> unat c = unat l * rat r div wad"
  proof safe
    assume less: "unat l * wad * rat r < 2 ^ 192" and c: "unat c = unat l * rat r div wad"
    have "unat l * wad * rat r div wad < 2 ^ 192" using less by (metis div_le_dividend le_less_trans)
    then have "dec (Decimal (of_nat (unat l * wad * rat r div wad))) = unat l * wad * rat r div wad"
      by (simp only: dec_Decimal) (rule unat_of_nat_small, simp)
    with less c show "\<exists>q. (unat l * wad * rat r < 2 ^ 192 \<and> dec q = unat l * wad * rat r div wad) \<and>
        unat c = dec q div wad"
      using * by metis
  next
    fix q
    assume "dec q = unat l * wad * rat r div wad" "unat c = dec q div wad"
    with * show "unat c = unat l * rat r div wad" by simp
  qed
  finally show ?thesis .
qed

text \<open>Bounds of the two conversions, without division.\<close>

lemma liquidity_to_collateral_le:
  "liquidity_to_collateral (Exchange_Rate r) l = Inr c \<Longrightarrow> unat c * wad \<le> unat l * rat r"
  by (simp add: liquidity_to_collateral_ok)

lemma collateral_to_liquidity_le:
  assumes "collateral_to_liquidity (Exchange_Rate r) c = Inr l"
  shows "unat l * rat r \<le> unat c * wad"
proof -
  from assms obtain q where q: "decimal_try_div (decimal_from_u64 c) (decimal_from_rate r) = Inr q"
    and l: "decimal_try_floor_u64 q = Inr l"
    by (auto simp: collateral_to_liquidity_def decimal_try_div_rate_def)
  from floor_le [OF l] have "unat l * wad * rat r \<le> dec q * rat r" by (rule mult_le_mono1)
  also from decimal.div_bounds [OF q] have "\<dots> \<le> unat c * wad * wad" by simp
  finally have "unat l * rat r * wad \<le> unat c * wad * wad" by (simp only: mult_ac)
  then show ?thesis by (simp only: mult_le_cancel2 wad_pos simp_thms)
qed

lemma collateral_to_liquidity_pos: "collateral_to_liquidity (Exchange_Rate r) c = Inr l \<Longrightarrow> 0 < rat r"
  by (auto simp: collateral_to_liquidity_def decimal_ok)

text \<open>Converting back and forth at one rate never gains.\<close>

lemma exchange_roundtrip:
  assumes "liquidity_to_collateral x l = Inr c" "collateral_to_liquidity x c = Inr l'"
  shows "l' \<le> l"
proof -
  obtain r where x: "x = Exchange_Rate r" by (cases x) auto
  have "unat l' * rat r \<le> unat c * wad" using assms(2) x collateral_to_liquidity_le by blast
  also have "\<dots> \<le> unat l * rat r" using assms(1) x liquidity_to_collateral_le by blast
  finally show ?thesis using assms(2) x collateral_to_liquidity_pos by (auto simp: word_le_nat_alt)
qed

end
