(* ===== verification/Reserve_Fees.thy ===== *)
theory Reserve_Fees
  imports Rates
begin

text \<open>
  Fees on borrows and flash loans (\<open>ReserveFees\<close> and \<open>FeeCalculation\<close> of
  token-lending/program/src/state/reserve.rs).
\<close>

section \<open>Operations\<close>

record reserve_fees =
  borrow_fee_wad :: u64
  flash_loan_fee_wad :: u64
  host_fee_percentage :: u8

datatype fee_calculation = Exclusive | Inclusive

definition calculate_fees ::
    "reserve_fees \<Rightarrow> decimal \<Rightarrow> u64 \<Rightarrow> fee_calculation \<Rightarrow> (u64 \<times> u64) result" where
  "calculate_fees fees amount fee_wad fee_calculation =
     (let borrow_fee_rate = rate_from_scaled_val fee_wad;
          host_fee_rate = rate_from_percent (host_fee_percentage fees) in
      if rate_zero < borrow_fee_rate \<and> decimal_zero < amount then
        (let need_to_assess_host_fee = rate_zero < host_fee_rate;
             minimum_fee = (if need_to_assess_host_fee then 2 else 1 :: u64) in
         attempt (case fee_calculation of
             Exclusive \<Rightarrow> decimal_try_mul_rate amount borrow_fee_rate
           | Inclusive \<Rightarrow>
               attempt (rate_try_add borrow_fee_rate rate_one) (\<lambda>gross.
               attempt (rate_try_div borrow_fee_rate gross) (\<lambda>borrow_fee_rate.
               decimal_try_mul_rate amount borrow_fee_rate))) (\<lambda>borrow_fee_amount.
         let borrow_fee_decimal = max borrow_fee_amount (decimal_from_u64 minimum_fee) in
         if amount \<le> borrow_fee_decimal then Inl (lending BorrowTooSmall)
         else
           attempt (decimal_try_round_u64 borrow_fee_decimal) (\<lambda>borrow_fee.
           attempt
             (if need_to_assess_host_fee then
                attempt (decimal_try_mul_rate borrow_fee_decimal host_fee_rate) (\<lambda>h.
                attempt (decimal_try_round_u64 h) (\<lambda>n. Inr (max n 1)))
              else Inr 0) (\<lambda>host_fee.
           Inr (borrow_fee, host_fee)))))
      else Inr (0, 0))"

definition calculate_borrow_fees ::
    "reserve_fees \<Rightarrow> decimal \<Rightarrow> fee_calculation \<Rightarrow> (u64 \<times> u64) result" where
  "calculate_borrow_fees fees borrow_amount fee_calculation =
     calculate_fees fees borrow_amount (borrow_fee_wad fees) fee_calculation"

definition calculate_flash_loan_fees :: "reserve_fees \<Rightarrow> decimal \<Rightarrow> (u64 \<times> u64) result" where
  "calculate_flash_loan_fees fees flash_loan_amount =
     calculate_fees fees flash_loan_amount (flash_loan_fee_wad fees) Exclusive"

lemmas [run] = calculate_fees_def calculate_borrow_fees_def calculate_flash_loan_fees_def

section \<open>Behaviour\<close>

text \<open>When there is a fee to charge, the facts every successful calculation establishes.\<close>

lemma calculate_fees_cases:
  assumes "calculate_fees fees amount fee_wad mode = Inr (fee, host)"
  obtains (none) "fee_wad = 0 \<or> dec amount = 0" "fee = 0" "host = 0"
  | (fee) d where "fee_wad \<noteq> 0" "dec d < dec amount"
      "(if host_fee_percentage fees = 0 then 1 else 2) * wad \<le> dec d"
      "decimal_try_round_u64 d = Inr fee"
      "if host_fee_percentage fees = 0 then host = 0
       else \<exists>h n. decimal_try_mul_rate d (rate_from_percent (host_fee_percentage fees)) = Inr h \<and>
         decimal_try_round_u64 h = Inr n \<and> host = max n 1"
proof -
  have nz: "rate_zero < rate_from_percent (host_fee_percentage fees) \<longleftrightarrow> host_fee_percentage fees \<noteq> 0"
    by (simp add: wad_def unat_eq_0 neq0_conv [symmetric] del: neq0_conv)
  have fz: "rate_zero < rate_from_scaled_val fee_wad \<longleftrightarrow> fee_wad \<noteq> 0"
    by (simp add: unat_eq_0 neq0_conv [symmetric] del: neq0_conv)
  show thesis
  proof (cases "fee_wad \<noteq> 0 \<and> dec amount \<noteq> 0")
    case False
    with assms none show ?thesis
      by (auto simp: calculate_fees_def fz Let_def)
  next
    case True
    define m :: u64 where "m = (if host_fee_percentage fees = 0 then 1 else 2)"
    have m: "unat m = (if host_fee_percentage fees = 0 then 1 else 2)" by (simp add: m_def)
    from assms True obtain a where a:
      "dec (max a (decimal_from_u64 m)) < dec amount"
      "decimal_try_round_u64 (max a (decimal_from_u64 m)) = Inr fee"
      "if host_fee_percentage fees = 0 then host = 0
       else \<exists>h n. decimal_try_mul_rate (max a (decimal_from_u64 m))
           (rate_from_percent (host_fee_percentage fees)) = Inr h \<and>
         decimal_try_round_u64 h = Inr n \<and> host = max n 1"
      unfolding calculate_fees_def Let_def fz nz m_def
      by (auto simp: not_le simp del: max_less_iff_conj split: if_splits)
    have ge: "(if host_fee_percentage fees = 0 then 1 else 2) * wad \<le> dec (max a (decimal_from_u64 m))"
      unfolding m [symmetric] by (simp add: dec_max)
    from True have "fee_wad \<noteq> 0" by blast
    then show ?thesis using a(1) ge a(2,3) by (rule fee)
  qed
qed

lemma round_mono:
  "decimal_try_round_u64 a = Inr m \<Longrightarrow> decimal_try_round_u64 b = Inr n \<Longrightarrow> dec a \<le> dec b \<Longrightarrow> m \<le> n"
  by (auto simp: decimal_ok word_le_nat_alt intro: div_le_mono)

lemma round_ge: "decimal_try_round_u64 d = Inr n \<Longrightarrow> k * wad \<le> dec d \<Longrightarrow> k \<le> unat n"
  by (auto simp: decimal_ok le_div_iff_nat)

text \<open>The host's share never exceeds the fee it is part of.\<close>

lemma host_fee_le:
  assumes "calculate_fees fees amount fee_wad mode = Inr (fee, host)" "host_fee_percentage fees \<le> 100"
  shows "host \<le> fee"
  using assms(1)
proof (cases rule: calculate_fees_cases)
  case none
  then show ?thesis by simp
next
  case (fee d)
  show ?thesis
  proof (cases "host_fee_percentage fees = 0")
    case True
    with fee show ?thesis by simp
  next
    case False
    with fee obtain h n where h: "decimal_try_mul d (decimal_from_rate (rate_from_percent (host_fee_percentage fees))) = Inr h"
      and n: "decimal_try_round_u64 h = Inr n" and host: "host = max n 1"
      by (auto simp: decimal_try_mul_rate_def)
    have "unat (host_fee_percentage fees) \<le> 100" using assms(2) by (simp add: word_le_nat_alt)
    then have "unat (host_fee_percentage fees) * (wad div 100) \<le> wad" by (simp add: wad_def)
    then have "dec h \<le> dec d" using decimal.mul_le_left [OF h] by simp
    with n fee have "n \<le> fee" using round_mono by blast
    moreover have "2 \<le> unat fee" using round_ge [OF fee(4), of 2] fee(3) False by simp
    then have "1 \<le> fee" by (simp add: word_le_nat_alt)
    ultimately show ?thesis by (simp add: host)
  qed
qed

lemma fee_minimum:
  assumes "calculate_fees fees amount fee_wad mode = Inr (fee, host)" "fee_wad \<noteq> 0" "dec amount \<noteq> 0"
  shows "(if host_fee_percentage fees = 0 then 1 else 2) \<le> unat fee"
    and "host_fee_percentage fees \<noteq> 0 \<longleftrightarrow> 1 \<le> host"
    and "unat fee * wad \<le> dec amount + wad div 2"
proof -
  have "(if host_fee_percentage fees = 0 then 1 else 2) \<le> unat fee \<and>
      (host_fee_percentage fees \<noteq> 0 \<longleftrightarrow> 1 \<le> host) \<and> unat fee * wad \<le> dec amount + wad div 2"
    using assms(1)
  proof (cases rule: calculate_fees_cases)
    case none
    with assms(2,3) show ?thesis by simp
  next
    case (fee d)
    have "unat fee * wad \<le> dec d + wad div 2" using fee(4) by (simp add: decimal_ok)
    with fee(2) have "unat fee * wad \<le> dec amount + wad div 2" by simp
    with round_ge [OF fee(4) fee(3)] fee(5) show ?thesis
      by (auto split: if_splits)
  qed
  then show "(if host_fee_percentage fees = 0 then 1 else 2) \<le> unat fee"
    "host_fee_percentage fees \<noteq> 0 \<longleftrightarrow> 1 \<le> host" "unat fee * wad \<le> dec amount + wad div 2" by blast+
qed

text \<open>No fee is charged exactly when the rate or the amount is zero.\<close>

lemma fee_zero_iff:
  assumes "calculate_fees fees amount fee_wad mode = Inr (fee, host)"
  shows "fee = 0 \<longleftrightarrow> fee_wad = 0 \<or> dec amount = 0"
proof (cases "fee_wad = 0 \<or> dec amount = 0")
  case True
  from assms True show ?thesis by (cases rule: calculate_fees_cases) auto
next
  case False
  with fee_minimum(1) [OF assms] have "unat fee \<noteq> 0" by (auto split: if_splits)
  with False show ?thesis by auto
qed

end
