(* ===== verification/Reserve.thy ===== *)
theory Reserve
  imports Reserve_Liquidity Reserve_Collateral Reserve_Fees Obligation
begin

text \<open>
  A reserve and its operations (token-lending/program/src/state/reserve.rs): deposits and
  redemptions through the exchange rate, the borrow rate, interest, and the amounts of a borrow, a
  repayment and a liquidation.
\<close>

section \<open>State\<close>

record reserve_config =
  optimal_utilization_rate :: u8
  loan_to_value_ratio :: u8
  liquidation_bonus :: u8
  liquidation_threshold :: u8
  min_borrow_rate :: u8
  optimal_borrow_rate :: u8
  max_borrow_rate :: u8
  config_fees :: reserve_fees
  deposit_staking_pool :: "pubkey option"
  deposit_limit :: u64
  borrow_limit :: u64

record reserve =
  reserve_version :: u8
  reserve_last_update :: last_update
  reserve_lending_market :: pubkey
  liquidity :: reserve_liquidity
  collateral :: reserve_collateral
  config :: reserve_config

record init_reserve_params =
  init_reserve_current_slot :: u64
  init_reserve_lending_market :: pubkey
  init_reserve_liquidity :: reserve_liquidity
  init_reserve_collateral :: reserve_collateral
  init_reserve_config :: reserve_config

record calculate_borrow_result =
  borrow_amount :: decimal
  receive_amount :: u64
  borrow_fee :: u64
  host_fee :: u64

record calculate_repay_result =
  settle_amount :: decimal
  repay_amount :: u64

record calculate_liquidation_result =
  liq_settle_amount :: decimal
  liq_repay_amount :: u64
  liq_withdraw_amount :: u64

definition reserve_default :: reserve where
  "reserve_default = \<lparr>
     reserve_version = 0, reserve_last_update = last_update_default, reserve_lending_market = 0,
     liquidity = \<lparr> liq_mint_pubkey = 0, mint_decimals = 0, liq_supply_pubkey = 0, fee_receiver = 0,
       oracle_pubkey = None, available_amount = 0, borrowed_amount_wads = decimal_zero,
       cumulative_borrow_rate_wads = decimal_zero, market_price = decimal_zero \<rparr>,
     collateral = \<lparr> coll_mint_pubkey = 0, mint_total_supply = 0, coll_supply_pubkey = 0 \<rparr>,
     config = \<lparr> optimal_utilization_rate = 0, loan_to_value_ratio = 0, liquidation_bonus = 0,
       liquidation_threshold = 0, min_borrow_rate = 0, optimal_borrow_rate = 0, max_borrow_rate = 0,
       config_fees = \<lparr> borrow_fee_wad = 0, flash_loan_fee_wad = 0, host_fee_percentage = 0 \<rparr>,
       deposit_staking_pool = None, deposit_limit = 0, borrow_limit = 0 \<rparr> \<rparr>"

definition reserve_init :: "init_reserve_params \<Rightarrow> reserve \<Rightarrow> reserve" where
  "reserve_init params r = r\<lparr>
     reserve_version := PROGRAM_VERSION,
     reserve_last_update := last_update_new (init_reserve_current_slot params),
     reserve_lending_market := init_reserve_lending_market params,
     liquidity := init_reserve_liquidity params,
     collateral := init_reserve_collateral params,
     config := init_reserve_config params \<rparr>"

definition reserve_new :: "init_reserve_params \<Rightarrow> reserve" where
  "reserve_new params = reserve_init params reserve_default"

definition reserve_is_initialized :: "reserve \<Rightarrow> bool" where
  "reserve_is_initialized r = (reserve_version r \<noteq> UNINITIALIZED_VERSION)"

section \<open>Deposits and redemptions\<close>

definition collateral_exchange_rate :: "reserve \<Rightarrow> coll_exchange_rate result" where
  "collateral_exchange_rate r =
     attempt (total_supply (liquidity r)) (\<lambda>total_liquidity.
     exchange_rate (collateral r) total_liquidity)"

definition reserve_deposit_liquidity :: "u64 \<Rightarrow> reserve \<Rightarrow> (u64 \<times> reserve) result" where
  "reserve_deposit_liquidity liquidity_amount r =
     attempt (collateral_exchange_rate r) (\<lambda>rate.
     attempt (liquidity_to_collateral rate liquidity_amount) (\<lambda>collateral_amount.
     attempt (liquidity_deposit liquidity_amount (liquidity r)) (\<lambda>l.
     attempt (collateral_mint collateral_amount (collateral r)) (\<lambda>c.
     Inr (collateral_amount, r\<lparr> liquidity := l, collateral := c \<rparr>)))))"

definition reserve_redeem_collateral :: "u64 \<Rightarrow> reserve \<Rightarrow> (u64 \<times> reserve) result" where
  "reserve_redeem_collateral collateral_amount r =
     attempt (collateral_exchange_rate r) (\<lambda>rate.
     attempt (collateral_to_liquidity rate collateral_amount) (\<lambda>liquidity_amount.
     attempt (collateral_burn collateral_amount (collateral r)) (\<lambda>c.
     attempt (liquidity_withdraw liquidity_amount (liquidity r)) (\<lambda>l.
     Inr (liquidity_amount, r\<lparr> liquidity := l, collateral := c \<rparr>)))))"

section \<open>Interest\<close>

definition current_borrow_rate :: "reserve \<Rightarrow> rate result" where
  "current_borrow_rate r =
     attempt (utilization_rate (liquidity r)) (\<lambda>utilization.
     let optimal = rate_from_percent (optimal_utilization_rate (config r));
         low_utilization = (utilization < optimal) in
     if low_utilization \<or> optimal_utilization_rate (config r) = 100 then
       attempt (rate_try_div utilization optimal) (\<lambda>normalized_rate.
       let min_rate = rate_from_percent (min_borrow_rate (config r)) in
       attempt (ok_or (checked_sub (optimal_borrow_rate (config r)) (min_borrow_rate (config r)))
         math_overflow) (\<lambda>d.
       let rate_range = rate_from_percent d in
       attempt (rate_try_mul normalized_rate rate_range) (\<lambda>p.
       rate_try_add p min_rate)))
     else
       attempt (rate_try_sub utilization optimal) (\<lambda>over.
       attempt (ok_or (checked_sub 100 (optimal_utilization_rate (config r))) math_overflow) (\<lambda>rest.
       attempt (rate_try_div over (rate_from_percent rest)) (\<lambda>normalized_rate.
       let min_rate = rate_from_percent (optimal_borrow_rate (config r)) in
       attempt (ok_or (checked_sub (max_borrow_rate (config r)) (optimal_borrow_rate (config r)))
         math_overflow) (\<lambda>d.
       let rate_range = rate_from_percent d in
       attempt (rate_try_mul normalized_rate rate_range) (\<lambda>p.
       rate_try_add p min_rate))))))"

definition reserve_accrue_interest :: "clock_constants \<Rightarrow> u64 \<Rightarrow> reserve \<Rightarrow> reserve result" where
  "reserve_accrue_interest k current_slot r =
     attempt (slots_elapsed (reserve_last_update r) current_slot) (\<lambda>elapsed.
     if 0 < elapsed then
       attempt (current_borrow_rate r) (\<lambda>rate.
       attempt (compound_interest k rate elapsed (liquidity r)) (\<lambda>l.
       Inr (r\<lparr> liquidity := l \<rparr>)))
     else Inr r)"

section \<open>Borrows, repayments and liquidations\<close>

definition calculate_borrow :: "reserve \<Rightarrow> u64 \<Rightarrow> decimal \<Rightarrow> calculate_borrow_result result" where
  "calculate_borrow r amount_to_borrow max_borrow_value =
     attempt (ok_or (checked_pow 10 (unat (mint_decimals (liquidity r)))) math_overflow) (\<lambda>decimals.
     if amount_to_borrow = u64_max then
       attempt (decimal_try_mul_u64 max_borrow_value decimals) (\<lambda>v.
       attempt (decimal_try_div v (market_price (liquidity r))) (\<lambda>a.
       let borrow_amount = min a (decimal_from_u64 (available_amount (liquidity r))) in
       attempt (calculate_borrow_fees (config_fees (config r)) borrow_amount Inclusive)
         (\<lambda>(borrow_fee, host_fee).
       attempt (decimal_try_floor_u64 borrow_amount) (\<lambda>n.
       attempt (ok_or (checked_sub n borrow_fee) math_overflow) (\<lambda>receive_amount.
       Inr \<lparr> borrow_amount = borrow_amount, receive_amount = receive_amount,
         borrow_fee = borrow_fee, host_fee = host_fee \<rparr>)))))
     else
       (let receive_amount = amount_to_borrow;
            borrow_amount = decimal_from_u64 receive_amount in
        attempt (calculate_borrow_fees (config_fees (config r)) borrow_amount Exclusive)
          (\<lambda>(borrow_fee, host_fee).
        attempt (decimal_try_add borrow_amount (decimal_from_u64 borrow_fee)) (\<lambda>borrow_amount.
        attempt (decimal_try_mul borrow_amount (market_price (liquidity r))) (\<lambda>v.
        attempt (decimal_try_div_u64 v decimals) (\<lambda>borrow_value.
        if max_borrow_value < borrow_value then Inl (lending BorrowTooLarge)
        else Inr \<lparr> borrow_amount = borrow_amount, receive_amount = receive_amount,
          borrow_fee = borrow_fee, host_fee = host_fee \<rparr>))))))"

definition calculate_repay :: "u64 \<Rightarrow> decimal \<Rightarrow> calculate_repay_result result" where
  "calculate_repay amount_to_repay borrowed_amount =
     (let settle_amount =
        (if amount_to_repay = u64_max then borrowed_amount
         else min (decimal_from_u64 amount_to_repay) borrowed_amount) in
      attempt (decimal_try_ceil_u64 settle_amount) (\<lambda>repay_amount.
      Inr \<lparr> settle_amount = settle_amount, repay_amount = repay_amount \<rparr>))"

text \<open>
  The two halves of \<open>calculate_liquidation\<close>: closing out an obligation too small to liquidate
  normally, and the usual case.
\<close>

definition liquidate_small ::
    "rate \<Rightarrow> decimal \<Rightarrow> obligation_liquidity \<Rightarrow> obligation_collateral \<Rightarrow>
      calculate_liquidation_result result" where
  "liquidate_small bonus_rate max_amount loan coll =
     (let settle_amount = loan_borrowed_amount_wads loan in
      attempt (decimal_try_mul_rate (loan_market_value loan) bonus_rate) (\<lambda>liquidation_value.
      if coll_market_value coll < liquidation_value then
        attempt (decimal_try_div (coll_market_value coll) liquidation_value) (\<lambda>repay_pct.
        attempt (decimal_try_mul max_amount repay_pct) (\<lambda>a.
        attempt (decimal_try_ceil_u64 a) (\<lambda>repay_amount.
        Inr \<lparr> liq_settle_amount = settle_amount, liq_repay_amount = repay_amount,
          liq_withdraw_amount = deposited_amount coll \<rparr>)))
      else if liquidation_value = coll_market_value coll then
        attempt (decimal_try_ceil_u64 max_amount) (\<lambda>repay_amount.
        Inr \<lparr> liq_settle_amount = settle_amount, liq_repay_amount = repay_amount,
          liq_withdraw_amount = deposited_amount coll \<rparr>)
      else
        attempt (decimal_try_div liquidation_value (coll_market_value coll)) (\<lambda>withdraw_pct.
        attempt (decimal_try_ceil_u64 max_amount) (\<lambda>repay_amount.
        attempt (decimal_try_mul (decimal_from_u64 (deposited_amount coll)) withdraw_pct) (\<lambda>w.
        attempt (decimal_try_floor_u64 w) (\<lambda>withdraw_amount.
        Inr \<lparr> liq_settle_amount = settle_amount, liq_repay_amount = repay_amount,
          liq_withdraw_amount = withdraw_amount \<rparr>))))))"

definition liquidate_normal ::
    "rate \<Rightarrow> decimal \<Rightarrow> obligation \<Rightarrow> obligation_liquidity \<Rightarrow> obligation_collateral \<Rightarrow>
      calculate_liquidation_result result" where
  "liquidate_normal bonus_rate max_amount ob loan coll =
     attempt (max_liquidation_amount ob loan) (\<lambda>m.
     let liquidation_amount = min m max_amount in
     attempt (decimal_try_div liquidation_amount (loan_borrowed_amount_wads loan)) (\<lambda>liquidation_pct.
     attempt (decimal_try_mul (loan_market_value loan) liquidation_pct) (\<lambda>v.
     attempt (decimal_try_mul_rate v bonus_rate) (\<lambda>liquidation_value.
     if coll_market_value coll < liquidation_value then
       attempt (decimal_try_div (coll_market_value coll) liquidation_value) (\<lambda>repay_pct.
       attempt (decimal_try_mul liquidation_amount repay_pct) (\<lambda>settle_amount.
       attempt (decimal_try_ceil_u64 settle_amount) (\<lambda>repay_amount.
       Inr \<lparr> liq_settle_amount = settle_amount, liq_repay_amount = repay_amount,
         liq_withdraw_amount = deposited_amount coll \<rparr>)))
     else if liquidation_value = coll_market_value coll then
       attempt (decimal_try_ceil_u64 liquidation_amount) (\<lambda>repay_amount.
       Inr \<lparr> liq_settle_amount = liquidation_amount, liq_repay_amount = repay_amount,
         liq_withdraw_amount = deposited_amount coll \<rparr>)
     else
       attempt (decimal_try_div liquidation_value (coll_market_value coll)) (\<lambda>withdraw_pct.
       attempt (decimal_try_ceil_u64 liquidation_amount) (\<lambda>repay_amount.
       attempt (decimal_try_mul (decimal_from_u64 (deposited_amount coll)) withdraw_pct) (\<lambda>w.
       attempt (decimal_try_floor_u64 w) (\<lambda>withdraw_amount.
       Inr \<lparr> liq_settle_amount = liquidation_amount, liq_repay_amount = repay_amount,
         liq_withdraw_amount = withdraw_amount \<rparr>))))))))"

definition calculate_liquidation ::
    "reserve \<Rightarrow> u64 \<Rightarrow> obligation \<Rightarrow> obligation_liquidity \<Rightarrow> obligation_collateral \<Rightarrow>
      calculate_liquidation_result result" where
  "calculate_liquidation r amount_to_liquidate ob loan coll =
     attempt (rate_try_add (rate_from_percent (liquidation_bonus (config r))) rate_one) (\<lambda>bonus_rate.
     let max_amount =
       (if amount_to_liquidate = u64_max then loan_borrowed_amount_wads loan
        else min (decimal_from_u64 amount_to_liquidate) (loan_borrowed_amount_wads loan)) in
     if loan_borrowed_amount_wads loan < decimal_from_u64 LIQUIDATION_CLOSE_AMOUNT
     then liquidate_small bonus_rate max_amount loan coll
     else liquidate_normal bonus_rate max_amount ob loan coll)"

lemmas [run] = reserve_default_def reserve_init_def reserve_new_def reserve_is_initialized_def
  collateral_exchange_rate_def reserve_deposit_liquidity_def reserve_redeem_collateral_def
  current_borrow_rate_def reserve_accrue_interest_def calculate_borrow_def calculate_repay_def
  liquidate_small_def liquidate_normal_def calculate_liquidation_def

section \<open>Exchange\<close>

lemma collateral_exchange_rate_ok:
  "collateral_exchange_rate r = Inr (Exchange_Rate x) \<longleftrightarrow>
     supply_wads (liquidity r) < 2 ^ 192 \<and>
     (if mint_total_supply (collateral r) = 0 \<or> supply_wads (liquidity r) = 0 then rat x = wad
      else rat x = unat (mint_total_supply (collateral r)) * wad * wad div supply_wads (liquidity r))"
proof (cases "total_supply (liquidity r)")
  case (Inl e)
  then have "collateral_exchange_rate r = Inl e" by (simp only: collateral_exchange_rate_def attempt_simps)
  with Inl show ?thesis by (simp add: total_supply_err)
next
  case (Inr d)
  then have d: "dec d = supply_wads (liquidity r)" by (simp add: total_supply_ok)
  from Inr have "collateral_exchange_rate r = exchange_rate (collateral r) d"
    by (simp only: collateral_exchange_rate_def attempt_simps)
  then show ?thesis using dec_less [of d] by (simp only: exchange_rate_ok d) simp
qed

lemma deposit_liquidity_cases:
  assumes "reserve_deposit_liquidity l r = Inr (c, r')"
  obtains x where "collateral_exchange_rate r = Inr (Exchange_Rate x)"
    "liquidity_to_collateral (Exchange_Rate x) l = Inr c"
    "supply_wads (liquidity r') = supply_wads (liquidity r) + unat l * wad"
    "unat (mint_total_supply (collateral r')) = unat (mint_total_supply (collateral r)) + unat c"
    "liquidity_deposit l (liquidity r) = Inr (liquidity r')"
    "collateral_mint c (collateral r) = Inr (collateral r')"
    "r' = r\<lparr> liquidity := liquidity r', collateral := collateral r' \<rparr>"
proof -
  from assms obtain rate l' c' where rate: "collateral_exchange_rate r = Inr rate"
    and c: "liquidity_to_collateral rate l = Inr c"
    and l': "liquidity_deposit l (liquidity r) = Inr l'" and c': "collateral_mint c (collateral r) = Inr c'"
    and r': "r' = r\<lparr> liquidity := l', collateral := c' \<rparr>"
    by (auto simp: reserve_deposit_liquidity_def)
  obtain x where x: "rate = Exchange_Rate x" by (cases rate) auto
  have "unat (mint_total_supply c') = unat (mint_total_supply (collateral r)) + unat c"
    using c' by (simp add: collateral_mint_ok)
  with rate c deposit_supply [OF l'] l' c' r' x that show thesis by simp
qed

lemma redeem_collateral_cases:
  assumes "reserve_redeem_collateral c r = Inr (l, r')"
  obtains x where "collateral_exchange_rate r = Inr (Exchange_Rate x)"
    "collateral_to_liquidity (Exchange_Rate x) c = Inr l"
    "supply_wads (liquidity r) = supply_wads (liquidity r') + unat l * wad"
    "unat (mint_total_supply (collateral r)) = unat (mint_total_supply (collateral r')) + unat c"
    "r' = r\<lparr> liquidity := liquidity r', collateral := collateral r' \<rparr>"
proof -
  from assms obtain rate l' c' where rate: "collateral_exchange_rate r = Inr rate"
    and l: "collateral_to_liquidity rate c = Inr l"
    and l': "liquidity_withdraw l (liquidity r) = Inr l'" and c': "collateral_burn c (collateral r) = Inr c'"
    and r': "r' = r\<lparr> liquidity := l', collateral := c' \<rparr>"
    by (auto simp: reserve_redeem_collateral_def)
  obtain x where x: "rate = Exchange_Rate x" by (cases rate) auto
  have "unat (mint_total_supply (collateral r)) = unat (mint_total_supply c') + unat c"
    using c' by (simp add: collateral_burn_ok)
  with rate l withdraw_supply [OF l'] r' x that show thesis by simp
qed

text \<open>A deposit never mints more than its share of the supply.\<close>

lemma deposit_share:
  assumes "reserve_deposit_liquidity l r = Inr (c, r')" "mint_total_supply (collateral r) \<noteq> 0"
  shows "unat c * supply_wads (liquidity r) \<le> unat l * wad * unat (mint_total_supply (collateral r))"
proof (cases "supply_wads (liquidity r) = 0")
  case False
  define T m where "T = supply_wads (liquidity r)" and "m = unat (mint_total_supply (collateral r))"
  from assms(1) obtain x where x: "collateral_exchange_rate r = Inr (Exchange_Rate x)"
    and c: "liquidity_to_collateral (Exchange_Rate x) l = Inr c"
    by (rule deposit_liquidity_cases)
  from x False assms(2) have "rat x = m * wad * wad div T"
    by (simp only: collateral_exchange_rate_ok T_def m_def if_False simp_thms)
  then have "rat x * T \<le> m * wad * wad" by (simp only: div_mult_le_nat)
  then have "unat l * (rat x * T) \<le> unat l * (m * wad * wad)" by (rule mult_le_mono2)
  moreover have "unat c * wad * T \<le> unat l * rat x * T"
    using liquidity_to_collateral_le [OF c] by (rule mult_le_mono1)
  ultimately have "unat c * wad * T \<le> unat l * (m * wad * wad)"
    by (simp only: mult.assoc le_trans)
  then have "unat c * T * wad \<le> unat l * wad * m * wad" by (simp only: mult_ac)
  then show ?thesis unfolding T_def [symmetric] m_def [symmetric]
    by (simp only: mult_le_cancel2 wad_pos simp_thms)
qed simp

text \<open>A redemption pays at most its share of the supply, but for the rounding of the rate.\<close>

lemma redeem_share:
  assumes "reserve_redeem_collateral c r = Inr (l, r')" "mint_total_supply (collateral r) \<noteq> 0"
    and "supply_wads (liquidity r) \<noteq> 0"
  shows "unat l * wad * unat (mint_total_supply (collateral r)) * wad \<le>
      unat c * supply_wads (liquidity r) * wad + unat l * supply_wads (liquidity r)"
proof -
  define T m where "T = supply_wads (liquidity r)" and "m = unat (mint_total_supply (collateral r))"
  from assms(1) obtain x where x: "collateral_exchange_rate r = Inr (Exchange_Rate x)"
    and l: "collateral_to_liquidity (Exchange_Rate x) c = Inr l"
    by (rule redeem_collateral_cases)
  from x assms(2,3) have "rat x = m * wad * wad div T"
    by (simp only: collateral_exchange_rate_ok T_def m_def if_False simp_thms)
  then have "m * wad * wad \<le> (rat x + 1) * T"
    using less_div_Suc_mult [of T "m * wad * wad"] assms(3) by (simp add: T_def less_imp_le)
  then have "unat l * (m * wad * wad) \<le> unat l * ((rat x + 1) * T)" by (rule mult_le_mono2)
  also have "\<dots> = unat l * rat x * T + unat l * T" by (simp add: algebra_simps)
  also have "\<dots> \<le> unat c * wad * T + unat l * T"
    using collateral_to_liquidity_le [OF l] by (intro add_mono mult_le_mono1 order_refl)
  finally show ?thesis unfolding T_def [symmetric] m_def [symmetric] by (simp only: mult_ac)
qed

lemma no_profit_arith:
  assumes share: "c * T' \<le> l * wad * m'" and paid: "l' * x \<le> c * wad"
    and rate: "m' * wad * wad < (x + 1) * T'" and small: "l \<le> x" and pos: "0 < x" "0 < (T' :: nat)"
  shows "l' \<le> l"
proof (cases "l = 0")
  case True
  with share pos(2) have "c = 0" by simp
  with paid pos(1) True show ?thesis by simp
next
  case False
  have "l' * x * T' \<le> c * wad * T'" using paid by (rule mult_le_mono1)
  also have "\<dots> \<le> l * wad * m' * wad" using mult_le_mono1 [OF share, of wad] by (simp only: mult_ac)
  also have "\<dots> = l * (m' * wad * wad)" by (simp only: mult_ac)
  also have "\<dots> < l * ((x + 1) * T')" using rate False by simp
  finally have "l' * x * T' < l * (x + 1) * T'" by (simp only: mult_ac)
  then have "l' * x < l * (x + 1)" by simp
  also have "\<dots> \<le> l * x + x" using small by simp
  also have "\<dots> = (l + 1) * x" by simp
  finally have "l' < l + 1" by (simp only: mult_less_cancel2)
  then show ?thesis by simp
qed

section \<open>Borrow rate\<close>

definition borrow_curve_valid :: "reserve_config \<Rightarrow> bool" where
  "borrow_curve_valid c = (optimal_utilization_rate c \<le> 100 \<and>
     min_borrow_rate c \<le> optimal_borrow_rate c \<and> optimal_borrow_rate c \<le> max_borrow_rate c)"

text \<open>One segment of the curve: from \<open>lo\<close> to \<open>hi\<close> percent as \<open>n\<close> goes from 0 to 1.\<close>

lemma curve_segment:
  assumes n: "rat n \<le> wad" and le: "lo \<le> hi"
  shows "\<exists>p x. checked_sub hi lo = Some (hi - lo) \<and> rate_try_mul n (rate_from_percent (hi - lo)) = Inr p \<and>
    rate_try_add p (rate_from_percent lo) = Inr x \<and>
    unat lo * (wad div 100) \<le> rat x \<and> rat x \<le> unat hi * (wad div 100)"
proof -
  have hi: "unat hi < 256" using unsigned_less [of hi, where ?'a = nat] by simp
  have d: "unat (hi - lo) + unat lo = unat hi" using le by (simp add: unat_sub word_le_nat_alt)
  then have dr: "rat (rate_from_percent (hi - lo)) + rat (rate_from_percent lo) = unat hi * (wad div 100)"
    by (simp add: add_mult_distrib [symmetric])
  have hi_less: "unat hi * (wad div 100) \<le> 255 * (wad div 100)" using hi by (intro mult_le_mono1) simp
  have "rat n * rat (rate_from_percent (hi - lo)) \<le> wad * (255 * (wad div 100))"
    using n dr hi_less by (intro mult_le_mono) linarith+
  also have "\<dots> < 2 ^ 128" by (simp add: wad_def)
  finally obtain p where p: "rate_try_mul n (rate_from_percent (hi - lo)) = Inr p"
    using rate.mul_total by blast
  then have p': "rate_try_mul (rate_from_percent (hi - lo)) n = Inr p" by (simp add: rate.mul_commute)
  have pd: "rat p \<le> rat (rate_from_percent (hi - lo))" using rate.mul_le_left [OF p' n] .
  have "rat p + rat (rate_from_percent lo) \<le> 255 * (wad div 100)" using pd dr hi_less by linarith
  also have "\<dots> < 2 ^ 128" by (simp add: wad_def)
  finally obtain x where x: "rate_try_add p (rate_from_percent lo) = Inr x"
    by (cases "rate_try_add p (rate_from_percent lo)") (auto simp: rate_err)
  then have "rat x = rat p + rat (rate_from_percent lo)" by (simp add: rate_ok)
  with pd dr have "unat lo * (wad div 100) \<le> rat x" "rat x \<le> unat hi * (wad div 100)" by simp_all
  moreover have "checked_sub hi lo = Some (hi - lo)" using le by (simp add: checked_sub_def)
  ultimately show ?thesis using p x by blast
qed

lemma rate_div_total_le:
  assumes "rat a \<le> rat b" "rat b \<noteq> 0" "rat a \<le> wad"
  shows "\<exists>n. rate_try_div a b = Inr n \<and> rat n \<le> wad"
proof -
  have "rat a * wad \<le> wad * wad" using assms(3) by (rule mult_le_mono1)
  also have "\<dots> < 2 ^ 128" by (simp add: wad_def)
  finally obtain n where "rate_try_div a b = Inr n" using rate.div_total assms(2) by blast
  with rate.div_le_one [OF this assms(1)] show ?thesis by blast
qed

lemma current_borrow_rate_range:
  assumes valid: "borrow_curve_valid (config r)" and small: "dec (borrowed_amount_wads (liquidity r)) < 2 ^ 128"
  shows "\<exists>x. current_borrow_rate r = Inr x \<and> unat (min_borrow_rate (config r)) * (wad div 100) \<le> rat x \<and>
    rat x \<le> unat (max_borrow_rate (config r)) * (wad div 100)"
proof -
  define c where "c = config r"
  from utilization_total [OF small] obtain u where u: "utilization_rate (liquidity r) = Inr u" ..
  note u1 = utilization_le_one [OF u]
  have opt: "unat (optimal_utilization_rate c) \<le> 100" and mo: "min_borrow_rate c \<le> optimal_borrow_rate c"
    and om: "optimal_borrow_rate c \<le> max_borrow_rate c"
    using valid by (simp_all add: borrow_curve_valid_def c_def word_le_nat_alt)
  have w: "100 * (wad div 100) = wad" by (simp add: wad_def)
  let ?o = "rate_from_percent (optimal_utilization_rate c)"
  show ?thesis
  proof (cases "u < ?o \<or> optimal_utilization_rate c = 100")
    case True
    have "rat u \<le> rat ?o \<and> rat ?o \<noteq> 0"
    proof (cases "optimal_utilization_rate c = 100")
      case True
      with u1 w show ?thesis by simp
    next
      case False
      with \<open>u < ?o \<or> _\<close> have "rat u < rat ?o" by simp
      then show ?thesis by linarith
    qed
    then have "rat u \<le> rat ?o" "rat ?o \<noteq> 0" by blast+
    with u1 obtain n where n: "rate_try_div u ?o = Inr n" "rat n \<le> wad" using rate_div_total_le by blast
    from curve_segment [OF n(2) mo] obtain p x where
      "checked_sub (optimal_borrow_rate c) (min_borrow_rate c) = Some (optimal_borrow_rate c - min_borrow_rate c)"
      "rate_try_mul n (rate_from_percent (optimal_borrow_rate c - min_borrow_rate c)) = Inr p"
      and x: "rate_try_add p (rate_from_percent (min_borrow_rate c)) = Inr x"
        "unat (min_borrow_rate c) * (wad div 100) \<le> rat x" "rat x \<le> unat (optimal_borrow_rate c) * (wad div 100)"
      by blast
    with True u n have "current_borrow_rate r = Inr x"
      unfolding current_borrow_rate_def c_def [symmetric] Let_def by (simp only: attempt_simps ok_or_simps if_True)
    moreover have "unat (optimal_borrow_rate c) * (wad div 100) \<le> unat (max_borrow_rate c) * (wad div 100)"
      using om by (intro mult_le_mono1) (simp add: word_le_nat_alt)
    ultimately show ?thesis using x(2,3) le_trans unfolding c_def by blast
  next
    case False
    then have ou: "rat ?o \<le> rat u" and no: "optimal_utilization_rate c \<noteq> 100" by simp_all
    have "optimal_utilization_rate c \<le> 100" using opt by (simp add: word_le_nat_alt)
    then have rest: "checked_sub 100 (optimal_utilization_rate c) = Some (100 - optimal_utilization_rate c)"
      by (simp add: checked_sub_def)
    have ur: "unat (100 - optimal_utilization_rate c) = 100 - unat (optimal_utilization_rate c)"
      using opt by (simp add: unat_sub word_le_nat_alt)
    have "unat (optimal_utilization_rate c) \<noteq> 100" using no by (simp add: word_unat_eq_iff)
    with opt have pos: "0 < 100 - unat (optimal_utilization_rate c)" by simp
    obtain ov where ov: "rate_try_sub u ?o = Inr ov" using rate.sub_total ou by blast
    then have "rat u = rat ?o + rat ov" by (simp add: rate_ok)
    moreover have "(100 - unat (optimal_utilization_rate c)) * (wad div 100) + rat ?o = wad"
      using opt w by (simp only: rat_from_percent add_mult_distrib [symmetric]) simp
    ultimately have "rat ov \<le> rat (rate_from_percent (100 - optimal_utilization_rate c))" "rat ov \<le> wad"
      using u1 ur by simp_all
    moreover have "rat (rate_from_percent (100 - optimal_utilization_rate c)) \<noteq> 0"
      using ur pos by (simp add: wad_def)
    ultimately obtain n where
      n: "rate_try_div ov (rate_from_percent (100 - optimal_utilization_rate c)) = Inr n" "rat n \<le> wad"
      using rate_div_total_le by blast
    from curve_segment [OF n(2) om] obtain p x where
      "checked_sub (max_borrow_rate c) (optimal_borrow_rate c) = Some (max_borrow_rate c - optimal_borrow_rate c)"
      "rate_try_mul n (rate_from_percent (max_borrow_rate c - optimal_borrow_rate c)) = Inr p"
      and x: "rate_try_add p (rate_from_percent (optimal_borrow_rate c)) = Inr x"
        "unat (optimal_borrow_rate c) * (wad div 100) \<le> rat x" "rat x \<le> unat (max_borrow_rate c) * (wad div 100)"
      by blast
    with False u n ov rest have "current_borrow_rate r = Inr x"
      unfolding current_borrow_rate_def c_def [symmetric] Let_def by (simp only: attempt_simps ok_or_simps if_False)
    moreover have "unat (min_borrow_rate c) * (wad div 100) \<le> unat (optimal_borrow_rate c) * (wad div 100)"
      using mo by (intro mult_le_mono1) (simp add: word_le_nat_alt)
    ultimately show ?thesis using x(2,3) le_trans unfolding c_def by blast
  qed
qed

lemma reserve_accrue_interest_cases:
  assumes "reserve_accrue_interest k s r = Inr r'"
  obtains (same) "s = slot (reserve_last_update r)" "r' = r"
  | (compound) n x l where "unat s = unat (slot (reserve_last_update r)) + unat n" "n \<noteq> 0"
      "current_borrow_rate r = Inr x" "compound_interest k x n (liquidity r) = Inr l"
      "r' = r\<lparr> liquidity := l \<rparr>"
proof -
  from assms obtain n where n: "slots_elapsed (reserve_last_update r) s = Inr n"
    by (auto simp: reserve_accrue_interest_def)
  then have e: "unat s = unat (slot (reserve_last_update r)) + unat n" by (simp add: slots_elapsed_ok)
  have r': "(if 0 < n then attempt (current_borrow_rate r) (\<lambda>x.
       attempt (compound_interest k x n (liquidity r)) (\<lambda>l. Inr (r\<lparr> liquidity := l \<rparr>))) else Inr r) = Inr r'"
    using assms n by (simp only: reserve_accrue_interest_def attempt_simps)
  show thesis
  proof (cases "n = 0")
    case True
    with e have "s = slot (reserve_last_update r)" by (simp add: word_unat_eq_iff)
    moreover from r' True have "r' = r" by simp
    ultimately show ?thesis by (rule same)
  next
    case False
    then have "0 < n" by (simp add: word_gt_0)
    with r' obtain x l where "current_borrow_rate r = Inr x" "compound_interest k x n (liquidity r) = Inr l"
      "r' = r\<lparr> liquidity := l \<rparr>"
      by (simp only: if_True attempt_Inr_iff sum.inject) blast
    with e False show ?thesis by (rule compound)
  qed
qed

end
