(* ===== verification/Reserve_Pack.thy ===== *)
theory Reserve_Pack
  imports Reserve
begin

text \<open>
  The account data of a reserve (\<open>impl Pack for Reserve\<close> of
  token-lending/program/src/state/reserve.rs): 29 fields and 199 bytes of padding in 575 bytes.
\<close>

definition RESERVE_LEN :: nat where
  "RESERVE_LEN = 575"

definition reserve_layout :: "nat list" where
  "reserve_layout = [1, 8, 1, 32, 32, 1, 32, 32, 4 + 32, 8, 16, 16, 16, 32, 8, 32,
     1, 1, 1, 1, 1, 1, 1, 8, 8, 1, 33, 8, 8, 199]"

definition reserve_write :: "reserve \<Rightarrow> byte list \<Rightarrow> byte list result" where
  "reserve_write r output =
     attempt (pack_decimal (borrowed_amount_wads (liquidity r))) (\<lambda>liquidity_borrowed.
     attempt (pack_decimal (cumulative_borrow_rate_wads (liquidity r))) (\<lambda>liquidity_cumulative.
     attempt (pack_decimal (market_price (liquidity r))) (\<lambda>liquidity_price.
     Inr (u8_to (reserve_version r) @
       u64_to (slot (reserve_last_update r)) @
       pack_bool (stale (reserve_last_update r)) @
       bytes32_to (reserve_lending_market r) @
       bytes32_to (liq_mint_pubkey (liquidity r)) @
       u8_to (mint_decimals (liquidity r)) @
       bytes32_to (liq_supply_pubkey (liquidity r)) @
       bytes32_to (fee_receiver (liquidity r)) @
       pack_coption_key (oracle_pubkey (liquidity r)) (take 36 (drop 139 output)) @
       u64_to (available_amount (liquidity r)) @
       liquidity_borrowed @ liquidity_cumulative @ liquidity_price @
       bytes32_to (coll_mint_pubkey (collateral r)) @
       u64_to (mint_total_supply (collateral r)) @
       bytes32_to (coll_supply_pubkey (collateral r)) @
       u8_to (optimal_utilization_rate (config r)) @
       u8_to (loan_to_value_ratio (config r)) @
       u8_to (liquidation_bonus (config r)) @
       u8_to (liquidation_threshold (config r)) @
       u8_to (min_borrow_rate (config r)) @
       u8_to (optimal_borrow_rate (config r)) @
       u8_to (max_borrow_rate (config r)) @
       u64_to (borrow_fee_wad (config_fees (config r))) @
       u64_to (flash_loan_fee_wad (config_fees (config r))) @
       u8_to (host_fee_percentage (config_fees (config r))) @
       pack_coption_key_compact (deposit_staking_pool (config r)) (take 33 (drop 327 output)) @
       u64_to (deposit_limit (config r)) @
       u64_to (borrow_limit (config r)) @
       drop 376 output))))"

definition reserve_pack_into_slice :: "reserve \<Rightarrow> byte list \<Rightarrow> byte list result" where
  "reserve_pack_into_slice r = write_array RESERVE_LEN (reserve_write r)"

definition reserve_read :: "byte list \<Rightarrow> reserve result" where
  "reserve_read input =
     (case layout reserve_layout input of
        [ver, last_update_slot, last_update_stale, market, liquidity_mint, liquidity_decimals,
         liquidity_supply, liquidity_fee_receiver, liquidity_oracle, liquidity_available,
         liquidity_borrowed, liquidity_cumulative, liquidity_price, collateral_mint_key,
         collateral_total, collateral_supply, optimal_utilization, ltv, bonus, threshold,
         min_rate, optimal_rate, max_rate, borrow_fee_bytes, flash_loan_fee_bytes, host_percentage,
         staking_pool, limit_deposit, limit_borrow, padding] \<Rightarrow>
       if PROGRAM_VERSION < u8_from ver then Inl (Err InvalidAccountData)
       else
         attempt (unpack_bool last_update_stale) (\<lambda>stale_mark.
         attempt (unpack_coption_key liquidity_oracle) (\<lambda>oracle.
         attempt (unpack_coption_key_compact staking_pool) (\<lambda>pool.
         Inr \<lparr>
           reserve_version = u8_from ver,
           reserve_last_update = \<lparr> slot = u64_from last_update_slot, stale = stale_mark \<rparr>,
           reserve_lending_market = bytes32_from market,
           liquidity = \<lparr>
             liq_mint_pubkey = bytes32_from liquidity_mint,
             mint_decimals = u8_from liquidity_decimals,
             liq_supply_pubkey = bytes32_from liquidity_supply,
             fee_receiver = bytes32_from liquidity_fee_receiver,
             oracle_pubkey = oracle,
             available_amount = u64_from liquidity_available,
             borrowed_amount_wads = unpack_decimal liquidity_borrowed,
             cumulative_borrow_rate_wads = unpack_decimal liquidity_cumulative,
             market_price = unpack_decimal liquidity_price \<rparr>,
           collateral = \<lparr>
             coll_mint_pubkey = bytes32_from collateral_mint_key,
             mint_total_supply = u64_from collateral_total,
             coll_supply_pubkey = bytes32_from collateral_supply \<rparr>,
           config = \<lparr>
             optimal_utilization_rate = u8_from optimal_utilization,
             loan_to_value_ratio = u8_from ltv,
             liquidation_bonus = u8_from bonus,
             liquidation_threshold = u8_from threshold,
             min_borrow_rate = u8_from min_rate,
             optimal_borrow_rate = u8_from optimal_rate,
             max_borrow_rate = u8_from max_rate,
             config_fees = \<lparr>
               borrow_fee_wad = u64_from borrow_fee_bytes,
               flash_loan_fee_wad = u64_from flash_loan_fee_bytes,
               host_fee_percentage = u8_from host_percentage \<rparr>,
             deposit_staking_pool = pool,
             deposit_limit = u64_from limit_deposit,
             borrow_limit = u64_from limit_borrow \<rparr> \<rparr>)))
      | _ \<Rightarrow> Inl Panic)"

definition reserve_unpack_from_slice :: "byte list \<Rightarrow> reserve result" where
  "reserve_unpack_from_slice = read_array RESERVE_LEN reserve_read"

text \<open>What can be packed: a known version, and decimals that fit 128 bits.\<close>

definition reserve_fits :: "reserve \<Rightarrow> bool" where
  "reserve_fits r = (reserve_version r \<le> PROGRAM_VERSION \<and>
     dec (borrowed_amount_wads (liquidity r)) < 2 ^ 128 \<and>
     dec (cumulative_borrow_rate_wads (liquidity r)) < 2 ^ 128 \<and>
     dec (market_price (liquidity r)) < 2 ^ 128)"

lemma reserve_write_cases:
  assumes "reserve_write r output = Inr bs"
  obtains b c p where "pack_decimal (borrowed_amount_wads (liquidity r)) = Inr b"
    "pack_decimal (cumulative_borrow_rate_wads (liquidity r)) = Inr c"
    "pack_decimal (market_price (liquidity r)) = Inr p"
  using assms by (auto simp: reserve_write_def)

interpretation reserve_pack: packed RESERVE_LEN reserve_fits reserve_write reserve_read
proof
  fix r :: reserve and dst bs :: "byte list"
  show "reserve_fits r \<Longrightarrow> length dst = RESERVE_LEN \<Longrightarrow> \<exists>bs. reserve_write r dst = Inr bs"
    using pack_decimal_total [of "borrowed_amount_wads (liquidity r)"]
      pack_decimal_total [of "cumulative_borrow_rate_wads (liquidity r)"]
      pack_decimal_total [of "market_price (liquidity r)"]
    by (auto simp: reserve_write_def reserve_fits_def)
next
  fix r :: reserve and dst bs :: "byte list"
  assume len: "length dst = RESERVE_LEN" and w: "reserve_write r dst = Inr bs"
  from w obtain b c p where d: "pack_decimal (borrowed_amount_wads (liquidity r)) = Inr b"
    "pack_decimal (cumulative_borrow_rate_wads (liquidity r)) = Inr c"
    "pack_decimal (market_price (liquidity r)) = Inr p"
    by (rule reserve_write_cases)
  show "length bs = RESERVE_LEN"
    using w len d by (auto simp: reserve_write_def RESERVE_LEN_def)
next
  fix r :: reserve and dst bs :: "byte list"
  assume fits: "reserve_fits r" and len: "length dst = RESERVE_LEN" and w: "reserve_write r dst = Inr bs"
  from w obtain b c p where d: "pack_decimal (borrowed_amount_wads (liquidity r)) = Inr b"
    "pack_decimal (cumulative_borrow_rate_wads (liquidity r)) = Inr c"
    "pack_decimal (market_price (liquidity r)) = Inr p"
    by (rule reserve_write_cases)
  from fits have v: "\<not> PROGRAM_VERSION < reserve_version r" by (simp add: reserve_fits_def not_less)
  from w d len v show "reserve_read bs = Inr r"
    by (auto simp: reserve_write_def reserve_read_def reserve_layout_def RESERVE_LEN_def)
qed

end
