(* ===== verification/Runtime.thy ===== *)
theory Runtime
  imports Lending_Market Obligation_Pack Reserve_Pack
begin

text \<open>
  What the program sees of Solana. The accounts of a transaction are a \<open>world\<close>, a map from
  addresses to accounts: an account passed twice is one account, as in the runtime. Library code
  is a parameter, gathered in the record \<open>solana\<close>: the checks of the \<open>Pack\<close> trait's own methods,
  sysvar decoding, program addresses, the instruction builders and account decoders of spl_token,
  and \<open>invoke\<close>, which runs another program on the world. What the program relies on is stated as
  hypotheses where a theorem needs it.
\<close>

section \<open>Accounts\<close>

record account =
  acc_lamports :: u64
  acc_owner :: pubkey
  acc_data :: "byte list"

type_synonym world = "pubkey \<Rightarrow> account"

text \<open>The part of \<open>AccountInfo\<close> that is fixed for an instruction; the rest is read from the world.\<close>

record account_info =
  info_key :: pubkey
  is_signer :: bool
  is_writable :: bool

record account_meta =
  meta_pubkey :: pubkey
  meta_is_signer :: bool
  meta_is_writable :: bool

record instruction =
  ix_program_id :: pubkey
  ix_accounts :: "account_meta list"
  ix_data :: "byte list"

record token_account =
  token_amount :: u64
  token_account_mint :: pubkey

record token_mint =
  token_decimals :: u8

record solana =
  keys_missing :: program_error
  length_check :: "nat \<Rightarrow> nat \<Rightarrow> program_error option"
  init_check :: "bool \<Rightarrow> program_error option"
  clock_slot :: "pubkey \<Rightarrow> account \<Rightarrow> program_error + u64"
  rent_exempt :: "pubkey \<Rightarrow> account \<Rightarrow> program_error + (u64 \<Rightarrow> nat \<Rightarrow> bool)"
  create_program_address :: "byte list list \<Rightarrow> pubkey \<Rightarrow> program_error + pubkey"
  find_program_address :: "byte list list \<Rightarrow> pubkey \<Rightarrow> pubkey \<times> u8"
  pubkey_to_string :: "pubkey \<Rightarrow> string"
  clock_id :: pubkey
  clock_values :: clock_constants
  unpack_token_account :: "byte list \<Rightarrow> program_error + token_account"
  unpack_token_mint :: "byte list \<Rightarrow> program_error + token_mint"
  token_initialize_account :: "pubkey \<Rightarrow> pubkey \<Rightarrow> pubkey \<Rightarrow> pubkey \<Rightarrow> program_error + instruction"
  token_initialize_mint :: "pubkey \<Rightarrow> pubkey \<Rightarrow> pubkey \<Rightarrow> pubkey option \<Rightarrow> u8 \<Rightarrow> program_error + instruction"
  token_transfer :: "pubkey \<Rightarrow> pubkey \<Rightarrow> pubkey \<Rightarrow> pubkey \<Rightarrow> pubkey list \<Rightarrow> u64 \<Rightarrow> program_error + instruction"
  token_mint_to :: "pubkey \<Rightarrow> pubkey \<Rightarrow> pubkey \<Rightarrow> pubkey \<Rightarrow> pubkey list \<Rightarrow> u64 \<Rightarrow> program_error + instruction"
  token_burn :: "pubkey \<Rightarrow> pubkey \<Rightarrow> pubkey \<Rightarrow> pubkey \<Rightarrow> pubkey list \<Rightarrow> u64 \<Rightarrow> program_error + instruction"
  invoke_program :: "byte list list list \<Rightarrow> instruction \<Rightarrow> account_info list \<Rightarrow> world \<Rightarrow> program_error + world"

text \<open>A library result as a result of the program: \<open>e?\<close> on a \<open>Result<_, ProgramError>\<close>.\<close>

definition lib :: "program_error + 'a \<Rightarrow> 'a result" where
  "lib r = (case r of Inl e \<Rightarrow> Inl (Err e) | Inr x \<Rightarrow> Inr x)"

text \<open>A check of the code: \<open>if bad { return Err(e.into()) }\<close>.\<close>

definition refuse_if :: "bool \<Rightarrow> lending_error \<Rightarrow> unit result" where
  "refuse_if bad e = (if bad then Inl (lending e) else Inr ())"

fun next_account_info :: "solana \<Rightarrow> account_info list \<Rightarrow> (account_info \<times> account_info list) result" where
  "next_account_info rt [] = Inl (Err (keys_missing rt))"
| "next_account_info rt (a # as) = Inr (a, as)"

definition clock_from :: "solana \<Rightarrow> world \<Rightarrow> account_info \<Rightarrow> u64 result" where
  "clock_from rt w i = lib (clock_slot rt (info_key i) (w (info_key i)))"

definition rent_from :: "solana \<Rightarrow> world \<Rightarrow> account_info \<Rightarrow> (u64 \<Rightarrow> nat \<Rightarrow> bool) result" where
  "rent_from rt w i = lib (rent_exempt rt (info_key i) (w (info_key i)))"

definition owner_of :: "world \<Rightarrow> account_info \<Rightarrow> pubkey" where
  "owner_of w i = acc_owner (w (info_key i))"

definition data_of :: "world \<Rightarrow> account_info \<Rightarrow> byte list" where
  "data_of w i = acc_data (w (info_key i))"

section \<open>Reading and writing state\<close>

text \<open>
  \<open>T::unpack\<close>, \<open>T::unpack_unchecked\<close> and \<open>T::pack\<close>: the trait's own methods check the length and
  the initialisation as the parameters say, around the implementation's slice methods.
\<close>

definition unpack_unchecked :: "solana \<Rightarrow> nat \<Rightarrow> (byte list \<Rightarrow> 'a result) \<Rightarrow> byte list \<Rightarrow> 'a result" where
  "unpack_unchecked rt len unpack bs =
     (case length_check rt len (length bs) of Some e \<Rightarrow> Inl (Err e) | None \<Rightarrow> unpack bs)"

definition unpack_checked ::
    "solana \<Rightarrow> nat \<Rightarrow> ('a \<Rightarrow> bool) \<Rightarrow> (byte list \<Rightarrow> 'a result) \<Rightarrow> byte list \<Rightarrow> 'a result" where
  "unpack_checked rt len initialized unpack bs =
     attempt (unpack_unchecked rt len unpack bs) (\<lambda>v.
     case init_check rt (initialized v) of Some e \<Rightarrow> Inl (Err e) | None \<Rightarrow> Inr v)"

definition pack_into ::
    "solana \<Rightarrow> nat \<Rightarrow> ('a \<Rightarrow> byte list \<Rightarrow> byte list result) \<Rightarrow> 'a \<Rightarrow> account_info \<Rightarrow> world \<Rightarrow> world result" where
  "pack_into rt len pack v i w =
     (case length_check rt len (length (data_of w i)) of
        Some e \<Rightarrow> Inl (Err e)
      | None \<Rightarrow>
          attempt (pack v (data_of w i)) (\<lambda>bs.
          Inr (w(info_key i := (w (info_key i))\<lparr> acc_data := bs \<rparr>))))"

definition unpack_market :: "solana \<Rightarrow> world \<Rightarrow> account_info \<Rightarrow> lending_market result" where
  "unpack_market rt w i = unpack_checked rt LENDING_MARKET_LEN lending_market_is_initialized
     lending_market_unpack_from_slice (data_of w i)"

definition pack_market :: "solana \<Rightarrow> lending_market \<Rightarrow> account_info \<Rightarrow> world \<Rightarrow> world result" where
  "pack_market rt = pack_into rt LENDING_MARKET_LEN lending_market_pack_into_slice"

definition unpack_reserve :: "solana \<Rightarrow> world \<Rightarrow> account_info \<Rightarrow> reserve result" where
  "unpack_reserve rt w i = unpack_checked rt RESERVE_LEN reserve_is_initialized
     reserve_unpack_from_slice (data_of w i)"

definition pack_reserve :: "solana \<Rightarrow> reserve \<Rightarrow> account_info \<Rightarrow> world \<Rightarrow> world result" where
  "pack_reserve rt = pack_into rt RESERVE_LEN reserve_pack_into_slice"

definition unpack_obligation :: "solana \<Rightarrow> world \<Rightarrow> account_info \<Rightarrow> obligation result" where
  "unpack_obligation rt w i = unpack_checked rt OBLIGATION_LEN obligation_is_initialized
     obligation_unpack_from_slice (data_of w i)"

definition pack_obligation :: "solana \<Rightarrow> obligation \<Rightarrow> account_info \<Rightarrow> world \<Rightarrow> world result" where
  "pack_obligation rt = pack_into rt OBLIGATION_LEN obligation_pack_into_slice"

section \<open>Helpers of the processor\<close>

definition assert_rent_exempt :: "(u64 \<Rightarrow> nat \<Rightarrow> bool) \<Rightarrow> world \<Rightarrow> account_info \<Rightarrow> unit result" where
  "assert_rent_exempt rent w i =
     refuse_if (\<not> rent (acc_lamports (w (info_key i))) (length (data_of w i))) NotRentExempt"

definition assert_uninitialized ::
    "solana \<Rightarrow> nat \<Rightarrow> ('a \<Rightarrow> bool) \<Rightarrow> (byte list \<Rightarrow> 'a result) \<Rightarrow> world \<Rightarrow> account_info \<Rightarrow> 'a result" where
  "assert_uninitialized rt len initialized unpack w i =
     attempt (unpack_unchecked rt len unpack (data_of w i)) (\<lambda>account.
     if initialized account then Inl (lending AlreadyInitialized) else Inr account)"

definition unpack_mint :: "solana \<Rightarrow> byte list \<Rightarrow> token_mint result" where
  "unpack_mint rt d = map_err (lib (unpack_token_mint rt d)) (lending InvalidTokenMint)"

definition authority_signer_seeds :: "account_info \<Rightarrow> lending_market \<Rightarrow> byte list list" where
  "authority_signer_seeds lending_market_info m =
     [bytes32_to (info_key lending_market_info), [market_bump_seed m]]"

text \<open>The check every handler that signs for the market makes of the authority account.\<close>

definition check_market_authority ::
    "solana \<Rightarrow> pubkey \<Rightarrow> account_info \<Rightarrow> lending_market \<Rightarrow> account_info \<Rightarrow> unit result" where
  "check_market_authority rt program_id lending_market_info m lending_market_authority_info =
     attempt (lib (create_program_address rt (authority_signer_seeds lending_market_info m) program_id))
       (\<lambda>authority. refuse_if (authority \<noteq> info_key lending_market_authority_info) InvalidMarketAuthority)"

definition invoke_optionally_signed ::
    "solana \<Rightarrow> instruction \<Rightarrow> account_info list \<Rightarrow> byte list list \<Rightarrow> world \<Rightarrow> world result" where
  "invoke_optionally_signed rt ix infos seeds w =
     (if seeds = [] then lib (invoke_program rt [] ix infos w)
      else lib (invoke_program rt [seeds] ix infos w))"

definition spl_token_init_account ::
    "solana \<Rightarrow> account_info \<Rightarrow> account_info \<Rightarrow> account_info \<Rightarrow> account_info \<Rightarrow> account_info \<Rightarrow>
      world \<Rightarrow> world result" where
  "spl_token_init_account rt acct mint own rent token_program w =
     attempt (lib (token_initialize_account rt (info_key token_program) (info_key acct)
       (info_key mint) (info_key own))) (\<lambda>ix.
     map_err (lib (invoke_program rt [] ix [acct, mint, own, rent, token_program] w))
       (lending TokenInitializeAccountFailed))"

definition spl_token_init_mint ::
    "solana \<Rightarrow> account_info \<Rightarrow> account_info \<Rightarrow> pubkey \<Rightarrow> u8 \<Rightarrow> account_info \<Rightarrow> world \<Rightarrow> world result" where
  "spl_token_init_mint rt mint rent authority decimals token_program w =
     attempt (lib (token_initialize_mint rt (info_key token_program) (info_key mint) authority None
       decimals)) (\<lambda>ix.
     map_err (lib (invoke_program rt [] ix [mint, rent, token_program] w))
       (lending TokenInitializeMintFailed))"

definition spl_token_transfer ::
    "solana \<Rightarrow> account_info \<Rightarrow> account_info \<Rightarrow> u64 \<Rightarrow> account_info \<Rightarrow> byte list list \<Rightarrow> account_info \<Rightarrow>
      world \<Rightarrow> world result" where
  "spl_token_transfer rt source destination amount authority seeds token_program w =
     attempt (lib (token_transfer rt (info_key token_program) (info_key source)
       (info_key destination) (info_key authority) [] amount)) (\<lambda>ix.
     map_err (invoke_optionally_signed rt ix [source, destination, authority, token_program] seeds w)
       (lending TokenTransferFailed))"

definition spl_token_mint_to ::
    "solana \<Rightarrow> account_info \<Rightarrow> account_info \<Rightarrow> u64 \<Rightarrow> account_info \<Rightarrow> byte list list \<Rightarrow> account_info \<Rightarrow>
      world \<Rightarrow> world result" where
  "spl_token_mint_to rt mint destination amount authority seeds token_program w =
     attempt (lib (token_mint_to rt (info_key token_program) (info_key mint)
       (info_key destination) (info_key authority) [] amount)) (\<lambda>ix.
     map_err (invoke_optionally_signed rt ix [mint, destination, authority, token_program] seeds w)
       (lending TokenMintToFailed))"

definition spl_token_burn ::
    "solana \<Rightarrow> account_info \<Rightarrow> account_info \<Rightarrow> u64 \<Rightarrow> account_info \<Rightarrow> byte list list \<Rightarrow> account_info \<Rightarrow>
      world \<Rightarrow> world result" where
  "spl_token_burn rt mint source amount authority seeds token_program w =
     attempt (lib (token_burn rt (info_key token_program) (info_key source)
       (info_key mint) (info_key authority) [] amount)) (\<lambda>ix.
     map_err (invoke_optionally_signed rt ix [source, mint, authority, token_program] seeds w)
       (lending TokenBurnFailed))"

section \<open>Lemmas\<close>

lemma lib_ok [simp]: "lib r = Inr x \<longleftrightarrow> r = Inr x"
  by (simp add: lib_def split: sum.split)

lemma refuse_if_ok [simp]: "refuse_if bad e = Inr u \<longleftrightarrow> \<not> bad"
  by (simp add: refuse_if_def)

lemma refuse_if_err: "refuse_if bad e = Inl f \<longleftrightarrow> bad \<and> f = lending e"
  by (auto simp: refuse_if_def)

lemma next_account_info_ok [simp]: "next_account_info rt as = Inr (a, bs) \<longleftrightarrow> as = a # bs"
  by (cases as) auto

lemma owner_of_data [simp]:
  "owner_of (w(k := (w k)\<lparr> acc_data := bs \<rparr>)) i = owner_of w i"
  by (simp add: owner_of_def)

text \<open>
  The documented behaviour of the \<open>Pack\<close> trait: a buffer of another length is refused, and so is
  an uninitialised account.
\<close>

definition pack_checks :: "solana \<Rightarrow> bool" where
  "pack_checks rt \<longleftrightarrow> (\<forall>l n. length_check rt l n = None \<longleftrightarrow> l = n) \<and>
     (\<forall>b. init_check rt b = None \<longleftrightarrow> b)"

lemma length_check_ok: "pack_checks rt \<Longrightarrow> length_check rt l n = None \<longleftrightarrow> l = n"
  by (simp add: pack_checks_def)

lemma init_check_ok: "pack_checks rt \<Longrightarrow> init_check rt b = None \<longleftrightarrow> b"
  by (simp add: pack_checks_def)

lemma unpack_checked_ok:
  assumes "pack_checks rt"
  shows "unpack_checked rt len initialized unpack bs = Inr v \<longleftrightarrow>
    length bs = len \<and> unpack bs = Inr v \<and> initialized v"
proof -
  have "(case init_check rt (initialized x) of Some e \<Rightarrow> Inl (Err e) | None \<Rightarrow> Inr x) = Inr v \<longleftrightarrow>
      initialized x \<and> x = v" for x :: 'a
    using init_check_ok [OF assms, of "initialized x"]
    by (cases "init_check rt (initialized x)") auto
  then show ?thesis
    using length_check_ok [OF assms, of len "length bs"]
    by (cases "length_check rt len (length bs)")
      (auto simp: unpack_checked_def unpack_unchecked_def)
qed

text \<open>A state is read back as it was packed, and a write changes one account's data only.\<close>

lemma pack_into_ok:
  assumes "pack_checks rt"
  shows "pack_into rt len pack v i w = Inr w' \<longleftrightarrow>
    length (data_of w i) = len \<and> (\<exists>bs. pack v (data_of w i) = Inr bs \<and>
      w' = w(info_key i := (w (info_key i))\<lparr> acc_data := bs \<rparr>))"
  using length_check_ok [OF assms, of len "length (data_of w i)"]
  by (cases "length_check rt len (length (data_of w i))") (auto simp: pack_into_def)

lemma pack_into_frame: "pack_into rt len pack v i w = Inr w' \<Longrightarrow> k \<noteq> info_key i \<Longrightarrow> w' k = w k"
  by (auto simp: pack_into_def split: option.splits)

lemma pack_into_owner: "pack_into rt len pack v i w = Inr w' \<Longrightarrow> acc_owner (w' k) = acc_owner (w k)"
  by (auto simp: pack_into_def split: option.splits)

lemma pack_into_lamports: "pack_into rt len pack v i w = Inr w' \<Longrightarrow> acc_lamports (w' k) = acc_lamports (w k)"
  by (auto simp: pack_into_def split: option.splits)

lemmas pack_state_defs = pack_market_def pack_reserve_def pack_obligation_def
lemmas unpack_state_defs = unpack_market_def unpack_reserve_def unpack_obligation_def

end
