(* ===== verification/Instruction.thy ===== *)
theory Instruction
  imports Wire Runtime
begin

text \<open>
  The instructions of the lending program and their encoding (token-lending/program/src/instruction.rs):
  a tag byte and the arguments in little-endian order. \<open>unpack\<close> accepts trailing bytes, and there is
  no instruction 15.
\<close>

section \<open>Instructions\<close>

datatype (plugins only: size) lending_instruction =
    InitLendingMarket pubkey bytes32
  | SetLendingMarketOwner pubkey
  | InitReserve u64 "decimal option" reserve_config
  | RefreshReserve
  | DepositReserveLiquidity u64
  | RedeemReserveCollateral u64
  | InitObligation
  | RefreshObligation
  | DepositObligationCollateral u64
  | WithdrawObligationCollateral u64
  | BorrowObligationLiquidity u64
  | RepayObligationLiquidity u64
  | LiquidateObligation u64
  | FlashLoan u64
  | DepositReserveLiquidityAndObligationCollateral u64
  | UpdateReserve reserve_config
  | WithdrawFee

section \<open>Decoding\<close>

definition ix_unpack_u64 :: "byte list \<Rightarrow> (u64 \<times> byte list) result" where
  "ix_unpack_u64 = read_u64 (lending InstructionUnpackError)"

definition ix_unpack_u8 :: "byte list \<Rightarrow> (u8 \<times> byte list) result" where
  "ix_unpack_u8 = read_u8 (lending InstructionUnpackError)"

definition ix_unpack_bytes32 :: "byte list \<Rightarrow> (bytes32 \<times> byte list) result" where
  "ix_unpack_bytes32 = read_bytes32 (lending InstructionUnpackError)"

definition ix_unpack_pubkey :: "byte list \<Rightarrow> (pubkey \<times> byte list) result" where
  "ix_unpack_pubkey = read_bytes32 (lending InstructionUnpackError)"

definition ix_unpack_coption_decimal :: "byte list \<Rightarrow> (decimal option \<times> byte list) result" where
  "ix_unpack_coption_decimal input =
     attempt (read_bytes 20 (lending InstructionUnpackError) input) (\<lambda>(coption_decimal, rest).
     let tag = take 4 coption_decimal in
     if tag = [0, 0, 0, 0] then Inr (None, rest)
     else if tag = [1, 0, 0, 0] then Inr (Some (unpack_decimal (drop 4 coption_decimal)), rest)
     else Inl (Err InvalidAccountData))"

definition ix_unpack_coption_key_compact :: "byte list \<Rightarrow> (pubkey option \<times> byte list) result" where
  "ix_unpack_coption_key_compact input =
     attempt (read_bytes 33 (lending InstructionUnpackError) input) (\<lambda>(coption_pubkey, rest).
     attempt (unpack_coption_key_compact coption_pubkey) (\<lambda>k. Inr (k, rest)))"

definition ix_unpack_reserve_config :: "byte list \<Rightarrow> (reserve_config \<times> byte list) result" where
  "ix_unpack_reserve_config input =
     attempt (ix_unpack_u8 input) (\<lambda>(optimal_utilization, rest).
     attempt (ix_unpack_u8 rest) (\<lambda>(loan_to_value, rest).
     attempt (ix_unpack_u8 rest) (\<lambda>(bonus, rest).
     attempt (ix_unpack_u8 rest) (\<lambda>(threshold, rest).
     attempt (ix_unpack_u8 rest) (\<lambda>(min_rate, rest).
     attempt (ix_unpack_u8 rest) (\<lambda>(optimal_rate, rest).
     attempt (ix_unpack_u8 rest) (\<lambda>(max_rate, rest).
     attempt (ix_unpack_u64 rest) (\<lambda>(borrow_fee, rest).
     attempt (ix_unpack_u64 rest) (\<lambda>(flash_loan_fee, rest).
     attempt (ix_unpack_u8 rest) (\<lambda>(host_percentage, rest).
     attempt (ix_unpack_coption_key_compact rest) (\<lambda>(staking_pool, rest).
     attempt (ix_unpack_u64 rest) (\<lambda>(deposit_lim, rest).
     attempt (ix_unpack_u64 rest) (\<lambda>(borrow_lim, rest).
     Inr (\<lparr> optimal_utilization_rate = optimal_utilization, loan_to_value_ratio = loan_to_value,
       liquidation_bonus = bonus, liquidation_threshold = threshold, min_borrow_rate = min_rate,
       optimal_borrow_rate = optimal_rate, max_borrow_rate = max_rate,
       config_fees = \<lparr> borrow_fee_wad = borrow_fee, flash_loan_fee_wad = flash_loan_fee,
         host_fee_percentage = host_percentage \<rparr>,
       deposit_staking_pool = staking_pool, deposit_limit = deposit_lim,
       borrow_limit = borrow_lim \<rparr>, rest))))))))))))))"

text \<open>An instruction whose only argument is an amount.\<close>

definition ix_amount :: "(u64 \<Rightarrow> lending_instruction) \<Rightarrow> byte list \<Rightarrow> lending_instruction result" where
  "ix_amount ins rest = attempt (ix_unpack_u64 rest) (\<lambda>(amount, _). Inr (ins amount))"

definition instruction_unpack :: "byte list \<Rightarrow> lending_instruction result" where
  "instruction_unpack input =
     (case input of
        [] \<Rightarrow> Inl (lending InstructionUnpackError)
      | tag # rest \<Rightarrow>
          if tag = 0 then
            attempt (ix_unpack_pubkey rest) (\<lambda>(own, rest).
            attempt (ix_unpack_bytes32 rest) (\<lambda>(currency, _).
            Inr (InitLendingMarket own currency)))
          else if tag = 1 then
            attempt (ix_unpack_pubkey rest) (\<lambda>(new_owner, _). Inr (SetLendingMarketOwner new_owner))
          else if tag = 2 then
            attempt (ix_unpack_u64 rest) (\<lambda>(liquidity_amount, rest).
            attempt (ix_unpack_coption_decimal rest) (\<lambda>(fixed_price, rest).
            attempt (ix_unpack_reserve_config rest) (\<lambda>(cfg, _).
            Inr (InitReserve liquidity_amount fixed_price cfg))))
          else if tag = 3 then Inr RefreshReserve
          else if tag = 4 then ix_amount DepositReserveLiquidity rest
          else if tag = 5 then ix_amount RedeemReserveCollateral rest
          else if tag = 6 then Inr InitObligation
          else if tag = 7 then Inr RefreshObligation
          else if tag = 8 then ix_amount DepositObligationCollateral rest
          else if tag = 9 then ix_amount WithdrawObligationCollateral rest
          else if tag = 10 then ix_amount BorrowObligationLiquidity rest
          else if tag = 11 then ix_amount RepayObligationLiquidity rest
          else if tag = 12 then ix_amount LiquidateObligation rest
          else if tag = 13 then ix_amount FlashLoan rest
          else if tag = 14 then ix_amount DepositReserveLiquidityAndObligationCollateral rest
          else if tag = 16 then
            attempt (ix_unpack_reserve_config rest) (\<lambda>(cfg, _). Inr (UpdateReserve cfg))
          else if tag = 17 then Inr WithdrawFee
          else Inl (lending InstructionUnpackError))"

section \<open>Encoding\<close>

definition ix_pack_coption_decimal :: "decimal option \<Rightarrow> byte list result" where
  "ix_pack_coption_decimal coption_decimal =
     (case coption_decimal of
        None \<Rightarrow> attempt (pack_decimal decimal_zero) (\<lambda>bs. Inr ([0, 0, 0, 0] @ bs))
      | Some d \<Rightarrow> attempt (pack_decimal d) (\<lambda>bs. Inr ([1, 0, 0, 0] @ bs)))"

definition ix_pack_reserve_config :: "reserve_config \<Rightarrow> byte list" where
  "ix_pack_reserve_config c =
     u8_to (optimal_utilization_rate c) @ u8_to (loan_to_value_ratio c) @
     u8_to (liquidation_bonus c) @ u8_to (liquidation_threshold c) @
     u8_to (min_borrow_rate c) @ u8_to (optimal_borrow_rate c) @ u8_to (max_borrow_rate c) @
     u64_to (borrow_fee_wad (config_fees c)) @ u64_to (flash_loan_fee_wad (config_fees c)) @
     u8_to (host_fee_percentage (config_fees c)) @
     pack_coption_key_compact (deposit_staking_pool c) (replicate 33 0) @
     u64_to (deposit_limit c) @ u64_to (borrow_limit c)"

fun instruction_pack :: "lending_instruction \<Rightarrow> byte list result" where
  "instruction_pack (InitLendingMarket own currency) = Inr ([0] @ bytes32_to own @ bytes32_to currency)"
| "instruction_pack (SetLendingMarketOwner new_owner) = Inr ([1] @ bytes32_to new_owner)"
| "instruction_pack (InitReserve amount price cfg) =
     attempt (ix_pack_coption_decimal price) (\<lambda>price_bytes.
     Inr ([2] @ u64_to amount @ price_bytes @ ix_pack_reserve_config cfg))"
| "instruction_pack RefreshReserve = Inr [3]"
| "instruction_pack (DepositReserveLiquidity amount) = Inr ([4] @ u64_to amount)"
| "instruction_pack (RedeemReserveCollateral amount) = Inr ([5] @ u64_to amount)"
| "instruction_pack InitObligation = Inr [6]"
| "instruction_pack RefreshObligation = Inr [7]"
| "instruction_pack (DepositObligationCollateral amount) = Inr ([8] @ u64_to amount)"
| "instruction_pack (WithdrawObligationCollateral amount) = Inr ([9] @ u64_to amount)"
| "instruction_pack (BorrowObligationLiquidity amount) = Inr ([10] @ u64_to amount)"
| "instruction_pack (RepayObligationLiquidity amount) = Inr ([11] @ u64_to amount)"
| "instruction_pack (LiquidateObligation amount) = Inr ([12] @ u64_to amount)"
| "instruction_pack (FlashLoan amount) = Inr ([13] @ u64_to amount)"
| "instruction_pack (DepositReserveLiquidityAndObligationCollateral amount) = Inr ([14] @ u64_to amount)"
| "instruction_pack (UpdateReserve cfg) = Inr ([16] @ ix_pack_reserve_config cfg)"
| "instruction_pack WithdrawFee = Inr [17]"

section \<open>Lemmas\<close>

lemmas ix_readers = ix_unpack_u64_def ix_unpack_u8_def ix_unpack_bytes32_def ix_unpack_pubkey_def

lemma ix_coption_key_written:
  "ix_unpack_coption_key_compact (pack_coption_key_compact k (replicate 33 0) @ rest) = Inr (k, rest)"
  by (simp add: ix_unpack_coption_key_compact_def)

interpretation wire_config: wire "\<lambda>_. True" ix_pack_reserve_config ix_unpack_reserve_config
  by unfold_locales
    (simp add: ix_pack_reserve_config_def ix_unpack_reserve_config_def ix_readers read_written
      ix_coption_key_written)

lemma ix_coption_decimal_written:
  assumes "ix_pack_coption_decimal d = Inr bs"
  shows "ix_unpack_coption_decimal (bs @ rest) = Inr (d, rest)"
proof -
  have len: "length bs = 20"
    using assms by (auto simp: ix_pack_coption_decimal_def split: option.splits)
  show ?thesis
    unfolding ix_unpack_coption_decimal_def read_bytes_append [OF len]
    using assms by (cases d) (auto simp: ix_pack_coption_decimal_def)
qed

definition price_fits :: "decimal option \<Rightarrow> bool" where
  "price_fits price = (case price of None \<Rightarrow> True | Some d \<Rightarrow> dec d < 2 ^ 128)"

lemma ix_pack_coption_decimal_total: "price_fits d \<Longrightarrow> \<exists>bs. ix_pack_coption_decimal d = Inr bs"
  using pack_decimal_total [of decimal_zero]
  by (auto simp: price_fits_def ix_pack_coption_decimal_def pack_decimal_total decimal_zero_def
      split: option.splits)

lemma ix_amount_written [simp]: "ix_amount ins (u64_to amount @ rest) = Inr (ins amount)"
  by (simp add: ix_amount_def ix_readers read_written)

text \<open>What can be encoded: a fixed price has to fit 16 bytes.\<close>

fun instruction_fits :: "lending_instruction \<Rightarrow> bool" where
  "instruction_fits (InitReserve amount price cfg) = price_fits price"
| "instruction_fits _ = True"

lemma instruction_pack_total: "instruction_fits ins \<Longrightarrow> \<exists>bs. instruction_pack ins = Inr bs"
  by (cases ins) (auto dest: ix_pack_coption_decimal_total)

lemma instruction_unpack_pack:
  "instruction_pack ins = Inr bs \<Longrightarrow> instruction_unpack (bs @ rest) = Inr ins"
  by (cases ins)
    (auto simp: instruction_unpack_def ix_readers read_written ix_coption_decimal_written
      wire_config.decode_encode [OF TrueI])

text \<open>Tags without an instruction are refused.\<close>

lemma instruction_unknown_tag:
  "tag = 15 \<or> 17 < tag \<Longrightarrow> instruction_unpack (tag # rest) = Inl (lending InstructionUnpackError)"
  by (auto simp: instruction_unpack_def)

end
