(* ===== verification/Oracle.thy ===== *)
theory Oracle
  imports Runtime
begin

text \<open>
  Price oracles: the Pyth price account (token-lending/program/src/pyth.rs), read at the byte
  offsets of its C layout, and the price functions of processor.rs. Of the 3312 bytes of \<open>Price\<close>
  the processor reads the price type, exponent, valid slot, and the price and status of the
  aggregate. Signed fields are words read in two's complement. The cast requires 8-byte alignment,
  which Solana's account data has.
\<close>

section \<open>The price account\<close>

record pyth_price =
  ptype :: u32
  expo :: u32
  valid_slot :: u64
  agg_price :: u64
  agg_status :: u32

text \<open>Discriminants of \<open>PriceType::Price\<close> and \<open>PriceStatus::Trading\<close>, both the second variant.\<close>

definition PRICE_TYPE_PRICE :: u32 where
  "PRICE_TYPE_PRICE = 1"

definition PRICE_STATUS_TRADING :: u32 where
  "PRICE_STATUS_TRADING = 1"

definition pyth_price_size :: nat where
  "pyth_price_size = 208 + 32 + 32 * (32 + 32 + 32)"

definition pyth_load :: "byte list \<Rightarrow> pyth_price result" where
  "pyth_load data =
     (if length data < pyth_price_size then Inl Panic
      else Inr \<lparr>
        ptype = from_le_bytes (take 4 (drop 16 data)),
        expo = from_le_bytes (take 4 (drop 20 data)),
        valid_slot = from_le_bytes (take 8 (drop 40 data)),
        agg_price = from_le_bytes (take 8 (drop 208 data)),
        agg_status = from_le_bytes (take 4 (drop 224 data)) \<rparr>)"

section \<open>Oracle programs\<close>

definition PYTH :: string where
  "PYTH = ''FsJ3A3u2vn5cTVofAjvy6y5kwABJAqYWpe4975bi2epH''"

definition PYTH_DEV :: string where
  "PYTH_DEV = ''gSbePebfvPy7tRqimPoVecS2UsBvYv46ynrzWocc92s''"

definition SWITCHBOARD :: string where
  "SWITCHBOARD = ''DtmE9D2CSB4L5D6A15mraeEjrGMm6auWVzgaD8hK2tZM''"

definition SWITCHBOARD_DEV :: string where
  "SWITCHBOARD_DEV = ''7azgmy1pFXHikv36q1zZASvFq5vFa39TT9NweVugKKTU''"

definition SWITCHBOARD_V2 :: string where
  "SWITCHBOARD_V2 = ''SW1TCH7qEPTdLsDHRgPuMQjbQxKdH2aBStViMFnt64f''"

definition SWITCHBOARD_V2_DEV :: string where
  "SWITCHBOARD_V2_DEV = ''2TfB33aLaneQb5TNVwyDz3jSZXS6jdW2ARw1Dgf84XCG''"

definition is_pyth_program :: "solana \<Rightarrow> pubkey \<Rightarrow> bool" where
  "is_pyth_program rt pk =
     (let pubkey_str = pubkey_to_string rt pk in pubkey_str = PYTH \<or> pubkey_str = PYTH_DEV)"

definition is_switchboard_program_v1 :: "solana \<Rightarrow> pubkey \<Rightarrow> bool" where
  "is_switchboard_program_v1 rt pk =
     (let pubkey_str = pubkey_to_string rt pk in pubkey_str = SWITCHBOARD \<or> pubkey_str = SWITCHBOARD_DEV)"

definition is_switchboard_program_v2 :: "solana \<Rightarrow> pubkey \<Rightarrow> bool" where
  "is_switchboard_program_v2 rt pk =
     (let pubkey_str = pubkey_to_string rt pk in
      pubkey_str = SWITCHBOARD_V2 \<or> pubkey_str = SWITCHBOARD_V2_DEV)"

definition is_switchboard_program :: "solana \<Rightarrow> pubkey \<Rightarrow> bool" where
  "is_switchboard_program rt pk =
     (is_switchboard_program_v1 rt pk \<or> is_switchboard_program_v2 rt pk)"

section \<open>Prices\<close>

definition get_switchboard_price :: "world \<Rightarrow> account_info \<Rightarrow> u64 \<Rightarrow> decimal result" where
  "get_switchboard_price w feed_info clock = Inl (lending InvalidOracleConfig)"

definition PYTH_STALE_AFTER_SLOTS_ELAPSED :: u64 where
  "PYTH_STALE_AFTER_SLOTS_ELAPSED = 240"

text \<open>\<open>u64::try_from(i64)\<close>: a negative price has its top bit set.\<close>

definition price_nonnegative :: "u64 \<Rightarrow> bool" where
  "price_nonnegative p = (unat p < 2 ^ 63)"

definition scale_pyth_price :: "u64 \<Rightarrow> u32 \<Rightarrow> decimal result" where
  "scale_pyth_price price e =
     (if unat e < 2 ^ 31 then
        attempt (ok_or (checked_pow 10 (unat e)) math_overflow) (\<lambda>zeros.
        decimal_try_mul_u64 (decimal_from_u64 price) zeros)
      else if unat e = 2 ^ 31 then Inl math_overflow
      else
        attempt (ok_or (checked_pow 10 (unat (- e))) math_overflow) (\<lambda>decimals.
        decimal_try_div_u64 (decimal_from_u64 price) decimals))"

definition get_pyth_price :: "world \<Rightarrow> account_info \<Rightarrow> u64 \<Rightarrow> decimal result" where
  "get_pyth_price w pyth_price_info clock =
     attempt (map_err (pyth_load (data_of w pyth_price_info)) (Err InvalidAccountData)) (\<lambda>p.
     attempt (refuse_if (ptype p \<noteq> PRICE_TYPE_PRICE) InvalidOracleConfig) (\<lambda>_.
     attempt (refuse_if (agg_status p \<noteq> PRICE_STATUS_TRADING) InvalidOracleConfig) (\<lambda>_.
     attempt (ok_or (checked_sub clock (valid_slot p)) math_overflow) (\<lambda>slots_elapsed.
     attempt (refuse_if (PYTH_STALE_AFTER_SLOTS_ELAPSED \<le> slots_elapsed) InvalidOracleConfig) (\<lambda>_.
     attempt (refuse_if (\<not> price_nonnegative (agg_price p)) InvalidOracleConfig) (\<lambda>_.
     scale_pyth_price (agg_price p) (expo p)))))))"

text \<open>Which oracle prices a reserve: by the program that owns the oracle account.\<close>

definition oracle_price :: "solana \<Rightarrow> world \<Rightarrow> account_info \<Rightarrow> u64 \<Rightarrow> lending_error \<Rightarrow> decimal result" where
  "oracle_price rt w oracle_info clock wrong_owner =
     (if is_pyth_program rt (owner_of w oracle_info) then get_pyth_price w oracle_info clock
      else if is_switchboard_program rt (owner_of w oracle_info) then get_switchboard_price w oracle_info clock
      else Inl (lending wrong_owner))"

section \<open>Behaviour\<close>

lemma scale_pyth_price_ok:
  assumes "scale_pyth_price price e = Inr d"
  shows "if 0 \<le> signed_val e then dec d = unat price * 10 ^ nat (signed_val e) * wad
    else dec d = unat price * wad div 10 ^ nat (- signed_val e)"
proof (cases "unat e < 2 ^ 31")
  case True
  with assms show ?thesis
    by (auto simp: scale_pyth_price_def signed_val_def checked decimal_ok)
next
  case False
  have less: "unat e < 2 ^ 32" using unsigned_less [of e, where ?'a = nat] by simp
  have "unat (- e) = 2 ^ 32 - unat e" using unat_minus_word [of e] False by simp
  moreover have "signed_val e = int (unat e) - int (2 ^ 32)"
    using False by (simp only: signed_val_def if_False) simp
  then have "nat (- signed_val e) = 2 ^ 32 - unat e" "\<not> 0 \<le> signed_val e"
    using less by linarith+
  ultimately show ?thesis
    using assms False by (auto simp: scale_pyth_price_def checked decimal_ok split: if_splits)
qed

lemma oracle_price_pyth:
  "oracle_price rt w i clock e = Inr d \<Longrightarrow>
     is_pyth_program rt (owner_of w i) \<and> get_pyth_price w i clock = Inr d"
  by (auto simp: oracle_price_def get_switchboard_price_def split: if_splits)

lemma get_pyth_price_cases:
  assumes "get_pyth_price w i clock = Inr d"
  obtains p where "pyth_load (data_of w i) = Inr p" "ptype p = PRICE_TYPE_PRICE"
    "agg_status p = PRICE_STATUS_TRADING" "unat (valid_slot p) \<le> unat clock"
    "unat clock < unat (valid_slot p) + 240" "unat (agg_price p) < 2 ^ 63"
    "scale_pyth_price (agg_price p) (expo p) = Inr d"
proof -
  from assms obtain p n where p: "pyth_load (data_of w i) = Inr p" "ptype p = PRICE_TYPE_PRICE"
    "agg_status p = PRICE_STATUS_TRADING" "unat (agg_price p) < 2 ^ 63"
    "scale_pyth_price (agg_price p) (expo p) = Inr d"
    and n: "checked_sub clock (valid_slot p) = Some n" "\<not> PYTH_STALE_AFTER_SLOTS_ELAPSED \<le> n"
    by (auto simp: get_pyth_price_def price_nonnegative_def)
  from n have "unat clock = unat (valid_slot p) + unat n" "unat n < 240"
    by (simp_all add: checked PYTH_STALE_AFTER_SLOTS_ELAPSED_def word_le_nat_alt)
  then have "unat (valid_slot p) \<le> unat clock" "unat clock < unat (valid_slot p) + 240" by simp_all
  with p that show thesis by blast
qed

end
