(* ===== verification/Processor_Market.thy ===== *)
theory Processor_Market
  imports Oracle
begin

text \<open>
  The handlers that administer a market (token-lending/program/src/processor.rs): creating a
  market and handing it over, creating, refreshing and reconfiguring a reserve, and collecting its
  fees. A handler takes the program's address, its arguments, the accounts passed to it and the
  world, and returns the new world or the fault; every check is in the code's order.
\<close>

section \<open>Market\<close>

definition process_init_lending_market ::
    "solana \<Rightarrow> pubkey \<Rightarrow> pubkey \<Rightarrow> bytes32 \<Rightarrow> account_info list \<Rightarrow> world \<Rightarrow> world result" where
  "process_init_lending_market rt program_id new_owner currency accounts w =
     attempt (next_account_info rt accounts) (\<lambda>(lending_market_info, accounts).
     attempt (next_account_info rt accounts) (\<lambda>(rent_info, accounts).
     attempt (rent_from rt w rent_info) (\<lambda>rent.
     attempt (next_account_info rt accounts) (\<lambda>(token_program_id, accounts).
     attempt (assert_rent_exempt rent w lending_market_info) (\<lambda>_.
     attempt (assert_uninitialized rt LENDING_MARKET_LEN lending_market_is_initialized
       lending_market_unpack_from_slice w lending_market_info) (\<lambda>lending_market.
     attempt (refuse_if (owner_of w lending_market_info \<noteq> program_id) InvalidAccountOwner) (\<lambda>_.
     let lending_market' = lending_market_init \<lparr>
           param_bump_seed = snd (find_program_address rt [bytes32_to (info_key lending_market_info)] program_id),
           param_owner = new_owner,
           param_quote_currency = currency,
           param_token_program_id = info_key token_program_id \<rparr> lending_market in
     pack_market rt lending_market' lending_market_info w)))))))"

text \<open>The checks of a market, its owner's signature and its token program, shared by several handlers.\<close>

definition process_set_lending_market_owner ::
    "solana \<Rightarrow> pubkey \<Rightarrow> pubkey \<Rightarrow> account_info list \<Rightarrow> world \<Rightarrow> world result" where
  "process_set_lending_market_owner rt program_id new_owner accounts w =
     attempt (next_account_info rt accounts) (\<lambda>(lending_market_info, accounts).
     attempt (next_account_info rt accounts) (\<lambda>(lending_market_owner_info, accounts).
     attempt (unpack_market rt w lending_market_info) (\<lambda>m.
     attempt (refuse_if (owner_of w lending_market_info \<noteq> program_id) InvalidAccountOwner) (\<lambda>_.
     attempt (refuse_if (market_owner m \<noteq> info_key lending_market_owner_info) InvalidMarketOwner) (\<lambda>_.
     attempt (refuse_if (\<not> is_signer lending_market_owner_info) InvalidSigner) (\<lambda>_.
     pack_market rt (m\<lparr> market_owner := new_owner \<rparr>) lending_market_info w))))))"

section \<open>Reserve configuration\<close>

definition validate_reserve_config :: "reserve_config \<Rightarrow> unit result" where
  "validate_reserve_config c =
     attempt (refuse_if (100 < optimal_utilization_rate c) InvalidConfig) (\<lambda>_.
     attempt (refuse_if (100 \<le> loan_to_value_ratio c) InvalidConfig) (\<lambda>_.
     attempt (refuse_if (100 < liquidation_bonus c) InvalidConfig) (\<lambda>_.
     attempt (refuse_if (liquidation_threshold c \<le> loan_to_value_ratio c \<or>
       100 < liquidation_threshold c) InvalidConfig) (\<lambda>_.
     attempt (refuse_if (optimal_borrow_rate c < min_borrow_rate c) InvalidConfig) (\<lambda>_.
     attempt (refuse_if (max_borrow_rate c < optimal_borrow_rate c) InvalidConfig) (\<lambda>_.
     attempt (refuse_if (WAD \<le> borrow_fee_wad (config_fees c)) InvalidConfig) (\<lambda>_.
     refuse_if (100 < host_fee_percentage (config_fees c)) InvalidConfig)))))))"

text \<open>The oracle and price of a new reserve: a fixed price and no oracle account, or an oracle.\<close>

definition init_reserve_price ::
    "solana \<Rightarrow> decimal option \<Rightarrow> account_info list \<Rightarrow> u64 \<Rightarrow> world \<Rightarrow> (pubkey option \<times> decimal) result" where
  "init_reserve_price rt fixed_price accounts clock w =
     (case fixed_price of
        Some price \<Rightarrow>
          (if accounts \<noteq> [] then Inl (lending InvalidAccountInput) else Inr (None, price))
      | None \<Rightarrow>
          attempt (refuse_if (accounts = []) InvalidAccountInput) (\<lambda>_.
          attempt (next_account_info rt accounts) (\<lambda>(oracle_price_info, accounts).
          attempt (oracle_price rt w oracle_price_info clock InvalidOracleConfig) (\<lambda>price.
          Inr (Some (info_key oracle_price_info), price)))))"

text \<open>The accounts of a new reserve, its mint, and the first deposit.\<close>

definition init_reserve_tokens ::
    "solana \<Rightarrow> u64 \<Rightarrow> u64 \<Rightarrow> u8 \<Rightarrow> account_info \<Rightarrow> account_info \<Rightarrow> account_info \<Rightarrow> account_info \<Rightarrow>
      account_info \<Rightarrow> account_info \<Rightarrow> account_info \<Rightarrow> account_info \<Rightarrow> account_info \<Rightarrow> account_info \<Rightarrow>
      byte list list \<Rightarrow> account_info \<Rightarrow> world \<Rightarrow> world result" where
  "init_reserve_tokens rt liquidity_amount collateral_amount decimals
     source_liquidity_info destination_collateral_info reserve_liquidity_mint_info
     reserve_liquidity_supply_info reserve_liquidity_fee_receiver_info reserve_collateral_mint_info
     reserve_collateral_supply_info lending_market_authority_info user_transfer_authority_info
     rent_info seeds token_program w =
     attempt (spl_token_init_account rt reserve_liquidity_supply_info reserve_liquidity_mint_info
       lending_market_authority_info rent_info token_program w) (\<lambda>w.
     attempt (spl_token_init_account rt reserve_liquidity_fee_receiver_info reserve_liquidity_mint_info
       lending_market_authority_info rent_info token_program w) (\<lambda>w.
     attempt (spl_token_init_mint rt reserve_collateral_mint_info rent_info
       (info_key lending_market_authority_info) decimals token_program w) (\<lambda>w.
     attempt (spl_token_init_account rt reserve_collateral_supply_info reserve_collateral_mint_info
       lending_market_authority_info rent_info token_program w) (\<lambda>w.
     attempt (spl_token_init_account rt destination_collateral_info reserve_collateral_mint_info
       user_transfer_authority_info rent_info token_program w) (\<lambda>w.
     attempt (spl_token_transfer rt source_liquidity_info reserve_liquidity_supply_info
       liquidity_amount user_transfer_authority_info [] token_program w) (\<lambda>w.
     spl_token_mint_to rt reserve_collateral_mint_info destination_collateral_info
       collateral_amount lending_market_authority_info seeds token_program w))))))"

definition process_init_reserve ::
    "solana \<Rightarrow> pubkey \<Rightarrow> u64 \<Rightarrow> decimal option \<Rightarrow> reserve_config \<Rightarrow> account_info list \<Rightarrow>
      world \<Rightarrow> world result" where
  "process_init_reserve rt program_id liquidity_amount fixed_price cfg accounts w =
     attempt (refuse_if (liquidity_amount = 0) InvalidAmount) (\<lambda>_.
     attempt (validate_reserve_config cfg) (\<lambda>_.
     attempt (next_account_info rt accounts) (\<lambda>(source_liquidity_info, accounts).
     attempt (next_account_info rt accounts) (\<lambda>(destination_collateral_info, accounts).
     attempt (next_account_info rt accounts) (\<lambda>(reserve_info, accounts).
     attempt (next_account_info rt accounts) (\<lambda>(reserve_liquidity_mint_info, accounts).
     attempt (next_account_info rt accounts) (\<lambda>(reserve_liquidity_supply_info, accounts).
     attempt (next_account_info rt accounts) (\<lambda>(reserve_liquidity_fee_receiver_info, accounts).
     attempt (next_account_info rt accounts) (\<lambda>(reserve_collateral_mint_info, accounts).
     attempt (next_account_info rt accounts) (\<lambda>(reserve_collateral_supply_info, accounts).
     attempt (next_account_info rt accounts) (\<lambda>(lending_market_info, accounts).
     attempt (next_account_info rt accounts) (\<lambda>(lending_market_authority_info, accounts).
     attempt (next_account_info rt accounts) (\<lambda>(lending_market_owner_info, accounts).
     attempt (next_account_info rt accounts) (\<lambda>(user_transfer_authority_info, accounts).
     attempt (next_account_info rt accounts) (\<lambda>(clock_info, accounts).
     attempt (clock_from rt w clock_info) (\<lambda>clock.
     attempt (next_account_info rt accounts) (\<lambda>(rent_info, accounts).
     attempt (rent_from rt w rent_info) (\<lambda>rent.
     attempt (next_account_info rt accounts) (\<lambda>(token_program_id, accounts).
     attempt (assert_rent_exempt rent w reserve_info) (\<lambda>_.
     attempt (assert_uninitialized rt RESERVE_LEN reserve_is_initialized reserve_unpack_from_slice
       w reserve_info) (\<lambda>reserve0.
     attempt (refuse_if (owner_of w reserve_info \<noteq> program_id) InvalidAccountOwner) (\<lambda>_.
     attempt (refuse_if (info_key reserve_liquidity_supply_info = info_key source_liquidity_info)
       InvalidAccountInput) (\<lambda>_.
     attempt (unpack_market rt w lending_market_info) (\<lambda>m.
     attempt (refuse_if (owner_of w lending_market_info \<noteq> program_id) InvalidAccountOwner) (\<lambda>_.
     attempt (refuse_if (lending_market.token_program_id m \<noteq> info_key token_program_id) InvalidTokenProgram) (\<lambda>_.
     attempt (refuse_if (market_owner m \<noteq> info_key lending_market_owner_info) InvalidMarketOwner) (\<lambda>_.
     attempt (refuse_if (\<not> is_signer lending_market_owner_info) InvalidSigner) (\<lambda>_.
     attempt (init_reserve_price rt fixed_price accounts clock w) (\<lambda>(oracle, price).
     attempt (check_market_authority rt program_id lending_market_info m lending_market_authority_info) (\<lambda>_.
     attempt (unpack_mint rt (data_of w reserve_liquidity_mint_info)) (\<lambda>reserve_liquidity_mint.
     attempt (refuse_if (owner_of w reserve_liquidity_mint_info \<noteq> info_key token_program_id)
       InvalidTokenOwner) (\<lambda>_.
     let reserve1 = reserve_init \<lparr>
           init_reserve_current_slot = clock,
           init_reserve_lending_market = info_key lending_market_info,
           init_reserve_liquidity = reserve_liquidity_new \<lparr>
             new_liq_mint_pubkey = info_key reserve_liquidity_mint_info,
             new_liq_mint_decimals = token_decimals reserve_liquidity_mint,
             new_liq_supply_pubkey = info_key reserve_liquidity_supply_info,
             new_liq_fee_receiver = info_key reserve_liquidity_fee_receiver_info,
             new_liq_oracle_pubkey = oracle,
             new_liq_market_price = price \<rparr>,
           init_reserve_collateral = reserve_collateral_new \<lparr>
             new_coll_mint_pubkey = info_key reserve_collateral_mint_info,
             new_coll_supply_pubkey = info_key reserve_collateral_supply_info \<rparr>,
           init_reserve_config = cfg \<rparr> reserve0 in
     attempt (reserve_deposit_liquidity liquidity_amount reserve1) (\<lambda>(collateral_amount, reserve2).
     attempt (pack_reserve rt reserve2 reserve_info w) (\<lambda>w.
     init_reserve_tokens rt liquidity_amount collateral_amount (token_decimals reserve_liquidity_mint)
       source_liquidity_info destination_collateral_info reserve_liquidity_mint_info
       reserve_liquidity_supply_info reserve_liquidity_fee_receiver_info reserve_collateral_mint_info
       reserve_collateral_supply_info lending_market_authority_info user_transfer_authority_info
       rent_info (authority_signer_seeds lending_market_info m) token_program_id w
     ))))))))))))))))))))))))))))))))))"

section \<open>Refresh\<close>

definition refresh_market_price ::
    "solana \<Rightarrow> reserve \<Rightarrow> account_info list \<Rightarrow> u64 \<Rightarrow> world \<Rightarrow> reserve result" where
  "refresh_market_price rt r accounts clock w =
     (case oracle_pubkey (liquidity r) of
        Some oracle \<Rightarrow>
          attempt (next_account_info rt accounts) (\<lambda>(reserve_liquidity_oracle_info, accounts).
          attempt (refuse_if (oracle \<noteq> info_key reserve_liquidity_oracle_info) InvalidAccountInput) (\<lambda>_.
          attempt (oracle_price rt w reserve_liquidity_oracle_info clock InvalidAccountInput) (\<lambda>price.
          Inr (r\<lparr> liquidity := (liquidity r)\<lparr> market_price := price \<rparr> \<rparr>))))
      | None \<Rightarrow>
          if accounts \<noteq> [] then Inl (lending InvalidAccountInput) else Inr r)"

definition process_refresh_reserve ::
    "solana \<Rightarrow> pubkey \<Rightarrow> account_info list \<Rightarrow> world \<Rightarrow> world result" where
  "process_refresh_reserve rt program_id accounts w =
     attempt (next_account_info rt accounts) (\<lambda>(reserve_info, accounts).
     attempt (next_account_info rt accounts) (\<lambda>(clock_info, accounts).
     attempt (clock_from rt w clock_info) (\<lambda>clock.
     attempt (unpack_reserve rt w reserve_info) (\<lambda>r.
     attempt (refuse_if (owner_of w reserve_info \<noteq> program_id) InvalidAccountOwner) (\<lambda>_.
     attempt (refresh_market_price rt r accounts clock w) (\<lambda>r.
     attempt (reserve_accrue_interest (clock_values rt) clock r) (\<lambda>r.
     pack_reserve rt (r\<lparr> reserve_last_update := update_slot clock (reserve_last_update r) \<rparr>)
       reserve_info w)))))))"

section \<open>Reconfiguration and fees\<close>

definition process_update_reserve ::
    "solana \<Rightarrow> pubkey \<Rightarrow> reserve_config \<Rightarrow> account_info list \<Rightarrow> world \<Rightarrow> world result" where
  "process_update_reserve rt program_id cfg accounts w =
     attempt (validate_reserve_config cfg) (\<lambda>_.
     attempt (next_account_info rt accounts) (\<lambda>(reserve_info, accounts).
     attempt (next_account_info rt accounts) (\<lambda>(lending_market_info, accounts).
     attempt (next_account_info rt accounts) (\<lambda>(lending_market_authority_info, accounts).
     attempt (next_account_info rt accounts) (\<lambda>(lending_market_owner_info, accounts).
     attempt (next_account_info rt accounts) (\<lambda>(rent_info, accounts).
     attempt (rent_from rt w rent_info) (\<lambda>rent.
     attempt (next_account_info rt accounts) (\<lambda>(token_program_id, accounts).
     attempt (assert_rent_exempt rent w reserve_info) (\<lambda>_.
     attempt (unpack_reserve rt w reserve_info) (\<lambda>r.
     attempt (refuse_if (owner_of w reserve_info \<noteq> program_id) InvalidAccountOwner) (\<lambda>_.
     attempt (unpack_market rt w lending_market_info) (\<lambda>m.
     attempt (refuse_if (owner_of w lending_market_info \<noteq> program_id) InvalidAccountOwner) (\<lambda>_.
     attempt (refuse_if (lending_market.token_program_id m \<noteq> info_key token_program_id) InvalidTokenProgram) (\<lambda>_.
     attempt (refuse_if (market_owner m \<noteq> info_key lending_market_owner_info) InvalidMarketOwner) (\<lambda>_.
     attempt (refuse_if (\<not> is_signer lending_market_owner_info) InvalidSigner) (\<lambda>_.
     attempt (refuse_if (reserve_lending_market r \<noteq> info_key lending_market_info) InvalidAccountInput) (\<lambda>_.
     attempt (check_market_authority rt program_id lending_market_info m lending_market_authority_info) (\<lambda>_.
     pack_reserve rt (r\<lparr> config := cfg \<rparr>) reserve_info w))))))))))))))))))"

definition process_withdraw_fee ::
    "solana \<Rightarrow> pubkey \<Rightarrow> account_info list \<Rightarrow> world \<Rightarrow> world result" where
  "process_withdraw_fee rt program_id accounts w =
     attempt (next_account_info rt accounts) (\<lambda>(reserve_info, accounts).
     attempt (next_account_info rt accounts) (\<lambda>(lending_market_info, accounts).
     attempt (next_account_info rt accounts) (\<lambda>(lending_market_authority_info, accounts).
     attempt (next_account_info rt accounts) (\<lambda>(lending_market_owner_info, accounts).
     attempt (next_account_info rt accounts) (\<lambda>(reserve_fee_token_info, accounts).
     attempt (next_account_info rt accounts) (\<lambda>(destination_token_info, accounts).
     attempt (next_account_info rt accounts) (\<lambda>(rent_info, accounts).
     attempt (rent_from rt w rent_info) (\<lambda>rent.
     attempt (next_account_info rt accounts) (\<lambda>(token_program_id, accounts).
     attempt (assert_rent_exempt rent w reserve_info) (\<lambda>_.
     attempt (unpack_reserve rt w reserve_info) (\<lambda>r.
     attempt (refuse_if (owner_of w reserve_info \<noteq> program_id) InvalidAccountOwner) (\<lambda>_.
     attempt (unpack_market rt w lending_market_info) (\<lambda>m.
     attempt (refuse_if (owner_of w lending_market_info \<noteq> program_id) InvalidAccountOwner) (\<lambda>_.
     attempt (refuse_if (lending_market.token_program_id m \<noteq> info_key token_program_id) InvalidTokenProgram) (\<lambda>_.
     attempt (refuse_if (market_owner m \<noteq> info_key lending_market_owner_info) InvalidMarketOwner) (\<lambda>_.
     attempt (refuse_if (\<not> is_signer lending_market_owner_info) InvalidSigner) (\<lambda>_.
     attempt (refuse_if (reserve_lending_market r \<noteq> info_key lending_market_info) InvalidAccountInput) (\<lambda>_.
     attempt (refuse_if (fee_receiver (liquidity r) \<noteq> info_key reserve_fee_token_info)
       InvalidReserveFeeAccount) (\<lambda>_.
     attempt (check_market_authority rt program_id lending_market_info m lending_market_authority_info) (\<lambda>_.
     attempt (lib (unpack_token_account rt (data_of w reserve_fee_token_info))) (\<lambda>fee_token.
     spl_token_transfer rt reserve_fee_token_info destination_token_info (token_amount fee_token)
       lending_market_authority_info (authority_signer_seeds lending_market_info m)
       token_program_id w)))))))))))))))))))))"

end
