(* ===== verification/Storage.thy ===== *)
theory Storage
  imports Runtime
begin

text \<open>
  Account data as storage: what a handler packs into an account is what the next handler unpacks
  from it. The locale \<open>stored\<close> extends the contract of a \<open>Pack\<close> implementation with the version
  check, and its facts are read off for markets, reserves and obligations. The second part states
  what the program relies on of the runtime when it calls other programs.
\<close>

section \<open>States that are read back\<close>

text \<open>The data of an account that was zeroed and then packed.\<close>

definition packed_data :: "(byte list \<Rightarrow> byte list result) \<Rightarrow> nat \<Rightarrow> byte list" where
  "packed_data pack n = (case pack (replicate n 0) of Inl _ \<Rightarrow> [] | Inr bs \<Rightarrow> bs)"

locale stored = packed size fits put get
  for size :: nat and fits :: "'a \<Rightarrow> bool" and put :: "'a \<Rightarrow> byte list \<Rightarrow> byte list result"
    and get :: "byte list \<Rightarrow> 'a result" +
  fixes current :: "'a \<Rightarrow> bool"
    and initialized :: "'a \<Rightarrow> bool"
  assumes put_fits: "current x \<Longrightarrow> length dst = size \<Longrightarrow> put x dst = Inr bs \<Longrightarrow> fits x"
    and current_initialized: "current x \<Longrightarrow> initialized x"
    and get_current: "length bs = size \<Longrightarrow> get bs = Inr x \<Longrightarrow> initialized x \<Longrightarrow> current x"
begin

lemma load_current:
  assumes "pack_checks rt" "unpack_checked rt size initialized (read_array size get) bs = Inr x"
  shows "current x \<and> length bs = size"
  using assms get_current [of bs x] by (auto simp: unpack_checked_ok [OF assms(1)] read_array_def)

lemma load_store:
  assumes rt: "pack_checks rt" and "current x"
    and store: "pack_into rt size (\<lambda>v. write_array size (put v)) x i w = Inr w'"
  shows "unpack_checked rt size initialized (read_array size get) (data_of w' i) = Inr x"
proof -
  from store obtain bs where len: "length (data_of w i) = size"
    and bs: "write_array size (put x) (data_of w i) = Inr bs"
    and w': "w' = w(info_key i := (w (info_key i))\<lparr> acc_data := bs \<rparr>)"
    by (auto simp: pack_into_ok [OF rt])
  from bs len have put: "put x (data_of w i) = Inr bs" by (auto simp: write_array_ok)
  with assms(2) len have fits: "fits x" by (rule put_fits)
  have "data_of w' i = bs" by (simp add: w' data_of_def)
  moreover have "length bs = size" using put_length [OF len put] .
  moreover have "read_array size get bs = Inr x" by (rule unpack_pack [OF fits bs])
  ultimately show ?thesis
    using current_initialized [OF assms(2)] by (simp add: unpack_checked_ok [OF rt])
qed

lemma store_total:
  assumes "pack_checks rt" "fits x" "length (data_of w i) = size"
  shows "\<exists>w'. pack_into rt size (\<lambda>v. write_array size (put v)) x i w = Inr w'"
  using pack_total [OF assms(2), of "data_of w i"] assms(3)
  by (auto simp: pack_into_ok [OF assms(1)])

lemma load_packed:
  assumes rt: "pack_checks rt" and "fits x" "current x"
  shows "unpack_checked rt size initialized (read_array size get)
      (packed_data (write_array size (put x)) size) = Inr x \<and>
    length (packed_data (write_array size (put x)) size) = size"
proof -
  obtain bs where bs: "write_array size (put x) (replicate size 0) = Inr bs"
    using pack_total [OF assms(2), of "replicate size 0"] by auto
  have "length bs = size" using pack_length [OF bs] by simp
  moreover have "read_array size get bs = Inr x" by (rule unpack_pack [OF assms(2) bs])
  ultimately show ?thesis
    using current_initialized [OF assms(3)] by (simp add: packed_data_def bs unpack_checked_ok [OF rt])
qed

end

lemma pack_decimal_fits: "pack_decimal d = Inr bs \<Longrightarrow> dec d < 2 ^ 128"
proof -
  assume "pack_decimal d = Inr bs"
  then obtain v :: u128 where "unat v = dec d"
    by (auto simp: pack_decimal_ok decimal_ok)
  then show ?thesis using unsigned_less [of v, where ?'a = nat] by simp
qed

lemma pack_entries_written:
  "pack_entries n enc xs offset data = Inr r \<Longrightarrow> x \<in> set xs \<Longrightarrow> \<exists>b. enc x = Inr b"
proof (induction xs arbitrary: offset data)
  case Nil
  then show ?case by simp
next
  case (Cons y ys)
  then show ?case by (auto split: if_splits)
qed

interpretation stored_market: stored LENDING_MARKET_LEN lending_market_fits lending_market_write
  lending_market_read "\<lambda>m. market_version m = PROGRAM_VERSION" lending_market_is_initialized
proof unfold_locales
  fix m and bs :: "byte list"
  assume "lending_market_read bs = Inr m" "lending_market_is_initialized m"
  then have "\<not> PROGRAM_VERSION < market_version m" "market_version m \<noteq> UNINITIALIZED_VERSION"
    by (auto simp: lending_market_read_def lending_market_is_initialized_def split: if_splits)
  then show "market_version m = PROGRAM_VERSION"
    by (auto simp: PROGRAM_VERSION_def UNINITIALIZED_VERSION_def word_less_nat_alt word_unat_eq_iff)
qed (auto simp: lending_market_fits_def lending_market_is_initialized_def PROGRAM_VERSION_def
      UNINITIALIZED_VERSION_def)

text \<open>The version test of \<open>unpack\<close> and of \<open>is_initialized\<close> leave the current version only.\<close>

lemma version_current:
  "v \<le> PROGRAM_VERSION \<Longrightarrow> v \<noteq> UNINITIALIZED_VERSION \<Longrightarrow> v = PROGRAM_VERSION"
  by (auto simp: PROGRAM_VERSION_def UNINITIALIZED_VERSION_def word_le_nat_alt word_unat_eq_iff)

lemma reserve_read_version: "reserve_read bs = Inr r \<Longrightarrow> reserve_version r \<le> PROGRAM_VERSION"
  by (auto simp: reserve_read_def reserve_layout_def split: if_splits)

lemma obligation_read_version: "obligation_read bs = Inr ob \<Longrightarrow> ob_version ob \<le> PROGRAM_VERSION"
  by (auto simp: obligation_read_def split: if_splits)

lemma obligation_write_fits:
  assumes "ob_version ob = PROGRAM_VERSION" "length dst = OBLIGATION_LEN"
    and "obligation_write ob dst = Inr bs"
  shows "obligation_fits ob"
  using assms(3)
proof (rule obligation_write_cases)
  fix d b a u flat
  assume p: "pack_decimal (deposited_value ob) = Inr d"
    "pack_decimal (borrowed_value ob) = Inr b" "pack_decimal (allowed_borrow_value ob) = Inr a"
    "pack_decimal (unhealthy_borrow_value ob) = Inr u"
    and flat: "obligation_data_flat ob (drop 140 dst) = Inr flat"
  from flat have room: "56 * length (deposits ob) + 80 * length (borrows ob) \<le> 776"
    using assms(2) by (elim data_flat_cases) (simp add: OBLIGATION_LEN_def)
  have dep: "dec (coll_market_value c) < 2 ^ 128" if "c \<in> set (deposits ob)" for c
  proof -
    from flat have "\<exists>e. collateral_entry_write c = Inr e"
      using that by (elim data_flat_cases) (blast intro: pack_entries_written)
    then show ?thesis by (auto simp: collateral_entry_write_def dest: pack_decimal_fits)
  qed
  have loan: "dec (loan_cumulative_borrow_rate_wads l) < 2 ^ 128 \<and>
      dec (loan_borrowed_amount_wads l) < 2 ^ 128 \<and> dec (loan_market_value l) < 2 ^ 128"
    if "l \<in> set (borrows ob)" for l
  proof -
    from flat have "\<exists>e. liquidity_entry_write l = Inr e"
      using that by (elim data_flat_cases) (blast intro: pack_entries_written)
    then show ?thesis by (auto simp: liquidity_entry_write_def dest!: pack_decimal_fits)
  qed
  from p [THEN pack_decimal_fits] room dep loan assms(1) show ?thesis
    by (simp add: obligation_fits_def)
qed

interpretation stored_reserve: stored RESERVE_LEN reserve_fits reserve_write reserve_read
  "\<lambda>r. reserve_version r = PROGRAM_VERSION" reserve_is_initialized
proof unfold_locales
  fix r and dst bs :: "byte list"
  assume "reserve_version r = PROGRAM_VERSION" "reserve_write r dst = Inr bs"
  then show "reserve_fits r"
    by (elim reserve_write_cases) (auto simp: reserve_fits_def dest!: pack_decimal_fits)
next
  fix r and bs :: "byte list"
  assume "reserve_read bs = Inr r" "reserve_is_initialized r"
  then show "reserve_version r = PROGRAM_VERSION"
    by (auto simp: reserve_is_initialized_def intro!: version_current dest: reserve_read_version)
qed (simp add: reserve_is_initialized_def PROGRAM_VERSION_def UNINITIALIZED_VERSION_def)

interpretation stored_obligation: stored OBLIGATION_LEN obligation_fits obligation_write obligation_read
  "\<lambda>ob. ob_version ob = PROGRAM_VERSION" obligation_is_initialized
proof unfold_locales
  fix ob and bs :: "byte list"
  assume "obligation_read bs = Inr ob" "obligation_is_initialized ob"
  then show "ob_version ob = PROGRAM_VERSION"
    by (auto simp: obligation_is_initialized_def intro!: version_current dest: obligation_read_version)
qed (rule obligation_write_fits,
    simp_all add: obligation_is_initialized_def PROGRAM_VERSION_def UNINITIALIZED_VERSION_def)

text \<open>The facts of the locale, for the three kinds of accounts the program owns.\<close>

lemma load_market_version:
  "pack_checks rt \<Longrightarrow> unpack_market rt w i = Inr m \<Longrightarrow>
     market_version m = PROGRAM_VERSION \<and> length (data_of w i) = LENDING_MARKET_LEN"
  unfolding unpack_market_def lending_market_unpack_from_slice_def by (rule stored_market.load_current)

lemma load_reserve_version:
  "pack_checks rt \<Longrightarrow> unpack_reserve rt w i = Inr r \<Longrightarrow>
     reserve_version r = PROGRAM_VERSION \<and> length (data_of w i) = RESERVE_LEN"
  unfolding unpack_reserve_def reserve_unpack_from_slice_def by (rule stored_reserve.load_current)

lemma load_obligation_version:
  "pack_checks rt \<Longrightarrow> unpack_obligation rt w i = Inr ob \<Longrightarrow>
     ob_version ob = PROGRAM_VERSION \<and> length (data_of w i) = OBLIGATION_LEN"
  unfolding unpack_obligation_def obligation_unpack_from_slice_def
  by (rule stored_obligation.load_current)

lemma stored_market_read:
  "pack_checks rt \<Longrightarrow> market_version m = PROGRAM_VERSION \<Longrightarrow> pack_market rt m i w = Inr w' \<Longrightarrow>
     unpack_market rt w' i = Inr m"
  unfolding unpack_market_def pack_market_def lending_market_unpack_from_slice_def
    lending_market_pack_into_slice_def by (rule stored_market.load_store)

lemma stored_reserve_read:
  "pack_checks rt \<Longrightarrow> reserve_version r = PROGRAM_VERSION \<Longrightarrow> pack_reserve rt r i w = Inr w' \<Longrightarrow>
     unpack_reserve rt w' i = Inr r"
  unfolding unpack_reserve_def pack_reserve_def reserve_unpack_from_slice_def
    reserve_pack_into_slice_def by (rule stored_reserve.load_store)

lemma stored_obligation_read:
  "pack_checks rt \<Longrightarrow> ob_version ob = PROGRAM_VERSION \<Longrightarrow> pack_obligation rt ob i w = Inr w' \<Longrightarrow>
     unpack_obligation rt w' i = Inr ob"
  unfolding unpack_obligation_def pack_obligation_def obligation_unpack_from_slice_def
    obligation_pack_into_slice_def by (rule stored_obligation.load_store)

text \<open>Writing succeeds on an account of the right size, and reading what was packed gives it back.\<close>

lemma reserve_store_total:
  "pack_checks rt \<Longrightarrow> reserve_fits r \<Longrightarrow> length (data_of w i) = RESERVE_LEN \<Longrightarrow>
     \<exists>w'. pack_reserve rt r i w = Inr w'"
  unfolding pack_reserve_def reserve_pack_into_slice_def by (rule stored_reserve.store_total)

lemma obligation_store_total:
  "pack_checks rt \<Longrightarrow> obligation_fits ob \<Longrightarrow> length (data_of w i) = OBLIGATION_LEN \<Longrightarrow>
     \<exists>w'. pack_obligation rt ob i w = Inr w'"
  unfolding pack_obligation_def obligation_pack_into_slice_def by (rule stored_obligation.store_total)

lemma market_store_total:
  "pack_checks rt \<Longrightarrow> lending_market_fits m \<Longrightarrow> length (data_of w i) = LENDING_MARKET_LEN \<Longrightarrow>
     \<exists>w'. pack_market rt m i w = Inr w'"
  unfolding pack_market_def lending_market_pack_into_slice_def by (rule stored_market.store_total)

lemma market_load_packed:
  "pack_checks rt \<Longrightarrow> market_version m = PROGRAM_VERSION \<Longrightarrow>
     data_of w i = packed_data (lending_market_pack_into_slice m) LENDING_MARKET_LEN \<Longrightarrow>
     unpack_market rt w i = Inr m \<and> length (data_of w i) = LENDING_MARKET_LEN"
  using stored_market.load_packed [of rt m]
  by (simp add: unpack_market_def lending_market_unpack_from_slice_def
      lending_market_pack_into_slice_def lending_market_fits_def)

lemma reserve_load_packed:
  "pack_checks rt \<Longrightarrow> reserve_fits r \<Longrightarrow> reserve_version r = PROGRAM_VERSION \<Longrightarrow>
     data_of w i = packed_data (reserve_pack_into_slice r) RESERVE_LEN \<Longrightarrow>
     unpack_reserve rt w i = Inr r \<and> length (data_of w i) = RESERVE_LEN"
  using stored_reserve.load_packed [of rt r]
  by (simp add: unpack_reserve_def reserve_unpack_from_slice_def reserve_pack_into_slice_def)

lemma obligation_load_packed:
  "pack_checks rt \<Longrightarrow> obligation_fits ob \<Longrightarrow> ob_version ob = PROGRAM_VERSION \<Longrightarrow>
     data_of w i = packed_data (obligation_pack_into_slice ob) OBLIGATION_LEN \<Longrightarrow>
     unpack_obligation rt w i = Inr ob \<and> length (data_of w i) = OBLIGATION_LEN"
  using stored_obligation.load_packed [of rt ob]
  by (simp add: unpack_obligation_def obligation_unpack_from_slice_def obligation_pack_into_slice_def)

end
