(* ===== verification/Processor_Common.thy ===== *)
theory Processor_Common
  imports Storage
begin

text \<open>
  The checks that the handlers of token-lending/program/src/processor.rs repeat: reading a market,
  a reserve or an obligation and checking that it belongs to the program and to the market, the
  owner's signature, and freshness in the current slot. The second part states what the program
  relies on when it calls other programs, and what survives such a call.
\<close>

section \<open>Repeated checks\<close>

text \<open>
  \<open>LendingMarket::unpack\<close>, then \<open>lending_market_info.owner != program_id\<close>, then the market's token
  program.
\<close>

definition load_market ::
    "solana \<Rightarrow> pubkey \<Rightarrow> account_info \<Rightarrow> account_info \<Rightarrow> world \<Rightarrow> lending_market result" where
  "load_market rt program_id lending_market_info token_program w =
     attempt (unpack_market rt w lending_market_info) (\<lambda>m.
     attempt (refuse_if (owner_of w lending_market_info \<noteq> program_id) InvalidAccountOwner) (\<lambda>_.
     attempt (refuse_if (token_program_id m \<noteq> info_key token_program) InvalidTokenProgram) (\<lambda>_.
     Inr m)))"

text \<open>\<open>Reserve::unpack\<close>, then the account's owner, then the reserve's market.\<close>

definition load_reserve ::
    "solana \<Rightarrow> pubkey \<Rightarrow> account_info \<Rightarrow> account_info \<Rightarrow> world \<Rightarrow> reserve result" where
  "load_reserve rt program_id lending_market_info reserve_info w =
     attempt (unpack_reserve rt w reserve_info) (\<lambda>r.
     attempt (refuse_if (owner_of w reserve_info \<noteq> program_id) InvalidAccountOwner) (\<lambda>_.
     attempt (refuse_if (reserve_lending_market r \<noteq> info_key lending_market_info)
       InvalidAccountInput) (\<lambda>_.
     Inr r)))"

text \<open>\<open>Obligation::unpack\<close>, then the account's owner, then the obligation's market.\<close>

definition load_obligation ::
    "solana \<Rightarrow> pubkey \<Rightarrow> account_info \<Rightarrow> account_info \<Rightarrow> world \<Rightarrow> obligation result" where
  "load_obligation rt program_id lending_market_info obligation_info w =
     attempt (unpack_obligation rt w obligation_info) (\<lambda>ob.
     attempt (refuse_if (owner_of w obligation_info \<noteq> program_id) InvalidAccountOwner) (\<lambda>_.
     attempt (refuse_if (ob_lending_market ob \<noteq> info_key lending_market_info)
       InvalidAccountInput) (\<lambda>_.
     Inr ob)))"

text \<open>The obligation's owner is the account provided, and signed.\<close>

definition check_obligation_owner :: "obligation \<Rightarrow> account_info \<Rightarrow> unit result" where
  "check_obligation_owner ob obligation_owner_info =
     attempt (refuse_if (ob_owner ob \<noteq> info_key obligation_owner_info) InvalidObligationOwner) (\<lambda>_.
     refuse_if (\<not> is_signer obligation_owner_info) InvalidSigner)"

text \<open>\<open>if state.last_update.is_stale(clock.slot)? { return Err(e) }\<close>\<close>

definition check_fresh :: "last_update \<Rightarrow> u64 \<Rightarrow> lending_error \<Rightarrow> unit result" where
  "check_fresh lu clock e = attempt (is_stale lu clock) (\<lambda>old. refuse_if old e)"

text \<open>\<open>a ^ b\<close> on the presence of the staking accounts and of the reserve's staking pool.\<close>

definition check_staking_accounts :: "account_info list \<Rightarrow> reserve \<Rightarrow> unit result" where
  "check_staking_accounts accounts r =
     refuse_if ((accounts \<noteq> []) \<noteq> (deposit_staking_pool (config r) \<noteq> None)) InvalidStakingPool"

lemma load_market_ok:
  "load_market rt pid i tp w = Inr m \<longleftrightarrow> unpack_market rt w i = Inr m \<and> owner_of w i = pid \<and>
     token_program_id m = info_key tp"
  by (auto simp: load_market_def)

lemma load_reserve_ok:
  "load_reserve rt pid mi i w = Inr r \<longleftrightarrow> unpack_reserve rt w i = Inr r \<and> owner_of w i = pid \<and>
     reserve_lending_market r = info_key mi"
  by (auto simp: load_reserve_def)

lemma load_obligation_ok:
  "load_obligation rt pid mi i w = Inr ob \<longleftrightarrow> unpack_obligation rt w i = Inr ob \<and>
     owner_of w i = pid \<and> ob_lending_market ob = info_key mi"
  by (auto simp: load_obligation_def)

lemma check_obligation_owner_ok:
  "check_obligation_owner ob i = Inr u \<longleftrightarrow> ob_owner ob = info_key i \<and> is_signer i"
  by (auto simp: check_obligation_owner_def)

lemma check_fresh_ok:
  "check_fresh lu clock e = Inr u \<longleftrightarrow> \<not> stale lu \<and> clock = slot lu"
  by (auto simp: check_fresh_def not_stale_iff [symmetric])

lemma check_market_authority_ok:
  "check_market_authority rt pid mi m ai = Inr u \<longleftrightarrow>
     create_program_address rt (authority_signer_seeds mi m) pid = Inr (info_key ai)"
  by (auto simp: check_market_authority_def)

lemma check_staking_accounts_ok:
  "check_staking_accounts accounts r = Inr u \<longleftrightarrow>
     (accounts \<noteq> [] \<longleftrightarrow> deposit_staking_pool (config r) \<noteq> None)"
  by (auto simp: check_staking_accounts_def)

lemmas load_ok = load_market_ok load_reserve_ok load_obligation_ok check_obligation_owner_ok
  check_fresh_ok check_market_authority_ok check_staking_accounts_ok

section \<open>Other programs\<close>

text \<open>
  Documented behaviour of the runtime: only the program that owns an account may change its data
  or give it away, and a program that was called cannot call back into its caller. So a call to
  another program leaves this program's accounts as they are.
\<close>

definition isolated :: "solana \<Rightarrow> pubkey \<Rightarrow> bool" where
  "isolated rt program_id \<longleftrightarrow> (\<forall>seeds ix infos w w'. ix_program_id ix \<noteq> program_id \<longrightarrow>
     invoke_program rt seeds ix infos w = Inr w' \<longrightarrow>
     (\<forall>k. acc_owner (w k) = program_id \<longrightarrow>
        acc_owner (w' k) = program_id \<and> acc_data (w' k) = acc_data (w k)))"

text \<open>The instruction builders of spl_token address the program they are given.\<close>

definition token_builders :: "solana \<Rightarrow> bool" where
  "token_builders rt \<longleftrightarrow>
     (\<forall>p a b c ix. token_initialize_account rt p a b c = Inr ix \<longrightarrow> ix_program_id ix = p) \<and>
     (\<forall>p a b c n ix. token_initialize_mint rt p a b c n = Inr ix \<longrightarrow> ix_program_id ix = p) \<and>
     (\<forall>p a b c s n ix. token_transfer rt p a b c s n = Inr ix \<longrightarrow> ix_program_id ix = p) \<and>
     (\<forall>p a b c s n ix. token_mint_to rt p a b c s n = Inr ix \<longrightarrow> ix_program_id ix = p) \<and>
     (\<forall>p a b c s n ix. token_burn rt p a b c s n = Inr ix \<longrightarrow> ix_program_id ix = p)"

definition runtime_ok :: "solana \<Rightarrow> pubkey \<Rightarrow> bool" where
  "runtime_ok rt program_id \<longleftrightarrow> pack_checks rt \<and> isolated rt program_id \<and> token_builders rt"

text \<open>Two worlds with the same data in the accounts a program owns in the first.\<close>

definition same_for :: "pubkey \<Rightarrow> world \<Rightarrow> world \<Rightarrow> bool" where
  "same_for pid w w' \<longleftrightarrow> (\<forall>k. acc_owner (w k) = pid \<longrightarrow>
     acc_owner (w' k) = pid \<and> acc_data (w' k) = acc_data (w k))"

lemma runtime_ok_pack [simp]: "runtime_ok rt pid \<Longrightarrow> pack_checks rt"
  by (simp add: runtime_ok_def)

lemma same_for_refl [simp]: "same_for pid w w"
  by (simp add: same_for_def)

lemma same_for_trans [trans]: "same_for pid w w' \<Longrightarrow> same_for pid w' w'' \<Longrightarrow> same_for pid w w''"
  by (simp add: same_for_def)

lemma invoke_same:
  "runtime_ok rt pid \<Longrightarrow> invoke_program rt seeds ix infos w = Inr w' \<Longrightarrow> ix_program_id ix \<noteq> pid \<Longrightarrow>
     same_for pid w w'"
  unfolding runtime_ok_def isolated_def same_for_def by blast

lemma token_call_same:
  assumes rt: "runtime_ok rt pid" and tp: "info_key tp \<noteq> pid"
  shows "spl_token_transfer rt s d a auth seeds tp w = Inr w' \<Longrightarrow> same_for pid w w'"
    and "spl_token_mint_to rt m d a auth seeds tp w = Inr w' \<Longrightarrow> same_for pid w w'"
    and "spl_token_burn rt m s a auth seeds tp w = Inr w' \<Longrightarrow> same_for pid w w'"
    and "spl_token_init_account rt s m own rent tp w = Inr w' \<Longrightarrow> same_for pid w w'"
    and "spl_token_init_mint rt m rent key n tp w = Inr w' \<Longrightarrow> same_for pid w w'"
proof -
  have b: "token_builders rt" using rt by (simp add: runtime_ok_def)
  note inv = invoke_same [OF rt]
  show "spl_token_transfer rt s d a auth seeds tp w = Inr w' \<Longrightarrow> same_for pid w w'"
    using b tp by (auto simp: spl_token_transfer_def invoke_optionally_signed_def token_builders_def
        split: if_splits dest: inv)
  show "spl_token_mint_to rt m d a auth seeds tp w = Inr w' \<Longrightarrow> same_for pid w w'"
    using b tp by (auto simp: spl_token_mint_to_def invoke_optionally_signed_def token_builders_def
        split: if_splits dest: inv)
  show "spl_token_burn rt m s a auth seeds tp w = Inr w' \<Longrightarrow> same_for pid w w'"
    using b tp by (auto simp: spl_token_burn_def invoke_optionally_signed_def token_builders_def
        split: if_splits dest: inv)
  show "spl_token_init_account rt s m own rent tp w = Inr w' \<Longrightarrow> same_for pid w w'"
    using b tp by (auto simp: spl_token_init_account_def token_builders_def dest: inv)
  show "spl_token_init_mint rt m rent key n tp w = Inr w' \<Longrightarrow> same_for pid w w'"
    using b tp by (auto simp: spl_token_init_mint_def token_builders_def dest: inv)
qed

section \<open>What stays\<close>

lemma same_for_data: "same_for pid w w' \<Longrightarrow> owner_of w i = pid \<Longrightarrow> data_of w' i = data_of w i"
  by (simp add: same_for_def owner_of_def data_of_def)

lemma same_for_owner: "same_for pid w w' \<Longrightarrow> owner_of w i = pid \<Longrightarrow> owner_of w' i = pid"
  by (simp add: same_for_def owner_of_def)

lemma same_for_load:
  assumes "same_for pid w w'" "owner_of w i = pid"
  shows "unpack_market rt w' i = unpack_market rt w i"
    and "unpack_reserve rt w' i = unpack_reserve rt w i"
    and "unpack_obligation rt w' i = unpack_obligation rt w i"
  using same_for_data [OF assms] by (simp_all add: unpack_state_defs)

lemma pack_owner:
  "pack_reserve rt r i w = Inr w' \<Longrightarrow> owner_of w' j = owner_of w j"
  "pack_obligation rt ob i w = Inr w' \<Longrightarrow> owner_of w' j = owner_of w j"
  "pack_market rt m i w = Inr w' \<Longrightarrow> owner_of w' j = owner_of w j"
  by (simp_all add: pack_state_defs owner_of_def pack_into_owner)

lemma pack_other:
  assumes "info_key j \<noteq> info_key i"
  shows "pack_reserve rt r i w = Inr w' \<Longrightarrow> data_of w' j = data_of w j"
    and "pack_obligation rt ob i w = Inr w' \<Longrightarrow> data_of w' j = data_of w j"
    and "pack_market rt m i w = Inr w' \<Longrightarrow> data_of w' j = data_of w j"
  using assms by (simp_all add: pack_state_defs data_of_def pack_into_frame)

text \<open>Accounts of different kinds have different lengths, so they are different accounts.\<close>

lemma state_lengths [simp]:
  "LENDING_MARKET_LEN \<noteq> RESERVE_LEN" "LENDING_MARKET_LEN \<noteq> OBLIGATION_LEN"
  "RESERVE_LEN \<noteq> OBLIGATION_LEN"
  by (simp_all add: LENDING_MARKET_LEN_def RESERVE_LEN_def OBLIGATION_LEN_def)

lemma pack_length_kept:
  assumes "pack_checks rt"
  shows "pack_reserve rt r i w = Inr w' \<Longrightarrow> length (data_of w' j) = length (data_of w j)"
    and "pack_obligation rt ob i w = Inr w' \<Longrightarrow> length (data_of w' j) = length (data_of w j)"
    and "pack_market rt m i w = Inr w' \<Longrightarrow> length (data_of w' j) = length (data_of w j)"
  unfolding pack_state_defs reserve_pack_into_slice_def obligation_pack_into_slice_def
    lending_market_pack_into_slice_def
  by (auto simp: pack_into_ok [OF assms] data_of_def dest!: reserve_pack.pack_length
      obligation_pack.pack_length market_pack.pack_length)

lemma different_kinds:
  assumes "pack_checks rt"
  shows "unpack_reserve rt w i = Inr r \<Longrightarrow> unpack_obligation rt w j = Inr ob \<Longrightarrow> info_key i \<noteq> info_key j"
    and "unpack_reserve rt w i = Inr r \<Longrightarrow> unpack_market rt w k = Inr m \<Longrightarrow> info_key i \<noteq> info_key k"
    and "unpack_obligation rt w j = Inr ob \<Longrightarrow> unpack_market rt w k = Inr m \<Longrightarrow> info_key j \<noteq> info_key k"
  using load_market_version [OF assms] load_reserve_version [OF assms] load_obligation_version [OF assms]
    state_lengths unfolding data_of_def by metis+

lemma pack_other_load:
  assumes "info_key j \<noteq> info_key i"
  shows "pack_reserve rt r i w = Inr w' \<Longrightarrow> unpack_obligation rt w' j = unpack_obligation rt w j"
    and "pack_obligation rt ob i w = Inr w' \<Longrightarrow> unpack_reserve rt w' j = unpack_reserve rt w j"
    and "pack_reserve rt r i w = Inr w' \<Longrightarrow> unpack_reserve rt w' j = unpack_reserve rt w j"
    and "pack_reserve rt r i w = Inr w' \<Longrightarrow> unpack_market rt w' j = unpack_market rt w j"
    and "pack_obligation rt ob i w = Inr w' \<Longrightarrow> unpack_market rt w' j = unpack_market rt w j"
  using pack_other [OF assms] by (simp_all add: unpack_state_defs)

end
