(* ===== verification/Processor_Deposit.thy ===== *)
theory Processor_Deposit
  imports Processor_Common
begin

text \<open>
  Liquidity in and out of a reserve (token-lending/program/src/processor.rs): depositing for
  collateral tokens and redeeming them. Both pack the reserve before they call the token program.
\<close>

section \<open>Deposit\<close>

definition deposit_reserve_liquidity ::
    "solana \<Rightarrow> pubkey \<Rightarrow> u64 \<Rightarrow> account_info \<Rightarrow> account_info \<Rightarrow> account_info \<Rightarrow> account_info \<Rightarrow>
      account_info \<Rightarrow> account_info \<Rightarrow> account_info \<Rightarrow> account_info \<Rightarrow> u64 \<Rightarrow> account_info \<Rightarrow>
      world \<Rightarrow> (u64 \<times> world) result" where
  "deposit_reserve_liquidity rt program_id liquidity_amount source_liquidity_info
     destination_collateral_info reserve_info reserve_liquidity_supply_info
     reserve_collateral_mint_info lending_market_info lending_market_authority_info
     user_transfer_authority_info clock token_program w =
     attempt (load_market rt program_id lending_market_info token_program w) (\<lambda>m.
     attempt (load_reserve rt program_id lending_market_info reserve_info w) (\<lambda>r.
     attempt (refuse_if (liq_supply_pubkey (liquidity r) \<noteq> info_key reserve_liquidity_supply_info)
       InvalidAccountInput) (\<lambda>_.
     attempt (refuse_if (coll_mint_pubkey (collateral r) \<noteq> info_key reserve_collateral_mint_info)
       InvalidAccountInput) (\<lambda>_.
     attempt (refuse_if (liq_supply_pubkey (liquidity r) = info_key source_liquidity_info)
       InvalidAccountInput) (\<lambda>_.
     attempt (refuse_if (coll_supply_pubkey (collateral r) = info_key destination_collateral_info)
       InvalidAccountInput) (\<lambda>_.
     attempt (check_fresh (reserve_last_update r) clock ReserveStale) (\<lambda>_.
     attempt (check_market_authority rt program_id lending_market_info m
       lending_market_authority_info) (\<lambda>_.
     attempt (total_supply (liquidity r)) (\<lambda>supply.
     attempt (decimal_try_add (decimal_from_u64 liquidity_amount) supply) (\<lambda>after_deposit.
     attempt (decimal_try_floor_u64 after_deposit) (\<lambda>total.
     attempt (refuse_if (deposit_limit (config r) < total) InvalidAmount) (\<lambda>_.
     attempt (reserve_deposit_liquidity liquidity_amount r) (\<lambda>(collateral_amount, r).
     attempt (pack_reserve rt (r\<lparr> reserve_last_update := mark_stale (reserve_last_update r) \<rparr>)
       reserve_info w) (\<lambda>w.
     attempt (spl_token_transfer rt source_liquidity_info reserve_liquidity_supply_info
       liquidity_amount user_transfer_authority_info [] token_program w) (\<lambda>w.
     attempt (spl_token_mint_to rt reserve_collateral_mint_info destination_collateral_info
       collateral_amount lending_market_authority_info
       (authority_signer_seeds lending_market_info m) token_program w) (\<lambda>w.
     Inr (collateral_amount, w)))))))))))))))))"

definition process_deposit_reserve_liquidity ::
    "solana \<Rightarrow> pubkey \<Rightarrow> u64 \<Rightarrow> account_info list \<Rightarrow> world \<Rightarrow> world result" where
  "process_deposit_reserve_liquidity rt program_id liquidity_amount accounts w =
     attempt (refuse_if (liquidity_amount = 0) InvalidAmount) (\<lambda>_.
     attempt (next_account_info rt accounts) (\<lambda>(source_liquidity_info, accounts).
     attempt (next_account_info rt accounts) (\<lambda>(destination_collateral_info, accounts).
     attempt (next_account_info rt accounts) (\<lambda>(reserve_info, accounts).
     attempt (next_account_info rt accounts) (\<lambda>(reserve_liquidity_supply_info, accounts).
     attempt (next_account_info rt accounts) (\<lambda>(reserve_collateral_mint_info, accounts).
     attempt (next_account_info rt accounts) (\<lambda>(lending_market_info, accounts).
     attempt (next_account_info rt accounts) (\<lambda>(lending_market_authority_info, accounts).
     attempt (next_account_info rt accounts) (\<lambda>(user_transfer_authority_info, accounts).
     attempt (next_account_info rt accounts) (\<lambda>(clock_info, accounts).
     attempt (clock_from rt w clock_info) (\<lambda>clock.
     attempt (next_account_info rt accounts) (\<lambda>(token_program_info, accounts).
     attempt (deposit_reserve_liquidity rt program_id liquidity_amount source_liquidity_info
       destination_collateral_info reserve_info reserve_liquidity_supply_info
       reserve_collateral_mint_info lending_market_info lending_market_authority_info
       user_transfer_authority_info clock token_program_info w) (\<lambda>(_, w).
     Inr w)))))))))))))"

section \<open>Redemption\<close>

definition redeem_reserve_collateral ::
    "solana \<Rightarrow> pubkey \<Rightarrow> u64 \<Rightarrow> account_info \<Rightarrow> account_info \<Rightarrow> account_info \<Rightarrow> account_info \<Rightarrow>
      account_info \<Rightarrow> account_info \<Rightarrow> account_info \<Rightarrow> account_info \<Rightarrow> u64 \<Rightarrow> account_info \<Rightarrow>
      world \<Rightarrow> world result" where
  "redeem_reserve_collateral rt program_id collateral_amount source_collateral_info
     destination_liquidity_info reserve_info reserve_collateral_mint_info
     reserve_liquidity_supply_info lending_market_info lending_market_authority_info
     user_transfer_authority_info clock token_program w =
     attempt (load_market rt program_id lending_market_info token_program w) (\<lambda>m.
     attempt (load_reserve rt program_id lending_market_info reserve_info w) (\<lambda>r.
     attempt (refuse_if (coll_mint_pubkey (collateral r) \<noteq> info_key reserve_collateral_mint_info)
       InvalidAccountInput) (\<lambda>_.
     attempt (refuse_if (coll_supply_pubkey (collateral r) = info_key source_collateral_info)
       InvalidAccountInput) (\<lambda>_.
     attempt (refuse_if (liq_supply_pubkey (liquidity r) \<noteq> info_key reserve_liquidity_supply_info)
       InvalidAccountInput) (\<lambda>_.
     attempt (refuse_if (liq_supply_pubkey (liquidity r) = info_key destination_liquidity_info)
       InvalidAccountInput) (\<lambda>_.
     attempt (check_fresh (reserve_last_update r) clock ReserveStale) (\<lambda>_.
     attempt (check_market_authority rt program_id lending_market_info m
       lending_market_authority_info) (\<lambda>_.
     attempt (reserve_redeem_collateral collateral_amount r) (\<lambda>(liquidity_amount, r).
     attempt (pack_reserve rt (r\<lparr> reserve_last_update := mark_stale (reserve_last_update r) \<rparr>)
       reserve_info w) (\<lambda>w.
     attempt (spl_token_burn rt reserve_collateral_mint_info source_collateral_info
       collateral_amount user_transfer_authority_info [] token_program w) (\<lambda>w.
     spl_token_transfer rt reserve_liquidity_supply_info destination_liquidity_info
       liquidity_amount lending_market_authority_info
       (authority_signer_seeds lending_market_info m) token_program w)))))))))))"

definition process_redeem_reserve_collateral ::
    "solana \<Rightarrow> pubkey \<Rightarrow> u64 \<Rightarrow> account_info list \<Rightarrow> world \<Rightarrow> world result" where
  "process_redeem_reserve_collateral rt program_id collateral_amount accounts w =
     attempt (refuse_if (collateral_amount = 0) InvalidAmount) (\<lambda>_.
     attempt (next_account_info rt accounts) (\<lambda>(source_collateral_info, accounts).
     attempt (next_account_info rt accounts) (\<lambda>(destination_liquidity_info, accounts).
     attempt (next_account_info rt accounts) (\<lambda>(reserve_info, accounts).
     attempt (next_account_info rt accounts) (\<lambda>(reserve_collateral_mint_info, accounts).
     attempt (next_account_info rt accounts) (\<lambda>(reserve_liquidity_supply_info, accounts).
     attempt (next_account_info rt accounts) (\<lambda>(lending_market_info, accounts).
     attempt (next_account_info rt accounts) (\<lambda>(lending_market_authority_info, accounts).
     attempt (next_account_info rt accounts) (\<lambda>(user_transfer_authority_info, accounts).
     attempt (next_account_info rt accounts) (\<lambda>(clock_info, accounts).
     attempt (clock_from rt w clock_info) (\<lambda>clock.
     attempt (next_account_info rt accounts) (\<lambda>(token_program_info, accounts).
     redeem_reserve_collateral rt program_id collateral_amount source_collateral_info
       destination_liquidity_info reserve_info reserve_collateral_mint_info
       reserve_liquidity_supply_info lending_market_info lending_market_authority_info
       user_transfer_authority_info clock token_program_info w))))))))))))"

end
