(* ===== verification/Staking_State.thy ===== *)
theory Staking_State
  imports Lending_Market
begin

text \<open>
  The stake account of the staking program (staking/program/src/state/stake_account.rs, and the
  helpers of staking/program/src/state/mod.rs): its data and its \<open>Pack\<close> implementation. The
  lending program reads stake accounts when collateral is staked. Its decimals have
  the representation of the lending program's and are stored in 16 bytes; their arithmetic is in
  \<open>Staking_Math\<close>. The two programs share the values of \<open>PROGRAM_VERSION\<close> and \<open>UNINITIALIZED_VERSION\<close>.
\<close>

section \<open>Data\<close>

record cumulative_rate =
  rate_reward :: decimal
  rate_sub_reward :: "decimal option"

record reward =
  reward_wads :: decimal
  sub_reward_wads :: "decimal option"

record stake_account =
  stake_version :: u8
  start_rate :: cumulative_rate
  stake_owner :: pubkey
  pool_pubkey :: pubkey
  staked_amount :: u64
  unclaimed_reward_wads :: reward
  stake_reserve_fields2 :: "byte list"
  stake_reserve_fields3 :: "byte list"
  stake_reserve_fields4 :: "byte list"

definition stake_account_is_initialized :: "stake_account \<Rightarrow> bool" where
  "stake_account_is_initialized a = (stake_version a \<noteq> UNINITIALIZED_VERSION)"

definition stake_account_init :: "pubkey \<Rightarrow> pubkey \<Rightarrow> stake_account \<Rightarrow> stake_account result" where
  "stake_account_init own pool a =
     Inr (a\<lparr> stake_owner := own, stake_version := PROGRAM_VERSION, pool_pubkey := pool \<rparr>)"

section \<open>Layout\<close>

text \<open>\<open>None\<close> writes the tag and leaves the 16 bytes of the body as they were.\<close>

definition pack_option_decimal :: "decimal option \<Rightarrow> byte list \<Rightarrow> byte list result" where
  "pack_option_decimal src dst =
     (case src of
        Some x \<Rightarrow> attempt (pack_decimal x) (\<lambda>bs. Inr ([1] @ bs))
      | None \<Rightarrow> Inr ([0] @ drop 1 dst))"

definition unpack_option_decimal :: "byte list \<Rightarrow> decimal option result" where
  "unpack_option_decimal src =
     (if src ! 0 = 0 then Inr None
      else if src ! 0 = 1 then Inr (Some (unpack_decimal (drop 1 src)))
      else Inl (Err InvalidAccountData))"

definition STAKE_ACCOUNT_LEN :: nat where
  "STAKE_ACCOUNT_LEN = 1 + 16 + 32 + 32 + 8 + 16 + 16 + 1 + 16 + 1 + 94"

definition stake_account_write :: "stake_account \<Rightarrow> byte list \<Rightarrow> byte list result" where
  "stake_account_write a output =
     attempt (pack_decimal (rate_reward (start_rate a))) (\<lambda>start.
     attempt (pack_option_decimal (rate_sub_reward (start_rate a)) (take 17 (drop 105 output))) (\<lambda>sub_start.
     attempt (pack_decimal (reward_wads (unclaimed_reward_wads a))) (\<lambda>unclaimed.
     attempt (pack_option_decimal (sub_reward_wads (unclaimed_reward_wads a))
       (take 17 (drop 122 output))) (\<lambda>sub_unclaimed.
     Inr (u8_to (stake_version a) @ start @ bytes32_to (stake_owner a) @ bytes32_to (pool_pubkey a) @
       u64_to (staked_amount a) @ unclaimed @ sub_start @ sub_unclaimed @ drop 139 output)))))"

definition stake_account_pack_into_slice :: "stake_account \<Rightarrow> byte list \<Rightarrow> byte list result" where
  "stake_account_pack_into_slice a = write_array STAKE_ACCOUNT_LEN (stake_account_write a)"

definition stake_account_read :: "byte list \<Rightarrow> stake_account result" where
  "stake_account_read input =
     (case layout [1, 16, 32, 32, 8, 16, 17, 17, 94] input of
        [ver, start, own, pool, deposited, unclaimed, sub_start, sub_unclaimed, padding] \<Rightarrow>
          (if PROGRAM_VERSION < u8_from ver then Inl (Err InvalidAccountData)
           else
             attempt (unpack_option_decimal sub_start) (\<lambda>sub_start_rate.
             attempt (unpack_option_decimal sub_unclaimed) (\<lambda>sub_reward.
             Inr \<lparr> stake_version = u8_from ver,
               start_rate = \<lparr> rate_reward = unpack_decimal start, rate_sub_reward = sub_start_rate \<rparr>,
               stake_owner = bytes32_from own, pool_pubkey = bytes32_from pool,
               staked_amount = u64_from deposited,
               unclaimed_reward_wads =
                 \<lparr> reward_wads = unpack_decimal unclaimed, sub_reward_wads = sub_reward \<rparr>,
               stake_reserve_fields2 = replicate 32 0, stake_reserve_fields3 = replicate 32 0,
               stake_reserve_fields4 = replicate 30 0 \<rparr>)))
      | _ \<Rightarrow> Inl Panic)"

definition stake_account_unpack_from_slice :: "byte list \<Rightarrow> stake_account result" where
  "stake_account_unpack_from_slice = read_array STAKE_ACCOUNT_LEN stake_account_read"

section \<open>Lemmas\<close>

definition option_fits :: "decimal option \<Rightarrow> bool" where
  "option_fits d = (case d of None \<Rightarrow> True | Some x \<Rightarrow> dec x < 2 ^ 128)"

text \<open>What the layout can hold: decimals of 16 bytes, and reserved fields that are zero.\<close>

definition stake_account_fits :: "stake_account \<Rightarrow> bool" where
  "stake_account_fits a \<longleftrightarrow> stake_version a \<le> PROGRAM_VERSION \<and>
     dec (rate_reward (start_rate a)) < 2 ^ 128 \<and> option_fits (rate_sub_reward (start_rate a)) \<and>
     dec (reward_wads (unclaimed_reward_wads a)) < 2 ^ 128 \<and>
     option_fits (sub_reward_wads (unclaimed_reward_wads a)) \<and>
     stake_reserve_fields2 a = replicate 32 0 \<and> stake_reserve_fields3 a = replicate 32 0 \<and>
     stake_reserve_fields4 a = replicate 30 0"

lemma pack_option_decimal_total: "option_fits d \<Longrightarrow> \<exists>bs. pack_option_decimal d dst = Inr bs"
  by (auto simp: option_fits_def pack_option_decimal_def pack_decimal_total split: option.splits)

lemma length_pack_option_decimal [simp]:
  "pack_option_decimal d dst = Inr bs \<Longrightarrow> length dst = 17 \<Longrightarrow> length bs = 17"
  by (auto simp: pack_option_decimal_def split: option.splits)

lemma unpack_pack_option_decimal [simp]:
  "pack_option_decimal d dst = Inr bs \<Longrightarrow> unpack_option_decimal bs = Inr d"
  by (auto simp: pack_option_decimal_def unpack_option_decimal_def split: option.splits)

lemma stake_account_write_cases:
  assumes "stake_account_write a dst = Inr bs" "length dst = STAKE_ACCOUNT_LEN"
  obtains s ss u su where
    "pack_decimal (rate_reward (start_rate a)) = Inr s"
    "pack_option_decimal (rate_sub_reward (start_rate a)) (take 17 (drop 105 dst)) = Inr ss"
    "pack_decimal (reward_wads (unclaimed_reward_wads a)) = Inr u"
    "pack_option_decimal (sub_reward_wads (unclaimed_reward_wads a)) (take 17 (drop 122 dst)) = Inr su"
    "length ss = 17" "length su = 17" "length (drop 139 dst) = 94"
    "bs = u8_to (stake_version a) @ s @ bytes32_to (stake_owner a) @ bytes32_to (pool_pubkey a) @
       u64_to (staked_amount a) @ u @ ss @ su @ drop 139 dst"
proof -
  from assms(2) have "length (take 17 (drop 105 dst)) = 17" "length (take 17 (drop 122 dst)) = 17"
    "length (drop 139 dst) = 94"
    by (simp_all add: STAKE_ACCOUNT_LEN_def)
  with assms(1) show thesis
    by (auto simp: stake_account_write_def intro!: that dest: length_pack_option_decimal)
qed

lemma stake_account_write_total:
  assumes "stake_account_fits a" shows "\<exists>bs. stake_account_write a dst = Inr bs"
proof -
  have opt: "\<exists>bs. pack_option_decimal (rate_sub_reward (start_rate a)) d = Inr bs"
    "\<exists>bs. pack_option_decimal (sub_reward_wads (unclaimed_reward_wads a)) d = Inr bs" for d
    using assms by (simp_all add: stake_account_fits_def pack_option_decimal_total)
  obtain s u where "pack_decimal (rate_reward (start_rate a)) = Inr s"
    "pack_decimal (reward_wads (unclaimed_reward_wads a)) = Inr u"
    using assms pack_decimal_total unfolding stake_account_fits_def by metis
  with opt [of "take 17 (drop 105 dst)"] opt [of "take 17 (drop 122 dst)"] show ?thesis
    by (auto simp: stake_account_write_def)
qed

lemma stake_account_read_write:
  assumes "stake_account_fits a" "length dst = STAKE_ACCOUNT_LEN" "stake_account_write a dst = Inr bs"
  shows "stake_account_read bs = Inr a"
  using assms(3,2)
proof (rule stake_account_write_cases)
  fix s ss u su
  assume *: "pack_decimal (rate_reward (start_rate a)) = Inr s"
    "pack_option_decimal (rate_sub_reward (start_rate a)) (take 17 (drop 105 dst)) = Inr ss"
    "pack_decimal (reward_wads (unclaimed_reward_wads a)) = Inr u"
    "pack_option_decimal (sub_reward_wads (unclaimed_reward_wads a)) (take 17 (drop 122 dst)) = Inr su"
    "length ss = 17" "length su = 17" "length (drop 139 dst) = 94"
    "bs = u8_to (stake_version a) @ s @ bytes32_to (stake_owner a) @ bytes32_to (pool_pubkey a) @
       u64_to (staked_amount a) @ u @ ss @ su @ drop 139 dst"
  have len: "length s = 16" "length u = 16" using *(1,3) by simp_all
  have "layout [1, 16, 32, 32, 8, 16, 17, 17, 94] bs =
      [u8_to (stake_version a), s, bytes32_to (stake_owner a), bytes32_to (pool_pubkey a),
       u64_to (staked_amount a), u, ss, su, drop 139 dst]"
    by (simp only: *(8) layout_append layout_last bytes_lengths len *(5-7))
  moreover have "unpack_decimal s = rate_reward (start_rate a)"
    "unpack_decimal u = reward_wads (unclaimed_reward_wads a)"
    "unpack_option_decimal ss = Inr (rate_sub_reward (start_rate a))"
    "unpack_option_decimal su = Inr (sub_reward_wads (unclaimed_reward_wads a))"
    using *(1-4) by (simp_all only: unpack_pack_decimal unpack_pack_option_decimal)
  ultimately show ?thesis
    using assms(1) by (simp add: stake_account_read_def stake_account_fits_def not_less [symmetric])
qed

interpretation stake_pack: packed STAKE_ACCOUNT_LEN stake_account_fits
  stake_account_write stake_account_read
proof unfold_locales
  fix a :: stake_account and dst bs :: "byte list"
  show "stake_account_fits a \<Longrightarrow> \<exists>bs. stake_account_write a dst = Inr bs"
    by (rule stake_account_write_total)
  show "length dst = STAKE_ACCOUNT_LEN \<Longrightarrow> stake_account_write a dst = Inr bs \<Longrightarrow>
      length bs = STAKE_ACCOUNT_LEN"
    by (erule stake_account_write_cases) (simp_all add: STAKE_ACCOUNT_LEN_def)
  show "stake_account_fits a \<Longrightarrow> length dst = STAKE_ACCOUNT_LEN \<Longrightarrow>
      stake_account_write a dst = Inr bs \<Longrightarrow> stake_account_read bs = Inr a"
    by (rule stake_account_read_write)
qed

end
