(* ===== verification/Staking_Errors.thy ===== *)
theory Staking_Errors
  imports Errors
begin

text \<open>
  The staking program's errors (staking/program/src/error.rs), with the codes the declaration
  order gives them. Their names carry the prefix \<open>S_\<close>, since several are also names of the lending
  program's errors.
\<close>

datatype (plugins only: size) staking_error =
    S_InstructionUnpackError
  | S_AlreadyInitialized
  | S_NotRentExempt
  | S_MathOverflow
  | S_StakeDepositsZero
  | S_StakeWithdrawsZero
  | S_InvalidArgumentError
  | S_InvalidSupplyError
  | S_InvalidDurationError
  | S_InvalidCurrentTimeError
  | S_InvalidWithdrawAmountError
  | S_InvalidCurrentRateError
  | S_InvalidAccountOwner
  | S_InSufficientSupplyError
  | S_InvalidSigner
  | S_InvalidRewardSupplyAccountError
  | S_InvalidTokenMint
  | S_InvalidTokenOwner
  | S_InvalidRewardTokenPoolOwner
  | S_InvalidRewardTokenSupplyAccount
  | S_InvalidStakingPool
  | S_InvalidStakeAccount
  | S_InvalidRewardTokenPool
  | S_TokenTransferFailed
  | S_TokenInitializeAccountFailed
  | S_ReduceRewardTooMuch
  | S_AlreadyHasSubReward

fun staking_code :: "staking_error \<Rightarrow> u32" where
  "staking_code S_InstructionUnpackError = 0"
| "staking_code S_AlreadyInitialized = 1"
| "staking_code S_NotRentExempt = 2"
| "staking_code S_MathOverflow = 3"
| "staking_code S_StakeDepositsZero = 4"
| "staking_code S_StakeWithdrawsZero = 5"
| "staking_code S_InvalidArgumentError = 6"
| "staking_code S_InvalidSupplyError = 7"
| "staking_code S_InvalidDurationError = 8"
| "staking_code S_InvalidCurrentTimeError = 9"
| "staking_code S_InvalidWithdrawAmountError = 10"
| "staking_code S_InvalidCurrentRateError = 11"
| "staking_code S_InvalidAccountOwner = 12"
| "staking_code S_InSufficientSupplyError = 13"
| "staking_code S_InvalidSigner = 14"
| "staking_code S_InvalidRewardSupplyAccountError = 15"
| "staking_code S_InvalidTokenMint = 16"
| "staking_code S_InvalidTokenOwner = 17"
| "staking_code S_InvalidRewardTokenPoolOwner = 18"
| "staking_code S_InvalidRewardTokenSupplyAccount = 19"
| "staking_code S_InvalidStakingPool = 20"
| "staking_code S_InvalidStakeAccount = 21"
| "staking_code S_InvalidRewardTokenPool = 22"
| "staking_code S_TokenTransferFailed = 23"
| "staking_code S_TokenInitializeAccountFailed = 24"
| "staking_code S_ReduceRewardTooMuch = 25"
| "staking_code S_AlreadyHasSubReward = 26"

definition staking :: "staking_error \<Rightarrow> fault" where
  "staking e = Err (Custom (staking_code e))"

text \<open>The inverse that \<open>#[derive(FromPrimitive)]\<close> generates.\<close>

definition staking_errors :: "staking_error list" where
  "staking_errors =
  [S_InstructionUnpackError, S_AlreadyInitialized, S_NotRentExempt,
   S_MathOverflow, S_StakeDepositsZero, S_StakeWithdrawsZero,
   S_InvalidArgumentError, S_InvalidSupplyError, S_InvalidDurationError,
   S_InvalidCurrentTimeError, S_InvalidWithdrawAmountError, S_InvalidCurrentRateError,
   S_InvalidAccountOwner, S_InSufficientSupplyError, S_InvalidSigner,
   S_InvalidRewardSupplyAccountError, S_InvalidTokenMint, S_InvalidTokenOwner,
   S_InvalidRewardTokenPoolOwner, S_InvalidRewardTokenSupplyAccount, S_InvalidStakingPool,
   S_InvalidStakeAccount, S_InvalidRewardTokenPool, S_TokenTransferFailed,
   S_TokenInitializeAccountFailed, S_ReduceRewardTooMuch, S_AlreadyHasSubReward]"

definition staking_of_code :: "u32 \<Rightarrow> staking_error option" where
  "staking_of_code n =
     (if unat n < length staking_errors then Some (staking_errors ! unat n) else None)"

lemma staking_of_code_code [simp]: "staking_of_code (staking_code e) = Some e"
  by (cases e) (simp_all add: staking_of_code_def staking_errors_def)

lemma staking_code_inject [simp]: "staking_code e = staking_code e' \<longleftrightarrow> e = e'"
  by (metis staking_of_code_code option.inject)

lemma staking_inject [simp]: "staking e = staking e' \<longleftrightarrow> e = e'"
  by (simp add: staking_def)

lemma staking_not_Panic [simp]: "staking e \<noteq> Panic" "Panic \<noteq> staking e"
  by (simp_all add: staking_def)

end
