(* ===== verification/Staking_Math.thy ===== *)
theory Staking_Math
  imports Staking_Errors Decimals
begin

text \<open>
  The staking program's own copy of \<open>Decimal\<close> (staking/program/src/math/decimal.rs): the same
  192-bit type as the lending program's, whose operations report the staking program's
  \<open>MathOverflow\<close>. Each operation is translated from the staking source; the lemmas show that it
  is the lending program's with the other error, so the second interpretation of \<open>fixed_point\<close>
  gives the same arithmetic.
\<close>

section \<open>Operations\<close>

abbreviation st_overflow :: fault where
  "st_overflow \<equiv> staking S_MathOverflow"

definition st_to_scaled_val :: "decimal \<Rightarrow> u128 result" where
  "st_to_scaled_val d = ok_or (try_narrow (decimal_bits d)) st_overflow"

definition st_try_round_u64 :: "decimal \<Rightarrow> u64 result" where
  "st_try_round_u64 d =
     attempt (ok_or (checked_add decimal_half_wad (decimal_bits d)) st_overflow) (\<lambda>sum.
     attempt (ok_or (checked_div sum decimal_wad) st_overflow) (\<lambda>rounded_val.
     ok_or (try_narrow rounded_val) st_overflow))"

definition st_try_ceil_u64 :: "decimal \<Rightarrow> u64 result" where
  "st_try_ceil_u64 d =
     attempt (ok_or (checked_sub decimal_wad 1) st_overflow) (\<lambda>wad_less_1.
     attempt (ok_or (checked_add wad_less_1 (decimal_bits d)) st_overflow) (\<lambda>sum.
     attempt (ok_or (checked_div sum decimal_wad) st_overflow) (\<lambda>ceil_val.
     ok_or (try_narrow ceil_val) st_overflow)))"

definition st_try_floor_u64 :: "decimal \<Rightarrow> u64 result" where
  "st_try_floor_u64 d =
     attempt (ok_or (checked_div (decimal_bits d) decimal_wad) st_overflow) (\<lambda>floor_val.
     ok_or (try_narrow floor_val) st_overflow)"

definition st_try_add :: "decimal \<Rightarrow> decimal \<Rightarrow> decimal result" where
  "st_try_add a b =
     attempt (ok_or (checked_add (decimal_bits a) (decimal_bits b)) st_overflow) (\<lambda>v.
     Inr (Decimal v))"

definition st_try_sub :: "decimal \<Rightarrow> decimal \<Rightarrow> decimal result" where
  "st_try_sub a b =
     attempt (ok_or (checked_sub (decimal_bits a) (decimal_bits b)) st_overflow) (\<lambda>v.
     Inr (Decimal v))"

definition st_try_div_u64 :: "decimal \<Rightarrow> u64 \<Rightarrow> decimal result" where
  "st_try_div_u64 a b =
     attempt (ok_or (checked_div (decimal_bits a) (ucast b)) st_overflow) (\<lambda>v.
     Inr (Decimal v))"

definition st_try_div :: "decimal \<Rightarrow> decimal \<Rightarrow> decimal result" where
  "st_try_div a b =
     attempt (ok_or (checked_mul (decimal_bits a) decimal_wad) st_overflow) (\<lambda>scaled.
     attempt (ok_or (checked_div scaled (decimal_bits b)) st_overflow) (\<lambda>v.
     Inr (Decimal v)))"

definition st_try_mul_u64 :: "decimal \<Rightarrow> u64 \<Rightarrow> decimal result" where
  "st_try_mul_u64 a b =
     attempt (ok_or (checked_mul (decimal_bits a) (ucast b)) st_overflow) (\<lambda>v.
     Inr (Decimal v))"

definition st_try_mul :: "decimal \<Rightarrow> decimal \<Rightarrow> decimal result" where
  "st_try_mul a b =
     attempt (ok_or (checked_mul (decimal_bits a) (decimal_bits b)) st_overflow) (\<lambda>product.
     attempt (ok_or (checked_div product decimal_wad) st_overflow) (\<lambda>v.
     Inr (Decimal v)))"

text \<open>\<open>x.map(f).map_or(Ok(None), |r| r.map(Some))\<close>: an optional value, if there is one.\<close>

definition option_try :: "('a \<Rightarrow> 'b result) \<Rightarrow> 'a option \<Rightarrow> 'b option result" where
  "option_try f v = (case v of None \<Rightarrow> Inr None | Some x \<Rightarrow> attempt (f x) (\<lambda>y. Inr (Some y)))"

text \<open>\<open>m! { lhs <- a; rhs <- b; Lift::lift(f(lhs, rhs)) }\<close>, brought out the same way.\<close>

definition option_try2 :: "('a \<Rightarrow> 'b \<Rightarrow> 'c result) \<Rightarrow> 'a option \<Rightarrow> 'b option \<Rightarrow> 'c option result" where
  "option_try2 f a b =
     (case (a, b) of (Some lhs, Some rhs) \<Rightarrow> attempt (f lhs rhs) (\<lambda>y. Inr (Some y)) | _ \<Rightarrow> Inr None)"

lemmas [run] = st_to_scaled_val_def st_try_round_u64_def st_try_ceil_u64_def st_try_floor_u64_def
  st_try_add_def st_try_sub_def st_try_div_u64_def st_try_div_def st_try_mul_u64_def
  st_try_mul_def option_try_def option_try2_def

section \<open>Signed arguments\<close>

text \<open>
  A signed argument is a 64-bit word, read with \<open>signed_val\<close>. \<open>abs(x) as u64\<close> is the word or its
  negation: the least value is its own negation and becomes 2^63, as in a release build.
\<close>

type_synonym i64 = "64 word"

definition i64_abs :: "i64 \<Rightarrow> u64" where
  "i64_abs x = (if signed_val x < 0 then - x else x)"

text \<open>\<open>u64::try_from\<close> of a signed number and \<open>i64::try_from\<close> of an unsigned one.\<close>

definition i64_to_u64 :: "i64 \<Rightarrow> u64 option" where
  "i64_to_u64 x = (if signed_val x < 0 then None else Some x)"

definition u64_to_i64 :: "u64 \<Rightarrow> i64 option" where
  "u64_to_i64 x = (if unat x < 2 ^ 63 then Some x else None)"

lemmas [run] = i64_abs_def i64_to_u64_def u64_to_i64_def signed_val_def

lemma unat_i64_abs: "int (unat (i64_abs x)) = \<bar>signed_val x\<bar>"
proof (cases "unat x < 2 ^ 63")
  case True
  then show ?thesis by (simp add: i64_abs_def signed_val_def)
next
  case False
  have less: "unat x < 2 ^ 64" using unsigned_less [of x, where ?'a = nat] by simp
  have s: "signed_val x = int (unat x) - int (2 ^ 64)" using False by (simp add: signed_val_def)
  with less have neg: "signed_val x < 0" by linarith
  have "0 < unat x" using False by (rule contrapos_np) simp
  from unat_minus_word [OF this] have m: "unat (- x) = 2 ^ 64 - unat x" by simp
  with less have "int (unat (- x)) = int (2 ^ 64) - int (unat x)" by linarith
  with s neg show ?thesis unfolding i64_abs_def by (simp only: if_True)
qed

lemma u64_to_i64_abs: "u64_to_i64 x = Some y \<Longrightarrow> y = x \<and> signed_val y = int (unat x) \<and> i64_abs y = x"
  by (auto simp: u64_to_i64_def i64_abs_def signed_val_def split: if_splits)

section \<open>Agreement with the lending program\<close>

lemma map_err_Inl_iff: "map_err r e = Inl f \<longleftrightarrow> (\<exists>x. r = Inl (Err x) \<and> f = e) \<or> r = Inl Panic \<and> f = Panic"
  by (auto simp: map_err_def split: sum.splits fault.splits)

lemma map_err_attempt:
  "map_err (attempt m f) e = attempt (map_err m e) (\<lambda>x. map_err (f x) e)"
  by (cases m) (auto simp: map_err_def split: fault.splits)

lemma map_err_ok_or: "map_err (ok_or v (lending x)) e = ok_or v e"
  by (cases v) (auto simp: map_err_def lending_def)

lemmas st_as_lending_defs = map_err_attempt map_err_ok_or

lemma st_as_lending:
  "st_to_scaled_val d = map_err (decimal_to_scaled_val d) st_overflow"
  "st_try_round_u64 d = map_err (decimal_try_round_u64 d) st_overflow"
  "st_try_ceil_u64 d = map_err (decimal_try_ceil_u64 d) st_overflow"
  "st_try_floor_u64 d = map_err (decimal_try_floor_u64 d) st_overflow"
  "st_try_add a b = map_err (decimal_try_add a b) st_overflow"
  "st_try_sub a b = map_err (decimal_try_sub a b) st_overflow"
  "st_try_div_u64 a n = map_err (decimal_try_div_u64 a n) st_overflow"
  "st_try_div a b = map_err (decimal_try_div a b) st_overflow"
  "st_try_mul_u64 a n = map_err (decimal_try_mul_u64 a n) st_overflow"
  "st_try_mul a b = map_err (decimal_try_mul a b) st_overflow"
  unfolding st_to_scaled_val_def decimal_to_scaled_val_def st_try_round_u64_def decimal_try_round_u64_def
    st_try_ceil_u64_def decimal_try_ceil_u64_def st_try_floor_u64_def decimal_try_floor_u64_def
    st_try_add_def decimal_try_add_def st_try_sub_def decimal_try_sub_def st_try_div_u64_def
    decimal_try_div_u64_def st_try_div_def decimal_try_div_def st_try_mul_u64_def
    decimal_try_mul_u64_def st_try_mul_def decimal_try_mul_def st_as_lending_defs map_err_Inr
  by (rule refl)+

named_theorems st_ok \<open>successful operations of the staking program's decimals\<close>
named_theorems st_err \<open>failing operations of the staking program's decimals\<close>

lemma st_try_ok [st_ok]:
  "st_try_floor_u64 d = Inr v \<longleftrightarrow> unat v = dec d div wad"
  "st_try_add a b = Inr c \<longleftrightarrow> dec c = dec a + dec b"
  "st_try_sub a b = Inr c \<longleftrightarrow> dec a = dec b + dec c"
  "st_try_mul_u64 a n = Inr c \<longleftrightarrow> dec c = dec a * unat n"
  "st_try_div_u64 a n = Inr c \<longleftrightarrow> n \<noteq> 0 \<and> dec c = dec a div unat n"
  "st_try_mul a b = Inr c \<longleftrightarrow> dec a * dec b < 2 ^ 192 \<and> dec c = dec a * dec b div wad"
  "st_try_div a b = Inr c \<longleftrightarrow> dec b \<noteq> 0 \<and> dec a * wad < 2 ^ 192 \<and> dec c = dec a * wad div dec b"
  unfolding st_as_lending map_err_Inr_iff by (simp_all only: decimal_ok)

lemma st_try_err [st_err]:
  "st_try_floor_u64 d = Inl e \<longleftrightarrow> e = st_overflow \<and> 2 ^ 64 \<le> dec d div wad"
  "st_try_add a b = Inl e \<longleftrightarrow> e = st_overflow \<and> 2 ^ 192 \<le> dec a + dec b"
  "st_try_sub a b = Inl e \<longleftrightarrow> e = st_overflow \<and> dec a < dec b"
  "st_try_mul_u64 a n = Inl e \<longleftrightarrow> e = st_overflow \<and> 2 ^ 192 \<le> dec a * unat n"
  "st_try_div_u64 a n = Inl e \<longleftrightarrow> e = st_overflow \<and> n = 0"
  "st_try_mul a b = Inl e \<longleftrightarrow> e = st_overflow \<and> 2 ^ 192 \<le> dec a * dec b"
  "st_try_div a b = Inl e \<longleftrightarrow> e = st_overflow \<and> (dec b = 0 \<or> 2 ^ 192 \<le> dec a * wad)"
  unfolding st_as_lending map_err_Inl_iff by (auto simp: decimal_err lending_def)

interpretation st_decimal: fixed_point dec 192 st_overflow st_try_add st_try_sub st_try_mul st_try_div
  by unfold_locales (rule dec_less, simp_all only: dec_inject st_ok st_err)

lemma option_try_ok:
  "option_try f v = Inr w \<longleftrightarrow>
     (case v of None \<Rightarrow> w = None | Some x \<Rightarrow> \<exists>y. f x = Inr y \<and> w = Some y)"
  by (auto simp: option_try_def split: option.split)

lemma option_try2_ok:
  "option_try2 f a b = Inr w \<longleftrightarrow>
     (if a = None \<or> b = None then w = None else \<exists>y. f (the a) (the b) = Inr y \<and> w = Some y)"
  by (auto simp: option_try2_def split: option.splits)

end
