(* ===== verification/Staking_Instruction.thy ===== *)
theory Staking_Instruction
  imports Staking_Math Wire Runtime
begin

text \<open>
  The instructions of the staking program and their encoding (staking/program/src/instruction.rs),
  and the two builders the lending program uses. Unlike the lending program's, this \<open>unpack\<close> refuses trailing bytes.
\<close>

datatype (plugins only: size) staking_instruction =
    InitStakingPool u64 "u64 option" u64 u64 u8 pubkey pubkey
  | CreateStakeAccount
  | Deposit u64
  | Withdraw u64
  | ClaimReward
  | UpdateEarliestRewardClaimTime u64
  | ChangeRewardSupply i64 "i64 option"
  | ChangeOwner pubkey
  | ChangeDuration i64
  | AddSubRewardPool u64
  | ChangeAdmin pubkey

section \<open>Decoding\<close>

definition st_unpack_pubkey :: "byte list \<Rightarrow> (pubkey \<times> byte list) result" where
  "st_unpack_pubkey = read_bytes32 (staking S_InstructionUnpackError)"

definition st_unpack_u64 :: "byte list \<Rightarrow> (u64 \<times> byte list) result" where
  "st_unpack_u64 = read_u64 (staking S_InstructionUnpackError)"

definition st_unpack_i64 :: "byte list \<Rightarrow> (i64 \<times> byte list) result" where
  "st_unpack_i64 = read_u64 (staking S_InstructionUnpackError)"

definition st_unpack_u8 :: "byte list \<Rightarrow> (u8 \<times> byte list) result" where
  "st_unpack_u8 = read_u8 (staking S_InstructionUnpackError)"

definition st_unpack_option_u64 :: "byte list \<Rightarrow> (u64 option \<times> byte list) result" where
  "st_unpack_option_u64 input =
     attempt (read_bytes 9 (staking S_InstructionUnpackError) input) (\<lambda>(option_u64, rest).
     if option_u64 ! 0 = 0 then Inr (None, rest)
     else if option_u64 ! 0 = 1 then Inr (Some (u64_from (drop 1 option_u64)), rest)
     else Inl (staking S_InstructionUnpackError))"

definition st_unpack_option_i64 :: "byte list \<Rightarrow> (i64 option \<times> byte list) result" where
  "st_unpack_option_i64 input =
     attempt (read_bytes 9 (staking S_InstructionUnpackError) input) (\<lambda>(option_i64, rest).
     if option_i64 ! 0 = 0 then Inr (None, rest)
     else if option_i64 ! 0 = 1 then Inr (Some (u64_from (drop 1 option_i64)), rest)
     else Inl (staking S_InstructionUnpackError))"

definition st_arg ::
    "(byte list \<Rightarrow> ('a \<times> byte list) result) \<Rightarrow> ('a \<Rightarrow> staking_instruction) \<Rightarrow> byte list \<Rightarrow>
      (staking_instruction \<times> byte list) result" where
  "st_arg reader ins rest = attempt (reader rest) (\<lambda>(arg, rest). Inr (ins arg, rest))"

definition st_unpack_tagged :: "u8 \<Rightarrow> byte list \<Rightarrow> (staking_instruction \<times> byte list) result" where
  "st_unpack_tagged tag rest =
     (if tag = 0 then
        attempt (st_unpack_u64 rest) (\<lambda>(supply, rest).
        attempt (st_unpack_option_u64 rest) (\<lambda>(sub_supply, rest).
        attempt (st_unpack_u64 rest) (\<lambda>(duration, rest).
        attempt (st_unpack_u64 rest) (\<lambda>(earliest_reward_claim_time, rest).
        attempt (st_unpack_u8 rest) (\<lambda>(bump_seed_staking_program, rest).
        attempt (st_unpack_pubkey rest) (\<lambda>(pool_owner_authority, rest).
        attempt (st_unpack_pubkey rest) (\<lambda>(admin_authority, rest).
        Inr (InitStakingPool supply sub_supply duration earliest_reward_claim_time
          bump_seed_staking_program pool_owner_authority admin_authority, rest))))))))
      else if tag = 1 then Inr (CreateStakeAccount, rest)
      else if tag = 2 then st_arg st_unpack_u64 Deposit rest
      else if tag = 3 then st_arg st_unpack_u64 Withdraw rest
      else if tag = 4 then Inr (ClaimReward, rest)
      else if tag = 5 then st_arg st_unpack_u64 UpdateEarliestRewardClaimTime rest
      else if tag = 6 then
        attempt (st_unpack_i64 rest) (\<lambda>(amount, rest).
        attempt (st_unpack_option_i64 rest) (\<lambda>(sub_amount, rest).
        Inr (ChangeRewardSupply amount sub_amount, rest)))
      else if tag = 7 then st_arg st_unpack_pubkey ChangeOwner rest
      else if tag = 8 then st_arg st_unpack_i64 ChangeDuration rest
      else if tag = 9 then st_arg st_unpack_u64 AddSubRewardPool rest
      else if tag = 10 then st_arg st_unpack_pubkey ChangeAdmin rest
      else Inl (staking S_InstructionUnpackError))"

definition staking_instruction_unpack :: "byte list \<Rightarrow> staking_instruction result" where
  "staking_instruction_unpack input =
     (case input of
        [] \<Rightarrow> Inl (staking S_InstructionUnpackError)
      | tag # rest \<Rightarrow>
          attempt (st_unpack_tagged tag rest) (\<lambda>(ins, rest).
          if rest = [] then Inr ins else Inl (staking S_InstructionUnpackError)))"

section \<open>Encoding\<close>

definition st_pack_option_u64 :: "u64 option \<Rightarrow> byte list" where
  "st_pack_option_u64 option_u64 =
     (case option_u64 of None \<Rightarrow> replicate 9 0 | Some num \<Rightarrow> [1] @ u64_to num)"

definition st_pack_option_i64 :: "i64 option \<Rightarrow> byte list" where
  "st_pack_option_i64 option_i64 =
     (case option_i64 of None \<Rightarrow> replicate 9 0 | Some num \<Rightarrow> [1] @ u64_to num)"

fun staking_instruction_pack :: "staking_instruction \<Rightarrow> byte list" where
  "staking_instruction_pack (InitStakingPool supply sub_supply duration earliest_reward_claim_time
     bump_seed_staking_program pool_owner_authority admin_authority) =
     [0] @ u64_to supply @ st_pack_option_u64 sub_supply @ u64_to duration @
     u64_to earliest_reward_claim_time @ u8_to bump_seed_staking_program @
     bytes32_to pool_owner_authority @ bytes32_to admin_authority"
| "staking_instruction_pack CreateStakeAccount = [1]"
| "staking_instruction_pack (Deposit amount) = [2] @ u64_to amount"
| "staking_instruction_pack (Withdraw amount) = [3] @ u64_to amount"
| "staking_instruction_pack ClaimReward = [4]"
| "staking_instruction_pack (UpdateEarliestRewardClaimTime s) = [5] @ u64_to s"
| "staking_instruction_pack (ChangeRewardSupply amount sub_amount) =
     [6] @ u64_to amount @ st_pack_option_i64 sub_amount"
| "staking_instruction_pack (ChangeOwner new_owner) = [7] @ bytes32_to new_owner"
| "staking_instruction_pack (ChangeDuration amount) = [8] @ u64_to amount"
| "staking_instruction_pack (AddSubRewardPool amount) = [9] @ u64_to amount"
| "staking_instruction_pack (ChangeAdmin new_admin) = [10] @ bytes32_to new_admin"

section \<open>Builders\<close>

definition create_write_accounts :: "pubkey list \<Rightarrow> account_meta list" where
  "create_write_accounts =
     map (\<lambda>acc. \<lparr> meta_pubkey = acc, meta_is_signer = False, meta_is_writable = True \<rparr>)"

definition create_read_accounts :: "pubkey list \<Rightarrow> account_meta list" where
  "create_read_accounts =
     map (\<lambda>acc. \<lparr> meta_pubkey = acc, meta_is_signer = False, meta_is_writable = False \<rparr>)"

definition staking_deposit ::
    "solana \<Rightarrow> pubkey \<Rightarrow> u64 \<Rightarrow> pubkey \<Rightarrow> pubkey \<Rightarrow> pubkey \<Rightarrow> instruction" where
  "staking_deposit rt program_id amount authority stake_acc staking_pool =
     \<lparr> ix_program_id = program_id,
       ix_accounts =
         [\<lparr> meta_pubkey = authority, meta_is_signer = True, meta_is_writable = False \<rparr>] @
         create_write_accounts [stake_acc, staking_pool] @
         [\<lparr> meta_pubkey = clock_id rt, meta_is_signer = False, meta_is_writable = False \<rparr>],
       ix_data = staking_instruction_pack (Deposit amount) \<rparr>"

definition staking_withdraw ::
    "solana \<Rightarrow> pubkey \<Rightarrow> u64 \<Rightarrow> pubkey \<Rightarrow> pubkey \<Rightarrow> pubkey \<Rightarrow> instruction" where
  "staking_withdraw rt program_id amount authority stake_acc staking_pool =
     \<lparr> ix_program_id = program_id,
       ix_accounts =
         [\<lparr> meta_pubkey = authority, meta_is_signer = True, meta_is_writable = False \<rparr>] @
         create_write_accounts [stake_acc, staking_pool] @
         [\<lparr> meta_pubkey = clock_id rt, meta_is_signer = False, meta_is_writable = False \<rparr>],
       ix_data = staking_instruction_pack (Withdraw amount) \<rparr>"

section \<open>Lemmas\<close>

lemmas st_readers = st_unpack_pubkey_def st_unpack_u64_def st_unpack_i64_def st_unpack_u8_def

interpretation wire_option_u64: wire "\<lambda>_. True" st_pack_option_u64 st_unpack_option_u64
proof unfold_locales
  fix n :: "u64 option" and rest
  have "length (st_pack_option_u64 n) = 9"
    by (simp add: st_pack_option_u64_def split: option.split)
  from read_bytes_append [OF this] show "st_unpack_option_u64 (st_pack_option_u64 n @ rest) = Inr (n, rest)"
    by (simp add: st_unpack_option_u64_def st_pack_option_u64_def split: option.split)
qed

interpretation wire_option_i64: wire "\<lambda>_. True" st_pack_option_i64 st_unpack_option_i64
proof unfold_locales
  fix n :: "i64 option" and rest
  have "length (st_pack_option_i64 n) = 9"
    by (simp add: st_pack_option_i64_def split: option.split)
  from read_bytes_append [OF this] show "st_unpack_option_i64 (st_pack_option_i64 n @ rest) = Inr (n, rest)"
    by (simp add: st_unpack_option_i64_def st_pack_option_i64_def split: option.split)
qed

lemmas st_written = read_written
  wire_option_u64.decode_encode [OF TrueI] wire_option_u64.decode_all [OF TrueI]
  wire_option_i64.decode_encode [OF TrueI] wire_option_i64.decode_all [OF TrueI]

lemma staking_instruction_unpack_pack:
  "staking_instruction_unpack (staking_instruction_pack ins) = Inr ins"
  by (cases ins)
    (simp_all add: staking_instruction_unpack_def st_unpack_tagged_def st_arg_def st_readers st_written)

end
