(* ===== verification/Processor_Obligation.thy ===== *)
theory Processor_Obligation
  imports Processor_Deposit Staking_State Staking_Instruction
begin

text \<open>
  The handlers of obligations and their collateral (token-lending/program/src/processor.rs):
  creating an obligation, refreshing it, depositing and withdrawing collateral, with the calls to
  the staking program for reserves that have a staking pool.
\<close>

section \<open>Creation\<close>

definition process_init_obligation ::
    "solana \<Rightarrow> pubkey \<Rightarrow> account_info list \<Rightarrow> world \<Rightarrow> world result" where
  "process_init_obligation rt program_id accounts w =
     attempt (next_account_info rt accounts) (\<lambda>(obligation_info, accounts).
     attempt (next_account_info rt accounts) (\<lambda>(lending_market_info, accounts).
     attempt (next_account_info rt accounts) (\<lambda>(obligation_owner_info, accounts).
     attempt (next_account_info rt accounts) (\<lambda>(clock_info, accounts).
     attempt (clock_from rt w clock_info) (\<lambda>clock.
     attempt (next_account_info rt accounts) (\<lambda>(rent_info, accounts).
     attempt (rent_from rt w rent_info) (\<lambda>rent.
     attempt (next_account_info rt accounts) (\<lambda>(token_program_info, accounts).
     attempt (assert_rent_exempt rent w obligation_info) (\<lambda>_.
     attempt (assert_uninitialized rt OBLIGATION_LEN obligation_is_initialized
       obligation_unpack_from_slice w obligation_info) (\<lambda>ob.
     attempt (refuse_if (owner_of w obligation_info \<noteq> program_id) InvalidAccountOwner) (\<lambda>_.
     attempt (load_market rt program_id lending_market_info token_program_info w) (\<lambda>m.
     attempt (refuse_if (\<not> is_signer obligation_owner_info) InvalidSigner) (\<lambda>_.
     pack_obligation rt (obligation_init \<lparr>
         init_ob_current_slot = clock,
         init_ob_lending_market = info_key lending_market_info,
         init_ob_owner = info_key obligation_owner_info,
         init_ob_deposits = [],
         init_ob_borrows = [] \<rparr> ob) obligation_info w)))))))))))))"

section \<open>Refresh\<close>

text \<open>What the first loop accumulates.\<close>

record collateral_totals =
  tot_deposited :: decimal
  tot_allowed :: decimal
  tot_unhealthy :: decimal

definition zero_totals :: collateral_totals where
  "zero_totals = \<lparr> tot_deposited = decimal_zero, tot_allowed = decimal_zero, tot_unhealthy = decimal_zero \<rparr>"

text \<open>A reserve of the obligation: its account's owner, its address, and freshness.\<close>

definition load_position_reserve ::
    "solana \<Rightarrow> pubkey \<Rightarrow> u64 \<Rightarrow> pubkey \<Rightarrow> account_info \<Rightarrow> world \<Rightarrow> reserve result" where
  "load_position_reserve rt program_id clock key reserve_info w =
     attempt (refuse_if (owner_of w reserve_info \<noteq> program_id) InvalidAccountOwner) (\<lambda>_.
     attempt (refuse_if (key \<noteq> info_key reserve_info) InvalidAccountInput) (\<lambda>_.
     attempt (unpack_reserve rt w reserve_info) (\<lambda>r.
     attempt (check_fresh (reserve_last_update r) clock ReserveStale) (\<lambda>_.
     Inr r))))"

text \<open>The market value of a deposit.\<close>

definition collateral_value :: "reserve \<Rightarrow> u64 \<Rightarrow> decimal result" where
  "collateral_value r amount =
     attempt (ok_or (checked_pow (10 :: u64) (unat (mint_decimals (liquidity r))))
       (lending MathOverflow)) (\<lambda>decimals.
     attempt (collateral_exchange_rate r) (\<lambda>rate.
     attempt (decimal_collateral_to_liquidity rate (decimal_from_u64 amount)) (\<lambda>v.
     attempt (decimal_try_mul v (market_price (liquidity r))) (\<lambda>v.
     decimal_try_div_u64 v decimals))))"

text \<open>The market value of a loan.\<close>

definition loan_value :: "reserve \<Rightarrow> decimal \<Rightarrow> decimal result" where
  "loan_value r amount =
     attempt (ok_or (checked_pow (10 :: u64) (unat (mint_decimals (liquidity r))))
       (lending MathOverflow)) (\<lambda>decimals.
     attempt (decimal_try_mul amount (market_price (liquidity r))) (\<lambda>v.
     decimal_try_div_u64 v decimals))"

fun refresh_deposits ::
    "solana \<Rightarrow> pubkey \<Rightarrow> u64 \<Rightarrow> world \<Rightarrow> obligation_collateral list \<Rightarrow> account_info list \<Rightarrow>
      collateral_totals \<Rightarrow>
      (obligation_collateral list \<times> account_info list \<times> collateral_totals) result" where
  "refresh_deposits rt program_id clock w [] accounts t = Inr ([], accounts, t)"
| "refresh_deposits rt program_id clock w (c # cs) accounts t =
     attempt (next_account_info rt accounts) (\<lambda>(deposit_reserve_info, accounts).
     attempt (load_position_reserve rt program_id clock (deposit_reserve c)
       deposit_reserve_info w) (\<lambda>r.
     attempt (collateral_value r (deposited_amount c)) (\<lambda>value.
     attempt (decimal_try_add (tot_deposited t) value) (\<lambda>deposited.
     attempt (decimal_try_mul_rate value (rate_from_percent (loan_to_value_ratio (config r)))) (\<lambda>lent.
     attempt (decimal_try_add (tot_allowed t) lent) (\<lambda>allowed.
     attempt (decimal_try_mul_rate value (rate_from_percent (liquidation_threshold (config r)))) (\<lambda>limit.
     attempt (decimal_try_add (tot_unhealthy t) limit) (\<lambda>unhealthy.
     attempt (refresh_deposits rt program_id clock w cs accounts
       \<lparr> tot_deposited = deposited, tot_allowed = allowed, tot_unhealthy = unhealthy \<rparr>)
       (\<lambda>(cs, accounts, t). Inr (c\<lparr> coll_market_value := value \<rparr> # cs, accounts, t))))))))))"

fun refresh_loans ::
    "solana \<Rightarrow> pubkey \<Rightarrow> u64 \<Rightarrow> world \<Rightarrow> obligation_liquidity list \<Rightarrow> account_info list \<Rightarrow> decimal \<Rightarrow>
      (obligation_liquidity list \<times> account_info list \<times> decimal) result" where
  "refresh_loans rt program_id clock w [] accounts borrowed = Inr ([], accounts, borrowed)"
| "refresh_loans rt program_id clock w (l # ls) accounts borrowed =
     attempt (next_account_info rt accounts) (\<lambda>(borrow_reserve_info, accounts).
     attempt (load_position_reserve rt program_id clock (borrow_reserve l)
       borrow_reserve_info w) (\<lambda>r.
     attempt (loan_accrue_interest (cumulative_borrow_rate_wads (liquidity r)) l) (\<lambda>l.
     attempt (loan_value r (loan_borrowed_amount_wads l)) (\<lambda>value.
     attempt (decimal_try_add borrowed value) (\<lambda>borrowed.
     attempt (refresh_loans rt program_id clock w ls accounts borrowed)
       (\<lambda>(ls, accounts, borrowed). Inr (l\<lparr> loan_market_value := value \<rparr> # ls, accounts, borrowed)))))))"

definition process_refresh_obligation ::
    "solana \<Rightarrow> pubkey \<Rightarrow> account_info list \<Rightarrow> world \<Rightarrow> world result" where
  "process_refresh_obligation rt program_id accounts w =
     attempt (next_account_info rt accounts) (\<lambda>(obligation_info, accounts).
     attempt (next_account_info rt accounts) (\<lambda>(clock_info, accounts).
     attempt (clock_from rt w clock_info) (\<lambda>clock.
     attempt (unpack_obligation rt w obligation_info) (\<lambda>ob.
     attempt (refuse_if (owner_of w obligation_info \<noteq> program_id) InvalidAccountOwner) (\<lambda>_.
     attempt (refresh_deposits rt program_id clock w (deposits ob) accounts zero_totals)
       (\<lambda>(deps, accounts, t).
     attempt (refresh_loans rt program_id clock w (borrows ob) accounts decimal_zero)
       (\<lambda>(loans, accounts, borrowed).
     attempt (refuse_if (accounts \<noteq> []) InvalidAccountInput) (\<lambda>_.
     pack_obligation rt (ob\<lparr> deposits := deps, borrows := loans,
       deposited_value := tot_deposited t, borrowed_value := borrowed,
       allowed_borrow_value := tot_allowed t, unhealthy_borrow_value := tot_unhealthy t,
       ob_last_update := update_slot clock (ob_last_update ob) \<rparr>) obligation_info w))))))))"

section \<open>The staking program\<close>

text \<open>The checks before either call to the staking program, apart from the market's.\<close>

definition check_stake_account ::
    "solana \<Rightarrow> account_info \<Rightarrow> pubkey \<Rightarrow> world \<Rightarrow> unit result" where
  "check_stake_account rt stake_account_info own w =
     attempt (unpack_checked rt STAKE_ACCOUNT_LEN stake_account_is_initialized
       stake_account_unpack_from_slice (data_of w stake_account_info)) (\<lambda>a.
     refuse_if (stake_owner a \<noteq> own) InvalidStakeAccount)"

definition deposit_to_staking_program ::
    "solana \<Rightarrow> pubkey \<Rightarrow> u64 \<Rightarrow> account_info \<Rightarrow> account_info \<Rightarrow> account_info \<Rightarrow> account_info \<Rightarrow>
      account_info \<Rightarrow> account_info \<Rightarrow> pubkey \<Rightarrow> world \<Rightarrow> world result" where
  "deposit_to_staking_program rt program_id collateral_amount lending_market_info
     lending_market_authority_info clock_info stake_account_info staking_pool_info
     staking_program_id own w =
     attempt (refuse_if (owner_of w staking_pool_info \<noteq> info_key staking_program_id \<or>
       owner_of w stake_account_info \<noteq> info_key staking_program_id) InvalidStakingPool) (\<lambda>_.
     attempt (unpack_market rt w lending_market_info) (\<lambda>m.
     attempt (check_market_authority rt program_id lending_market_info m
       lending_market_authority_info) (\<lambda>_.
     attempt (check_stake_account rt stake_account_info own w) (\<lambda>_.
     lib (invoke_program rt [authority_signer_seeds lending_market_info m]
       (staking_deposit rt (info_key staking_program_id) collateral_amount
         (info_key lending_market_authority_info) (info_key stake_account_info)
         (info_key staking_pool_info))
       [lending_market_authority_info, stake_account_info, staking_pool_info, staking_program_id,
        clock_info] w)))))"

definition withdraw_from_staking_program ::
    "solana \<Rightarrow> pubkey \<Rightarrow> u64 \<Rightarrow> account_info \<Rightarrow> account_info \<Rightarrow> account_info \<Rightarrow> account_info \<Rightarrow>
      account_info \<Rightarrow> account_info \<Rightarrow> pubkey \<Rightarrow> world \<Rightarrow> world result" where
  "withdraw_from_staking_program rt program_id collateral_amount lending_market_info
     lending_market_authority_info clock_info stake_account_info staking_pool_info
     staking_program_id own w =
     attempt (unpack_market rt w lending_market_info) (\<lambda>m.
     attempt (refuse_if (owner_of w staking_pool_info \<noteq> info_key staking_program_id \<or>
       owner_of w stake_account_info \<noteq> info_key staking_program_id) InvalidStakingPool) (\<lambda>_.
     attempt (check_market_authority rt program_id lending_market_info m
       lending_market_authority_info) (\<lambda>_.
     attempt (check_stake_account rt stake_account_info own w) (\<lambda>_.
     lib (invoke_program rt [authority_signer_seeds lending_market_info m]
       (staking_withdraw rt (info_key staking_program_id) collateral_amount
         (info_key lending_market_authority_info) (info_key stake_account_info)
         (info_key staking_pool_info))
       [lending_market_authority_info, stake_account_info, staking_pool_info, staking_program_id,
        clock_info] w)))))"

text \<open>
  The last part of the handlers that stake: when more accounts were passed, the stake account, the
  pool, which has to be the reserve's, and the staking program.
\<close>

definition with_staking_accounts ::
    "solana \<Rightarrow> account_info list \<Rightarrow> pubkey option result \<Rightarrow> world \<Rightarrow>
      (account_info \<Rightarrow> account_info \<Rightarrow> account_info \<Rightarrow> world result) \<Rightarrow> world result" where
  "with_staking_accounts rt accounts reserve_pool w call =
     (if accounts \<noteq> [] then
        attempt (next_account_info rt accounts) (\<lambda>(stake_account_info, accounts).
        attempt (next_account_info rt accounts) (\<lambda>(staking_pool_info, accounts).
        attempt (next_account_info rt accounts) (\<lambda>(staking_program_id, accounts).
        attempt reserve_pool (\<lambda>pool.
        attempt (refuse_if (pool \<noteq> Some (info_key staking_pool_info)) InvalidStakingPool) (\<lambda>_.
        call stake_account_info staking_pool_info staking_program_id)))))
      else Inr w)"

section \<open>Deposit\<close>

definition deposit_obligation_collateral ::
    "solana \<Rightarrow> pubkey \<Rightarrow> u64 \<Rightarrow> account_info \<Rightarrow> account_info \<Rightarrow> account_info \<Rightarrow> account_info \<Rightarrow>
      account_info \<Rightarrow> account_info \<Rightarrow> account_info \<Rightarrow> account_info \<Rightarrow> u64 \<Rightarrow> account_info \<Rightarrow>
      world \<Rightarrow> world result" where
  "deposit_obligation_collateral rt program_id collateral_amount source_collateral_info
     destination_collateral_info deposit_reserve_info obligation_info lending_market_info
     lending_market_authority_info obligation_owner_info user_transfer_authority_info clock
     token_program w =
     attempt (load_market rt program_id lending_market_info token_program w) (\<lambda>m.
     attempt (load_reserve rt program_id lending_market_info deposit_reserve_info w) (\<lambda>r.
     attempt (refuse_if (coll_supply_pubkey (collateral r) = info_key source_collateral_info)
       InvalidAccountInput) (\<lambda>_.
     attempt (refuse_if (coll_supply_pubkey (collateral r) \<noteq> info_key destination_collateral_info)
       InvalidAccountInput) (\<lambda>_.
     attempt (check_fresh (reserve_last_update r) clock ReserveStale) (\<lambda>_.
     attempt (refuse_if (loan_to_value_ratio (config r) = 0) ReserveCollateralDisabled) (\<lambda>_.
     attempt (load_obligation rt program_id lending_market_info obligation_info w) (\<lambda>ob.
     attempt (check_obligation_owner ob obligation_owner_info) (\<lambda>_.
     attempt (check_market_authority rt program_id lending_market_info m
       lending_market_authority_info) (\<lambda>_.
     attempt (find_or_add_collateral_to_deposits (info_key deposit_reserve_info) ob) (\<lambda>(ob, i).
     attempt (collateral_deposit collateral_amount (deposits ob ! i)) (\<lambda>c.
     attempt (pack_obligation rt (ob\<lparr> deposits := (deposits ob)[i := c],
       ob_last_update := mark_stale (ob_last_update ob) \<rparr>) obligation_info w) (\<lambda>w.
     spl_token_transfer rt source_collateral_info destination_collateral_info collateral_amount
       user_transfer_authority_info [] token_program w))))))))))))"

definition process_deposit_obligation_collateral ::
    "solana \<Rightarrow> pubkey \<Rightarrow> u64 \<Rightarrow> account_info list \<Rightarrow> world \<Rightarrow> world result" where
  "process_deposit_obligation_collateral rt program_id collateral_amount accounts w =
     attempt (refuse_if (collateral_amount = 0) InvalidAmount) (\<lambda>_.
     attempt (next_account_info rt accounts) (\<lambda>(source_collateral_info, accounts).
     attempt (next_account_info rt accounts) (\<lambda>(destination_collateral_info, accounts).
     attempt (next_account_info rt accounts) (\<lambda>(deposit_reserve_info, accounts).
     attempt (next_account_info rt accounts) (\<lambda>(obligation_info, accounts).
     attempt (next_account_info rt accounts) (\<lambda>(lending_market_info, accounts).
     attempt (next_account_info rt accounts) (\<lambda>(lending_market_authority_info, accounts).
     attempt (next_account_info rt accounts) (\<lambda>(obligation_owner_info, accounts).
     attempt (next_account_info rt accounts) (\<lambda>(user_transfer_authority_info, accounts).
     attempt (next_account_info rt accounts) (\<lambda>(clock_info, accounts).
     attempt (clock_from rt w clock_info) (\<lambda>clock.
     attempt (next_account_info rt accounts) (\<lambda>(token_program_info, accounts).
     attempt (unpack_reserve rt w deposit_reserve_info) (\<lambda>r.
     attempt (check_staking_accounts accounts r) (\<lambda>_.
     attempt (deposit_obligation_collateral rt program_id collateral_amount source_collateral_info
       destination_collateral_info deposit_reserve_info obligation_info lending_market_info
       lending_market_authority_info obligation_owner_info user_transfer_authority_info clock
       token_program_info w) (\<lambda>w.
     with_staking_accounts rt accounts (Inr (deposit_staking_pool (config r))) w
       (\<lambda>stake_account_info staking_pool_info staking_program_id.
          deposit_to_staking_program rt program_id collateral_amount lending_market_info
            lending_market_authority_info clock_info stake_account_info staking_pool_info
            staking_program_id (info_key obligation_owner_info) w))))))))))))))))"

section \<open>Withdrawal\<close>

text \<open>The amount to withdraw from an obligation that has loans: at most what its health allows.\<close>

definition withdraw_amount_with_loans ::
    "u64 \<Rightarrow> rate \<Rightarrow> obligation_collateral \<Rightarrow> obligation \<Rightarrow> u64 result" where
  "withdraw_amount_with_loans collateral_amount ltv c ob =
     attempt (max_withdraw_value ob ltv) (\<lambda>max_value.
     attempt (refuse_if (max_value = decimal_zero) WithdrawTooLarge) (\<lambda>_.
     attempt
       (if collateral_amount = u64_max then
          (let withdraw_value = min max_value (coll_market_value c) in
           attempt (decimal_try_div withdraw_value (coll_market_value c)) (\<lambda>withdraw_pct.
           attempt (decimal_try_mul_u64 withdraw_pct (deposited_amount c)) (\<lambda>amount.
           attempt (decimal_try_floor_u64 amount) (\<lambda>amount.
           Inr (min amount (deposited_amount c))))))
        else
          (let amount = min collateral_amount (deposited_amount c) in
           attempt (decimal_try_div_u64 (decimal_from_u64 amount) (deposited_amount c)) (\<lambda>withdraw_pct.
           attempt (decimal_try_mul (coll_market_value c) withdraw_pct) (\<lambda>withdraw_value.
           attempt (refuse_if (max_value < withdraw_value) WithdrawTooLarge) (\<lambda>_.
           Inr amount)))))
       (\<lambda>amount.
     attempt (refuse_if (amount = 0) WithdrawTooSmall) (\<lambda>_.
     Inr amount))))"

definition withdraw_collateral_amount ::
    "u64 \<Rightarrow> reserve \<Rightarrow> obligation_collateral \<Rightarrow> obligation \<Rightarrow> u64 result" where
  "withdraw_collateral_amount collateral_amount r c ob =
     (if borrows ob = [] then
        Inr (if collateral_amount = u64_max then deposited_amount c
          else min (deposited_amount c) collateral_amount)
      else if deposited_value ob = decimal_zero then Inl (lending ObligationDepositsZero)
      else withdraw_amount_with_loans collateral_amount
        (rate_from_percent (loan_to_value_ratio (config r))) c ob)"

definition withdraw_obligation_collateral ::
    "solana \<Rightarrow> pubkey \<Rightarrow> u64 \<Rightarrow> account_info \<Rightarrow> account_info \<Rightarrow> account_info \<Rightarrow> account_info \<Rightarrow>
      account_info \<Rightarrow> account_info \<Rightarrow> account_info \<Rightarrow> u64 \<Rightarrow> account_info \<Rightarrow>
      world \<Rightarrow> (u64 \<times> world) result" where
  "withdraw_obligation_collateral rt program_id collateral_amount source_collateral_info
     destination_collateral_info withdraw_reserve_info obligation_info lending_market_info
     lending_market_authority_info obligation_owner_info clock token_program w =
     attempt (load_market rt program_id lending_market_info token_program w) (\<lambda>m.
     attempt (load_reserve rt program_id lending_market_info withdraw_reserve_info w) (\<lambda>r.
     attempt (refuse_if (coll_supply_pubkey (collateral r) \<noteq> info_key source_collateral_info)
       InvalidAccountInput) (\<lambda>_.
     attempt (refuse_if (coll_supply_pubkey (collateral r) = info_key destination_collateral_info)
       InvalidAccountInput) (\<lambda>_.
     attempt (check_fresh (reserve_last_update r) clock ReserveStale) (\<lambda>_.
     attempt (load_obligation rt program_id lending_market_info obligation_info w) (\<lambda>ob.
     attempt (check_obligation_owner ob obligation_owner_info) (\<lambda>_.
     attempt (check_fresh (ob_last_update ob) clock ObligationStale) (\<lambda>_.
     attempt (find_collateral_in_deposits ob (info_key withdraw_reserve_info)) (\<lambda>(c, i).
     attempt (refuse_if (deposited_amount c = 0) ObligationCollateralEmpty) (\<lambda>_.
     attempt (check_market_authority rt program_id lending_market_info m
       lending_market_authority_info) (\<lambda>_.
     attempt (withdraw_collateral_amount collateral_amount r c ob) (\<lambda>withdraw_amount.
     attempt (obligation_withdraw withdraw_amount i ob) (\<lambda>ob.
     attempt (pack_obligation rt (ob\<lparr> ob_last_update := mark_stale (ob_last_update ob) \<rparr>)
       obligation_info w) (\<lambda>w.
     attempt (spl_token_transfer rt source_collateral_info destination_collateral_info
       withdraw_amount lending_market_authority_info
       (authority_signer_seeds lending_market_info m) token_program w) (\<lambda>w.
     Inr (withdraw_amount, w))))))))))))))))"

definition process_withdraw_obligation_collateral ::
    "solana \<Rightarrow> pubkey \<Rightarrow> u64 \<Rightarrow> account_info list \<Rightarrow> world \<Rightarrow> world result" where
  "process_withdraw_obligation_collateral rt program_id collateral_amount accounts w =
     attempt (refuse_if (collateral_amount = 0) InvalidAmount) (\<lambda>_.
     attempt (next_account_info rt accounts) (\<lambda>(source_collateral_info, accounts).
     attempt (next_account_info rt accounts) (\<lambda>(destination_collateral_info, accounts).
     attempt (next_account_info rt accounts) (\<lambda>(withdraw_reserve_info, accounts).
     attempt (next_account_info rt accounts) (\<lambda>(obligation_info, accounts).
     attempt (next_account_info rt accounts) (\<lambda>(lending_market_info, accounts).
     attempt (next_account_info rt accounts) (\<lambda>(lending_market_authority_info, accounts).
     attempt (next_account_info rt accounts) (\<lambda>(obligation_owner_info, accounts).
     attempt (next_account_info rt accounts) (\<lambda>(clock_info, accounts).
     attempt (clock_from rt w clock_info) (\<lambda>clock.
     attempt (next_account_info rt accounts) (\<lambda>(token_program_info, accounts).
     attempt (unpack_reserve rt w withdraw_reserve_info) (\<lambda>r.
     attempt (check_staking_accounts accounts r) (\<lambda>_.
     attempt (withdraw_obligation_collateral rt program_id collateral_amount source_collateral_info
       destination_collateral_info withdraw_reserve_info obligation_info lending_market_info
       lending_market_authority_info obligation_owner_info clock token_program_info w)
       (\<lambda>(withdraw_amount, w).
     with_staking_accounts rt accounts
       (attempt (unpack_reserve rt w withdraw_reserve_info) (\<lambda>r.
          Inr (deposit_staking_pool (config r)))) w
       (\<lambda>stake_account_info staking_pool_info staking_program_id.
          withdraw_from_staking_program rt program_id withdraw_amount lending_market_info
            lending_market_authority_info clock_info stake_account_info staking_pool_info
            staking_program_id (info_key obligation_owner_info) w)))))))))))))))"

section \<open>Deposit of liquidity and collateral\<close>

definition process_deposit_reserve_liquidity_and_obligation_collateral ::
    "solana \<Rightarrow> pubkey \<Rightarrow> u64 \<Rightarrow> account_info list \<Rightarrow> world \<Rightarrow> world result" where
  "process_deposit_reserve_liquidity_and_obligation_collateral rt program_id liquidity_amount
     accounts w =
     attempt (refuse_if (liquidity_amount = 0) InvalidAmount) (\<lambda>_.
     attempt (next_account_info rt accounts) (\<lambda>(source_liquidity_info, accounts).
     attempt (next_account_info rt accounts) (\<lambda>(user_collateral_info, accounts).
     attempt (next_account_info rt accounts) (\<lambda>(reserve_info, accounts).
     attempt (next_account_info rt accounts) (\<lambda>(reserve_liquidity_supply_info, accounts).
     attempt (next_account_info rt accounts) (\<lambda>(reserve_collateral_mint_info, accounts).
     attempt (next_account_info rt accounts) (\<lambda>(lending_market_info, accounts).
     attempt (next_account_info rt accounts) (\<lambda>(lending_market_authority_info, accounts).
     attempt (next_account_info rt accounts) (\<lambda>(destination_collateral_info, accounts).
     attempt (next_account_info rt accounts) (\<lambda>(obligation_info, accounts).
     attempt (next_account_info rt accounts) (\<lambda>(obligation_owner_info, accounts).
     attempt (next_account_info rt accounts) (\<lambda>(user_transfer_authority_info, accounts).
     attempt (next_account_info rt accounts) (\<lambda>(clock_info, accounts).
     attempt (clock_from rt w clock_info) (\<lambda>clock.
     attempt (next_account_info rt accounts) (\<lambda>(token_program_info, accounts).
     attempt (unpack_reserve rt w reserve_info) (\<lambda>r.
     attempt (check_staking_accounts accounts r) (\<lambda>_.
     attempt (deposit_reserve_liquidity rt program_id liquidity_amount source_liquidity_info
       user_collateral_info reserve_info reserve_liquidity_supply_info
       reserve_collateral_mint_info lending_market_info lending_market_authority_info
       user_transfer_authority_info clock token_program_info w) (\<lambda>(collateral_amount, w).
     attempt (unpack_reserve rt w reserve_info) (\<lambda>r.
     attempt (pack_reserve rt (r\<lparr> reserve_last_update := update_slot clock (reserve_last_update r) \<rparr>)
       reserve_info w) (\<lambda>w.
     attempt (deposit_obligation_collateral rt program_id collateral_amount user_collateral_info
       destination_collateral_info reserve_info obligation_info lending_market_info
       lending_market_authority_info obligation_owner_info user_transfer_authority_info clock
       token_program_info w) (\<lambda>w.
     with_staking_accounts rt accounts (Inr (deposit_staking_pool (config r))) w
       (\<lambda>stake_account_info staking_pool_info staking_program_id.
          deposit_to_staking_program rt program_id collateral_amount lending_market_info
            lending_market_authority_info clock_info stake_account_info staking_pool_info
            staking_program_id (info_key obligation_owner_info) w))))))))))))))))))))))"

end
