(* ===== verification/Processor_Loan.thy ===== *)
theory Processor_Loan
  imports Processor_Obligation
begin

text \<open>
  The handlers of loans (token-lending/program/src/processor.rs): borrowing against an obligation,
  repaying, and liquidating an unhealthy one. The two long handlers are cut in two: the checks, and
  what is computed, stored and transferred after them.
\<close>

section \<open>Borrowing\<close>

text \<open>The part of the handler from the remaining borrow value on.\<close>

definition borrow_from_reserve ::
    "solana \<Rightarrow> u64 \<Rightarrow> reserve \<Rightarrow> obligation \<Rightarrow> account_info \<Rightarrow> account_info \<Rightarrow> account_info \<Rightarrow>
      account_info \<Rightarrow> account_info \<Rightarrow> account_info \<Rightarrow> byte list list \<Rightarrow> account_info \<Rightarrow>
      world \<Rightarrow> world result" where
  "borrow_from_reserve rt liquidity_amount r ob source_liquidity_info destination_liquidity_info
     borrow_reserve_info fee_receiver_info obligation_info lending_market_authority_info seeds
     token_program w =
     attempt (remaining_borrow_value ob) (\<lambda>remaining.
     attempt (refuse_if (remaining = decimal_zero) BorrowTooLarge) (\<lambda>_.
     attempt (calculate_borrow r liquidity_amount remaining) (\<lambda>b.
     attempt (refuse_if (receive_amount b = 0) BorrowTooSmall) (\<lambda>_.
     let cumulative = cumulative_borrow_rate_wads (liquidity r) in
     attempt (liquidity_borrow (borrow_amount b) (liquidity r)) (\<lambda>liq.
     attempt (pack_reserve rt (r\<lparr> liquidity := liq,
       reserve_last_update := mark_stale (reserve_last_update r) \<rparr>) borrow_reserve_info w) (\<lambda>w.
     attempt (find_or_add_liquidity_to_borrows (info_key borrow_reserve_info) ob) (\<lambda>(ob, i).
     let loan = (if loan_cumulative_borrow_rate_wads (borrows ob ! i) = decimal_zero
                 then (borrows ob ! i)\<lparr> loan_cumulative_borrow_rate_wads := cumulative \<rparr>
                 else borrows ob ! i) in
     attempt (loan_borrow (borrow_amount b) loan) (\<lambda>loan.
     attempt (pack_obligation rt (ob\<lparr> borrows := (borrows ob)[i := loan],
       ob_last_update := mark_stale (ob_last_update ob) \<rparr>) obligation_info w) (\<lambda>w.
     attempt (if 0 < borrow_fee b
       then spl_token_transfer rt source_liquidity_info fee_receiver_info (borrow_fee b)
         lending_market_authority_info seeds token_program w
       else Inr w) (\<lambda>w.
     spl_token_transfer rt source_liquidity_info destination_liquidity_info (receive_amount b)
       lending_market_authority_info seeds token_program w))))))))))"

text \<open>The reserve's cap on borrowing, which a request for \<open>u64::MAX\<close> passes by.\<close>

definition check_borrow_limit :: "u64 \<Rightarrow> reserve \<Rightarrow> unit result" where
  "check_borrow_limit liquidity_amount r =
     (if liquidity_amount \<noteq> u64_max then
        attempt (decimal_try_add (decimal_from_u64 liquidity_amount)
          (borrowed_amount_wads (liquidity r))) (\<lambda>d.
        attempt (decimal_try_floor_u64 d) (\<lambda>n.
        refuse_if (borrow_limit (config r) < n) InvalidAmount))
      else Inr ())"

definition process_borrow_obligation_liquidity ::
    "solana \<Rightarrow> pubkey \<Rightarrow> u64 \<Rightarrow> account_info list \<Rightarrow> world \<Rightarrow> world result" where
  "process_borrow_obligation_liquidity rt program_id liquidity_amount accounts w =
     attempt (refuse_if (liquidity_amount = 0) InvalidAmount) (\<lambda>_.
     attempt (next_account_info rt accounts) (\<lambda>(source_liquidity_info, accounts).
     attempt (next_account_info rt accounts) (\<lambda>(destination_liquidity_info, accounts).
     attempt (next_account_info rt accounts) (\<lambda>(borrow_reserve_info, accounts).
     attempt (next_account_info rt accounts) (\<lambda>(fee_receiver_info, accounts).
     attempt (next_account_info rt accounts) (\<lambda>(obligation_info, accounts).
     attempt (next_account_info rt accounts) (\<lambda>(lending_market_info, accounts).
     attempt (next_account_info rt accounts) (\<lambda>(lending_market_authority_info, accounts).
     attempt (next_account_info rt accounts) (\<lambda>(obligation_owner_info, accounts).
     attempt (next_account_info rt accounts) (\<lambda>(clock_info, accounts).
     attempt (clock_from rt w clock_info) (\<lambda>clock.
     attempt (next_account_info rt accounts) (\<lambda>(token_program_info, accounts).
     attempt (load_market rt program_id lending_market_info token_program_info w) (\<lambda>m.
     attempt (load_reserve rt program_id lending_market_info borrow_reserve_info w) (\<lambda>r.
     attempt (refuse_if (liq_supply_pubkey (liquidity r) \<noteq> info_key source_liquidity_info)
       InvalidAccountInput) (\<lambda>_.
     attempt (refuse_if (liq_supply_pubkey (liquidity r) = info_key destination_liquidity_info)
       InvalidAccountInput) (\<lambda>_.
     attempt (refuse_if (fee_receiver (liquidity r) \<noteq> info_key fee_receiver_info)
       InvalidAccountInput) (\<lambda>_.
     attempt (check_fresh (reserve_last_update r) clock ReserveStale) (\<lambda>_.
     attempt (check_borrow_limit liquidity_amount r) (\<lambda>_.
     attempt (load_obligation rt program_id lending_market_info obligation_info w) (\<lambda>ob.
     attempt (check_obligation_owner ob obligation_owner_info) (\<lambda>_.
     attempt (check_fresh (ob_last_update ob) clock ObligationStale) (\<lambda>_.
     attempt (refuse_if (deposits ob = []) ObligationDepositsEmpty) (\<lambda>_.
     attempt (refuse_if (deposited_value ob = decimal_zero) ObligationDepositsZero) (\<lambda>_.
     attempt (check_market_authority rt program_id lending_market_info m
       lending_market_authority_info) (\<lambda>_.
     borrow_from_reserve rt liquidity_amount r ob source_liquidity_info destination_liquidity_info
       borrow_reserve_info fee_receiver_info obligation_info lending_market_authority_info
       (authority_signer_seeds lending_market_info m) token_program_info w)))))))))))))))))))))))))"

section \<open>Repayment\<close>

definition process_repay_obligation_liquidity ::
    "solana \<Rightarrow> pubkey \<Rightarrow> u64 \<Rightarrow> account_info list \<Rightarrow> world \<Rightarrow> world result" where
  "process_repay_obligation_liquidity rt program_id liquidity_amount accounts w =
     attempt (refuse_if (liquidity_amount = 0) InvalidAmount) (\<lambda>_.
     attempt (next_account_info rt accounts) (\<lambda>(source_liquidity_info, accounts).
     attempt (next_account_info rt accounts) (\<lambda>(destination_liquidity_info, accounts).
     attempt (next_account_info rt accounts) (\<lambda>(repay_reserve_info, accounts).
     attempt (next_account_info rt accounts) (\<lambda>(obligation_info, accounts).
     attempt (next_account_info rt accounts) (\<lambda>(lending_market_info, accounts).
     attempt (next_account_info rt accounts) (\<lambda>(user_transfer_authority_info, accounts).
     attempt (next_account_info rt accounts) (\<lambda>(clock_info, accounts).
     attempt (clock_from rt w clock_info) (\<lambda>clock.
     attempt (next_account_info rt accounts) (\<lambda>(token_program_info, accounts).
     attempt (load_market rt program_id lending_market_info token_program_info w) (\<lambda>m.
     attempt (load_reserve rt program_id lending_market_info repay_reserve_info w) (\<lambda>r.
     attempt (refuse_if (liq_supply_pubkey (liquidity r) = info_key source_liquidity_info)
       InvalidAccountInput) (\<lambda>_.
     attempt (refuse_if (liq_supply_pubkey (liquidity r) \<noteq> info_key destination_liquidity_info)
       InvalidAccountInput) (\<lambda>_.
     attempt (check_fresh (reserve_last_update r) clock ReserveStale) (\<lambda>_.
     attempt (load_obligation rt program_id lending_market_info obligation_info w) (\<lambda>ob.
     attempt (check_fresh (ob_last_update ob) clock ObligationStale) (\<lambda>_.
     attempt (find_liquidity_in_borrows ob (info_key repay_reserve_info)) (\<lambda>(loan, i).
     attempt (refuse_if (loan_borrowed_amount_wads loan = decimal_zero) ObligationLiquidityEmpty) (\<lambda>_.
     attempt (calculate_repay liquidity_amount (loan_borrowed_amount_wads loan)) (\<lambda>p.
     attempt (refuse_if (repay_amount p = 0) RepayTooSmall) (\<lambda>_.
     attempt (liquidity_repay (repay_amount p) (settle_amount p) (liquidity r)) (\<lambda>liq.
     attempt (pack_reserve rt (r\<lparr> liquidity := liq,
       reserve_last_update := mark_stale (reserve_last_update r) \<rparr>) repay_reserve_info w) (\<lambda>w.
     attempt (obligation_repay (settle_amount p) i ob) (\<lambda>ob.
     attempt (pack_obligation rt (ob\<lparr> ob_last_update := mark_stale (ob_last_update ob) \<rparr>)
       obligation_info w) (\<lambda>w.
     spl_token_transfer rt source_liquidity_info destination_liquidity_info (repay_amount p)
       user_transfer_authority_info [] token_program_info w)))))))))))))))))))))))))"

section \<open>Liquidation\<close>

text \<open>The checks of the two reserves.\<close>

definition check_liquidation_reserves ::
    "solana \<Rightarrow> pubkey \<Rightarrow> u64 \<Rightarrow> account_info \<Rightarrow> account_info \<Rightarrow> account_info \<Rightarrow> account_info \<Rightarrow>
      account_info \<Rightarrow> account_info \<Rightarrow> account_info \<Rightarrow> world \<Rightarrow> (reserve \<times> reserve) result" where
  "check_liquidation_reserves rt program_id clock source_liquidity_info destination_collateral_info
     repay_reserve_info repay_reserve_liquidity_supply_info withdraw_reserve_info
     withdraw_reserve_collateral_supply_info lending_market_info w =
     attempt (load_reserve rt program_id lending_market_info repay_reserve_info w) (\<lambda>rr.
     attempt (refuse_if (liq_supply_pubkey (liquidity rr) \<noteq> info_key repay_reserve_liquidity_supply_info)
       InvalidAccountInput) (\<lambda>_.
     attempt (refuse_if (liq_supply_pubkey (liquidity rr) = info_key source_liquidity_info)
       InvalidAccountInput) (\<lambda>_.
     attempt (refuse_if (coll_supply_pubkey (collateral rr) = info_key destination_collateral_info)
       InvalidAccountInput) (\<lambda>_.
     attempt (check_fresh (reserve_last_update rr) clock ReserveStale) (\<lambda>_.
     attempt (load_reserve rt program_id lending_market_info withdraw_reserve_info w) (\<lambda>wr.
     attempt (refuse_if (coll_supply_pubkey (collateral wr) \<noteq> info_key withdraw_reserve_collateral_supply_info)
       InvalidAccountInput) (\<lambda>_.
     attempt (refuse_if (liq_supply_pubkey (liquidity wr) = info_key source_liquidity_info)
       InvalidAccountInput) (\<lambda>_.
     attempt (refuse_if (coll_supply_pubkey (collateral wr) = info_key destination_collateral_info)
       InvalidAccountInput) (\<lambda>_.
     attempt (check_fresh (reserve_last_update wr) clock ReserveStale) (\<lambda>_.
     Inr (rr, wr)))))))))))"

text \<open>The checks of the obligation: only an unhealthy one goes on.\<close>

definition check_unhealthy ::
    "solana \<Rightarrow> pubkey \<Rightarrow> u64 \<Rightarrow> account_info \<Rightarrow> account_info \<Rightarrow> world \<Rightarrow> obligation result" where
  "check_unhealthy rt program_id clock lending_market_info obligation_info w =
     attempt (load_obligation rt program_id lending_market_info obligation_info w) (\<lambda>ob.
     attempt (check_fresh (ob_last_update ob) clock ObligationStale) (\<lambda>_.
     attempt (refuse_if (deposited_value ob = decimal_zero) ObligationDepositsZero) (\<lambda>_.
     attempt (refuse_if (borrowed_value ob = decimal_zero) ObligationBorrowsZero) (\<lambda>_.
     attempt (refuse_if (borrowed_value ob < unhealthy_borrow_value ob) ObligationHealthy) (\<lambda>_.
     Inr ob)))))"

text \<open>What is computed and stored: the amounts to repay and to withdraw, and the new world.\<close>

definition liquidate_states ::
    "solana \<Rightarrow> u64 \<Rightarrow> reserve \<Rightarrow> reserve \<Rightarrow> obligation \<Rightarrow> obligation_liquidity \<times> nat \<Rightarrow>
      obligation_collateral \<times> nat \<Rightarrow> account_info \<Rightarrow> account_info \<Rightarrow> world \<Rightarrow>
      (u64 \<times> u64 \<times> world) result" where
  "liquidate_states rt liquidity_amount rr wr ob loan_at coll_at repay_reserve_info obligation_info w =
     attempt (calculate_liquidation wr liquidity_amount ob (fst loan_at) (fst coll_at)) (\<lambda>q.
     attempt (refuse_if (liq_repay_amount q = 0) LiquidationTooSmall) (\<lambda>_.
     attempt (refuse_if (liq_withdraw_amount q = 0) LiquidationTooSmall) (\<lambda>_.
     attempt (liquidity_repay (liq_repay_amount q) (liq_settle_amount q) (liquidity rr)) (\<lambda>liq.
     attempt (pack_reserve rt (rr\<lparr> liquidity := liq,
       reserve_last_update := mark_stale (reserve_last_update rr) \<rparr>) repay_reserve_info w) (\<lambda>w.
     attempt (obligation_repay (liq_settle_amount q) (snd loan_at) ob) (\<lambda>ob.
     attempt (obligation_withdraw (liq_withdraw_amount q) (snd coll_at) ob) (\<lambda>ob.
     attempt (pack_obligation rt (ob\<lparr> ob_last_update := mark_stale (ob_last_update ob) \<rparr>)
       obligation_info w) (\<lambda>w.
     Inr (liq_repay_amount q, liq_withdraw_amount q, w)))))))))"

definition process_liquidate_obligation ::
    "solana \<Rightarrow> pubkey \<Rightarrow> u64 \<Rightarrow> account_info list \<Rightarrow> world \<Rightarrow> world result" where
  "process_liquidate_obligation rt program_id liquidity_amount accounts w =
     attempt (refuse_if (liquidity_amount = 0) InvalidAmount) (\<lambda>_.
     attempt (next_account_info rt accounts) (\<lambda>(source_liquidity_info, accounts).
     attempt (next_account_info rt accounts) (\<lambda>(destination_collateral_info, accounts).
     attempt (next_account_info rt accounts) (\<lambda>(repay_reserve_info, accounts).
     attempt (next_account_info rt accounts) (\<lambda>(repay_reserve_liquidity_supply_info, accounts).
     attempt (next_account_info rt accounts) (\<lambda>(withdraw_reserve_info, accounts).
     attempt (next_account_info rt accounts) (\<lambda>(withdraw_reserve_collateral_supply_info, accounts).
     attempt (next_account_info rt accounts) (\<lambda>(obligation_info, accounts).
     attempt (next_account_info rt accounts) (\<lambda>(lending_market_info, accounts).
     attempt (next_account_info rt accounts) (\<lambda>(lending_market_authority_info, accounts).
     attempt (next_account_info rt accounts) (\<lambda>(user_transfer_authority_info, accounts).
     attempt (next_account_info rt accounts) (\<lambda>(clock_info, accounts).
     attempt (clock_from rt w clock_info) (\<lambda>clock.
     attempt (next_account_info rt accounts) (\<lambda>(token_program_info, accounts).
     attempt (load_market rt program_id lending_market_info token_program_info w) (\<lambda>m.
     attempt (check_liquidation_reserves rt program_id clock source_liquidity_info
       destination_collateral_info repay_reserve_info repay_reserve_liquidity_supply_info
       withdraw_reserve_info withdraw_reserve_collateral_supply_info lending_market_info w)
       (\<lambda>(rr, wr).
     attempt (check_unhealthy rt program_id clock lending_market_info obligation_info w) (\<lambda>ob.
     attempt (find_liquidity_in_borrows ob (info_key repay_reserve_info)) (\<lambda>loan_at.
     attempt (refuse_if (loan_market_value (fst loan_at) = decimal_zero) ObligationLiquidityEmpty) (\<lambda>_.
     attempt (find_collateral_in_deposits ob (info_key withdraw_reserve_info)) (\<lambda>coll_at.
     attempt (refuse_if (coll_market_value (fst coll_at) = decimal_zero) ObligationCollateralEmpty) (\<lambda>_.
     attempt (check_market_authority rt program_id lending_market_info m
       lending_market_authority_info) (\<lambda>_.
     attempt (check_staking_accounts accounts wr) (\<lambda>_.
     attempt (liquidate_states rt liquidity_amount rr wr ob loan_at coll_at repay_reserve_info
       obligation_info w) (\<lambda>(repay_amount, withdraw_amount, w).
     attempt (spl_token_transfer rt source_liquidity_info repay_reserve_liquidity_supply_info
       repay_amount user_transfer_authority_info [] token_program_info w) (\<lambda>w.
     attempt (spl_token_transfer rt withdraw_reserve_collateral_supply_info
       destination_collateral_info withdraw_amount lending_market_authority_info
       (authority_signer_seeds lending_market_info m) token_program_info w) (\<lambda>w.
     with_staking_accounts rt accounts
       (attempt (unpack_reserve rt w withdraw_reserve_info) (\<lambda>r.
          Inr (deposit_staking_pool (config r)))) w
       (\<lambda>stake_account_info staking_pool_info staking_program_id.
          withdraw_from_staking_program rt program_id withdraw_amount lending_market_info
            lending_market_authority_info clock_info stake_account_info staking_pool_info
            staking_program_id (ob_owner ob) w)))))))))))))))))))))))))))"

end
