(* ===== verification/Processor_Flash.thy ===== *)
theory Processor_Flash
  imports Processor_Common
begin

text \<open>
  Flash loans (token-lending/program/src/processor.rs): the reserve lends, the receiver program
  runs, and the balance of the reserve's supply account is checked. Between the two the reserve is
  stored with the loan outstanding.
\<close>

text \<open>The accounts passed to the receiver: the three fixed ones and the rest of the transaction's.\<close>

definition flash_loan_metas ::
    "account_info \<Rightarrow> account_info \<Rightarrow> account_info \<Rightarrow> account_info list \<Rightarrow> account_meta list" where
  "flash_loan_metas destination_liquidity_info source_liquidity_info token_program rest =
     [\<lparr> meta_pubkey = info_key destination_liquidity_info, meta_is_signer = False, meta_is_writable = True \<rparr>,
      \<lparr> meta_pubkey = info_key source_liquidity_info, meta_is_signer = False, meta_is_writable = True \<rparr>,
      \<lparr> meta_pubkey = info_key token_program, meta_is_signer = False, meta_is_writable = False \<rparr>] @
     map (\<lambda>i. \<lparr> meta_pubkey = info_key i, meta_is_signer = is_signer i, meta_is_writable = is_writable i \<rparr>) rest"

definition RECEIVE_FLASH_LOAN_INSTRUCTION_TAG :: u8 where
  "RECEIVE_FLASH_LOAN_INSTRUCTION_TAG = 0"

definition flash_loan_instruction ::
    "pubkey \<Rightarrow> account_info \<Rightarrow> account_info \<Rightarrow> account_info \<Rightarrow> account_info list \<Rightarrow> u64 \<Rightarrow> instruction" where
  "flash_loan_instruction receiver destination_liquidity_info source_liquidity_info token_program
     rest returned_amount_required =
     \<lparr> ix_program_id = receiver,
       ix_accounts = flash_loan_metas destination_liquidity_info source_liquidity_info token_program rest,
       ix_data = [RECEIVE_FLASH_LOAN_INSTRUCTION_TAG] @ u64_to returned_amount_required \<rparr>"

text \<open>The loan out and back: the world after the receiver ran and the reserve took the loan back.\<close>

definition flash_loan_round ::
    "solana \<Rightarrow> u64 \<Rightarrow> u64 \<Rightarrow> reserve \<Rightarrow> account_info \<Rightarrow> account_info \<Rightarrow> account_info \<Rightarrow> account_info \<Rightarrow>
      byte list list \<Rightarrow> account_info \<Rightarrow> account_info \<Rightarrow> account_info list \<Rightarrow> world \<Rightarrow> world result" where
  "flash_loan_round rt flash_loan_amount returned_amount_required r source_liquidity_info
     destination_liquidity_info reserve_info lending_market_authority_info seeds token_program
     flash_loan_receiver_program_id rest w =
     attempt (liquidity_borrow (decimal_from_u64 flash_loan_amount) (liquidity r)) (\<lambda>liq.
     attempt (pack_reserve rt (r\<lparr> liquidity := liq \<rparr>) reserve_info w) (\<lambda>w.
     attempt (spl_token_transfer rt source_liquidity_info destination_liquidity_info
       flash_loan_amount lending_market_authority_info seeds token_program w) (\<lambda>w.
     attempt (lib (invoke_program rt []
       (flash_loan_instruction (info_key flash_loan_receiver_program_id) destination_liquidity_info
         source_liquidity_info token_program rest returned_amount_required)
       ([destination_liquidity_info, flash_loan_receiver_program_id, source_liquidity_info,
         token_program] @ rest) w)) (\<lambda>w.
     attempt (unpack_reserve rt w reserve_info) (\<lambda>r.
     attempt (liquidity_repay flash_loan_amount (decimal_from_u64 flash_loan_amount) (liquidity r)) (\<lambda>liq.
     pack_reserve rt (r\<lparr> liquidity := liq \<rparr>) reserve_info w))))))"

text \<open>The fees, paid out of the supply account after the balance check.\<close>

definition flash_loan_pay_fees ::
    "solana \<Rightarrow> u64 \<Rightarrow> u64 \<Rightarrow> account_info \<Rightarrow> account_info \<Rightarrow> account_info \<Rightarrow> account_info \<Rightarrow>
      byte list list \<Rightarrow> account_info \<Rightarrow> world \<Rightarrow> world result" where
  "flash_loan_pay_fees rt origination_fee host_share source_liquidity_info fee_receiver_info
     host_fee_receiver_info lending_market_authority_info seeds token_program w =
     attempt
       (if 0 < host_share then
          attempt (ok_or (checked_sub origination_fee host_share) (lending MathOverflow)) (\<lambda>owner_fee.
          attempt (spl_token_transfer rt source_liquidity_info host_fee_receiver_info host_share
            lending_market_authority_info seeds token_program w) (\<lambda>w.
          Inr (owner_fee, w)))
        else Inr (origination_fee, w))
       (\<lambda>(owner_fee, w).
     if 0 < owner_fee
     then spl_token_transfer rt source_liquidity_info fee_receiver_info owner_fee
       lending_market_authority_info seeds token_program w
     else Inr w)"

text \<open>The handler from the amount on.\<close>

definition flash_loan_lend ::
    "solana \<Rightarrow> u64 \<Rightarrow> reserve \<Rightarrow> account_info \<Rightarrow> account_info \<Rightarrow> account_info \<Rightarrow> account_info \<Rightarrow>
      account_info \<Rightarrow> account_info \<Rightarrow> byte list list \<Rightarrow> account_info \<Rightarrow> account_info \<Rightarrow>
      account_info list \<Rightarrow> world \<Rightarrow> world result" where
  "flash_loan_lend rt liquidity_amount r source_liquidity_info destination_liquidity_info
     reserve_info fee_receiver_info host_fee_receiver_info lending_market_authority_info seeds
     token_program flash_loan_receiver_program_id rest w =
     (let flash_loan_amount =
        (if liquidity_amount = u64_max then available_amount (liquidity r) else liquidity_amount) in
     attempt (calculate_flash_loan_fees (config_fees (config r)) (decimal_from_u64 flash_loan_amount))
       (\<lambda>(origination_fee, host_fee).
     attempt (lib (unpack_token_account rt (data_of w source_liquidity_info))) (\<lambda>before.
     attempt (ok_or (checked_add (token_amount before) origination_fee) (lending MathOverflow))
       (\<lambda>expected_balance.
     attempt (ok_or (checked_add flash_loan_amount origination_fee) (lending MathOverflow))
       (\<lambda>returned_amount_required.
     attempt (flash_loan_round rt flash_loan_amount returned_amount_required r source_liquidity_info
       destination_liquidity_info reserve_info lending_market_authority_info seeds token_program
       flash_loan_receiver_program_id rest w) (\<lambda>w.
     attempt (lib (unpack_token_account rt (data_of w source_liquidity_info))) (\<lambda>after.
     attempt (refuse_if (token_amount after < expected_balance) NotEnoughLiquidityAfterFlashLoan) (\<lambda>_.
     flash_loan_pay_fees rt origination_fee host_fee source_liquidity_info fee_receiver_info
       host_fee_receiver_info lending_market_authority_info seeds token_program w))))))))"

definition process_flash_loan ::
    "solana \<Rightarrow> pubkey \<Rightarrow> u64 \<Rightarrow> account_info list \<Rightarrow> world \<Rightarrow> world result" where
  "process_flash_loan rt program_id liquidity_amount accounts w =
     attempt (refuse_if (liquidity_amount = 0) InvalidAmount) (\<lambda>_.
     attempt (next_account_info rt accounts) (\<lambda>(source_liquidity_info, accounts).
     attempt (next_account_info rt accounts) (\<lambda>(destination_liquidity_info, accounts).
     attempt (next_account_info rt accounts) (\<lambda>(reserve_info, accounts).
     attempt (next_account_info rt accounts) (\<lambda>(fee_receiver_info, accounts).
     attempt (next_account_info rt accounts) (\<lambda>(host_fee_receiver_info, accounts).
     attempt (next_account_info rt accounts) (\<lambda>(lending_market_info, accounts).
     attempt (next_account_info rt accounts) (\<lambda>(lending_market_authority_info, accounts).
     attempt (next_account_info rt accounts) (\<lambda>(token_program_info, accounts).
     attempt (next_account_info rt accounts) (\<lambda>(flash_loan_receiver_program_id, accounts).
     attempt (refuse_if (program_id = info_key flash_loan_receiver_program_id)
       InvalidFlashLoanReceiverProgram) (\<lambda>_.
     attempt (load_market rt program_id lending_market_info token_program_info w) (\<lambda>m.
     attempt (check_market_authority rt program_id lending_market_info m
       lending_market_authority_info) (\<lambda>_.
     attempt (load_reserve rt program_id lending_market_info reserve_info w) (\<lambda>r.
     attempt (refuse_if (liq_supply_pubkey (liquidity r) \<noteq> info_key source_liquidity_info)
       InvalidAccountInput) (\<lambda>_.
     attempt (refuse_if (fee_receiver (liquidity r) \<noteq> info_key fee_receiver_info)
       InvalidAccountInput) (\<lambda>_.
     flash_loan_lend rt liquidity_amount r source_liquidity_info destination_liquidity_info
       reserve_info fee_receiver_info host_fee_receiver_info lending_market_authority_info
       (authority_signer_seeds lending_market_info m) token_program_info
       flash_loan_receiver_program_id accounts w))))))))))))))))"

end
