(* ===== verification/Processor.thy ===== *)
theory Processor
  imports Instruction Processor_Market Processor_Loan Processor_Flash
begin

text \<open>
  The entry point of the lending program (token-lending/program/src/processor.rs): decode the
  instruction and run its handler on the accounts.
\<close>

fun process :: "solana \<Rightarrow> pubkey \<Rightarrow> account_info list \<Rightarrow> lending_instruction \<Rightarrow> world \<Rightarrow> world result" where
  "process rt program_id accounts (InitLendingMarket own currency) w =
     process_init_lending_market rt program_id own currency accounts w"
| "process rt program_id accounts (InitReserve liquidity_amount fixed_price cfg) w =
     process_init_reserve rt program_id liquidity_amount fixed_price cfg accounts w"
| "process rt program_id accounts InitObligation w = process_init_obligation rt program_id accounts w"
| "process rt program_id accounts (DepositReserveLiquidity liquidity_amount) w =
     process_deposit_reserve_liquidity rt program_id liquidity_amount accounts w"
| "process rt program_id accounts (RedeemReserveCollateral collateral_amount) w =
     process_redeem_reserve_collateral rt program_id collateral_amount accounts w"
| "process rt program_id accounts (BorrowObligationLiquidity liquidity_amount) w =
     process_borrow_obligation_liquidity rt program_id liquidity_amount accounts w"
| "process rt program_id accounts (RepayObligationLiquidity liquidity_amount) w =
     process_repay_obligation_liquidity rt program_id liquidity_amount accounts w"
| "process rt program_id accounts (LiquidateObligation liquidity_amount) w =
     process_liquidate_obligation rt program_id liquidity_amount accounts w"
| "process rt program_id accounts RefreshReserve w = process_refresh_reserve rt program_id accounts w"
| "process rt program_id accounts (DepositObligationCollateral collateral_amount) w =
     process_deposit_obligation_collateral rt program_id collateral_amount accounts w"
| "process rt program_id accounts (WithdrawObligationCollateral collateral_amount) w =
     process_withdraw_obligation_collateral rt program_id collateral_amount accounts w"
| "process rt program_id accounts (SetLendingMarketOwner new_owner) w =
     process_set_lending_market_owner rt program_id new_owner accounts w"
| "process rt program_id accounts RefreshObligation w =
     process_refresh_obligation rt program_id accounts w"
| "process rt program_id accounts (FlashLoan amount) w =
     process_flash_loan rt program_id amount accounts w"
| "process rt program_id accounts (DepositReserveLiquidityAndObligationCollateral liquidity_amount) w =
     process_deposit_reserve_liquidity_and_obligation_collateral rt program_id liquidity_amount accounts w"
| "process rt program_id accounts (UpdateReserve cfg) w =
     process_update_reserve rt program_id cfg accounts w"
| "process rt program_id accounts WithdrawFee w = process_withdraw_fee rt program_id accounts w"

definition process_instruction ::
    "solana \<Rightarrow> pubkey \<Rightarrow> account_info list \<Rightarrow> byte list \<Rightarrow> world \<Rightarrow> world result" where
  "process_instruction rt program_id accounts input w =
     attempt (instruction_unpack input) (\<lambda>ins. process rt program_id accounts ins w)"

end
