(* ===== verification/Reserve_Amounts.thy ===== *)
theory Reserve_Amounts
  imports Reserve
begin

text \<open>
  What the amounts of \<open>calculate_borrow\<close>, \<open>calculate_repay\<close> and \<open>calculate_liquidation\<close> promise to
  the handlers that move the tokens, and the properties of the reserve's operations.
\<close>

section \<open>Borrow\<close>

lemma ten_pow_pos: "checked_pow (10 :: u64) n = Some d \<Longrightarrow> unat d = 10 ^ n"
  by (simp add: checked)

lemma calculate_borrow_max:
  assumes "calculate_borrow r u64_max m = Inr b"
  obtains a d where "unat d = 10 ^ unat (mint_decimals (liquidity r))"
    "borrow_amount b = min a (decimal_from_u64 (available_amount (liquidity r)))"
    "dec a * dec (market_price (liquidity r)) \<le> dec m * unat (d :: u64) * wad"
    "calculate_borrow_fees (config_fees (config r)) (borrow_amount b) Inclusive = Inr (borrow_fee b, host_fee b)"
    "unat (receive_amount b) + unat (borrow_fee b) = dec (borrow_amount b) div wad"
proof -
  from assms obtain d v a f h n where d: "checked_pow 10 (unat (mint_decimals (liquidity r))) = Some d"
    and v: "decimal_try_mul_u64 m d = Inr v"
    and a: "decimal_try_div v (market_price (liquidity r)) = Inr a"
    and f: "calculate_borrow_fees (config_fees (config r))
        (min a (decimal_from_u64 (available_amount (liquidity r)))) Inclusive = Inr (f, h)"
    and n: "decimal_try_floor_u64 (min a (decimal_from_u64 (available_amount (liquidity r)))) = Inr n"
    and rcv: "checked_sub n f = Some (receive_amount b)"
    and b: "borrow_amount b = min a (decimal_from_u64 (available_amount (liquidity r)))"
      "borrow_fee b = f" "host_fee b = h"
    by (auto simp: calculate_borrow_def Let_def)
  show thesis
  proof (rule that)
    show "unat d = 10 ^ unat (mint_decimals (liquidity r))" using d by (rule ten_pow_pos)
    show "borrow_amount b = min a (decimal_from_u64 (available_amount (liquidity r)))" by (rule b)
    show "dec a * dec (market_price (liquidity r)) \<le> dec m * unat d * wad"
      using decimal.div_bounds [OF a] v by (simp add: decimal_ok)
    show "calculate_borrow_fees (config_fees (config r)) (borrow_amount b) Inclusive = Inr (borrow_fee b, host_fee b)"
      using f b by simp
    have "unat n = dec (borrow_amount b) div wad" using n b by (simp add: decimal_ok)
    then show "unat (receive_amount b) + unat (borrow_fee b) = dec (borrow_amount b) div wad"
      using rcv b by (simp add: checked)
  qed
qed

lemma calculate_borrow_exact:
  assumes "calculate_borrow r n m = Inr b" "n \<noteq> u64_max"
  obtains d v w where "unat d = 10 ^ unat (mint_decimals (liquidity r))" "receive_amount b = n"
    "calculate_borrow_fees (config_fees (config r)) (decimal_from_u64 n) Exclusive = Inr (borrow_fee b, host_fee b)"
    "dec (borrow_amount b) = (unat n + unat (borrow_fee b)) * wad"
    "decimal_try_mul (borrow_amount b) (market_price (liquidity r)) = Inr v"
    "decimal_try_div_u64 v (d :: u64) = Inr w" "dec w \<le> dec m"
proof -
  from assms obtain d f h v w where d: "checked_pow 10 (unat (mint_decimals (liquidity r))) = Some d"
    and f: "calculate_borrow_fees (config_fees (config r)) (decimal_from_u64 n) Exclusive = Inr (f, h)"
    and a: "decimal_try_add (decimal_from_u64 n) (decimal_from_u64 f) = Inr (borrow_amount b)"
    and v: "decimal_try_mul (borrow_amount b) (market_price (liquidity r)) = Inr v"
    and w: "decimal_try_div_u64 v d = Inr w" "\<not> dec m < dec w"
    and b: "receive_amount b = n" "borrow_fee b = f" "host_fee b = h"
    by (auto simp: calculate_borrow_def Let_def)
  have sum: "dec (borrow_amount b) = (unat n + unat (borrow_fee b)) * wad"
    using a b by (simp add: decimal_ok add_mult_distrib)
  show thesis
    by (rule that [OF ten_pow_pos [OF d] b(1) _ sum v w(1)]) (use f b w(2) in simp_all)
qed

lemma div_div_bound:
  assumes "q = v div d" "v = p div wad" "q \<le> m" "0 < (d :: nat)"
  shows "p < (m + 1) * d * wad"
proof -
  have "v < (q + 1) * d" using less_div_Suc_mult [OF assms(4), of v] assms(1) by simp
  also have "\<dots> \<le> (m + 1) * d" using assms(3) by (intro mult_le_mono1) simp
  finally have "v + 1 \<le> (m + 1) * d" by simp
  then have "(v + 1) * wad \<le> (m + 1) * d * wad" by (rule mult_le_mono1)
  with less_div_Suc_mult [of wad p] show ?thesis by (simp add: assms(2))
qed

text \<open>The receipts and the fee add up to the debt, and the debt's value stays within the limit.\<close>

lemma calculate_borrow_sum:
  assumes "calculate_borrow r n m = Inr b"
  shows "unat (receive_amount b) + unat (borrow_fee b) = dec (borrow_amount b) div wad"
proof (cases "n = u64_max")
  case True
  with assms have "calculate_borrow r u64_max m = Inr b" by simp
  then show ?thesis by (rule calculate_borrow_max)
next
  case False
  from assms False show ?thesis by (rule calculate_borrow_exact) simp
qed

lemma calculate_borrow_value:
  assumes "calculate_borrow r n m = Inr b"
  shows "dec (borrow_amount b) * dec (market_price (liquidity r)) <
      (dec m + 1) * 10 ^ unat (mint_decimals (liquidity r)) * wad"
proof (cases "n = u64_max")
  case True
  with assms have "calculate_borrow r u64_max m = Inr b" by simp
  then obtain a d where d: "unat (d :: u64) = 10 ^ unat (mint_decimals (liquidity r))"
    and b: "borrow_amount b = min a (decimal_from_u64 (available_amount (liquidity r)))"
    and a: "dec a * dec (market_price (liquidity r)) \<le> dec m * unat d * wad"
    by (rule calculate_borrow_max)
  have "dec (borrow_amount b) * dec (market_price (liquidity r)) \<le> dec a * dec (market_price (liquidity r))"
    by (rule mult_le_mono1) (simp add: b dec_min)
  also note a
  also have "dec m * unat d * wad < (dec m + 1) * 10 ^ unat (mint_decimals (liquidity r)) * wad"
    by (simp add: d)
  finally show ?thesis .
next
  case False
  from assms False obtain d v w where d: "unat (d :: u64) = 10 ^ unat (mint_decimals (liquidity r))"
    and v: "decimal_try_mul (borrow_amount b) (market_price (liquidity r)) = Inr v"
    and w: "decimal_try_div_u64 v d = Inr w" "dec w \<le> dec m"
    by (rule calculate_borrow_exact)
  have "dec w = dec v div 10 ^ unat (mint_decimals (liquidity r))" using w(1) d by (simp add: decimal_ok)
  moreover have "dec v = dec (borrow_amount b) * dec (market_price (liquidity r)) div wad"
    using v by (simp add: decimal_ok)
  ultimately show ?thesis using w(2) by (rule div_div_bound) simp
qed

lemma calculate_borrow_host_fee:
  assumes "calculate_borrow r n m = Inr b" "host_fee_percentage (config_fees (config r)) \<le> 100"
  shows "host_fee b \<le> borrow_fee b"
proof (cases "n = u64_max")
  case True
  with assms(1) have "calculate_borrow r u64_max m = Inr b" by simp
  then obtain "calculate_borrow_fees (config_fees (config r)) (borrow_amount b) Inclusive = Inr (borrow_fee b, host_fee b)"
    by (rule calculate_borrow_max)
  then show ?thesis using host_fee_le assms(2) unfolding calculate_borrow_fees_def by blast
next
  case False
  from assms(1) False obtain
    "calculate_borrow_fees (config_fees (config r)) (decimal_from_u64 n) Exclusive = Inr (borrow_fee b, host_fee b)"
    by (rule calculate_borrow_exact)
  then show ?thesis using host_fee_le assms(2) unfolding calculate_borrow_fees_def by blast
qed

lemma calculate_borrow_available:
  assumes "calculate_borrow r u64_max m = Inr b"
  shows "dec (borrow_amount b) \<le> unat (available_amount (liquidity r)) * wad"
  using assms by (rule calculate_borrow_max) (simp add: dec_min)

section \<open>Repayment\<close>

lemma calculate_repay_cases:
  assumes "calculate_repay n d = Inr p"
  shows "dec (settle_amount p) = (if n = u64_max then dec d else min (unat n * wad) (dec d))"
    and "decimal_try_ceil_u64 (settle_amount p) = Inr (repay_amount p)"
  using assms by (auto simp: calculate_repay_def Let_def dec_min)

lemma ceil_zero_less:
  assumes "decimal_try_ceil_u64 d = Inr v"
  shows "dec d \<le> unat v * wad" and "unat v * wad < dec d + wad"
proof -
  show "dec d \<le> unat v * wad" using assms by (rule ceil_ge)
  show "unat v * wad < dec d + wad"
  proof (cases "dec d = 0")
    case True
    with assms have "unat v = (wad - 1) div wad" by (simp add: decimal_ok)
    also have "\<dots> = 0" by (simp add: wad_def)
    finally show ?thesis by simp
  next
    case False
    with ceil_lt [OF assms] show ?thesis by simp
  qed
qed

lemma ceil_le_of_le: "decimal_try_ceil_u64 d = Inr v \<Longrightarrow> dec d \<le> k * wad \<Longrightarrow> unat v \<le> k"
proof -
  assume "decimal_try_ceil_u64 d = Inr v" and le: "dec d \<le> k * wad"
  then have "unat v * wad < dec d + wad" by (simp add: ceil_zero_less)
  also have "\<dots> \<le> (k + 1) * wad" using le by simp
  finally have "unat v < k + 1" by (simp only: mult_less_cancel2)
  then show ?thesis by simp
qed

section \<open>Liquidation\<close>

text \<open>The most a liquidation may settle: the whole loan, capped by the liquidator's amount.\<close>

definition liquidation_cap :: "u64 \<Rightarrow> obligation_liquidity \<Rightarrow> nat" where
  "liquidation_cap n loan =
     (if n = u64_max then dec (loan_borrowed_amount_wads loan)
      else min (unat n * wad) (dec (loan_borrowed_amount_wads loan)))"

lemma withdraw_bound:
  assumes v: "dec v * wad \<le> k" and pct: "decimal_try_div v cv = Inr pct"
    and w: "decimal_try_mul (decimal_from_u64 dep) pct = Inr w" "decimal_try_floor_u64 w = Inr x"
  shows "unat x * dec cv * wad \<le> unat dep * k"
proof -
  have "unat x * wad \<le> dec w" using w(2) by (rule floor_le)
  then have "unat x * wad * wad \<le> dec w * wad" by (rule mult_le_mono1)
  also have "\<dots> \<le> unat dep * wad * dec pct" using decimal.mul_bounds [OF w(1)] by simp
  finally have "unat x * wad * wad \<le> unat dep * dec pct * wad" by (simp only: mult_ac)
  then have "unat x * wad \<le> unat dep * dec pct" by (simp only: mult_le_cancel2 wad_pos simp_thms)
  then have "unat x * wad * dec cv \<le> unat dep * dec pct * dec cv" by (rule mult_le_mono1)
  also have "\<dots> = unat dep * (dec pct * dec cv)" by (simp only: mult_ac)
  also have "\<dots> \<le> unat dep * (dec v * wad)"
    using decimal.div_bounds [OF pct] by (intro mult_le_mono2) simp
  also have "\<dots> \<le> unat dep * k" using v by (rule mult_le_mono2)
  finally show ?thesis by (simp only: mult_ac)
qed

lemma withdraw_le:
  assumes pct: "decimal_try_div v cv = Inr pct" and le: "dec v \<le> dec cv"
    and w: "decimal_try_mul (decimal_from_u64 dep) pct = Inr w" "decimal_try_floor_u64 w = Inr x"
  shows "x \<le> dep"
proof -
  have "dec w \<le> unat dep * wad"
    using decimal.mul_le_left [OF w(1)] decimal.div_le_one [OF pct le] by simp
  with floor_le [OF w(2)] have "unat x * wad \<le> unat dep * wad" by (rule le_trans)
  then show ?thesis by (simp only: mult_le_cancel2 wad_pos simp_thms word_le_nat_alt)
qed

lemma liquidate_small_cases:
  assumes "liquidate_small bonus m loan coll = Inr q"
  shows "liq_settle_amount q = loan_borrowed_amount_wads loan"
    and "liq_withdraw_amount q \<le> deposited_amount coll"
    and "\<exists>a. dec a \<le> dec m \<and> decimal_try_ceil_u64 a = Inr (liq_repay_amount q)"
    and "liq_withdraw_amount q < deposited_amount coll \<longrightarrow>
      unat (liq_withdraw_amount q) * dec (coll_market_value coll) * wad \<le>
      unat (deposited_amount coll) * (dec (loan_market_value loan) * rat bonus)"
proof -
  from assms obtain v where v: "decimal_try_mul_rate (loan_market_value loan) bonus = Inr v"
    by (auto simp: liquidate_small_def Let_def)
  have vw: "dec v * wad \<le> dec (loan_market_value loan) * rat bonus"
    using v decimal.mul_bounds [of "loan_market_value loan" "decimal_from_rate bonus" v]
    by (simp add: decimal_try_mul_rate_def)
  note def = assms [unfolded liquidate_small_def Let_def v attempt_simps]
  have "liq_settle_amount q = loan_borrowed_amount_wads loan \<and> liq_withdraw_amount q \<le> deposited_amount coll \<and>
    (\<exists>a. dec a \<le> dec m \<and> decimal_try_ceil_u64 a = Inr (liq_repay_amount q)) \<and>
    (liq_withdraw_amount q < deposited_amount coll \<longrightarrow>
      unat (liq_withdraw_amount q) * dec (coll_market_value coll) * wad \<le>
      unat (deposited_amount coll) * (dec (loan_market_value loan) * rat bonus))"
  proof (cases "coll_market_value coll < v")
    case True
    with def obtain pct a where pct: "decimal_try_div (coll_market_value coll) v = Inr pct"
      and a: "decimal_try_mul m pct = Inr a" "decimal_try_ceil_u64 a = Inr (liq_repay_amount q)"
      and q: "liq_settle_amount q = loan_borrowed_amount_wads loan" "liq_withdraw_amount q = deposited_amount coll"
      by (auto simp del: less_decimal_dec)
    have "dec pct \<le> wad" using decimal.div_le_one [OF pct] True by simp
    then have "dec a \<le> dec m" using decimal.mul_le_left [OF a(1)] by blast
    with a q show ?thesis by auto
  next
    case ge: False
    show ?thesis
    proof (cases "v = coll_market_value coll")
      case True
      with def ge show ?thesis by (auto simp del: less_decimal_dec)
    next
      case False
      with def ge obtain pct w where pct: "decimal_try_div v (coll_market_value coll) = Inr pct"
        and w: "decimal_try_mul (decimal_from_u64 (deposited_amount coll)) pct = Inr w"
          "decimal_try_floor_u64 w = Inr (liq_withdraw_amount q)"
        and c: "decimal_try_ceil_u64 m = Inr (liq_repay_amount q)"
        and q: "liq_settle_amount q = loan_borrowed_amount_wads loan"
        by (auto simp del: less_decimal_dec)
      have "dec v \<le> dec (coll_market_value coll)" using ge by simp
      with withdraw_le [OF pct _ w] withdraw_bound [OF vw pct w] c q show ?thesis by blast
    qed
  qed
  then show "liq_settle_amount q = loan_borrowed_amount_wads loan"
    "liq_withdraw_amount q \<le> deposited_amount coll"
    "\<exists>a. dec a \<le> dec m \<and> decimal_try_ceil_u64 a = Inr (liq_repay_amount q)"
    "liq_withdraw_amount q < deposited_amount coll \<longrightarrow>
      unat (liq_withdraw_amount q) * dec (coll_market_value coll) * wad \<le>
      unat (deposited_amount coll) * (dec (loan_market_value loan) * rat bonus)" by blast+
qed

text \<open>
  The usual case settles \<open>s\<close> of the loan, at most the share that \<open>max_liquidation_amount\<close> allows, and
  never seizes collateral worth more than the settled value with the bonus.
\<close>

lemma liquidate_normal_cases:
  assumes "liquidate_normal bonus m ob loan coll = Inr q"
  obtains a where "max_liquidation_amount ob loan = Inr a"
    "dec (liq_settle_amount q) \<le> min (dec a) (dec m)"
    "liq_withdraw_amount q \<le> deposited_amount coll"
    "decimal_try_ceil_u64 (liq_settle_amount q) = Inr (liq_repay_amount q)"
    "liq_withdraw_amount q < deposited_amount coll \<longrightarrow>
      unat (liq_withdraw_amount q) * dec (coll_market_value coll) * dec (loan_borrowed_amount_wads loan) * wad \<le>
      unat (deposited_amount coll) * (dec (loan_market_value loan) * dec (liq_settle_amount q) * rat bonus)"
proof -
  from assms obtain a where a: "max_liquidation_amount ob loan = Inr a"
    by (auto simp: liquidate_normal_def)
  define s where "s = min a m"
  have s: "dec s = min (dec a) (dec m)" by (simp add: s_def dec_min)
  note def1 = assms [unfolded liquidate_normal_def Let_def a attempt_simps, folded s_def]
  from def1 obtain p u v where p: "decimal_try_div s (loan_borrowed_amount_wads loan) = Inr p"
    and u: "decimal_try_mul (loan_market_value loan) p = Inr u"
    and v: "decimal_try_mul u (decimal_from_rate bonus) = Inr v"
    by (auto simp: decimal_try_mul_rate_def)
  have v': "decimal_try_mul_rate u bonus = Inr v" using v by (simp add: decimal_try_mul_rate_def)
  note def = def1 [unfolded p u v' attempt_simps]
  have "dec v * wad * (wad * dec (loan_borrowed_amount_wads loan)) \<le>
      dec u * rat bonus * (wad * dec (loan_borrowed_amount_wads loan))"
    using decimal.mul_bounds [OF v] by (intro mult_le_mono1) simp
  also have "\<dots> = dec u * wad * (rat bonus * dec (loan_borrowed_amount_wads loan))" by (simp only: mult_ac)
  also have "\<dots> \<le> dec (loan_market_value loan) * dec p * (rat bonus * dec (loan_borrowed_amount_wads loan))"
    using decimal.mul_bounds [OF u] by (intro mult_le_mono1) simp
  also have "\<dots> = dec (loan_market_value loan) * rat bonus * (dec p * dec (loan_borrowed_amount_wads loan))"
    by (simp only: mult_ac)
  also have "\<dots> \<le> dec (loan_market_value loan) * rat bonus * (dec s * wad)"
    using decimal.div_bounds [OF p] by (intro mult_le_mono2) simp
  finally have "dec v * wad * dec (loan_borrowed_amount_wads loan) * wad \<le>
      dec (loan_market_value loan) * dec s * rat bonus * wad" by (simp only: mult_ac)
  then have vw: "dec v * wad * dec (loan_borrowed_amount_wads loan) \<le>
      dec (loan_market_value loan) * dec s * rat bonus"
    by (simp only: mult_le_cancel2 wad_pos simp_thms)
  have "dec (liq_settle_amount q) \<le> dec s \<and> liq_withdraw_amount q \<le> deposited_amount coll \<and>
    decimal_try_ceil_u64 (liq_settle_amount q) = Inr (liq_repay_amount q) \<and>
    (liq_withdraw_amount q < deposited_amount coll \<longrightarrow>
      unat (liq_withdraw_amount q) * dec (coll_market_value coll) * dec (loan_borrowed_amount_wads loan) * wad \<le>
      unat (deposited_amount coll) * (dec (loan_market_value loan) * dec (liq_settle_amount q) * rat bonus))"
  proof (cases "coll_market_value coll < v")
    case True
    with def obtain pct where pct: "decimal_try_div (coll_market_value coll) v = Inr pct"
      and "decimal_try_mul s pct = Inr (liq_settle_amount q)"
        "decimal_try_ceil_u64 (liq_settle_amount q) = Inr (liq_repay_amount q)"
        "liq_withdraw_amount q = deposited_amount coll"
      by (auto simp del: less_decimal_dec)
    moreover have "dec pct \<le> wad" using decimal.div_le_one [OF pct] True by simp
    ultimately show ?thesis using decimal.mul_le_left by auto
  next
    case ge: False
    show ?thesis
    proof (cases "v = coll_market_value coll")
      case True
      with def ge show ?thesis by (auto simp del: less_decimal_dec)
    next
      case False
      with def ge obtain pct w where pct: "decimal_try_div v (coll_market_value coll) = Inr pct"
        and w: "decimal_try_mul (decimal_from_u64 (deposited_amount coll)) pct = Inr w"
          "decimal_try_floor_u64 w = Inr (liq_withdraw_amount q)"
        and c: "decimal_try_ceil_u64 s = Inr (liq_repay_amount q)" and q: "liq_settle_amount q = s"
        by (auto simp del: less_decimal_dec)
      have le: "dec v \<le> dec (coll_market_value coll)" using ge by simp
      have "unat (liq_withdraw_amount q) * dec (coll_market_value coll) * wad * dec (loan_borrowed_amount_wads loan)
          \<le> unat (deposited_amount coll) * (dec v * wad) * dec (loan_borrowed_amount_wads loan)"
        using withdraw_bound [OF order_refl pct w] by (rule mult_le_mono1)
      also have "\<dots> = unat (deposited_amount coll) * (dec v * wad * dec (loan_borrowed_amount_wads loan))"
        by (simp only: mult_ac)
      also have "\<dots> \<le> unat (deposited_amount coll) * (dec (loan_market_value loan) * dec s * rat bonus)"
        using vw by (rule mult_le_mono2)
      finally have "unat (liq_withdraw_amount q) * dec (coll_market_value coll) * dec (loan_borrowed_amount_wads loan) * wad
          \<le> unat (deposited_amount coll) * (dec (loan_market_value loan) * dec s * rat bonus)"
        by (simp only: mult_ac)
      with withdraw_le [OF pct le w] c q show ?thesis by simp
    qed
  qed
  then show thesis using a that s by simp
qed

lemma calculate_liquidation_cases:
  assumes "calculate_liquidation r n ob loan coll = Inr q"
  obtains bonus m where "rat bonus = wad + unat (liquidation_bonus (config r)) * (wad div 100)"
    "dec m = liquidation_cap n loan"
    "if dec (loan_borrowed_amount_wads loan) < 2 * wad then liquidate_small bonus m loan coll = Inr q
     else liquidate_normal bonus m ob loan coll = Inr q"
proof -
  define m where "m = (if n = u64_max then loan_borrowed_amount_wads loan
    else min (decimal_from_u64 n) (loan_borrowed_amount_wads loan))"
  from assms obtain bonus where b: "rate_try_add (rate_from_percent (liquidation_bonus (config r))) rate_one = Inr bonus"
    by (auto simp: calculate_liquidation_def)
  have "rat bonus = wad + unat (liquidation_bonus (config r)) * (wad div 100)"
    using b by (simp add: rate_ok)
  moreover have "dec m = liquidation_cap n loan" by (simp add: m_def liquidation_cap_def dec_min)
  moreover have "loan_borrowed_amount_wads loan < decimal_from_u64 LIQUIDATION_CLOSE_AMOUNT \<longleftrightarrow>
      dec (loan_borrowed_amount_wads loan) < 2 * wad"
    by (simp add: LIQUIDATION_CLOSE_AMOUNT_def)
  ultimately show thesis
    using that [of bonus m] assms [unfolded calculate_liquidation_def b attempt_simps Let_def, folded m_def]
    by (auto split: if_splits)
qed

end
