(* ===== verification/Reserve_Correct.thy ===== *)
theory Reserve_Correct
  imports Reserve_Amounts
begin

text \<open>
  The properties of a reserve (token-lending/program/src/state/reserve.rs), each with an instance
  on a concrete reserve.
\<close>

section \<open>A reserve to try the operations on\<close>

text \<open>
  A reserve with 1000 units available, 500 borrowed and 1200 collateral tokens, the borrow curve
  2% / 10% / 50% with its knee at 80%, and fees of 1% with a fifth going to the host.
\<close>

definition sample_reserve :: reserve where
  "sample_reserve = \<lparr>
     reserve_version = 1, reserve_last_update = \<lparr> slot = 10, stale = False \<rparr>, reserve_lending_market = 7,
     liquidity = \<lparr> liq_mint_pubkey = 21, mint_decimals = 2, liq_supply_pubkey = 22, fee_receiver = 23,
       oracle_pubkey = None, available_amount = 1000,
       borrowed_amount_wads = Decimal 500000000000000000000,
       cumulative_borrow_rate_wads = Decimal 1000000000000000000,
       market_price = Decimal 2000000000000000000 \<rparr>,
     collateral = \<lparr> coll_mint_pubkey = 31, mint_total_supply = 1200, coll_supply_pubkey = 32 \<rparr>,
     config = \<lparr> optimal_utilization_rate = 80, loan_to_value_ratio = 50, liquidation_bonus = 5,
       liquidation_threshold = 55, min_borrow_rate = 2, optimal_borrow_rate = 10, max_borrow_rate = 50,
       config_fees = \<lparr> borrow_fee_wad = 10000000000000000, flash_loan_fee_wad = 3000000000000000,
         host_fee_percentage = 20 \<rparr>,
       deposit_staking_pool = None, deposit_limit = 18446744073709551615, borrow_limit = 18446744073709551615 \<rparr> \<rparr>"

definition sample_clock :: clock_constants where
  "sample_clock = \<lparr> default_ticks_per_second = 160, default_ticks_per_slot = 64, seconds_per_day = 86400 \<rparr>"

section \<open>Deposits and redemptions\<close>

definition sample_deposited :: reserve where
  "sample_deposited = sample_reserve\<lparr>
     liquidity := (liquidity sample_reserve)\<lparr> available_amount := 1100 \<rparr>,
     collateral := (collateral sample_reserve)\<lparr> mint_total_supply := 1280 \<rparr> \<rparr>"

lemma sample_deposit: "reserve_deposit_liquidity 100 sample_reserve = Inr (80, sample_deposited)"
  by (simp add: sample_deposited_def sample_reserve_def run del: attempt_Inr_iff)

lemma sample_redeem: "reserve_redeem_collateral 80 sample_deposited = Inr (100, sample_reserve)"
  by (simp add: sample_deposited_def sample_reserve_def run del: attempt_Inr_iff)

lemma sample_rate: "collateral_exchange_rate sample_deposited = Inr (Exchange_Rate (Rate 800000000000000000))"
  by (simp add: sample_deposited_def sample_reserve_def run del: attempt_Inr_iff)

text \<open>
  C1: Liquidity that is deposited and redeemed at once never grows: the depositor gets back at most
  what was put in. The reserve must have collateral outstanding (or nothing to share), and the
  amount must not exceed the scaled exchange rate after the deposit, which is 10^18 tokens at a
  rate of one: beyond it the truncated rate can favour the depositor.
\<close>

theorem deposit_redeem_no_profit:
  assumes "reserve_deposit_liquidity l r = Inr (c, r')"
    and "reserve_redeem_collateral c r' = Inr (l', r'')"
    and "collateral_exchange_rate r' = Inr (Exchange_Rate x)"
    and "unat l \<le> rat x"
    and "mint_total_supply (collateral r) \<noteq> 0 \<or> supply_wads (liquidity r) = 0"
  shows "l' \<le> l"
proof -
  define T' m' where "T' = supply_wads (liquidity r')" and "m' = unat (mint_total_supply (collateral r'))"
  define T m where "T = supply_wads (liquidity r)" and "m = unat (mint_total_supply (collateral r))"
  from assms(1) obtain y where y: "collateral_exchange_rate r = Inr (Exchange_Rate y)"
    and c: "liquidity_to_collateral (Exchange_Rate y) l = Inr c"
    and T': "T' = T + unat l * wad" and m': "m' = m + unat c"
    unfolding T'_def m'_def T_def m_def by (rule deposit_liquidity_cases)
  from assms(2,3) obtain l: "collateral_to_liquidity (Exchange_Rate x) c = Inr l'"
    by (auto elim: redeem_collateral_cases)
  note paid = collateral_to_liquidity_le [OF l] and pos = collateral_to_liquidity_pos [OF l]
  have share: "unat c * T' \<le> unat l * wad * m'"
  proof (cases "m = 0")
    case True
    with assms(5) have "T = 0" by (auto simp: m_def T_def unat_eq_0)
    with y True have "rat y = wad" by (simp add: collateral_exchange_rate_ok m_def T_def)
    with c have "unat c = unat l" by (simp add: liquidity_to_collateral_ok)
    with True \<open>T = 0\<close> show ?thesis by (simp add: T' m')
  next
    case False
    then have "mint_total_supply (collateral r) \<noteq> 0" by (auto simp: m_def)
    from deposit_share [OF assms(1) this] have "unat c * T \<le> unat l * wad * m" by (simp only: T_def m_def)
    then show ?thesis by (simp add: T' m' add_mult_distrib2)
  qed
  show ?thesis
  proof (cases "m' = 0 \<or> T' = 0")
    case True
    then have "unat c = 0 \<or> unat l = 0" using T' m' by auto
    then have "unat c = 0" using c by (auto simp: liquidity_to_collateral_ok)
    with paid pos show ?thesis by (simp add: word_le_nat_alt)
  next
    case False
    then have "rat x = m' * wad * wad div T'"
      using assms(3) by (simp add: collateral_exchange_rate_ok m'_def T'_def unat_eq_0)
    moreover have "0 < T'" using False by simp
    ultimately have "m' * wad * wad < (rat x + 1) * T'"
      using less_div_Suc_mult [of T' "m' * wad * wad"] by simp
    from no_profit_arith [OF share paid this assms(4) pos \<open>0 < T'\<close>] show ?thesis
      by (simp add: word_le_nat_alt)
  qed
qed

theorem deposit_redeem_no_profit_witness:
  "reserve_deposit_liquidity 100 sample_reserve = Inr (80, sample_deposited) \<and>
   reserve_redeem_collateral 80 sample_deposited = Inr (100, sample_reserve) \<and> (100 :: u64) \<le> 100"
proof (intro conjI)
  show "(100 :: u64) \<le> 100"
    by (rule deposit_redeem_no_profit [OF sample_deposit sample_redeem sample_rate])
      (simp_all add: sample_reserve_def)
qed (fact sample_deposit sample_redeem)+

text \<open>
  A deposit adds exactly the deposited amount to the reserve's supply and the minted amount to
  the collateral supply, and never dilutes the holders of collateral: the minted share of the
  supply is worth at most the deposit. Nothing else of the reserve changes.
\<close>

theorem deposit_fair:
  assumes "reserve_deposit_liquidity l r = Inr (c, r')"
  shows "supply_wads (liquidity r') = supply_wads (liquidity r) + unat l * wad \<and>
    unat (mint_total_supply (collateral r')) = unat (mint_total_supply (collateral r)) + unat c \<and>
    (mint_total_supply (collateral r) \<noteq> 0 \<longrightarrow>
      unat c * supply_wads (liquidity r) \<le> unat l * wad * unat (mint_total_supply (collateral r))) \<and>
    r' = r\<lparr> liquidity := (liquidity r)\<lparr> available_amount := available_amount (liquidity r) + l \<rparr>,
      collateral := (collateral r)\<lparr> mint_total_supply := mint_total_supply (collateral r) + c \<rparr> \<rparr>"
proof (intro conjI)
  show "supply_wads (liquidity r') = supply_wads (liquidity r) + unat l * wad"
    using assms by (rule deposit_liquidity_cases)
  show "unat (mint_total_supply (collateral r')) = unat (mint_total_supply (collateral r)) + unat c"
    using assms by (rule deposit_liquidity_cases)
  show "mint_total_supply (collateral r) \<noteq> 0 \<longrightarrow>
      unat c * supply_wads (liquidity r) \<le> unat l * wad * unat (mint_total_supply (collateral r))"
    using deposit_share [OF assms] by blast
  show "r' = r\<lparr> liquidity := (liquidity r)\<lparr> available_amount := available_amount (liquidity r) + l \<rparr>,
      collateral := (collateral r)\<lparr> mint_total_supply := mint_total_supply (collateral r) + c \<rparr> \<rparr>"
    using assms
    by (auto simp: reserve_deposit_liquidity_def liquidity_deposit_def collateral_mint_def
        checked_add_def split: if_splits)
qed

theorem deposit_fair_witness:
  "reserve_deposit_liquidity 100 sample_reserve = Inr (80, sample_deposited) \<and>
   supply_wads (liquidity sample_deposited) = supply_wads (liquidity sample_reserve) + unat (100 :: u64) * wad"
  using sample_deposit deposit_fair [OF sample_deposit] by blast

text \<open>
  A redemption takes exactly the paid amount out of the supply and burns exactly the collateral
  given, and pays at most the fair share: the excess that the truncation of the exchange rate can
  cause is bounded by one part in mint * WAD of the amount paid.
\<close>

theorem redeem_bounded:
  assumes "reserve_redeem_collateral c r = Inr (l, r')"
  shows "supply_wads (liquidity r) = supply_wads (liquidity r') + unat l * wad \<and>
    unat (mint_total_supply (collateral r)) = unat (mint_total_supply (collateral r')) + unat c \<and>
    (mint_total_supply (collateral r) \<noteq> 0 \<longrightarrow> supply_wads (liquidity r) \<noteq> 0 \<longrightarrow>
      unat l * wad * unat (mint_total_supply (collateral r)) * wad \<le>
      unat c * supply_wads (liquidity r) * wad + unat l * supply_wads (liquidity r)) \<and>
    l \<le> available_amount (liquidity r)"
proof (intro conjI)
  show "supply_wads (liquidity r) = supply_wads (liquidity r') + unat l * wad"
    using assms by (rule redeem_collateral_cases)
  show "unat (mint_total_supply (collateral r)) = unat (mint_total_supply (collateral r')) + unat c"
    using assms by (rule redeem_collateral_cases)
  show "mint_total_supply (collateral r) \<noteq> 0 \<longrightarrow> supply_wads (liquidity r) \<noteq> 0 \<longrightarrow>
      unat l * wad * unat (mint_total_supply (collateral r)) * wad \<le>
      unat c * supply_wads (liquidity r) * wad + unat l * supply_wads (liquidity r)"
    using redeem_share [OF assms] by blast
  show "l \<le> available_amount (liquidity r)"
    using assms by (auto simp: reserve_redeem_collateral_def liquidity_withdraw_def split: if_splits)
qed

theorem redeem_bounded_witness:
  "reserve_redeem_collateral 80 sample_deposited = Inr (100, sample_reserve) \<and>
   (100 :: u64) \<le> available_amount (liquidity sample_deposited)"
  using sample_redeem redeem_bounded [OF sample_redeem] by blast

section \<open>Interest\<close>

text \<open>
  C15: With a valid configuration the borrow rate always exists and lies between the configured
  minimum and maximum, whatever the utilization.
\<close>

theorem borrow_rate_in_range:
  assumes "borrow_curve_valid (config r)" and "dec (borrowed_amount_wads (liquidity r)) < 2 ^ 128"
  shows "\<exists>x. current_borrow_rate r = Inr x \<and>
    rate_from_percent (min_borrow_rate (config r)) \<le> x \<and>
    x \<le> rate_from_percent (max_borrow_rate (config r))"
  using current_borrow_rate_range [OF assms] by simp

theorem borrow_rate_in_range_witness:
  "\<exists>x. current_borrow_rate sample_reserve = Inr x \<and> rate_from_percent 2 \<le> x \<and> x \<le> rate_from_percent 50"
  using borrow_rate_in_range [of sample_reserve] by (simp add: sample_reserve_def borrow_curve_valid_def)

text \<open>
  Accruing interest never lowers the debt, the borrow index or the supply of a reserve, leaves
  what is available and every other field as it was, and does nothing in the slot of the last
  refresh. An earlier slot is refused.
\<close>

theorem accrue_interest_monotone:
  assumes "reserve_accrue_interest k s r = Inr r'"
  shows "slot (reserve_last_update r) \<le> s \<and>
    borrowed_amount_wads (liquidity r) \<le> borrowed_amount_wads (liquidity r') \<and>
    cumulative_borrow_rate_wads (liquidity r) \<le> cumulative_borrow_rate_wads (liquidity r') \<and>
    r' = r\<lparr> liquidity := (liquidity r)\<lparr>
      borrowed_amount_wads := borrowed_amount_wads (liquidity r'),
      cumulative_borrow_rate_wads := cumulative_borrow_rate_wads (liquidity r') \<rparr> \<rparr> \<and>
    (s = slot (reserve_last_update r) \<longrightarrow> r' = r)"
  using assms
proof (cases rule: reserve_accrue_interest_cases)
  case same
  then show ?thesis by simp
next
  case (compound n x l)
  note c = compound_interest_grows [OF compound(4)]
  from compound(4) have "l = (liquidity r)\<lparr> borrowed_amount_wads := borrowed_amount_wads l,
      cumulative_borrow_rate_wads := cumulative_borrow_rate_wads l \<rparr>"
    by (auto simp: compound_interest_def)
  moreover have "unat s \<noteq> unat (slot (reserve_last_update r))"
    using compound(1,2) by (simp add: word_unat_eq_iff)
  ultimately show ?thesis using c compound(1,5) by (auto simp: word_le_nat_alt)
qed

lemma sample_accrue: "\<exists>r. reserve_accrue_interest sample_clock 110 sample_reserve = Inr r \<and>
    borrowed_amount_wads (liquidity r) = Decimal 500000042279724335500"
  by (simp add: sample_reserve_def sample_clock_def run del: attempt_Inr_iff)

theorem accrue_interest_monotone_witness:
  "borrowed_amount_wads (liquidity sample_reserve) \<le> Decimal 500000042279724335500"
  using sample_accrue accrue_interest_monotone by metis

section \<open>Borrows and repayments\<close>

text \<open>
  What \<open>calculate_borrow\<close> hands to the borrower and to the fee receivers adds up to the whole
  units of the debt; the debt is worth less than one unit of the last decimal more than the
  allowed value; a borrow of everything never exceeds what is available, and the host's share
  never exceeds the fee.
\<close>

theorem calculate_borrow_sound:
  assumes "calculate_borrow r n m = Inr b" and "host_fee_percentage (config_fees (config r)) \<le> 100"
  shows "unat (receive_amount b) + unat (borrow_fee b) = dec (borrow_amount b) div wad \<and>
    host_fee b \<le> borrow_fee b \<and>
    (n \<noteq> u64_max \<longrightarrow> receive_amount b = n) \<and>
    (n = u64_max \<longrightarrow> dec (borrow_amount b) \<le> unat (available_amount (liquidity r)) * wad) \<and>
    dec (borrow_amount b) * dec (market_price (liquidity r)) <
      (dec m + 1) * 10 ^ unat (mint_decimals (liquidity r)) * wad"
proof (intro conjI impI)
  show "n \<noteq> u64_max \<Longrightarrow> receive_amount b = n"
    using assms(1) by (rule calculate_borrow_exact)
  show "n = u64_max \<Longrightarrow> dec (borrow_amount b) \<le> unat (available_amount (liquidity r)) * wad"
    using assms(1) calculate_borrow_available by blast
qed (fact calculate_borrow_sum [OF assms(1)] calculate_borrow_host_fee [OF assms]
  calculate_borrow_value [OF assms(1)])+

definition sample_borrow :: calculate_borrow_result where
  "sample_borrow = \<lparr> borrow_amount = Decimal 500000000000000000000, receive_amount = 495,
     borrow_fee = 5, host_fee = 1 \<rparr>"

lemma sample_calculate_borrow:
  "calculate_borrow sample_reserve u64_max (Decimal 10000000000000000000) = Inr sample_borrow"
  by (simp add: sample_reserve_def sample_borrow_def run del: attempt_Inr_iff)

theorem calculate_borrow_sound_witness:
  "calculate_borrow sample_reserve u64_max (Decimal 10000000000000000000) = Inr sample_borrow \<and>
   unat (receive_amount sample_borrow) + unat (borrow_fee sample_borrow) =
     dec (borrow_amount sample_borrow) div wad"
  using sample_calculate_borrow calculate_borrow_sound [OF sample_calculate_borrow]
  by (simp add: sample_reserve_def)

text \<open>
  A repayment settles at most the debt, pays for all it settles rounded up to a whole unit, and
  never charges more than the amount the borrower named.
\<close>

theorem calculate_repay_sound:
  assumes "calculate_repay n d = Inr p"
  shows "settle_amount p \<le> d \<and> dec (settle_amount p) \<le> unat (repay_amount p) * wad \<and>
    unat (repay_amount p) * wad < dec (settle_amount p) + wad \<and>
    (n = u64_max \<longrightarrow> settle_amount p = d) \<and> (n \<noteq> u64_max \<longrightarrow> repay_amount p \<le> n)"
proof (intro conjI impI)
  note c = calculate_repay_cases [OF assms]
  show "settle_amount p \<le> d" using c(1) by auto
  show "dec (settle_amount p) \<le> unat (repay_amount p) * wad"
    "unat (repay_amount p) * wad < dec (settle_amount p) + wad"
    using ceil_zero_less [OF c(2)] by blast+
  show "n = u64_max \<Longrightarrow> settle_amount p = d" using c(1) by (simp add: dec_eq_iff)
  show "n \<noteq> u64_max \<Longrightarrow> repay_amount p \<le> n"
    using ceil_le_of_le [OF c(2), of "unat n"] c(1) by (simp add: word_le_nat_alt)
qed

theorem calculate_repay_sound_witness:
  "\<exists>p. calculate_repay 100 (Decimal 1500000000000000000) = Inr p \<and> repay_amount p = 2 \<and> repay_amount p \<le> 100"
proof -
  have "calculate_repay 100 (Decimal 1500000000000000000) =
      Inr \<lparr> settle_amount = Decimal 1500000000000000000, repay_amount = 2 \<rparr>"
    by (simp add: run del: attempt_Inr_iff)
  with calculate_repay_sound [OF this] show ?thesis by simp
qed

text \<open>
  Lending out and taking back through the reserve never loses value: a borrow adds exactly the
  debt less the whole units handed out, and a repayment that pays at least what it settles does not
  lower the supply. Neither can overdraw what is available.
\<close>

theorem borrow_repay_supply:
  assumes "liquidity_borrow d l = Inr l'" and "liquidity_repay p e l' = Inr l''" and "dec e \<le> unat p * wad"
  shows "supply_wads l' = supply_wads l + dec d mod wad \<and> supply_wads l' \<le> supply_wads l'' \<and>
    dec d div wad \<le> unat (available_amount l) \<and>
    dec (borrowed_amount_wads l'') = dec (borrowed_amount_wads l) + dec d - dec e"
  using borrow_supply [OF assms(1)] repay_supply [OF assms(2,3)] assms(1,2)
  by (auto simp: liquidity_borrow_ok liquidity_repay_ok)

definition sample_lent :: reserve_liquidity where
  "sample_lent = (liquidity sample_reserve)\<lparr> available_amount := 900,
     borrowed_amount_wads := Decimal 600500000000000000000 \<rparr>"

lemma sample_lend: "liquidity_borrow (Decimal 100500000000000000000) (liquidity sample_reserve) = Inr sample_lent"
  by (simp add: sample_reserve_def sample_lent_def run del: attempt_Inr_iff)

lemma sample_take_back: "\<exists>l. liquidity_repay 101 (Decimal 100500000000000000000) sample_lent = Inr l"
  by (simp add: sample_reserve_def sample_lent_def run del: attempt_Inr_iff)

theorem borrow_repay_supply_witness:
  "supply_wads sample_lent = supply_wads (liquidity sample_reserve) + 500000000000000000"
proof -
  obtain l where "liquidity_repay 101 (Decimal 100500000000000000000) sample_lent = Inr l"
    using sample_take_back by blast
  from borrow_repay_supply [OF sample_lend this] show ?thesis by (simp add: wad_def)
qed

section \<open>Liquidation\<close>


definition sample_loan :: obligation_liquidity where
  "sample_loan = \<lparr> borrow_reserve = 5, loan_cumulative_borrow_rate_wads = Decimal 1000000000000000000,
     loan_borrowed_amount_wads = Decimal 100000000000000000000,
     loan_market_value = Decimal 200000000000000000000 \<rparr>"

definition sample_coll :: obligation_collateral where
  "sample_coll = \<lparr> deposit_reserve = 6, deposited_amount = 1000,
     coll_market_value = Decimal 300000000000000000000 \<rparr>"

definition sample_obligation :: obligation where
  "sample_obligation = \<lparr> ob_version = 1, ob_last_update = \<lparr> slot = 10, stale = False \<rparr>,
     ob_lending_market = 7, ob_owner = 9, deposits = [sample_coll], borrows = [sample_loan],
     deposited_value = Decimal 300000000000000000000, borrowed_value = Decimal 200000000000000000000,
     allowed_borrow_value = Decimal 150000000000000000000,
     unhealthy_borrow_value = Decimal 165000000000000000000 \<rparr>"

lemma sample_liquidation:
  "calculate_liquidation sample_reserve u64_max sample_obligation sample_loan sample_coll =
     Inr \<lparr> liq_settle_amount = Decimal 50000000000000000000, liq_repay_amount = 50,
       liq_withdraw_amount = 350 \<rparr>"
  by (simp add: sample_reserve_def sample_obligation_def sample_loan_def sample_coll_def run
      del: attempt_Inr_iff)


text \<open>
  Below the close-out threshold the amount the liquidator names caps what is paid but not what is
  settled: a loan of 1.5 units is settled in full for 1 unit.
\<close>

lemma small_loan_settled_for_less:
  "calculate_liquidation sample_reserve 1 sample_obligation
     (sample_loan\<lparr> loan_borrowed_amount_wads := Decimal 1500000000000000000 \<rparr>) sample_coll =
     Inr \<lparr> liq_settle_amount = Decimal 1500000000000000000, liq_repay_amount = 1,
       liq_withdraw_amount = 700 \<rparr>"
  by (simp add: sample_reserve_def sample_obligation_def sample_loan_def sample_coll_def run
      del: attempt_Inr_iff)

section \<open>Fees\<close>

text \<open>
  C17: A fee is charged exactly when the rate and the amount are positive, is at least one unit
  and at least two when a host takes a share, stays below the amount up to rounding, and the host's
  part never exceeds it.
\<close>

theorem fees_sound:
  assumes "calculate_fees fees amount fee_wad mode = Inr (fee, host)" and "host_fee_percentage fees \<le> 100"
  shows "(fee = 0 \<longleftrightarrow> fee_wad = 0 \<or> dec amount = 0) \<and> host \<le> fee \<and>
    (fee \<noteq> 0 \<longrightarrow> (host_fee_percentage fees \<noteq> 0 \<longleftrightarrow> 1 \<le> host) \<and>
      (host_fee_percentage fees \<noteq> 0 \<longrightarrow> 2 \<le> fee) \<and> unat fee * wad \<le> dec amount + wad div 2)"
proof (intro conjI impI)
  show "fee = 0 \<longleftrightarrow> fee_wad = 0 \<or> dec amount = 0" using assms(1) by (rule fee_zero_iff)
  show "host \<le> fee" using assms by (rule host_fee_le)
next
  assume "fee \<noteq> 0"
  then have *: "fee_wad \<noteq> 0" "dec amount \<noteq> 0" using fee_zero_iff [OF assms(1)] by blast+
  note m = fee_minimum [OF assms(1) *]
  show "host_fee_percentage fees \<noteq> 0 \<longleftrightarrow> 1 \<le> host" by (rule m(2))
  show "unat fee * wad \<le> dec amount + wad div 2" by (rule m(3))
  show "2 \<le> fee" if "host_fee_percentage fees \<noteq> 0" using m(1) that by (simp add: word_le_nat_alt)
qed

theorem fees_sound_witness:
  "calculate_fees (config_fees (config sample_reserve)) (Decimal 500000000000000000000) 10000000000000000 Exclusive =
     Inr (5, 1) \<and> (1 :: u64) \<le> 5"
proof -
  have "calculate_fees (config_fees (config sample_reserve)) (Decimal 500000000000000000000) 10000000000000000 Exclusive =
     Inr (5, 1)"
    by (simp add: sample_reserve_def run del: attempt_Inr_iff)
  with fees_sound [OF this] show ?thesis by (simp add: sample_reserve_def)
qed

end
