(* ===== verification/State_Correct.thy ===== *)
theory State_Correct
  imports Obligation_Pack Reserve_Pack Reserve_Correct
begin

text \<open>
  The properties of obligations (token-lending/program/src/state/obligation.rs) and of the account
  data of all three kinds of state.
\<close>

section \<open>Obligations as ledgers\<close>

definition sample_ledger :: obligation where
  "sample_ledger = sample_obligation\<lparr> deposits := [sample_coll, sample_coll\<lparr> deposit_reserve := 8 \<rparr>] \<rparr>"

lemma sample_ledger_wf: "obligation_wf sample_ledger"
  by (simp add: obligation_wf_def sample_ledger_def sample_obligation_def sample_coll_def
      MAX_OBLIGATION_RESERVES_def)

text \<open>
  C18: Depositing collateral (find the entry or add one, then increase it) is an update of one key
  of the map from reserves to deposits: the amount of that reserve grows by the deposit, a missing
  entry counts as zero, no other entry and no borrow changes, and entries stay unique and within
  the limit of ten.
\<close>

theorem deposit_refines_map:
  assumes "obligation_wf ob" and "find_or_add_collateral_to_deposits k ob = Inr (ob1, i)"
    and "collateral_deposit a (deposits ob1 ! i) = Inr c"
  shows "let ob' = ob1\<lparr> deposits := (deposits ob1)[i := c] \<rparr>;
             old = (case deps.lookup ob k of None \<Rightarrow> obligation_collateral_new k | Some x \<Rightarrow> x) in
    deps.lookup ob' = (deps.lookup ob)(k \<mapsto> old\<lparr> deposited_amount := deposited_amount old + a \<rparr>) \<and>
    unat (deposited_amount old) + unat a < 2 ^ 64 \<and>
    loans.lookup ob' = loans.lookup ob \<and> obligation_wf ob'"
proof -
  define old where "old = (case deps.lookup ob k of None \<Rightarrow> obligation_collateral_new k | Some x \<Rightarrow> x)"
  define ob' where "ob' = ob1\<lparr> deposits := (deposits ob1)[i := c] \<rparr>"
  from assms(1) have u: "deps.unique ob" by (simp add: obligation_wf_iff)
  note e = deps.find_or_add_entry [OF assms(2)] and u1 = deps.find_or_add_unique [OF assms(2) u]
    and l1 = deps.find_or_add_lookup [OF assms(2)] and wf1 = find_or_add_collateral_wf [OF assms(2,1)]
  have old: "deposits ob1 ! i = old"
    using deps.find_or_add_result [OF assms(2) u] l1 by (simp add: old_def)
  with assms(3) have c: "c = old\<lparr> deposited_amount := deposited_amount old + a \<rparr>"
    and less: "unat (deposited_amount old) + unat a < 2 ^ 64"
    by (auto simp: collateral_deposit_def checked_add_def split: if_splits)
  have key: "deposit_reserve c = deposit_reserve (deposits ob1 ! i)" by (simp add: c old)
  from deps.lookup_update [OF u1 e(1) key, of ob'] e(2)
  have "deps.lookup ob' = (deps.lookup ob1)(k \<mapsto> c)" by (simp add: ob'_def key)
  moreover have "obligation_wf ob'" unfolding ob'_def using wf1 e(1) key by (rule update_deposit_wf)
  moreover have "loans.lookup ob' = loans.lookup ob"
    using find_or_add_collateral_frame [OF assms(2)]
    by (metis loans.lookup_def ob'_def obligation.select_convs(6) obligation.surjective
        obligation.update_convs(5))
  ultimately show ?thesis
    using l1 less unfolding Let_def old_def [symmetric] ob'_def [symmetric] by (simp add: c)
qed

theorem deposit_refines_map_witness:
  "deposited_amount (the (deps.lookup (sample_ledger\<lparr> deposits := (deposits sample_ledger)
     [1 := sample_coll\<lparr> deposit_reserve := 8, deposited_amount := 1007 \<rparr>] \<rparr>) 8)) = 1007"
proof -
  have find: "find_or_add_collateral_to_deposits 8 sample_ledger = Inr (sample_ledger, 1)"
    by (simp add: sample_ledger_def sample_coll_def run)
  have "collateral_deposit 7 (deposits sample_ledger ! 1) =
      Inr (sample_coll\<lparr> deposit_reserve := 8, deposited_amount := 1007 \<rparr>)"
    by (simp add: sample_ledger_def sample_coll_def run del: attempt_Inr_iff)
  from deposit_refines_map [OF sample_ledger_wf find this] show ?thesis
    by (simp add: Let_def deps.lookup_def entry_map_def sample_ledger_def sample_coll_def)
qed

text \<open>
  Withdrawing collateral and repaying liquidity are updates of one key of the two maps: an
  entry taken out in full disappears, another shrinks by exactly the amount, an amount above the
  entry's is refused, and nothing else changes.
\<close>

theorem withdraw_repay_refine_map:
  assumes "obligation_wf ob"
    and "find_collateral_in_deposits ob k = Inr (c, i)" "obligation_withdraw a i ob = Inr ob1"
    and "find_liquidity_in_borrows ob1 k' = Inr (l, j)" "obligation_repay d j ob1 = Inr ob2"
  shows "deps.lookup ob2 = (deps.lookup ob)(k := if a = deposited_amount c then None
      else Some (c\<lparr> deposited_amount := deposited_amount c - a \<rparr>)) \<and>
    loans.lookup ob2 = (loans.lookup ob)(k' := if d = loan_borrowed_amount_wads l then None
      else (case loan_repay d l of Inl _ \<Rightarrow> None | Inr l' \<Rightarrow> Some l')) \<and>
    a \<le> deposited_amount c \<and> d \<le> loan_borrowed_amount_wads l \<and> obligation_wf ob2"
proof -
  note w = obligation_withdraw_lookup [OF assms(3,1,2)]
  have wf1: "obligation_wf ob1" using assms(3,1) by (rule obligation_withdraw_wf)
  note r = obligation_repay_lookup [OF assms(5) wf1 assms(4)]
  have "loans.lookup ob1 = loans.lookup ob" using w(2) by (simp add: loans.lookup_def)
  moreover have "deps.lookup ob2 = deps.lookup ob1" using r(2) by (simp add: deps.lookup_def)
  moreover have "obligation_wf ob2" using assms(5) wf1 by (rule obligation_repay_wf)
  ultimately show ?thesis using w r by simp
qed

definition sample_settled :: obligation where
  "sample_settled = sample_ledger\<lparr> deposits := [sample_coll], borrows := [] \<rparr>"

theorem withdraw_repay_refine_map_witness:
  "deps.lookup sample_settled 8 = None \<and> loans.lookup sample_settled 5 = None"
proof -
  define ob1 where "ob1 = sample_ledger\<lparr> deposits := [sample_coll] \<rparr>"
  have "find_collateral_in_deposits sample_ledger 8 = Inr (sample_coll\<lparr> deposit_reserve := 8 \<rparr>, 1)"
    by (simp add: sample_ledger_def sample_coll_def run del: attempt_Inr_iff)
  moreover have "obligation_withdraw 1000 1 sample_ledger = Inr ob1"
    by (simp add: ob1_def sample_ledger_def sample_coll_def remove_at_def run del: attempt_Inr_iff)
  moreover have "find_liquidity_in_borrows ob1 5 = Inr (sample_loan, 0)"
    by (simp add: ob1_def sample_ledger_def sample_obligation_def sample_loan_def run del: attempt_Inr_iff)
  moreover have "obligation_repay (Decimal 100000000000000000000) 0 ob1 = Inr sample_settled"
    by (simp add: ob1_def sample_settled_def sample_ledger_def sample_obligation_def sample_loan_def
        remove_at_def run del: attempt_Inr_iff)
  ultimately show ?thesis
    using withdraw_repay_refine_map [OF sample_ledger_wf]
    by (simp add: sample_coll_def sample_loan_def)
qed

section \<open>Limits\<close>

text \<open>
  C19: Withdrawing collateral worth up to \<open>max_withdraw_value\<close> keeps the obligation within its
  borrowing limit: the borrowed value plus the borrowing power of what is withdrawn stays at or
  below the allowed value. The limit is zero once the allowed value is used up, and everything
  when the collateral gives no borrowing power.
\<close>

theorem max_withdraw_value_safe:
  assumes "max_withdraw_value ob ltv = Inr m"
  shows "(allowed_borrow_value ob \<le> borrowed_value ob \<longrightarrow> m = decimal_zero) \<and>
    (borrowed_value ob < allowed_borrow_value ob \<longrightarrow> ltv = rate_zero \<longrightarrow> m = deposited_value ob) \<and>
    (borrowed_value ob \<le> allowed_borrow_value ob \<longrightarrow> ltv \<noteq> rate_zero \<longrightarrow>
      dec (borrowed_value ob) * wad + dec m * rat ltv \<le> dec (allowed_borrow_value ob) * wad)"
proof (intro conjI impI)
  show "allowed_borrow_value ob \<le> borrowed_value ob \<Longrightarrow> m = decimal_zero"
    using assms by (simp add: max_withdraw_value_def)
  show "borrowed_value ob < allowed_borrow_value ob \<Longrightarrow> ltv = rate_zero \<Longrightarrow> m = deposited_value ob"
    using assms by (simp add: max_withdraw_value_def)
  show "borrowed_value ob \<le> allowed_borrow_value ob \<Longrightarrow> ltv \<noteq> rate_zero \<Longrightarrow>
      dec (borrowed_value ob) * wad + dec m * rat ltv \<le> dec (allowed_borrow_value ob) * wad"
    using max_withdraw_value_healthy [OF assms] by (simp add: rat_eq_iff)
qed

theorem max_withdraw_value_safe_witness:
  "\<exists>m. max_withdraw_value (sample_obligation\<lparr> borrowed_value := Decimal 100000000000000000000 \<rparr>)
      (rate_from_percent 50) = Inr m \<and> dec m = 100000000000000000000 \<and>
    100000000000000000000 * wad + dec m * (wad div 2) \<le> 150000000000000000000 * wad"
proof -
  have m: "max_withdraw_value (sample_obligation\<lparr> borrowed_value := Decimal 100000000000000000000 \<rparr>)
      (rate_from_percent 50) = Inr (Decimal 100000000000000000000)"
    by (simp add: sample_obligation_def run del: attempt_Inr_iff)
  have "rate_from_percent 50 \<noteq> rate_zero" by (simp add: rat_eq_iff wad_def)
  with m max_withdraw_value_safe [OF m] show ?thesis
    by (simp add: sample_obligation_def wad_def)
qed

text \<open>
  Interest on a loan never lowers the debt and moves its index to the reserve's; an index that
  went down is the only case refused as a negative interest rate.
\<close>

theorem loan_interest_monotone:
  "(loan_accrue_interest x l = Inl (lending NegativeInterestRate) \<longleftrightarrow>
      x < loan_cumulative_borrow_rate_wads l) \<and>
   (\<forall>l'. loan_accrue_interest x l = Inr l' \<longrightarrow>
      loan_borrowed_amount_wads l \<le> loan_borrowed_amount_wads l' \<and>
      loan_cumulative_borrow_rate_wads l' = x \<and>
      borrow_reserve l' = borrow_reserve l \<and> loan_market_value l' = loan_market_value l)"
  using loan_accrue_interest_grows loan_accrue_interest_negative by auto

theorem loan_interest_monotone_witness:
  "\<exists>l'. loan_accrue_interest (Decimal 1100000000000000000) sample_loan = Inr l' \<and>
     loan_borrowed_amount_wads sample_loan \<le> loan_borrowed_amount_wads l'"
proof -
  have "\<exists>l'. loan_accrue_interest (Decimal 1100000000000000000) sample_loan = Inr l'"
    by (simp add: sample_loan_def run del: attempt_Inr_iff)
  then show ?thesis using loan_interest_monotone by metis
qed

section \<open>Account data\<close>

text \<open>
  C20: An obligation that fits its account is read back as it was written, into any buffer of at
  least 916 bytes; the bytes after the first 916 keep their value.
\<close>

theorem obligation_roundtrip:
  assumes "obligation_fits ob" and "OBLIGATION_LEN \<le> length dst"
  shows "\<exists>bs. obligation_pack_into_slice ob dst = Inr bs \<and> obligation_unpack_from_slice bs = Inr ob \<and>
    length bs = length dst \<and> drop OBLIGATION_LEN bs = drop OBLIGATION_LEN dst"
  unfolding obligation_pack_into_slice_def obligation_unpack_from_slice_def
  using obligation_pack.pack_total [OF assms] obligation_pack.unpack_pack [OF assms(1)]
    obligation_pack.pack_length obligation_pack.pack_frame by blast

lemma sample_obligation_fits: "obligation_fits sample_obligation"
  by (simp add: obligation_fits_def sample_obligation_def sample_coll_def sample_loan_def PROGRAM_VERSION_def)

theorem obligation_roundtrip_witness:
  "\<exists>bs. obligation_pack_into_slice sample_obligation (replicate 1000 7) = Inr bs \<and>
     obligation_unpack_from_slice bs = Inr sample_obligation"
  using obligation_roundtrip [OF sample_obligation_fits, of "replicate 1000 7"]
  by (auto simp: OBLIGATION_LEN_def)

text \<open>
  Writing an obligation never overruns its account: unique entries, at most ten in all and at
  least one deposit, always have room, so that the only panic left is a decimal beyond 128 bits.
\<close>

theorem obligation_pack_has_room:
  assumes "obligation_wf ob" and "deposits ob \<noteq> []" and "ob_version ob = PROGRAM_VERSION"
    and "\<forall>c \<in> set (deposits ob). dec (coll_market_value c) < 2 ^ 128"
    and "\<forall>l \<in> set (borrows ob). dec (loan_cumulative_borrow_rate_wads l) < 2 ^ 128 \<and>
       dec (loan_borrowed_amount_wads l) < 2 ^ 128 \<and> dec (loan_market_value l) < 2 ^ 128"
    and "dec (deposited_value ob) < 2 ^ 128" "dec (borrowed_value ob) < 2 ^ 128"
      "dec (allowed_borrow_value ob) < 2 ^ 128" "dec (unhealthy_borrow_value ob) < 2 ^ 128"
  shows "\<exists>bs. obligation_pack_into_slice ob (replicate OBLIGATION_LEN 0) = Inr bs"
proof -
  have "obligation_fits ob"
    using assms obligation_wf_room [OF assms(1)] by (simp add: obligation_fits_def)
  then show ?thesis
    unfolding obligation_pack_into_slice_def by (rule obligation_pack.pack_total) simp
qed

theorem obligation_pack_has_room_witness:
  "\<exists>bs. obligation_pack_into_slice sample_ledger (replicate OBLIGATION_LEN 0) = Inr bs"
  by (rule obligation_pack_has_room [OF sample_ledger_wf])
    (simp_all add: sample_ledger_def sample_obligation_def sample_coll_def sample_loan_def PROGRAM_VERSION_def)

text \<open>
  C21: A reserve that fits its account is read back as it was written, whatever the buffer held;
  the padding and the bytes after the first 575 keep their value.
\<close>

theorem reserve_roundtrip:
  assumes "reserve_fits r" and "RESERVE_LEN \<le> length dst"
  shows "\<exists>bs. reserve_pack_into_slice r dst = Inr bs \<and> reserve_unpack_from_slice bs = Inr r \<and>
    length bs = length dst \<and> drop RESERVE_LEN bs = drop RESERVE_LEN dst"
  unfolding reserve_pack_into_slice_def reserve_unpack_from_slice_def
  using reserve_pack.pack_total [OF assms] reserve_pack.unpack_pack [OF assms(1)]
    reserve_pack.pack_length reserve_pack.pack_frame by blast

theorem reserve_roundtrip_witness:
  "\<exists>bs. reserve_pack_into_slice sample_reserve (replicate 600 7) = Inr bs \<and>
     reserve_unpack_from_slice bs = Inr sample_reserve"
proof -
  have "reserve_fits sample_reserve"
    by (simp add: reserve_fits_def sample_reserve_def PROGRAM_VERSION_def)
  from reserve_roundtrip [OF this, of "replicate 600 7"] show ?thesis by (auto simp: RESERVE_LEN_def)
qed

text \<open>
  A lending market is read back as it was written, and a newly initialised one is always
  readable and initialised.
\<close>

theorem market_roundtrip:
  assumes "lending_market_fits m" and "LENDING_MARKET_LEN \<le> length dst"
  shows "\<exists>bs. lending_market_pack_into_slice m dst = Inr bs \<and> lending_market_unpack_from_slice bs = Inr m \<and>
    length bs = length dst \<and> drop LENDING_MARKET_LEN bs = drop LENDING_MARKET_LEN dst"
  unfolding lending_market_pack_into_slice_def lending_market_unpack_from_slice_def
  using market_pack.pack_total [OF assms] market_pack.unpack_pack [OF assms(1)]
    market_pack.pack_length market_pack.pack_frame by blast

definition sample_market_params :: init_lending_market_params where
  "sample_market_params = \<lparr> param_bump_seed = 254, param_owner = 8, param_quote_currency = 5,
     param_token_program_id = 200 \<rparr>"

theorem market_roundtrip_witness:
  "\<exists>bs. lending_market_pack_into_slice (lending_market_new sample_market_params) (replicate 258 0) = Inr bs \<and>
     lending_market_unpack_from_slice bs = Inr (lending_market_new sample_market_params)"
  using market_roundtrip [OF lending_market_new_fits, of "replicate 258 0" sample_market_params]
  by (auto simp: LENDING_MARKET_LEN_def)

end
