(* ===== verification/Sample_World.thy ===== *)
theory Sample_World
  imports Processor State_Correct
begin

text \<open>
  A concrete runtime and a concrete world in which the handlers run, so that the theorems about
  them can be applied. The token program (address 200) keeps a balance of 8 bytes per account and
  moves, mints and burns; program 300 is a flash loan receiver that pays back what is asked of it;
  other programs do nothing. The lending program is program 100.
\<close>

section \<open>Runtime\<close>

definition balance :: "world \<Rightarrow> pubkey \<Rightarrow> u64" where
  "balance w k = u64_from (acc_data (w k))"

definition set_balance :: "pubkey \<Rightarrow> u64 \<Rightarrow> world \<Rightarrow> world" where
  "set_balance k n w = w(k := (w k)\<lparr> acc_data := u64_to n \<rparr>)"

definition sample_move :: "pubkey \<Rightarrow> pubkey \<Rightarrow> u64 \<Rightarrow> world \<Rightarrow> program_error + world" where
  "sample_move a b n w =
     (if acc_owner (w a) = 200 \<and> acc_owner (w b) = 200 \<and> n \<le> balance w a then
        (let w = set_balance a (balance w a - n) w in Inr (set_balance b (balance w b + n) w))
      else Inl InvalidAccountData)"

definition sample_mint :: "pubkey \<Rightarrow> u64 \<Rightarrow> world \<Rightarrow> program_error + world" where
  "sample_mint b n w =
     (if acc_owner (w b) = 200 then Inr (set_balance b (balance w b + n) w) else Inl InvalidAccountData)"

definition sample_burn :: "pubkey \<Rightarrow> u64 \<Rightarrow> world \<Rightarrow> program_error + world" where
  "sample_burn a n w =
     (if acc_owner (w a) = 200 \<and> n \<le> balance w a then Inr (set_balance a (balance w a - n) w)
      else Inl InvalidAccountData)"

definition sample_invoke ::
    "byte list list list \<Rightarrow> instruction \<Rightarrow> account_info list \<Rightarrow> world \<Rightarrow> program_error + world" where
  "sample_invoke seeds ix infos w =
     (let keys = map meta_pubkey (ix_accounts ix); n = u64_from (tl (ix_data ix)) in
      if ix_program_id ix = 200 then
        (if hd (ix_data ix) = 3 then sample_move (keys ! 0) (keys ! 1) n w
         else if hd (ix_data ix) = 7 then sample_mint (keys ! 1) n w
         else if hd (ix_data ix) = 8 then sample_burn (keys ! 0) n w
         else Inr w)
      else if ix_program_id ix = 300 then sample_move (keys ! 0) (keys ! 1) n w
      else Inr w)"

definition sample_ix :: "byte \<Rightarrow> pubkey \<Rightarrow> pubkey list \<Rightarrow> u64 \<Rightarrow> program_error + instruction" where
  "sample_ix tag p keys n = Inr \<lparr> ix_program_id = p,
     ix_accounts = map (\<lambda>k. \<lparr> meta_pubkey = k, meta_is_signer = False, meta_is_writable = True \<rparr>) keys,
     ix_data = tag # u64_to n \<rparr>"

definition sample_rt :: solana where
  "sample_rt = \<lparr>
     keys_missing = Other_Error 0,
     length_check = (\<lambda>l n. if l = n then None else Some InvalidAccountData),
     init_check = (\<lambda>b. if b then None else Some (Other_Error 1)),
     clock_slot = (\<lambda>k a. if k = 1 then Inr 10 else Inl (Other_Error 2)),
     rent_exempt = (\<lambda>k a. if k = 2 then Inr (\<lambda>lamports len. len \<le> unat lamports) else Inl (Other_Error 2)),
     create_program_address = (\<lambda>seeds p. Inr 11),
     find_program_address = (\<lambda>seeds p. (11, 255)),
     pubkey_to_string = (\<lambda>k. if k = 400 then PYTH else ''other''),
     clock_id = 1,
     clock_values = sample_clock,
     unpack_token_account =
       (\<lambda>bs. if length bs = 8 then Inr \<lparr> token_amount = u64_from bs, token_account_mint = 300 \<rparr> else Inl InvalidAccountData),
     unpack_token_mint = (\<lambda>bs. Inr \<lparr> token_decimals = 6 \<rparr>),
     token_initialize_account = (\<lambda>p a b c. sample_ix 1 p [a, b, c] 0),
     token_initialize_mint = (\<lambda>p a b c n. sample_ix 0 p [a, b] 0),
     token_transfer = (\<lambda>p a b c s n. sample_ix 3 p [a, b, c] n),
     token_mint_to = (\<lambda>p a b c s n. sample_ix 7 p [a, b, c] n),
     token_burn = (\<lambda>p a b c s n. sample_ix 8 p [a, b, c] n),
     invoke_program = sample_invoke \<rparr>"

lemma sample_move_same: "sample_move a b n w = Inr w' \<Longrightarrow> same_for 100 w w'"
  by (auto simp: sample_move_def set_balance_def same_for_def Let_def split: if_splits)

lemma sample_mint_same: "sample_mint b n w = Inr w' \<Longrightarrow> same_for 100 w w'"
  by (auto simp: sample_mint_def set_balance_def same_for_def split: if_splits)

lemma sample_burn_same: "sample_burn a n w = Inr w' \<Longrightarrow> same_for 100 w w'"
  by (auto simp: sample_burn_def set_balance_def same_for_def split: if_splits)

lemma sample_invoke_same: "sample_invoke seeds ix infos w = Inr w' \<Longrightarrow> same_for 100 w w'"
  by (auto simp: sample_invoke_def Let_def split: if_splits
      dest: sample_move_same sample_mint_same sample_burn_same)

lemma sample_rt_ok [simp]: "runtime_ok sample_rt 100"
proof -
  have "isolated sample_rt 100"
    using sample_invoke_same by (auto simp: isolated_def same_for_def sample_rt_def)
  then show ?thesis
    by (auto simp: runtime_ok_def pack_checks_def token_builders_def sample_rt_def sample_ix_def)
qed

lemma sample_pack_checks [simp]: "pack_checks sample_rt"
  using sample_rt_ok runtime_ok_pack by blast

section \<open>World\<close>

definition sample_market :: lending_market where
  "sample_market = \<lparr> market_version = 1, market_bump_seed = 255, market_owner = 8,
     quote_currency = 0, token_program_id = 200 \<rparr>"

text \<open>The second reserve: the collateral of the sample obligation.\<close>

definition sample_reserve6 :: reserve where
  "sample_reserve6 = sample_reserve\<lparr>
     liquidity := (liquidity sample_reserve)\<lparr> liq_supply_pubkey := 24, fee_receiver := 25 \<rparr>,
     collateral := (collateral sample_reserve)\<lparr> coll_mint_pubkey := 33, coll_supply_pubkey := 34 \<rparr> \<rparr>"

definition sample_world :: "obligation \<Rightarrow> world" where
  "sample_world ob = (\<lambda>k.
     if k = 5 then \<lparr> acc_lamports = 5000, acc_owner = 100,
       acc_data = packed_data (reserve_pack_into_slice sample_reserve) RESERVE_LEN \<rparr>
     else if k = 6 then \<lparr> acc_lamports = 5000, acc_owner = 100,
       acc_data = packed_data (reserve_pack_into_slice sample_reserve6) RESERVE_LEN \<rparr>
     else if k = 7 then \<lparr> acc_lamports = 5000, acc_owner = 100,
       acc_data = packed_data (lending_market_pack_into_slice sample_market) LENDING_MARKET_LEN \<rparr>
     else if k = 10 then \<lparr> acc_lamports = 5000, acc_owner = 100,
       acc_data = packed_data (obligation_pack_into_slice ob) OBLIGATION_LEN \<rparr>
     else \<lparr> acc_lamports = 5000, acc_owner = 200, acc_data = u64_to 4000 \<rparr>)"

text \<open>An account of a transaction; the owners of the market (8) and of the obligation (9) sign.\<close>

definition acct :: "pubkey \<Rightarrow> account_info" where
  "acct k = \<lparr> info_key = k, is_signer = (k = 8 \<or> k = 9), is_writable = True \<rparr>"

lemma acct_simps [simp]:
  "info_key (acct k) = k" "is_signer (acct k) \<longleftrightarrow> k = 8 \<or> k = 9"
  by (simp_all add: acct_def)

section \<open>Reading and writing it\<close>

lemma sample_reserve_fits [simp]:
  "reserve_fits sample_reserve" "reserve_fits sample_reserve6"
  by (simp_all add: reserve_fits_def sample_reserve6_def sample_reserve_def PROGRAM_VERSION_def)

lemma sample_versions [simp]:
  "reserve_version sample_reserve = PROGRAM_VERSION" "reserve_version sample_reserve6 = PROGRAM_VERSION"
  "market_version sample_market = PROGRAM_VERSION"
  by (simp_all add: sample_reserve6_def sample_reserve_def sample_market_def PROGRAM_VERSION_def)

lemma sample_owner [simp]:
  "acc_owner (sample_world ob k) = (if k \<in> {5, 6, 7, 10} then 100 else 200)"
  "owner_of (sample_world ob) (acct k) = (if k \<in> {5, 6, 7, 10} then 100 else 200)"
  by (simp_all add: sample_world_def owner_of_def)

lemma sample_fields:
  "token_program_id sample_market = 200" "market_owner sample_market = 8"
  "reserve_lending_market sample_reserve = 7" "reserve_lending_market sample_reserve6 = 7"
  "reserve_last_update sample_reserve = \<lparr> slot = 10, stale = False \<rparr>"
  "reserve_last_update sample_reserve6 = \<lparr> slot = 10, stale = False \<rparr>"
  "liq_supply_pubkey (liquidity sample_reserve) = 22" "liq_supply_pubkey (liquidity sample_reserve6) = 24"
  "fee_receiver (liquidity sample_reserve) = 23" "fee_receiver (liquidity sample_reserve6) = 25"
  "coll_mint_pubkey (collateral sample_reserve) = 31" "coll_mint_pubkey (collateral sample_reserve6) = 33"
  "coll_supply_pubkey (collateral sample_reserve) = 32" "coll_supply_pubkey (collateral sample_reserve6) = 34"
  "config sample_reserve6 = config sample_reserve"
  "deposit_staking_pool (config sample_reserve) = None" "loan_to_value_ratio (config sample_reserve) = 50"
  "ob_lending_market sample_obligation = 7" "ob_owner sample_obligation = 9"
  "ob_last_update sample_obligation = \<lparr> slot = 10, stale = False \<rparr>"
  "deposits sample_obligation = [sample_coll]" "borrows sample_obligation = [sample_loan]"
  "deposited_value sample_obligation \<noteq> decimal_zero" "borrowed_value sample_obligation \<noteq> decimal_zero"
  by (simp_all add: sample_market_def sample_reserve_def sample_reserve6_def sample_obligation_def
      decimal_zero_def)

lemma sample_load:
  "unpack_reserve sample_rt (sample_world ob) (acct 5) = Inr sample_reserve"
  "unpack_reserve sample_rt (sample_world ob) (acct 6) = Inr sample_reserve6"
  "unpack_market sample_rt (sample_world ob) (acct 7) = Inr sample_market"
  "length (data_of (sample_world ob) (acct 5)) = RESERVE_LEN"
  "length (data_of (sample_world ob) (acct 6)) = RESERVE_LEN"
  "length (data_of (sample_world ob) (acct 7)) = LENDING_MARKET_LEN"
  using reserve_load_packed [of sample_rt sample_reserve "sample_world ob" "acct 5"]
    reserve_load_packed [of sample_rt sample_reserve6 "sample_world ob" "acct 6"]
    market_load_packed [of sample_rt sample_market "sample_world ob" "acct 7"]
  by (simp_all add: data_of_def sample_world_def)

lemma sample_load_obligation:
  assumes "obligation_fits ob" "ob_version ob = PROGRAM_VERSION"
  shows "unpack_obligation sample_rt (sample_world ob) (acct 10) = Inr ob"
    and "length (data_of (sample_world ob) (acct 10)) = OBLIGATION_LEN"
  using obligation_load_packed [of sample_rt ob "sample_world ob" "acct 10"] assms
  by (simp_all add: data_of_def sample_world_def)

lemma sample_balance [simp]:
  "k \<notin> {5, 6, 7, 10} \<Longrightarrow> balance (sample_world ob) k = 4000"
  by (simp add: balance_def sample_world_def)

text \<open>A transfer in the sample runtime succeeds between token accounts when the balance is enough.\<close>

lemma sample_transfer_total:
  assumes "acc_owner (w (info_key s)) = 200" "acc_owner (w (info_key d)) = 200"
    and "n \<le> balance w (info_key s)"
  shows "\<exists>w'. spl_token_transfer sample_rt s d n a seeds (acct 200) w = Inr w' \<and>
    (\<forall>k. acc_owner (w' k) = acc_owner (w k)) \<and>
    (\<forall>k. k \<noteq> info_key s \<longrightarrow> k \<noteq> info_key d \<longrightarrow> w' k = w k) \<and>
    (info_key s \<noteq> info_key d \<longrightarrow> balance w' (info_key s) = balance w (info_key s) - n)"
  using assms
  by (auto simp: balance_def spl_token_transfer_def sample_rt_def sample_ix_def invoke_optionally_signed_def
      sample_invoke_def sample_move_def set_balance_def Let_def)

lemma refuse_if_holds [simp]: "refuse_if False e = Inr ()"
  by simp

text \<open>Storing in the sample world, seen as an update of one account.\<close>

lemma stored_frame:
  "pack_reserve rt r i w = Inr w' \<Longrightarrow> k \<noteq> info_key i \<Longrightarrow> w' k = w k"
  "pack_obligation rt ob i w = Inr w' \<Longrightarrow> k \<noteq> info_key i \<Longrightarrow> w' k = w k"
  "pack_market rt m i w = Inr w' \<Longrightarrow> k \<noteq> info_key i \<Longrightarrow> w' k = w k"
  by (simp_all add: pack_state_defs pack_into_frame)

lemma sample_store_reserve:
  assumes "reserve_fits r" "length (data_of w i) = RESERVE_LEN"
  obtains w' where "pack_reserve sample_rt r i w = Inr w'" "\<And>k. k \<noteq> info_key i \<Longrightarrow> w' k = w k"
    "\<And>k. acc_owner (w' k) = acc_owner (w k)" "\<And>j. length (data_of w' j) = length (data_of w j)"
proof -
  obtain w' where w': "pack_reserve sample_rt r i w = Inr w'"
    using reserve_store_total [OF sample_pack_checks assms] by blast
  then show thesis
    using that [OF w' stored_frame(1) [OF w']] pack_owner(1) [OF w', of "acct _"]
      pack_length_kept(1) [OF sample_pack_checks w']
    by (simp add: owner_of_def)
qed

lemma sample_store_obligation:
  assumes "obligation_fits ob" "length (data_of w i) = OBLIGATION_LEN"
  obtains w' where "pack_obligation sample_rt ob i w = Inr w'" "\<And>k. k \<noteq> info_key i \<Longrightarrow> w' k = w k"
    "\<And>k. acc_owner (w' k) = acc_owner (w k)" "\<And>j. length (data_of w' j) = length (data_of w j)"
proof -
  obtain w' where w': "pack_obligation sample_rt ob i w = Inr w'"
    using obligation_store_total [OF sample_pack_checks assms] by blast
  then show thesis
    using that [OF w' stored_frame(2) [OF w']] pack_owner(2) [OF w', of "acct _"]
      pack_length_kept(2) [OF sample_pack_checks w']
    by (simp add: owner_of_def)
qed

lemma sample_transfer:
  assumes "acc_owner (w (info_key s)) = 200" "acc_owner (w (info_key d)) = 200"
    and "n \<le> balance w (info_key s)"
  obtains w' where "spl_token_transfer sample_rt s d n a seeds (acct 200) w = Inr w'"
    "\<And>k. acc_owner (w' k) = acc_owner (w k)"
    "\<And>k. k \<noteq> info_key s \<Longrightarrow> k \<noteq> info_key d \<Longrightarrow> w' k = w k"
    "info_key s \<noteq> info_key d \<Longrightarrow> balance w' (info_key s) = balance w (info_key s) - n"
  using sample_transfer_total [OF assms] by blast

lemma sample_authority [simp]: "check_market_authority sample_rt p mi m (acct 11) = Inr ()"
  by (simp add: check_market_authority_ok sample_rt_def)

lemma sample_clock [simp]: "clock_from sample_rt w (acct 1) = Inr 10"
  by (simp add: clock_from_def sample_rt_def)

end
