(* ===== verification/Staking_Pool.thy ===== *)
theory Staking_Pool
  imports Staking_Math Staking_State
begin

text \<open>
  The staking pool (staking/program/src/state/staking_pool.rs): the reward accrued per staked token
  as a cumulative rate, the rate per slot, and the operations that move them. Two rewards run in
  parallel, the second one optional. Times are slots; an operation that assigns a field with \<open>+=\<close>
  or \<open>-=\<close> wraps, as a release build does.
\<close>

section \<open>Data\<close>

record rate_per_slot =
  slot_reward :: decimal
  slot_sub_reward :: "decimal option"

record staking_pool =
  pool_version :: u8
  owner_authority :: pubkey
  admin_authority :: pubkey
  reward_token_pool :: pubkey
  pool_last_update :: u64
  end_time :: u64
  pool_duration :: u64
  earliest_claim_time :: u64
  pool_rate :: rate_per_slot
  pool_cumulative_rate :: cumulative_rate
  pool_size :: u64
  bump_seed :: u8
  sub_reward_token_pool :: "pubkey option"
  pool_reserve_fields3 :: "byte list"
  pool_reserve_fields4 :: "byte list"

section \<open>Rates\<close>

definition rate_init :: "u64 \<Rightarrow> u64 option \<Rightarrow> u64 \<Rightarrow> rate_per_slot result" where
  "rate_init supply sub_supply duration =
     attempt (st_try_div_u64 (decimal_from_u64 supply) duration) (\<lambda>r.
     attempt (option_try (\<lambda>x. st_try_div_u64 (decimal_from_u64 x) duration) sub_supply) (\<lambda>s.
     Inr \<lparr> slot_reward = r, slot_sub_reward = s \<rparr>))"

definition rate_try_floor_u64 :: "rate_per_slot \<Rightarrow> (u64 \<times> u64 option) result" where
  "rate_try_floor_u64 rate =
     attempt (st_try_floor_u64 (slot_reward rate)) (\<lambda>r.
     attempt (option_try st_try_floor_u64 (slot_sub_reward rate)) (\<lambda>s.
     Inr (r, s)))"

definition rate_clear :: "rate_per_slot \<Rightarrow> rate_per_slot" where
  "rate_clear rate = rate\<lparr> slot_reward := decimal_zero,
     slot_sub_reward := map_option (\<lambda>_. decimal_zero) (slot_sub_reward rate) \<rparr>"

definition rate_div :: "rate_per_slot \<Rightarrow> u64 \<Rightarrow> rate_per_slot result" where
  "rate_div rate rhs =
     attempt (st_try_div_u64 (slot_reward rate) rhs) (\<lambda>r.
     attempt (option_try (\<lambda>lhs. st_try_div lhs (decimal_from_u64 rhs)) (slot_sub_reward rate)) (\<lambda>s.
     Inr \<lparr> slot_reward = r, slot_sub_reward = s \<rparr>))"

definition rate_mul :: "rate_per_slot \<Rightarrow> u64 \<Rightarrow> rate_per_slot result" where
  "rate_mul rate rhs =
     attempt (st_try_mul_u64 (slot_reward rate) rhs) (\<lambda>r.
     attempt (option_try (\<lambda>lhs. st_try_mul lhs (decimal_from_u64 rhs)) (slot_sub_reward rate)) (\<lambda>s.
     Inr \<lparr> slot_reward = r, slot_sub_reward = s \<rparr>))"

definition accumulate_rate :: "rate_per_slot \<Rightarrow> u64 \<Rightarrow> u64 \<Rightarrow> cumulative_rate \<Rightarrow> cumulative_rate result" where
  "accumulate_rate rate time_elapsed tokens c =
     attempt (rate_mul rate time_elapsed) (\<lambda>total_reward.
     attempt (rate_div total_reward tokens) (\<lambda>reward_per_lamport.
     attempt (st_try_add (rate_reward c) (slot_reward reward_per_lamport)) (\<lambda>r.
     attempt (option_try2 st_try_add (rate_sub_reward c) (slot_sub_reward reward_per_lamport)) (\<lambda>s.
     Inr \<lparr> rate_reward = r, rate_sub_reward = s \<rparr>))))"

section \<open>Operations of the pool\<close>

definition pool_init ::
    "pubkey \<Rightarrow> pubkey \<Rightarrow> pubkey \<Rightarrow> pubkey option \<Rightarrow> u64 \<Rightarrow> u64 \<Rightarrow> u64 option \<Rightarrow> u64 \<Rightarrow> u8 \<Rightarrow>
      staking_pool \<Rightarrow> staking_pool result" where
  "pool_init owner admin reward_pool sub_reward_pool duration supply sub_supply claim_time bump p =
     (if supply = 0 then Inl (staking S_InvalidSupplyError)
      else if duration = 0 then Inl (staking S_InvalidDurationError)
      else
        attempt (rate_init supply sub_supply duration) (\<lambda>rate.
        Inr (p\<lparr> pool_version := PROGRAM_VERSION, owner_authority := owner, admin_authority := admin,
          reward_token_pool := reward_pool, pool_duration := duration, pool_rate := rate,
          earliest_claim_time := claim_time, bump_seed := bump,
          sub_reward_token_pool := sub_reward_pool,
          pool_cumulative_rate := (pool_cumulative_rate p)\<lparr>
            rate_sub_reward := map_option (\<lambda>_. decimal_zero) sub_supply \<rparr> \<rparr>)))"

text \<open>\<open>claim_reward_helper\<close> moves the mark and returns the new rate, which the callers store.\<close>

definition claim_reward_helper :: "u64 \<Rightarrow> staking_pool \<Rightarrow> (cumulative_rate \<times> staking_pool) result" where
  "claim_reward_helper current_time p =
     (let mark_time = min current_time (end_time p) in
      attempt (ok_or (checked_sub mark_time (pool_last_update p)) (staking S_InvalidCurrentTimeError))
        (\<lambda>time_elapsed.
      attempt (accumulate_rate (pool_rate p) time_elapsed (pool_size p) (pool_cumulative_rate p)) (\<lambda>c.
      Inr (c, p\<lparr> pool_last_update := mark_time \<rparr>))))"

definition pool_claim_reward :: "u64 \<Rightarrow> staking_pool \<Rightarrow> (cumulative_rate \<times> staking_pool) result" where
  "pool_claim_reward current_time p =
     attempt (claim_reward_helper current_time p) (\<lambda>(c, p).
     Inr (c, p\<lparr> pool_cumulative_rate := c \<rparr>))"

definition update_reward_supply :: "i64 \<Rightarrow> i64 option \<Rightarrow> u64 \<Rightarrow> staking_pool \<Rightarrow> staking_pool result" where
  "update_reward_supply amount sub_amount current_time p =
     attempt (ok_or (checked_sub (end_time p) current_time) (staking S_InvalidArgumentError))
       (\<lambda>time_to_end.
     attempt (claim_reward_helper current_time p) (\<lambda>(c, p).
     attempt (st_try_div_u64 (decimal_from_u64 (i64_abs amount)) time_to_end) (\<lambda>reward_rate_change.
     attempt (option_try (\<lambda>x. st_try_div_u64 (decimal_from_u64 (i64_abs x)) time_to_end) sub_amount)
       (\<lambda>sub_reward_rate_change.
     attempt (if 0 < signed_val amount then st_try_add (slot_reward (pool_rate p)) reward_rate_change
       else map_err (st_try_sub (slot_reward (pool_rate p)) reward_rate_change)
         (staking S_ReduceRewardTooMuch)) (\<lambda>r.
     let change = (case sub_reward_rate_change of Some x \<Rightarrow> x | None \<Rightarrow> decimal_zero) in
     attempt (case sub_amount of
         None \<Rightarrow> Inr (slot_sub_reward (pool_rate p))
       | Some x \<Rightarrow>
           if 0 < signed_val x
           then option_try (\<lambda>reward_rate. st_try_add reward_rate change) (slot_sub_reward (pool_rate p))
           else map_err (option_try (\<lambda>reward_rate. st_try_sub reward_rate change)
             (slot_sub_reward (pool_rate p))) (staking S_ReduceRewardTooMuch)) (\<lambda>s.
     Inr (p\<lparr> pool_cumulative_rate := c,
       pool_rate := \<lparr> slot_reward = r, slot_sub_reward = s \<rparr> \<rparr>)))))))"

definition add_sub_reward :: "u64 \<Rightarrow> u64 \<Rightarrow> pubkey \<Rightarrow> staking_pool \<Rightarrow> staking_pool result" where
  "add_sub_reward amount current_time token_pool p =
     (if sub_reward_token_pool p \<noteq> None then Inl (staking S_AlreadyHasSubReward)
      else
        attempt (claim_reward_helper current_time p) (\<lambda>(c, p).
        attempt (ok_or (checked_sub (end_time p) current_time) (staking S_InvalidArgumentError))
          (\<lambda>time_to_end.
        attempt (st_try_div_u64 (decimal_from_u64 amount) time_to_end) (\<lambda>r.
        Inr (p\<lparr> sub_reward_token_pool := Some token_pool,
          pool_cumulative_rate := c\<lparr> rate_sub_reward := Some decimal_zero \<rparr>,
          pool_rate := (pool_rate p)\<lparr> slot_sub_reward := Some r \<rparr> \<rparr>)))))"

text \<open>The pool's end and duration, moved by a signed number of slots.\<close>

definition move_end :: "i64 \<Rightarrow> staking_pool \<Rightarrow> staking_pool" where
  "move_end extend_amount p =
     (if 0 < signed_val extend_amount
      then p\<lparr> end_time := end_time p + extend_amount, pool_duration := pool_duration p + extend_amount \<rparr>
      else p\<lparr> end_time := end_time p - i64_abs extend_amount,
        pool_duration := pool_duration p - i64_abs extend_amount \<rparr>)"

text \<open>Before the first deposit: the same supply is spread over the new duration.\<close>

definition extend_unstarted :: "i64 \<Rightarrow> staking_pool \<Rightarrow> staking_pool result" where
  "extend_unstarted extend_amount p =
     attempt (ok_or (i64_to_u64 extend_amount) st_overflow) (\<lambda>u.
     attempt (ok_or (checked_add (pool_duration p) u) st_overflow) (\<lambda>duration.
     attempt (rate_mul (pool_rate p) (pool_duration p)) (\<lambda>supply.
     attempt (rate_div supply duration) (\<lambda>rate.
     Inr (p\<lparr> pool_duration := duration, pool_rate := rate \<rparr>)))))"

text \<open>While it runs: what is left of the supply is spread over what is left of the time.\<close>

definition extend_running :: "i64 \<Rightarrow> u64 \<Rightarrow> u64 \<Rightarrow> staking_pool \<Rightarrow> staking_pool result" where
  "extend_running extend_amount time_to_end current_time p =
     (if signed_val extend_amount < 0 \<and> time_to_end \<le> i64_abs extend_amount
      then Inl (staking S_InvalidArgumentError)
      else
        attempt (rate_mul (pool_rate p) time_to_end) (\<lambda>d.
        attempt (rate_try_floor_u64 d) (\<lambda>us.
        attempt (ok_or (u64_to_i64 (fst us)) st_overflow) (\<lambda>reward_i.
        attempt (option_try (\<lambda>x. ok_or (u64_to_i64 x) st_overflow) (snd us)) (\<lambda>sub_reward_i.
        let p = move_end extend_amount p in
        update_reward_supply reward_i sub_reward_i current_time
          (p\<lparr> pool_rate := rate_clear (pool_rate p) \<rparr>))))))"

definition extend_duration :: "i64 \<Rightarrow> u64 \<Rightarrow> staking_pool \<Rightarrow> staking_pool result" where
  "extend_duration extend_amount current_time p =
     (if end_time p = 0 then extend_unstarted extend_amount p
      else
        attempt (claim_reward_helper current_time p) (\<lambda>(c, p).
        let p = p\<lparr> pool_cumulative_rate := c \<rparr> in
        case checked_sub (end_time p) current_time of
          Some time_to_end \<Rightarrow> extend_running extend_amount time_to_end current_time p
        | None \<Rightarrow>
            if 0 < signed_val extend_amount then
              let p = move_end extend_amount p in
              Inr (p\<lparr> pool_rate := rate_clear (pool_rate p) \<rparr>)
            else Inl (staking S_InvalidArgumentError)))"

definition pool_deposit :: "u64 \<Rightarrow> u64 \<Rightarrow> staking_pool \<Rightarrow> (cumulative_rate \<times> staking_pool) result" where
  "pool_deposit current_time amount p =
     (if amount = 0 then Inl (staking S_StakeDepositsZero)
      else
        attempt
          (if pool_size p = 0 then
             attempt (ok_or (checked_add current_time (pool_duration p)) st_overflow) (\<lambda>e.
             Inr (p\<lparr> end_time := e, pool_last_update := current_time \<rparr>))
           else
             attempt (claim_reward_helper current_time p) (\<lambda>(c, p).
             Inr (p\<lparr> pool_cumulative_rate := c \<rparr>))) (\<lambda>p.
        attempt (ok_or (checked_add (pool_size p) amount) st_overflow) (\<lambda>n.
        Inr (pool_cumulative_rate p, p\<lparr> pool_size := n \<rparr>))))"

definition pool_withdraw :: "u64 \<Rightarrow> u64 \<Rightarrow> staking_pool \<Rightarrow> (cumulative_rate \<times> staking_pool) result" where
  "pool_withdraw current_time amount p =
     (if amount = 0 then Inl (staking S_StakeWithdrawsZero)
      else
        attempt (claim_reward_helper current_time p) (\<lambda>(c, p).
        attempt (ok_or (checked_sub (pool_size p) amount) (staking S_InvalidWithdrawAmountError)) (\<lambda>n.
        Inr (c, p\<lparr> pool_cumulative_rate := c, pool_size := n \<rparr>))))"

definition staking_pool_is_initialized :: "staking_pool \<Rightarrow> bool" where
  "staking_pool_is_initialized p = (pool_version p \<noteq> UNINITIALIZED_VERSION)"

lemmas [run] = rate_init_def rate_try_floor_u64_def rate_clear_def rate_div_def rate_mul_def
  accumulate_rate_def pool_init_def claim_reward_helper_def pool_claim_reward_def
  update_reward_supply_def add_sub_reward_def move_end_def extend_unstarted_def
  extend_running_def extend_duration_def pool_deposit_def pool_withdraw_def
  staking_pool_is_initialized_def

end
