(* ===== verification/Staking_Account.thy ===== *)
theory Staking_Account
  imports Staking_Pool
begin

text \<open>
  The operations of a stake account (staking/program/src/state/stake_account.rs): the reward
  earned since the last change is the growth of the pool's cumulative rate times the stake.
\<close>

section \<open>Rewards\<close>

definition reward_try_sub :: "reward \<Rightarrow> reward \<Rightarrow> reward result" where
  "reward_try_sub a b =
     attempt (st_try_sub (reward_wads a) (reward_wads b)) (\<lambda>r.
     attempt (option_try2 st_try_sub (sub_reward_wads a) (sub_reward_wads b)) (\<lambda>s.
     Inr \<lparr> reward_wads = r, sub_reward_wads = s \<rparr>))"

definition reward_try_add :: "reward \<Rightarrow> reward \<Rightarrow> reward result" where
  "reward_try_add a b =
     attempt (st_try_add (reward_wads a) (reward_wads b)) (\<lambda>r.
     attempt (option_try2 st_try_add (sub_reward_wads a) (sub_reward_wads b)) (\<lambda>s.
     Inr \<lparr> reward_wads = r, sub_reward_wads = s \<rparr>))"

definition accumulate_reward :: "reward \<Rightarrow> reward \<Rightarrow> reward result" where
  "accumulate_reward rwd self =
     attempt (st_try_add (reward_wads self) (reward_wads rwd)) (\<lambda>r.
     let sub = (if sub_reward_wads rwd \<noteq> None \<and> sub_reward_wads self = None
       then Some decimal_zero else sub_reward_wads self) in
     attempt (option_try2 st_try_add sub (sub_reward_wads rwd)) (\<lambda>s.
     Inr \<lparr> reward_wads = r, sub_reward_wads = s \<rparr>))"

definition reward_try_floor_u64 :: "reward \<Rightarrow> (u64 \<times> u64 option) result" where
  "reward_try_floor_u64 rwd =
     attempt (st_try_floor_u64 (reward_wads rwd)) (\<lambda>r.
     attempt (option_try st_try_floor_u64 (sub_reward_wads rwd)) (\<lambda>s.
     Inr (r, s)))"

definition reward_from :: "u64 \<times> u64 option \<Rightarrow> reward" where
  "reward_from rs = \<lparr> reward_wads = decimal_from_u64 (fst rs),
     sub_reward_wads = map_option decimal_from_u64 (snd rs) \<rparr>"

section \<open>Operations of the account\<close>

definition reward_of_rates :: "u64 \<Rightarrow> decimal \<Rightarrow> decimal \<Rightarrow> decimal result" where
  "reward_of_rates deposited current_rate start =
     map_err
       (attempt (st_try_sub current_rate start) (\<lambda>rate_diff. st_try_mul_u64 rate_diff deposited))
       (staking S_InvalidCurrentRateError)"

text \<open>
  A second reward that started after the account's last change is counted from zero; the account's
  start rate is moved with it, as the code does, before it is overwritten.
\<close>

definition calculate_reward :: "cumulative_rate \<Rightarrow> stake_account \<Rightarrow> (reward \<times> stake_account) result" where
  "calculate_reward rate a =
     attempt (reward_of_rates (staked_amount a) (rate_reward rate) (rate_reward (start_rate a))) (\<lambda>r.
     let a = (if rate_sub_reward (start_rate a) = None \<and> rate_sub_reward rate \<noteq> None
       then a\<lparr> start_rate := (start_rate a)\<lparr> rate_sub_reward := Some decimal_zero \<rparr> \<rparr> else a) in
     attempt (option_try2 (reward_of_rates (staked_amount a)) (rate_sub_reward rate)
       (rate_sub_reward (start_rate a))) (\<lambda>s.
     Inr (\<lparr> reward_wads = r, sub_reward_wads = s \<rparr>, a)))"

definition stake_deposit :: "cumulative_rate \<Rightarrow> u64 \<Rightarrow> stake_account \<Rightarrow> stake_account result" where
  "stake_deposit current_rate amount a =
     (if amount = 0 then Inl (staking S_StakeDepositsZero)
      else
        attempt (calculate_reward current_rate a) (\<lambda>(rwd, a).
        attempt (accumulate_reward rwd (unclaimed_reward_wads a)) (\<lambda>unclaimed.
        attempt (ok_or (checked_add (staked_amount a) amount) st_overflow) (\<lambda>n.
        Inr (a\<lparr> unclaimed_reward_wads := unclaimed, staked_amount := n, start_rate := current_rate \<rparr>)))))"

definition stake_withdraw :: "cumulative_rate \<Rightarrow> u64 \<Rightarrow> stake_account \<Rightarrow> stake_account result" where
  "stake_withdraw current_rate amount a =
     (if amount = 0 then Inl (staking S_StakeWithdrawsZero)
      else
        attempt (calculate_reward current_rate a) (\<lambda>(rwd, a).
        attempt (accumulate_reward rwd (unclaimed_reward_wads a)) (\<lambda>unclaimed.
        attempt (ok_or (checked_sub (staked_amount a) amount) (staking S_InvalidWithdrawAmountError))
          (\<lambda>n.
        Inr (a\<lparr> unclaimed_reward_wads := unclaimed, staked_amount := n, start_rate := current_rate \<rparr>)))))"

definition stake_claim_reward ::
    "cumulative_rate \<Rightarrow> stake_account \<Rightarrow> ((u64 \<times> u64 option) \<times> stake_account) result" where
  "stake_claim_reward current_rate a =
     attempt (calculate_reward current_rate a) (\<lambda>(rwd, a).
     attempt (accumulate_reward rwd (unclaimed_reward_wads a)) (\<lambda>unclaimed.
     attempt (reward_try_floor_u64 unclaimed) (\<lambda>reward_lamports.
     attempt (reward_try_sub unclaimed (reward_from reward_lamports)) (\<lambda>rest.
     Inr (reward_lamports, a\<lparr> unclaimed_reward_wads := rest, start_rate := current_rate \<rparr>)))))"

lemmas [run] = reward_try_sub_def reward_try_add_def accumulate_reward_def reward_try_floor_u64_def
  reward_from_def reward_of_rates_def calculate_reward_def stake_deposit_def stake_withdraw_def
  stake_claim_reward_def

end
