(* ===== verification/Staking_Pool_Pack.thy ===== *)
theory Staking_Pool_Pack
  imports Staking_Pool
begin

text \<open>
  The layout of a staking pool: the \<open>Pack\<close> implementation of
  staking/program/src/state/staking_pool.rs and the optional key of staking/program/src/state/mod.rs.
\<close>

section \<open>Layout\<close>

definition pack_option_key :: "pubkey option \<Rightarrow> byte list \<Rightarrow> byte list" where
  "pack_option_key src dst =
     (case src of
        Some key \<Rightarrow> [1] @ bytes32_to key
      | None \<Rightarrow> [0] @ drop 1 dst)"

definition unpack_option_key :: "byte list \<Rightarrow> pubkey option result" where
  "unpack_option_key src =
     (if src ! 0 = 0 then Inr None
      else if src ! 0 = 1 then Inr (Some (bytes32_from (drop 1 src)))
      else Inl (Err InvalidAccountData))"

definition STAKING_POOL_LEN :: nat where
  "STAKING_POOL_LEN = 1 + 32 + 32 + 32 + 8 + 8 + 8 + 8 + 16 + 16 + 8 + 1 + 32 + 1 + 16 + 1 + 16 + 1 + 61"

definition staking_pool_write :: "staking_pool \<Rightarrow> byte list \<Rightarrow> byte list result" where
  "staking_pool_write p output =
     attempt (pack_decimal (slot_reward (pool_rate p))) (\<lambda>rate.
     attempt (pack_option_decimal (slot_sub_reward (pool_rate p)) (take 17 (drop 203 output))) (\<lambda>sub_rate.
     attempt (pack_decimal (rate_reward (pool_cumulative_rate p))) (\<lambda>cumulative.
     attempt (pack_option_decimal (rate_sub_reward (pool_cumulative_rate p))
       (take 17 (drop 220 output))) (\<lambda>sub_cumulative.
     Inr (u8_to (pool_version p) @ bytes32_to (owner_authority p) @ bytes32_to (admin_authority p) @
       bytes32_to (reward_token_pool p) @ u64_to (pool_last_update p) @ u64_to (end_time p) @
       u64_to (pool_duration p) @ u64_to (earliest_claim_time p) @ rate @ cumulative @
       u64_to (pool_size p) @ u8_to (bump_seed p) @
       pack_option_key (sub_reward_token_pool p) (take 33 (drop 170 output)) @
       sub_rate @ sub_cumulative @ drop 237 output)))))"

definition staking_pool_pack_into_slice :: "staking_pool \<Rightarrow> byte list \<Rightarrow> byte list result" where
  "staking_pool_pack_into_slice p = write_array STAKING_POOL_LEN (staking_pool_write p)"

definition staking_pool_read :: "byte list \<Rightarrow> staking_pool result" where
  "staking_pool_read input =
     (case layout [1, 32, 32, 32, 8, 8, 8, 8, 16, 16, 8, 1, 33, 17, 17, 61] input of
        [ver, own, adm, supply, updated, ending, duration, earliest, rate, cumulative, tokens, bump,
         sub_pool, sub_rate, sub_cumulative, padding] \<Rightarrow>
          (if PROGRAM_VERSION < u8_from ver then Inl (Err InvalidAccountData)
           else
             attempt (unpack_option_decimal sub_rate) (\<lambda>sub_rate_per_slot.
             attempt (unpack_option_decimal sub_cumulative) (\<lambda>sub_cumulative_rate.
             attempt (unpack_option_key sub_pool) (\<lambda>sub_reward_pool.
             Inr \<lparr> pool_version = u8_from ver, owner_authority = bytes32_from own,
               admin_authority = bytes32_from adm, reward_token_pool = bytes32_from supply,
               pool_last_update = u64_from updated, end_time = u64_from ending,
               pool_duration = u64_from duration, earliest_claim_time = u64_from earliest,
               pool_rate = \<lparr> slot_reward = unpack_decimal rate, slot_sub_reward = sub_rate_per_slot \<rparr>,
               pool_cumulative_rate =
                 \<lparr> rate_reward = unpack_decimal cumulative, rate_sub_reward = sub_cumulative_rate \<rparr>,
               pool_size = u64_from tokens, bump_seed = u8_from bump,
               sub_reward_token_pool = sub_reward_pool,
               pool_reserve_fields3 = replicate 32 0, pool_reserve_fields4 = replicate 29 0 \<rparr>))))
      | _ \<Rightarrow> Inl Panic)"

definition staking_pool_unpack_from_slice :: "byte list \<Rightarrow> staking_pool result" where
  "staking_pool_unpack_from_slice = read_array STAKING_POOL_LEN staking_pool_read"

section \<open>Lemmas\<close>

text \<open>What the layout can hold: decimals of 16 bytes, and reserved fields that are zero.\<close>

definition staking_pool_fits :: "staking_pool \<Rightarrow> bool" where
  "staking_pool_fits p \<longleftrightarrow> pool_version p \<le> PROGRAM_VERSION \<and>
     dec (slot_reward (pool_rate p)) < 2 ^ 128 \<and> option_fits (slot_sub_reward (pool_rate p)) \<and>
     dec (rate_reward (pool_cumulative_rate p)) < 2 ^ 128 \<and>
     option_fits (rate_sub_reward (pool_cumulative_rate p)) \<and>
     pool_reserve_fields3 p = replicate 32 0 \<and> pool_reserve_fields4 p = replicate 29 0"

lemma length_pack_option_key [simp]: "length dst = 33 \<Longrightarrow> length (pack_option_key k dst) = 33"
  by (simp add: pack_option_key_def split: option.split)

lemma unpack_pack_option_key [simp]: "unpack_option_key (pack_option_key k dst) = Inr k"
  by (simp add: pack_option_key_def unpack_option_key_def split: option.split)

lemma staking_pool_write_cases:
  assumes "staking_pool_write p dst = Inr bs" "length dst = STAKING_POOL_LEN"
  obtains r sr c sc k where
    "pack_decimal (slot_reward (pool_rate p)) = Inr r"
    "pack_option_decimal (slot_sub_reward (pool_rate p)) (take 17 (drop 203 dst)) = Inr sr"
    "pack_decimal (rate_reward (pool_cumulative_rate p)) = Inr c"
    "pack_option_decimal (rate_sub_reward (pool_cumulative_rate p)) (take 17 (drop 220 dst)) = Inr sc"
    "k = pack_option_key (sub_reward_token_pool p) (take 33 (drop 170 dst))"
    "length r = 16" "length c = 16" "length k = 33" "length sr = 17" "length sc = 17"
    "length (drop 237 dst) = 61"
    "bs = u8_to (pool_version p) @ bytes32_to (owner_authority p) @ bytes32_to (admin_authority p) @
       bytes32_to (reward_token_pool p) @ u64_to (pool_last_update p) @ u64_to (end_time p) @
       u64_to (pool_duration p) @ u64_to (earliest_claim_time p) @ r @ c @
       u64_to (pool_size p) @ u8_to (bump_seed p) @ k @ sr @ sc @ drop 237 dst"
proof -
  from assms(2) have "length (take 17 (drop 203 dst)) = 17" "length (take 17 (drop 220 dst)) = 17"
    "length (take 33 (drop 170 dst)) = 33" "length (drop 237 dst) = 61"
    by (simp_all add: STAKING_POOL_LEN_def)
  with assms(1) show thesis
    by (auto simp: staking_pool_write_def intro!: that dest: length_pack_option_decimal)
qed

lemma staking_pool_write_total:
  assumes "staking_pool_fits p" shows "\<exists>bs. staking_pool_write p dst = Inr bs"
proof -
  have opt: "\<exists>bs. pack_option_decimal (slot_sub_reward (pool_rate p)) d = Inr bs"
    "\<exists>bs. pack_option_decimal (rate_sub_reward (pool_cumulative_rate p)) d = Inr bs" for d
    using assms by (simp_all add: staking_pool_fits_def pack_option_decimal_total)
  obtain r c where "pack_decimal (slot_reward (pool_rate p)) = Inr r"
    "pack_decimal (rate_reward (pool_cumulative_rate p)) = Inr c"
    using assms pack_decimal_total unfolding staking_pool_fits_def by metis
  with opt [of "take 17 (drop 203 dst)"] opt [of "take 17 (drop 220 dst)"] show ?thesis
    by (auto simp: staking_pool_write_def)
qed

lemma staking_pool_read_write:
  assumes "staking_pool_fits p" "length dst = STAKING_POOL_LEN" "staking_pool_write p dst = Inr bs"
  shows "staking_pool_read bs = Inr p"
  using assms(3,2)
proof (rule staking_pool_write_cases)
  fix r sr c sc k
  assume *: "pack_decimal (slot_reward (pool_rate p)) = Inr r"
    "pack_option_decimal (slot_sub_reward (pool_rate p)) (take 17 (drop 203 dst)) = Inr sr"
    "pack_decimal (rate_reward (pool_cumulative_rate p)) = Inr c"
    "pack_option_decimal (rate_sub_reward (pool_cumulative_rate p)) (take 17 (drop 220 dst)) = Inr sc"
    "k = pack_option_key (sub_reward_token_pool p) (take 33 (drop 170 dst))"
    "length r = 16" "length c = 16" "length k = 33" "length sr = 17" "length sc = 17"
    "length (drop 237 dst) = 61"
    "bs = u8_to (pool_version p) @ bytes32_to (owner_authority p) @ bytes32_to (admin_authority p) @
       bytes32_to (reward_token_pool p) @ u64_to (pool_last_update p) @ u64_to (end_time p) @
       u64_to (pool_duration p) @ u64_to (earliest_claim_time p) @ r @ c @
       u64_to (pool_size p) @ u8_to (bump_seed p) @ k @ sr @ sc @ drop 237 dst"
  have "layout [1, 32, 32, 32, 8, 8, 8, 8, 16, 16, 8, 1, 33, 17, 17, 61] bs =
      [u8_to (pool_version p), bytes32_to (owner_authority p), bytes32_to (admin_authority p),
       bytes32_to (reward_token_pool p), u64_to (pool_last_update p), u64_to (end_time p),
       u64_to (pool_duration p), u64_to (earliest_claim_time p), r, c,
       u64_to (pool_size p), u8_to (bump_seed p), k, sr, sc, drop 237 dst]"
    by (simp only: *(12) layout_append layout_last bytes_lengths *(6-11))
  moreover have "unpack_decimal r = slot_reward (pool_rate p)"
    "unpack_decimal c = rate_reward (pool_cumulative_rate p)"
    "unpack_option_decimal sr = Inr (slot_sub_reward (pool_rate p))"
    "unpack_option_decimal sc = Inr (rate_sub_reward (pool_cumulative_rate p))"
    "unpack_option_key k = Inr (sub_reward_token_pool p)"
    using *(1-5) by (simp_all only: unpack_pack_decimal unpack_pack_option_decimal unpack_pack_option_key)
  ultimately show ?thesis
    using assms(1) by (simp add: staking_pool_read_def staking_pool_fits_def not_less [symmetric])
qed

interpretation pool_pack: packed STAKING_POOL_LEN staking_pool_fits
  staking_pool_write staking_pool_read
proof unfold_locales
  fix p :: staking_pool and dst bs :: "byte list"
  show "staking_pool_fits p \<Longrightarrow> \<exists>bs. staking_pool_write p dst = Inr bs"
    by (rule staking_pool_write_total)
  show "length dst = STAKING_POOL_LEN \<Longrightarrow> staking_pool_write p dst = Inr bs \<Longrightarrow>
      length bs = STAKING_POOL_LEN"
    by (erule staking_pool_write_cases) (simp_all add: STAKING_POOL_LEN_def)
  show "staking_pool_fits p \<Longrightarrow> length dst = STAKING_POOL_LEN \<Longrightarrow>
      staking_pool_write p dst = Inr bs \<Longrightarrow> staking_pool_read bs = Inr p"
    by (rule staking_pool_read_write)
qed

end
