(* ===== verification/Staking_Handlers.thy ===== *)
theory Staking_Handlers
  imports Staking_Account Staking_Pool_Pack Staking_Instruction
begin

text \<open>
  The handlers of the staking program (staking/program/src/processor.rs) that move no reward tokens, on the same accounts and
  runtime as the lending program's. A handler takes a fixed number of accounts at once; claiming
  takes two more when a second reward is paid.
\<close>

section \<open>Helpers\<close>

definition st_refuse_if :: "bool \<Rightarrow> staking_error \<Rightarrow> unit result" where
  "st_refuse_if bad e = (if bad then Inl (staking e) else Inr ())"

definition next_account_infos ::
    "solana \<Rightarrow> nat \<Rightarrow> account_info list \<Rightarrow> (account_info list \<times> account_info list) result" where
  "next_account_infos rt n as =
     (if length as < n then Inl (Err (keys_missing rt)) else Inr (take n as, drop n as))"

definition unpack_pool :: "solana \<Rightarrow> world \<Rightarrow> account_info \<Rightarrow> staking_pool result" where
  "unpack_pool rt w i = unpack_checked rt STAKING_POOL_LEN staking_pool_is_initialized
     staking_pool_unpack_from_slice (data_of w i)"

definition pack_pool :: "solana \<Rightarrow> staking_pool \<Rightarrow> account_info \<Rightarrow> world \<Rightarrow> world result" where
  "pack_pool rt = pack_into rt STAKING_POOL_LEN staking_pool_pack_into_slice"

definition unpack_stake :: "solana \<Rightarrow> world \<Rightarrow> account_info \<Rightarrow> stake_account result" where
  "unpack_stake rt w i = unpack_checked rt STAKE_ACCOUNT_LEN stake_account_is_initialized
     stake_account_unpack_from_slice (data_of w i)"

definition pack_stake :: "solana \<Rightarrow> stake_account \<Rightarrow> account_info \<Rightarrow> world \<Rightarrow> world result" where
  "pack_stake rt = pack_into rt STAKE_ACCOUNT_LEN stake_account_pack_into_slice"

definition st_assert_rent_exempt :: "(u64 \<Rightarrow> nat \<Rightarrow> bool) \<Rightarrow> world \<Rightarrow> account_info \<Rightarrow> unit result" where
  "st_assert_rent_exempt rent w i =
     st_refuse_if (\<not> rent (acc_lamports (w (info_key i))) (length (data_of w i))) S_NotRentExempt"

definition st_assert_uninitialized ::
    "solana \<Rightarrow> nat \<Rightarrow> ('a \<Rightarrow> bool) \<Rightarrow> (byte list \<Rightarrow> 'a result) \<Rightarrow> world \<Rightarrow> account_info \<Rightarrow> 'a result" where
  "st_assert_uninitialized rt len initialized unpack w i =
     attempt (unpack_unchecked rt len unpack (data_of w i)) (\<lambda>account.
     if initialized account then Inl (staking S_AlreadyInitialized) else Inr account)"

definition st_token_init_account ::
    "solana \<Rightarrow> account_info \<Rightarrow> account_info \<Rightarrow> account_info \<Rightarrow> account_info \<Rightarrow> account_info \<Rightarrow>
      world \<Rightarrow> world result" where
  "st_token_init_account rt acct mint own rent token_program w =
     attempt (lib (token_initialize_account rt (info_key token_program) (info_key acct)
       (info_key mint) (info_key own))) (\<lambda>ix.
     map_err (lib (invoke_program rt [] ix [acct, mint, own, rent, token_program] w))
       (staking S_TokenInitializeAccountFailed))"

definition st_token_transfer ::
    "solana \<Rightarrow> account_info \<Rightarrow> account_info \<Rightarrow> u64 \<Rightarrow> account_info \<Rightarrow> byte list list \<Rightarrow> account_info \<Rightarrow>
      world \<Rightarrow> world result" where
  "st_token_transfer rt source destination amount authority seeds token_program w =
     attempt (lib (token_transfer rt (info_key token_program) (info_key source)
       (info_key destination) (info_key authority) [] amount)) (\<lambda>ix.
     map_err
       (if seeds = [] then
          lib (invoke_program rt [] ix [source, destination, authority, token_program] w)
        else lib (invoke_program rt [seeds] ix [source, destination, authority, token_program] w))
       (staking S_TokenTransferFailed))"

text \<open>The checks the reward handlers repeat: the supply account, the owners of the token accounts,
  and the address that holds the reward pools.\<close>

definition check_supply ::
    "solana \<Rightarrow> account_info \<Rightarrow> account_info \<Rightarrow> (u64 \<Rightarrow> bool) \<Rightarrow> world \<Rightarrow> unit result" where
  "check_supply rt supply_info mint_info short w =
     attempt (map_err (lib (unpack_token_account rt (data_of w supply_info)))
       (staking S_InvalidRewardTokenSupplyAccount)) (\<lambda>supply_account.
     attempt (st_refuse_if (short (token_amount supply_account)) S_InSufficientSupplyError) (\<lambda>_.
     st_refuse_if (token_account_mint supply_account \<noteq> info_key mint_info)
       S_InvalidRewardSupplyAccountError))"

definition check_token_owners ::
    "account_info \<Rightarrow> account_info \<Rightarrow> account_info \<Rightarrow> account_info \<Rightarrow> world \<Rightarrow> unit result" where
  "check_token_owners mint_info supply_info pool_info token_program w =
     attempt (st_refuse_if (owner_of w mint_info \<noteq> info_key token_program) S_InvalidTokenOwner) (\<lambda>_.
     st_refuse_if (owner_of w supply_info \<noteq> info_key token_program \<or>
       owner_of w pool_info \<noteq> info_key token_program) S_InvalidTokenOwner)"

definition pool_seeds :: "account_info \<Rightarrow> u8 \<Rightarrow> byte list list" where
  "pool_seeds staking_pool_info bump = [bytes32_to (info_key staking_pool_info), [bump]]"

definition check_derived ::
    "solana \<Rightarrow> pubkey \<Rightarrow> account_info \<Rightarrow> u8 \<Rightarrow> account_info \<Rightarrow> unit result" where
  "check_derived rt program_id staking_pool_info bump derived_info =
     attempt (lib (create_program_address rt (pool_seeds staking_pool_info bump) program_id))
       (\<lambda>derived. st_refuse_if (derived \<noteq> info_key derived_info) S_InvalidRewardTokenPoolOwner)"

section \<open>Administration\<close>

definition process_change_owner ::
    "solana \<Rightarrow> pubkey \<Rightarrow> pubkey \<Rightarrow> account_info list \<Rightarrow> world \<Rightarrow> world result" where
  "process_change_owner rt program_id new_owner accounts w =
     attempt (next_account_infos rt 2 accounts) (\<lambda>(infos, _).
     case infos of
       [current_owner_info, staking_pool_info] \<Rightarrow>
         attempt (st_refuse_if (\<not> is_signer current_owner_info) S_InvalidArgumentError) (\<lambda>_.
         attempt (unpack_pool rt w staking_pool_info) (\<lambda>p.
         attempt (st_refuse_if (info_key current_owner_info \<noteq> owner_authority p) S_InvalidSigner) (\<lambda>_.
         attempt (st_refuse_if (owner_of w staking_pool_info \<noteq> program_id) S_InvalidAccountOwner) (\<lambda>_.
         pack_pool rt (p\<lparr> owner_authority := new_owner \<rparr>) staking_pool_info w))))
     | _ \<Rightarrow> Inl (staking S_InvalidArgumentError))"

definition process_change_admin ::
    "solana \<Rightarrow> pubkey \<Rightarrow> pubkey \<Rightarrow> account_info list \<Rightarrow> world \<Rightarrow> world result" where
  "process_change_admin rt program_id new_admin accounts w =
     attempt (next_account_infos rt 2 accounts) (\<lambda>(infos, _).
     case infos of
       [current_admin_info, staking_pool_info] \<Rightarrow>
         attempt (st_refuse_if (\<not> is_signer current_admin_info) S_InvalidArgumentError) (\<lambda>_.
         attempt (unpack_pool rt w staking_pool_info) (\<lambda>p.
         attempt (st_refuse_if (info_key current_admin_info \<noteq> admin_authority p) S_InvalidSigner) (\<lambda>_.
         attempt (st_refuse_if (owner_of w staking_pool_info \<noteq> program_id) S_InvalidAccountOwner) (\<lambda>_.
         pack_pool rt (p\<lparr> admin_authority := new_admin \<rparr>) staking_pool_info w))))
     | _ \<Rightarrow> Inl (staking S_InvalidArgumentError))"

definition process_change_duration ::
    "solana \<Rightarrow> pubkey \<Rightarrow> i64 \<Rightarrow> account_info list \<Rightarrow> world \<Rightarrow> world result" where
  "process_change_duration rt program_id amount accounts w =
     attempt (next_account_infos rt 3 accounts) (\<lambda>(infos, _).
     case infos of
       [admin_info, staking_pool_info, clock_info] \<Rightarrow>
         attempt (st_refuse_if (\<not> is_signer admin_info) S_InvalidArgumentError) (\<lambda>_.
         attempt (unpack_pool rt w staking_pool_info) (\<lambda>p.
         attempt (st_refuse_if (info_key admin_info \<noteq> admin_authority p) S_InvalidSigner) (\<lambda>_.
         attempt (st_refuse_if (owner_of w staking_pool_info \<noteq> program_id) S_InvalidAccountOwner) (\<lambda>_.
         attempt (clock_from rt w clock_info) (\<lambda>clock.
         attempt (extend_duration amount clock p) (\<lambda>p.
         pack_pool rt p staking_pool_info w))))))
     | _ \<Rightarrow> Inl (staking S_InvalidArgumentError))"

definition process_update_earliest_reward_claim_time ::
    "solana \<Rightarrow> pubkey \<Rightarrow> u64 \<Rightarrow> account_info list \<Rightarrow> world \<Rightarrow> world result" where
  "process_update_earliest_reward_claim_time rt program_id time accounts w =
     attempt (next_account_infos rt 2 accounts) (\<lambda>(infos, _).
     case infos of
       [admin_info, staking_pool_info] \<Rightarrow>
         attempt (st_refuse_if (\<not> is_signer admin_info) S_InvalidArgumentError) (\<lambda>_.
         attempt (st_refuse_if (owner_of w staking_pool_info \<noteq> program_id) S_InvalidAccountOwner) (\<lambda>_.
         attempt (map_err (unpack_pool rt w staking_pool_info) (staking S_InvalidStakingPool)) (\<lambda>p.
         attempt (st_refuse_if (info_key admin_info \<noteq> admin_authority p) S_InvalidSigner) (\<lambda>_.
         pack_pool rt (p\<lparr> earliest_claim_time := time \<rparr>) staking_pool_info w))))
     | _ \<Rightarrow> Inl (staking S_InvalidArgumentError))"

section \<open>Stake accounts\<close>

definition process_create_stake_account ::
    "solana \<Rightarrow> pubkey \<Rightarrow> account_info list \<Rightarrow> world \<Rightarrow> world result" where
  "process_create_stake_account rt program_id accounts w =
     attempt (next_account_infos rt 4 accounts) (\<lambda>(infos, _).
     case infos of
       [stake_account_info, staking_pool_info, stake_account_owner_info, rent_info] \<Rightarrow>
         attempt (rent_from rt w rent_info) (\<lambda>rent.
         attempt (st_assert_rent_exempt rent w stake_account_info) (\<lambda>_.
         attempt (st_refuse_if (owner_of w stake_account_info \<noteq> program_id) S_InvalidAccountOwner) (\<lambda>_.
         attempt (st_refuse_if (owner_of w staking_pool_info \<noteq> program_id) S_InvalidAccountOwner) (\<lambda>_.
         attempt (st_refuse_if (length (data_of w stake_account_info) = 0) S_InvalidStakeAccount) (\<lambda>_.
         attempt (st_assert_uninitialized rt STAKE_ACCOUNT_LEN stake_account_is_initialized
           stake_account_unpack_from_slice w stake_account_info) (\<lambda>a.
         attempt (stake_account_init (info_key stake_account_owner_info)
           (info_key staking_pool_info) a) (\<lambda>a.
         pack_stake rt a stake_account_info w)))))))
     | _ \<Rightarrow> Inl (staking S_InvalidArgumentError))"

text \<open>
  Depositing and withdrawing are bookkeeping only: they are called by the authority that holds the
  staked tokens. Both read the states the same way.
\<close>

definition load_staked ::
    "solana \<Rightarrow> pubkey \<Rightarrow> account_info \<Rightarrow> account_info \<Rightarrow> account_info \<Rightarrow> world \<Rightarrow>
      (staking_pool \<times> stake_account) result" where
  "load_staked rt program_id authority_info stake_account_info staking_pool_info w =
     attempt (st_refuse_if (\<not> is_signer authority_info) S_InvalidArgumentError) (\<lambda>_.
     attempt (st_refuse_if (owner_of w staking_pool_info \<noteq> program_id) S_InvalidAccountOwner) (\<lambda>_.
     attempt (st_refuse_if (owner_of w stake_account_info \<noteq> program_id) S_InvalidAccountOwner) (\<lambda>_.
     attempt (map_err (unpack_pool rt w staking_pool_info) (staking S_InvalidStakingPool)) (\<lambda>p.
     attempt (st_refuse_if (info_key authority_info \<noteq> owner_authority p \<and>
       info_key authority_info \<noteq> admin_authority p) S_InvalidSigner) (\<lambda>_.
     attempt (map_err (unpack_stake rt w stake_account_info) (staking S_InvalidStakeAccount)) (\<lambda>a.
     attempt (st_refuse_if (info_key staking_pool_info \<noteq> pool_pubkey a) S_InvalidStakingPool) (\<lambda>_.
     Inr (p, a))))))))"

definition process_deposit :: "solana \<Rightarrow> pubkey \<Rightarrow> u64 \<Rightarrow> account_info list \<Rightarrow> world \<Rightarrow> world result" where
  "process_deposit rt program_id amount accounts w =
     attempt (next_account_infos rt 4 accounts) (\<lambda>(infos, _).
     case infos of
       [authority_info, stake_account_info, staking_pool_info, clock_info] \<Rightarrow>
         attempt (load_staked rt program_id authority_info stake_account_info staking_pool_info w)
           (\<lambda>(p, a).
         attempt (clock_from rt w clock_info) (\<lambda>clock.
         attempt (pool_deposit clock amount p) (\<lambda>(current_rate, p).
         attempt (stake_deposit current_rate amount a) (\<lambda>a.
         attempt (pack_stake rt a stake_account_info w) (\<lambda>w.
         pack_pool rt p staking_pool_info w)))))
     | _ \<Rightarrow> Inl (staking S_InvalidArgumentError))"

definition process_withdraw :: "solana \<Rightarrow> pubkey \<Rightarrow> u64 \<Rightarrow> account_info list \<Rightarrow> world \<Rightarrow> world result" where
  "process_withdraw rt program_id amount accounts w =
     attempt (next_account_infos rt 4 accounts) (\<lambda>(infos, _).
     case infos of
       [authority_info, stake_account_info, staking_pool_info, clock_info] \<Rightarrow>
         attempt (load_staked rt program_id authority_info stake_account_info staking_pool_info w)
           (\<lambda>(p, a).
         attempt (clock_from rt w clock_info) (\<lambda>clock.
         attempt (pool_withdraw clock amount p) (\<lambda>(current_rate, p).
         attempt (stake_withdraw current_rate amount a) (\<lambda>a.
         attempt (pack_stake rt a stake_account_info w) (\<lambda>w.
         pack_pool rt p staking_pool_info w)))))
     | _ \<Rightarrow> Inl (staking S_InvalidArgumentError))"

end
