(* ===== verification/Staking_Rewards.thy ===== *)
theory Staking_Rewards
  imports Staking_Handlers
begin

text \<open>
  The handlers of the staking program (staking/program/src/processor.rs) that move reward tokens:
  creating a pool, changing its supply, adding a second reward, and claiming; and the dispatch.
\<close>

section \<open>Creating a pool\<close>

text \<open>One reward of a new pool: its checks, its token account, and the transfer of the supply.\<close>

definition init_reward_tokens ::
    "solana \<Rightarrow> u64 \<Rightarrow> account_info \<Rightarrow> account_info \<Rightarrow> account_info \<Rightarrow> account_info \<Rightarrow> account_info \<Rightarrow>
      account_info \<Rightarrow> account_info \<Rightarrow> world \<Rightarrow> world result" where
  "init_reward_tokens rt supply supply_info reward_pool_info mint_info authority_info derived_info
     rent_info token_program w =
     attempt (st_token_init_account rt reward_pool_info mint_info derived_info rent_info token_program w)
       (\<lambda>w.
     st_token_transfer rt supply_info reward_pool_info supply authority_info [] token_program w)"

definition init_sub_reward ::
    "solana \<Rightarrow> u64 option \<Rightarrow> account_info \<Rightarrow> account_info \<Rightarrow> account_info \<Rightarrow> account_info \<Rightarrow>
      account_info \<Rightarrow> account_info \<Rightarrow> account_info \<Rightarrow> world \<Rightarrow> world result" where
  "init_sub_reward rt sub_supply sub_supply_info sub_pool_info sub_mint_info authority_info
     derived_info rent_info token_program w =
     (case sub_supply of
        None \<Rightarrow> Inr w
      | Some amount \<Rightarrow>
          attempt (st_refuse_if (amount = 0) S_InvalidSupplyError) (\<lambda>_.
          attempt (check_supply rt sub_supply_info sub_mint_info (\<lambda>have. have < amount) w) (\<lambda>_.
          attempt (check_token_owners sub_mint_info sub_supply_info sub_pool_info token_program w) (\<lambda>_.
          init_reward_tokens rt amount sub_supply_info sub_pool_info sub_mint_info authority_info
            derived_info rent_info token_program w))))"

definition process_init_staking_pool ::
    "solana \<Rightarrow> pubkey \<Rightarrow> u64 \<Rightarrow> u64 option \<Rightarrow> u64 \<Rightarrow> u64 \<Rightarrow> u8 \<Rightarrow> pubkey \<Rightarrow> pubkey \<Rightarrow>
      account_info list \<Rightarrow> world \<Rightarrow> world result" where
  "process_init_staking_pool rt program_id supply sub_supply duration claim_time bump owner admin
     accounts w =
     attempt (st_refuse_if (supply = 0) S_InvalidSupplyError) (\<lambda>_.
     attempt (st_refuse_if (duration = 0) S_InvalidDurationError) (\<lambda>_.
     attempt (next_account_infos rt 11 accounts) (\<lambda>(infos, _).
     case infos of
       [authority_info, supply_info, reward_pool_info, sub_supply_info, sub_pool_info,
        staking_pool_info, mint_info, sub_mint_info, derived_info, rent_info, token_program] \<Rightarrow>
         attempt (rent_from rt w rent_info) (\<lambda>rent.
         attempt (st_assert_rent_exempt rent w staking_pool_info) (\<lambda>_.
         attempt (st_assert_rent_exempt rent w reward_pool_info) (\<lambda>_.
         attempt (st_refuse_if (\<not> is_signer authority_info) S_InvalidArgumentError) (\<lambda>_.
         attempt (st_refuse_if (owner_of w staking_pool_info \<noteq> program_id) S_InvalidAccountOwner) (\<lambda>_.
         attempt (check_supply rt supply_info mint_info (\<lambda>have. have < supply) w) (\<lambda>_.
         attempt (check_token_owners mint_info supply_info reward_pool_info token_program w) (\<lambda>_.
         attempt (check_derived rt program_id staking_pool_info bump derived_info) (\<lambda>_.
         attempt (init_reward_tokens rt supply supply_info reward_pool_info mint_info authority_info
           derived_info rent_info token_program w) (\<lambda>w.
         attempt (init_sub_reward rt sub_supply sub_supply_info sub_pool_info sub_mint_info
           authority_info derived_info rent_info token_program w) (\<lambda>w.
         attempt (st_assert_uninitialized rt STAKING_POOL_LEN staking_pool_is_initialized
           staking_pool_unpack_from_slice w staking_pool_info) (\<lambda>p.
         attempt (pool_init owner admin (info_key reward_pool_info)
           (map_option (\<lambda>_. info_key sub_pool_info) sub_supply) duration supply sub_supply claim_time
           bump p) (\<lambda>p.
         pack_pool rt p staking_pool_info w))))))))))))
     | _ \<Rightarrow> Inl (staking S_InvalidArgumentError))))"

section \<open>Changing the supply\<close>

text \<open>
  The tokens of one reward. They come in from the supply account, signed by the caller, or go back
  to it, signed by the program; the sign that decides is the first reward's, for both.
\<close>

definition move_reward ::
    "solana \<Rightarrow> i64 \<Rightarrow> i64 \<Rightarrow> account_info \<Rightarrow> account_info \<Rightarrow> account_info \<Rightarrow> account_info \<Rightarrow>
      byte list list \<Rightarrow> account_info \<Rightarrow> world \<Rightarrow> world result" where
  "move_reward rt amount moved supply_info reward_pool_info authority_info derived_info seeds
     token_program w =
     (if 0 < signed_val amount
      then st_token_transfer rt supply_info reward_pool_info moved authority_info [] token_program w
      else st_token_transfer rt reward_pool_info supply_info (- moved) derived_info seeds token_program w)"

definition change_sub_reward ::
    "solana \<Rightarrow> i64 \<Rightarrow> i64 option \<Rightarrow> staking_pool \<Rightarrow> account_info \<Rightarrow> account_info \<Rightarrow> account_info \<Rightarrow>
      account_info \<Rightarrow> account_info \<Rightarrow> byte list list \<Rightarrow> account_info \<Rightarrow> world \<Rightarrow> world result" where
  "change_sub_reward rt amount sub_amount p sub_supply_info sub_pool_info sub_mint_info authority_info
     derived_info seeds token_program w =
     (case sub_amount of
        None \<Rightarrow> Inr w
      | Some sub \<Rightarrow>
          attempt (check_supply rt sub_supply_info sub_mint_info
            (\<lambda>have. 0 < signed_val sub \<and> have < sub) w) (\<lambda>_.
          case sub_reward_token_pool p of
            None \<Rightarrow> Inl Panic
          | Some key \<Rightarrow>
              attempt (st_refuse_if (key \<noteq> info_key sub_pool_info) S_InvalidRewardTokenPool) (\<lambda>_.
              move_reward rt amount sub sub_supply_info sub_pool_info authority_info derived_info
                seeds token_program w)))"

definition process_change_reward_supply ::
    "solana \<Rightarrow> pubkey \<Rightarrow> i64 \<Rightarrow> i64 option \<Rightarrow> account_info list \<Rightarrow> world \<Rightarrow> world result" where
  "process_change_reward_supply rt program_id amount sub_amount accounts w =
     attempt (st_refuse_if (amount = 0) S_InvalidArgumentError) (\<lambda>_.
     attempt (next_account_infos rt 11 accounts) (\<lambda>(infos, _).
     case infos of
       [authority_info, staking_pool_info, supply_info, reward_pool_info, sub_supply_info,
        sub_pool_info, derived_info, mint_info, sub_mint_info, token_program, clock_info] \<Rightarrow>
         attempt (map_err (unpack_pool rt w staking_pool_info) (staking S_InvalidStakingPool)) (\<lambda>p.
         attempt (st_refuse_if (\<not> is_signer authority_info) S_InvalidArgumentError) (\<lambda>_.
         attempt (st_refuse_if (signed_val amount < 0 \<and> info_key authority_info \<noteq> admin_authority p)
           S_InvalidSigner) (\<lambda>_.
         attempt (check_supply rt supply_info mint_info
           (\<lambda>have. 0 < signed_val amount \<and> have < amount) w) (\<lambda>_.
         attempt (st_refuse_if (owner_of w staking_pool_info \<noteq> program_id) S_InvalidAccountOwner) (\<lambda>_.
         attempt (st_refuse_if (reward_token_pool p \<noteq> info_key reward_pool_info)
           S_InvalidRewardTokenPool) (\<lambda>_.
         attempt (clock_from rt w clock_info) (\<lambda>clock.
         attempt (update_reward_supply amount sub_amount clock p) (\<lambda>p.
         attempt (move_reward rt amount amount supply_info reward_pool_info authority_info derived_info
           (pool_seeds staking_pool_info (bump_seed p)) token_program w) (\<lambda>w.
         attempt (change_sub_reward rt amount sub_amount p sub_supply_info sub_pool_info sub_mint_info
           authority_info derived_info (pool_seeds staking_pool_info (bump_seed p)) token_program w) (\<lambda>w.
         pack_pool rt p staking_pool_info w))))))))))
     | _ \<Rightarrow> Inl (staking S_InvalidArgumentError)))"

section \<open>Adding a second reward\<close>

definition process_add_sub_reward_pool ::
    "solana \<Rightarrow> pubkey \<Rightarrow> u64 \<Rightarrow> account_info list \<Rightarrow> world \<Rightarrow> world result" where
  "process_add_sub_reward_pool rt program_id amount accounts w =
     attempt (next_account_infos rt 10 accounts) (\<lambda>(infos, _).
     case infos of
       [admin_info, authority_info, staking_pool_info, sub_supply_info, sub_pool_info, sub_mint_info,
        derived_info, token_program, rent_info, clock_info] \<Rightarrow>
         attempt (map_err (unpack_pool rt w staking_pool_info) (staking S_InvalidStakingPool)) (\<lambda>p.
         attempt (st_refuse_if (\<not> is_signer authority_info) S_InvalidArgumentError) (\<lambda>_.
         attempt (st_refuse_if (\<not> is_signer admin_info) S_InvalidArgumentError) (\<lambda>_.
         attempt (st_refuse_if (info_key admin_info \<noteq> admin_authority p) S_InvalidSigner) (\<lambda>_.
         attempt (check_supply rt sub_supply_info sub_mint_info (\<lambda>have. have < amount) w) (\<lambda>_.
         attempt (st_refuse_if (owner_of w staking_pool_info \<noteq> program_id) S_InvalidAccountOwner) (\<lambda>_.
         attempt (check_token_owners sub_mint_info sub_supply_info sub_pool_info token_program w) (\<lambda>_.
         attempt (check_derived rt program_id staking_pool_info (bump_seed p) derived_info) (\<lambda>_.
         attempt (clock_from rt w clock_info) (\<lambda>clock.
         attempt (add_sub_reward amount clock (info_key sub_pool_info) p) (\<lambda>p.
         attempt (st_token_init_account rt sub_pool_info sub_mint_info derived_info rent_info
           token_program w) (\<lambda>w.
         attempt (st_token_transfer rt sub_supply_info sub_pool_info amount authority_info []
           token_program w) (\<lambda>w.
         pack_pool rt p staking_pool_info w))))))))))))
     | _ \<Rightarrow> Inl (staking S_InvalidArgumentError))"

section \<open>Claiming\<close>

text \<open>The second reward needs two more accounts.\<close>

definition claim_sub_reward ::
    "solana \<Rightarrow> u64 option \<Rightarrow> staking_pool \<Rightarrow> account_info \<Rightarrow> byte list list \<Rightarrow> account_info \<Rightarrow>
      account_info list \<Rightarrow> world \<Rightarrow> world result" where
  "claim_sub_reward rt sub_claim p derived_info seeds token_program rest w =
     (case sub_claim of
        None \<Rightarrow> Inr w
      | Some amount \<Rightarrow>
          attempt (next_account_info rt rest) (\<lambda>(sub_pool_info, rest).
          attempt (next_account_info rt rest) (\<lambda>(sub_destination_info, rest).
          attempt (ok_or (sub_reward_token_pool p) (staking S_InvalidRewardTokenPool)) (\<lambda>key.
          attempt (st_refuse_if (key \<noteq> info_key sub_pool_info) S_InvalidRewardTokenPool) (\<lambda>_.
          st_token_transfer rt sub_pool_info sub_destination_info amount derived_info seeds
            token_program w)))))"

definition claim_checks ::
    "pubkey \<Rightarrow> account_info \<Rightarrow> account_info \<Rightarrow> account_info \<Rightarrow> account_info \<Rightarrow> account_info \<Rightarrow>
      account_info \<Rightarrow> staking_pool \<Rightarrow> stake_account \<Rightarrow> world \<Rightarrow> unit result" where
  "claim_checks program_id owner_info stake_account_info staking_pool_info reward_pool_info
     destination_info token_program p a w =
     attempt (st_refuse_if (owner_of w staking_pool_info \<noteq> program_id) S_InvalidAccountOwner) (\<lambda>_.
     attempt (st_refuse_if (owner_of w stake_account_info \<noteq> program_id) S_InvalidAccountOwner) (\<lambda>_.
     attempt (st_refuse_if (info_key staking_pool_info \<noteq> pool_pubkey a) S_InvalidStakingPool) (\<lambda>_.
     attempt (st_refuse_if (info_key owner_info \<noteq> stake_owner a) S_InvalidSigner) (\<lambda>_.
     attempt (st_refuse_if (reward_token_pool p \<noteq> info_key reward_pool_info)
       S_InvalidRewardTokenPool) (\<lambda>_.
     st_refuse_if (owner_of w destination_info \<noteq> info_key token_program \<or>
       owner_of w reward_pool_info \<noteq> info_key token_program) S_InvalidTokenOwner)))))"

definition process_claim_reward :: "solana \<Rightarrow> pubkey \<Rightarrow> account_info list \<Rightarrow> world \<Rightarrow> world result" where
  "process_claim_reward rt program_id accounts w =
     attempt (next_account_infos rt 8 accounts) (\<lambda>(infos, rest).
     case infos of
       [owner_info, stake_account_info, staking_pool_info, reward_pool_info, destination_info,
        derived_info, clock_info, token_program] \<Rightarrow>
         attempt (st_refuse_if (\<not> is_signer owner_info) S_InvalidArgumentError) (\<lambda>_.
         attempt (clock_from rt w clock_info) (\<lambda>clock.
         attempt (map_err (unpack_stake rt w stake_account_info) (staking S_InvalidStakeAccount)) (\<lambda>a.
         attempt (map_err (unpack_pool rt w staking_pool_info) (staking S_InvalidStakingPool)) (\<lambda>p.
         if clock < earliest_claim_time p then Inr w
         else
           attempt (claim_checks program_id owner_info stake_account_info staking_pool_info
             reward_pool_info destination_info token_program p a w) (\<lambda>_.
           attempt (pool_claim_reward clock p) (\<lambda>(current_rate, p).
           attempt (stake_claim_reward current_rate a) (\<lambda>((claim, sub_claim), a).
           attempt (check_derived rt program_id staking_pool_info (bump_seed p) derived_info) (\<lambda>_.
           attempt (st_token_transfer rt reward_pool_info destination_info claim derived_info
             (pool_seeds staking_pool_info (bump_seed p)) token_program w) (\<lambda>w.
           attempt (claim_sub_reward rt sub_claim p derived_info
             (pool_seeds staking_pool_info (bump_seed p)) token_program rest w) (\<lambda>w.
           attempt (pack_stake rt a stake_account_info w) (\<lambda>w.
           pack_pool rt p staking_pool_info w)))))))))))
     | _ \<Rightarrow> Inl (staking S_InvalidArgumentError))"

section \<open>Dispatch\<close>

fun staking_process :: "solana \<Rightarrow> pubkey \<Rightarrow> account_info list \<Rightarrow> staking_instruction \<Rightarrow> world \<Rightarrow> world result" where
  "staking_process rt program_id accounts (InitStakingPool supply sub_supply duration claim_time bump
     owner admin) w =
     process_init_staking_pool rt program_id supply sub_supply duration claim_time bump owner admin
       accounts w"
| "staking_process rt program_id accounts CreateStakeAccount w =
     process_create_stake_account rt program_id accounts w"
| "staking_process rt program_id accounts (Deposit amount) w = process_deposit rt program_id amount accounts w"
| "staking_process rt program_id accounts (Withdraw amount) w = process_withdraw rt program_id amount accounts w"
| "staking_process rt program_id accounts ClaimReward w = process_claim_reward rt program_id accounts w"
| "staking_process rt program_id accounts (UpdateEarliestRewardClaimTime time) w =
     process_update_earliest_reward_claim_time rt program_id time accounts w"
| "staking_process rt program_id accounts (ChangeRewardSupply amount sub_amount) w =
     process_change_reward_supply rt program_id amount sub_amount accounts w"
| "staking_process rt program_id accounts (ChangeOwner new_owner) w =
     process_change_owner rt program_id new_owner accounts w"
| "staking_process rt program_id accounts (ChangeDuration amount) w =
     process_change_duration rt program_id amount accounts w"
| "staking_process rt program_id accounts (AddSubRewardPool amount) w =
     process_add_sub_reward_pool rt program_id amount accounts w"
| "staking_process rt program_id accounts (ChangeAdmin new_admin) w =
     process_change_admin rt program_id new_admin accounts w"

definition staking_process_instruction ::
    "solana \<Rightarrow> pubkey \<Rightarrow> account_info list \<Rightarrow> byte list \<Rightarrow> world \<Rightarrow> world result" where
  "staking_process_instruction rt program_id accounts input w =
     attempt (staking_instruction_unpack input) (\<lambda>ins.
     staking_process rt program_id accounts ins w)"

end
