(* ===== verification/Instruction_Correct.thy ===== *)
theory Instruction_Correct
  imports Sample_World Staking_Rewards
begin

text \<open>The properties of the two instruction encodings and of the dispatch that reads them.\<close>

text \<open>
  C25: An instruction of the lending program that can be encoded is decoded to itself, whatever
  bytes follow it. The dispatcher refuses an unknown tag and an empty input before it touches any
  account.
\<close>

theorem lending_instruction_roundtrip:
  assumes "instruction_fits ins"
  shows "\<exists>bs. instruction_pack ins = Inr bs \<and> instruction_unpack (bs @ rest) = Inr ins \<and>
    process_instruction rt pid accounts (bs @ rest) w = process rt pid accounts ins w"
  using instruction_pack_total [OF assms] instruction_unpack_pack
  by (fastforce simp: process_instruction_def)

theorem lending_instruction_roundtrip_witness:
  "\<exists>bs. instruction_pack (LiquidateObligation 7) = Inr bs \<and>
     instruction_unpack (bs @ [1, 2]) = Inr (LiquidateObligation 7)"
proof -
  have "instruction_fits (LiquidateObligation 7)" by simp
  from lending_instruction_roundtrip [OF this] show ?thesis by blast
qed

text \<open>
  The lending program refuses an input whose first byte is not the tag of an instruction, and
  an empty input, with \<open>InstructionUnpackError\<close>; no account is changed, since nothing is returned.
\<close>

theorem unknown_instruction_refused:
  assumes "input = [] \<or> (\<exists>tag rest. input = tag # rest \<and> (tag = 15 \<or> 17 < tag))"
  shows "process_instruction rt pid accounts input w = Inl (lending InstructionUnpackError)"
  using assms instruction_unknown_tag
  by (auto simp: process_instruction_def) (simp_all add: instruction_unpack_def)

theorem unknown_instruction_refused_witness:
  "process_instruction sample_rt 100 [acct 5] [99, 1, 2] (sample_world sample_obligation) =
     Inl (lending InstructionUnpackError)"
  by (rule unknown_instruction_refused) simp

text \<open>
  C26: An instruction of the staking program is decoded to itself, and any byte after it makes the
  program refuse it.
\<close>

theorem staking_instruction_roundtrip:
  "staking_instruction_unpack (staking_instruction_pack ins @ rest) =
     (if rest = [] then Inr ins else Inl (staking S_InstructionUnpackError))"
  by (cases ins)
    (simp_all add: staking_instruction_unpack_def st_unpack_tagged_def st_arg_def st_readers st_written)

end
