(* ===== verification/Refresh_Correct.thy ===== *)
theory Refresh_Correct
  imports Sample_World
begin

text \<open>
  The properties of the two refresh handlers (token-lending/program/src/processor.rs), on which all
  other handlers rely: they accept only states refreshed in the current slot.
\<close>

section \<open>Refreshing a reserve\<close>

lemma process_refresh_reserve_cases:
  assumes "process_refresh_reserve rt pid (ri # ci # rest) w = Inr w'" "unpack_reserve rt w ri = Inr r"
  obtains clock r1 r2 where "clock_from rt w ci = Inr clock" "owner_of w ri = pid"
    "refresh_market_price rt r rest clock w = Inr r1"
    "reserve_accrue_interest (clock_values rt) clock r1 = Inr r2"
    "pack_reserve rt (r2\<lparr> reserve_last_update := update_slot clock (reserve_last_update r2) \<rparr>) ri w = Inr w'"
  using assms by (auto simp: process_refresh_reserve_def)

text \<open>The price is kept when the reserve has no oracle, and otherwise read from it.\<close>

lemma refresh_market_price_ok:
  assumes "refresh_market_price rt r rest clock w = Inr r1"
  shows "r1 = r\<lparr> liquidity := (liquidity r)\<lparr> market_price := market_price (liquidity r1) \<rparr> \<rparr> \<and>
    (case oracle_pubkey (liquidity r) of
       None \<Rightarrow> rest = [] \<and> r1 = r
     | Some key \<Rightarrow> (\<exists>oi more p. rest = oi # more \<and> info_key oi = key \<and>
         is_pyth_program rt (owner_of w oi) \<and> pyth_load (data_of w oi) = Inr p \<and>
         ptype p = PRICE_TYPE_PRICE \<and> agg_status p = PRICE_STATUS_TRADING \<and>
         valid_slot p \<le> clock \<and> unat clock < unat (valid_slot p) + 240 \<and>
         dec (market_price (liquidity r1)) =
           (if 0 \<le> signed_val (expo p) then unat (agg_price p) * 10 ^ nat (signed_val (expo p)) * wad
            else unat (agg_price p) * wad div 10 ^ nat (- signed_val (expo p)))))"
proof (cases "oracle_pubkey (liquidity r)")
  case None
  with assms show ?thesis by (auto simp: refresh_market_price_def split: if_splits)
next
  case (Some key)
  with assms obtain oi more price where a: "rest = oi # more" "info_key oi = key"
    and o: "oracle_price rt w oi clock InvalidAccountInput = Inr price"
    and r1: "r1 = r\<lparr> liquidity := (liquidity r)\<lparr> market_price := price \<rparr> \<rparr>"
    by (auto simp: refresh_market_price_def)
  from oracle_price_pyth [OF o] have py: "is_pyth_program rt (owner_of w oi)" and g: "get_pyth_price w oi clock = Inr price"
    by simp_all
  from g obtain p where p: "pyth_load (data_of w oi) = Inr p" "ptype p = PRICE_TYPE_PRICE"
    "agg_status p = PRICE_STATUS_TRADING" "unat (valid_slot p) \<le> unat clock"
    "unat clock < unat (valid_slot p) + 240" and s: "scale_pyth_price (agg_price p) (expo p) = Inr price"
    by (rule get_pyth_price_cases)
  from p(4) have "valid_slot p \<le> clock" by (simp add: word_le_nat_alt)
  moreover have "dec price = (if 0 \<le> signed_val (expo p) then unat (agg_price p) * 10 ^ nat (signed_val (expo p)) * wad
      else unat (agg_price p) * wad div 10 ^ nat (- signed_val (expo p)))"
    using scale_pyth_price_ok [OF s] by (simp split: if_splits)
  ultimately show ?thesis using Some a py p r1 by auto
qed

lemma reserve_accrue_frame:
  assumes "reserve_accrue_interest k s r = Inr r'"
  shows "slot (reserve_last_update r) \<le> s"
    "borrowed_amount_wads (liquidity r) \<le> borrowed_amount_wads (liquidity r')"
    "cumulative_borrow_rate_wads (liquidity r) \<le> cumulative_borrow_rate_wads (liquidity r')"
    "available_amount (liquidity r') = available_amount (liquidity r)"
    "market_price (liquidity r') = market_price (liquidity r)"
    "collateral r' = collateral r" "config r' = config r" "reserve_version r' = reserve_version r"
    "reserve_last_update r' = reserve_last_update r"
proof -
  have "slot (reserve_last_update r) \<le> s \<and>
    borrowed_amount_wads (liquidity r) \<le> borrowed_amount_wads (liquidity r') \<and>
    cumulative_borrow_rate_wads (liquidity r) \<le> cumulative_borrow_rate_wads (liquidity r') \<and>
    available_amount (liquidity r') = available_amount (liquidity r) \<and>
    market_price (liquidity r') = market_price (liquidity r) \<and>
    collateral r' = collateral r \<and> config r' = config r \<and> reserve_version r' = reserve_version r \<and>
    reserve_last_update r' = reserve_last_update r"
    using assms
  proof (cases rule: reserve_accrue_interest_cases)
    case (compound n x l)
    from compound(4) have "available_amount l = available_amount (liquidity r) \<and> market_price l = market_price (liquidity r)"
      by (auto simp: compound_interest_def)
    with compound_interest_grows [OF compound(4)] compound(1,5) show ?thesis by (simp add: word_le_nat_alt)
  qed simp
  then show "slot (reserve_last_update r) \<le> s"
    "borrowed_amount_wads (liquidity r) \<le> borrowed_amount_wads (liquidity r')"
    "cumulative_borrow_rate_wads (liquidity r) \<le> cumulative_borrow_rate_wads (liquidity r')"
    "available_amount (liquidity r') = available_amount (liquidity r)"
    "market_price (liquidity r') = market_price (liquidity r)"
    "collateral r' = collateral r" "config r' = config r" "reserve_version r' = reserve_version r"
    "reserve_last_update r' = reserve_last_update r" by blast+
qed


text \<open>A reserve refreshed last in slot 4, with an oracle account that quotes 3 * 10^0 from slot 8.\<close>

definition zeros :: "nat \<Rightarrow> byte list" where
  "zeros n = replicate n 0"

lemma length_zeros [simp]: "length (zeros n) = n"
  by (simp add: zeros_def)

definition sample_oracle :: "byte list" where
  "sample_oracle = zeros 16 @ to_le_bytes 4 (1 :: u32) @ to_le_bytes 4 (0 :: u32) @ zeros 16 @ to_le_bytes 8 (8 :: u64) @
     zeros 160 @ to_le_bytes 8 (3 :: u64) @ zeros 8 @ to_le_bytes 4 (1 :: u32) @ zeros 3084"

lemma sample_oracle_load:
  "pyth_load sample_oracle = Inr \<lparr> ptype = 1, expo = 0, valid_slot = 8, agg_price = 3, agg_status = 1 \<rparr>"
  by (simp add: pyth_load_def sample_oracle_def pyth_price_size_def from_to_le_bytes)

definition sample_quoted :: reserve where
  "sample_quoted = sample_reserve\<lparr> reserve_last_update := \<lparr> slot = 4, stale = True \<rparr>,
     liquidity := (liquidity sample_reserve)\<lparr> oracle_pubkey := Some 60 \<rparr> \<rparr>"

definition oracle_world :: world where
  "oracle_world = (sample_world sample_obligation)(
     5 := \<lparr> acc_lamports = 5000, acc_owner = 100,
       acc_data = packed_data (reserve_pack_into_slice sample_quoted) RESERVE_LEN \<rparr>,
     60 := \<lparr> acc_lamports = 5000, acc_owner = 400, acc_data = sample_oracle \<rparr>)"

lemma oracle_world_load:
  "unpack_reserve sample_rt oracle_world (acct 5) = Inr sample_quoted"
  "length (data_of oracle_world (acct 5)) = RESERVE_LEN" "owner_of oracle_world (acct 5) = 100"
  "owner_of oracle_world (acct 60) = 400" "data_of oracle_world (acct 60) = sample_oracle"
proof -
  have "reserve_fits sample_quoted" "reserve_version sample_quoted = PROGRAM_VERSION"
    by (simp_all add: reserve_fits_def sample_quoted_def sample_reserve_def PROGRAM_VERSION_def)
  then show "unpack_reserve sample_rt oracle_world (acct 5) = Inr sample_quoted"
    "length (data_of oracle_world (acct 5)) = RESERVE_LEN"
    using reserve_load_packed [of sample_rt sample_quoted oracle_world "acct 5"]
    by (simp_all add: oracle_world_def data_of_def)
qed (simp_all add: oracle_world_def owner_of_def data_of_def)

lemma sample_refresh_run:
  "\<exists>w'. process_refresh_reserve sample_rt 100 (acct 5 # acct 1 # [acct 60]) oracle_world = Inr w'"
proof -
  have price: "oracle_price sample_rt oracle_world (acct 60) 10 InvalidAccountInput = Inr (Decimal 3000000000000000000)"
    by (simp add: oracle_price_def is_pyth_program_def oracle_world_load sample_rt_def get_pyth_price_def
        sample_oracle_load PRICE_TYPE_PRICE_def PRICE_STATUS_TRADING_def PYTH_STALE_AFTER_SLOTS_ELAPSED_def
        price_nonnegative_def scale_pyth_price_def run del: attempt_Inr_iff)
  define r1 where "r1 = sample_quoted\<lparr> liquidity := (liquidity sample_quoted)\<lparr> market_price := Decimal 3000000000000000000 \<rparr> \<rparr>"
  have m: "refresh_market_price sample_rt sample_quoted [acct 60] 10 oracle_world = Inr r1"
    by (simp add: refresh_market_price_def price r1_def sample_quoted_def del: attempt_Inr_iff)
  have "\<exists>r2. reserve_accrue_interest (clock_values sample_rt) 10 r1 = Inr r2 \<and>
      reserve_fits (r2\<lparr> reserve_last_update := update_slot 10 (reserve_last_update r2) \<rparr>)"
    by (simp add: r1_def sample_quoted_def sample_reserve_def sample_rt_def sample_clock_def reserve_fits_def
        PROGRAM_VERSION_def run del: attempt_Inr_iff)
  then obtain r2 where r2: "reserve_accrue_interest (clock_values sample_rt) 10 r1 = Inr r2"
    and fits: "reserve_fits (r2\<lparr> reserve_last_update := update_slot 10 (reserve_last_update r2) \<rparr>)" by blast
  obtain w' where "pack_reserve sample_rt (r2\<lparr> reserve_last_update := update_slot 10 (reserve_last_update r2) \<rparr>)
      (acct 5) oracle_world = Inr w'"
    using reserve_store_total [OF sample_pack_checks fits oracle_world_load(2)] by (elim exE)
  then show ?thesis by (simp add: process_refresh_reserve_def oracle_world_load m r2)
qed


end
