(* ===== verification/Staking_Correct.thy ===== *)
theory Staking_Correct
  imports Staking_Rewards
begin

text \<open>
  The properties of the staking program: the bookkeeping of rewards over any sequence of
  operations, round trips, and what the handlers check.
\<close>

section \<open>One operation\<close>

lemma option_wads_mul: "(x :: nat) * (t * wad) div wad = x * t"
  by (simp add: mult.assoc [symmetric])

lemma slot_rate_mul_ok:
  "rate_mul r t = Inr r' \<Longrightarrow> dec (slot_reward r') = dec (slot_reward r) * unat t \<and>
     (slot_sub_reward r' = None \<longleftrightarrow> slot_sub_reward r = None)"
  by (auto simp: rate_mul_def st_ok option_try_ok split: option.splits)

lemma slot_rate_div_ok:
  "rate_div r n = Inr r' \<Longrightarrow> n \<noteq> 0 \<and> dec (slot_reward r') = dec (slot_reward r) div unat n \<and>
     (slot_sub_reward r' = None \<longleftrightarrow> slot_sub_reward r = None)"
  by (auto simp: rate_div_def st_ok option_try_ok split: option.splits)

lemma accumulate_rate_ok:
  assumes "accumulate_rate r t n c = Inr c'"
  shows "n \<noteq> 0" "dec (rate_reward c') = dec (rate_reward c) + dec (slot_reward r) * unat t div unat n"
    "rate_sub_reward c' = None \<longleftrightarrow> rate_sub_reward c = None \<or> slot_sub_reward r = None"
  using assms by (auto simp: accumulate_rate_def st_ok option_try2_ok dest!: slot_rate_mul_ok slot_rate_div_ok split: if_splits)

text \<open>The reward that one slot range pays out, and what is left to pay until the end.\<close>

definition released :: "u64 \<Rightarrow> staking_pool \<Rightarrow> nat" where
  "released t p = dec (slot_reward (pool_rate p)) * (unat (min t (end_time p)) - unat (pool_last_update p))"

definition remaining :: "staking_pool \<Rightarrow> nat" where
  "remaining p = dec (slot_reward (pool_rate p)) * (unat (end_time p) - unat (pool_last_update p))"

lemma claim_reward_helper_ok:
  assumes "claim_reward_helper t p = Inr (c, p')"
  shows "p' = p\<lparr> pool_last_update := min t (end_time p) \<rparr>" "pool_size p \<noteq> 0"
    "pool_last_update p \<le> min t (end_time p)"
    "dec (rate_reward c) = dec (rate_reward (pool_cumulative_rate p)) + released t p div unat (pool_size p)"
    "rate_sub_reward c = None \<longleftrightarrow>
       rate_sub_reward (pool_cumulative_rate p) = None \<or> slot_sub_reward (pool_rate p) = None"
    "remaining p' + released t p = remaining p"
proof -
  let ?m = "min t (end_time p)"
  from assms obtain e where e: "unat ?m = unat (pool_last_update p) + unat e"
    and c: "accumulate_rate (pool_rate p) e (pool_size p) (pool_cumulative_rate p) = Inr c"
    and p': "p' = p\<lparr> pool_last_update := ?m \<rparr>"
    by (auto simp: claim_reward_helper_def Let_def checked)
  show "p' = p\<lparr> pool_last_update := ?m \<rparr>" by (rule p')
  show "pool_last_update p \<le> ?m" using e by (simp add: word_le_nat_alt)
  have r: "released t p = dec (slot_reward (pool_rate p)) * unat e" using e by (simp add: released_def)
  show "pool_size p \<noteq> 0" "dec (rate_reward c) =
      dec (rate_reward (pool_cumulative_rate p)) + released t p div unat (pool_size p)"
    "rate_sub_reward c = None \<longleftrightarrow>
       rate_sub_reward (pool_cumulative_rate p) = None \<or> slot_sub_reward (pool_rate p) = None"
    using accumulate_rate_ok [OF c] by (simp_all add: r)
  have "unat ?m \<le> unat (end_time p)" by (simp add: word_le_nat_alt [symmetric])
  then have "unat (end_time p) - unat (pool_last_update p) = (unat (end_time p) - unat ?m) + unat e"
    using e by linarith
  then show "remaining p' + released t p = remaining p"
    unfolding remaining_def r p' by (simp add: distrib_left)
qed

text \<open>What an account is owed: the reward not yet claimed and the growth since its last change.\<close>

definition owed :: "staking_pool \<Rightarrow> stake_account \<Rightarrow> nat" where
  "owed p a = dec (reward_wads (unclaimed_reward_wads a)) +
     unat (staked_amount a) * (dec (rate_reward (pool_cumulative_rate p)) - dec (rate_reward (start_rate a)))"

lemma calculate_reward_ok:
  assumes "calculate_reward c a = Inr (r, a')"
  shows "dec (rate_reward (start_rate a)) \<le> dec (rate_reward c) \<and>
    dec (reward_wads r) = unat (staked_amount a) * (dec (rate_reward c) - dec (rate_reward (start_rate a))) \<and>
    staked_amount a' = staked_amount a \<and> unclaimed_reward_wads a' = unclaimed_reward_wads a"
  using assms
  by (auto simp: calculate_reward_def reward_of_rates_def st_ok mult.commute Let_def split: if_splits)

lemma accumulate_reward_ok:
  "accumulate_reward r u = Inr u' \<Longrightarrow> dec (reward_wads u') = dec (reward_wads u) + dec (reward_wads r)"
  by (auto simp: accumulate_reward_def st_ok Let_def)

text \<open>
  Every change of an account settles it at the current rate: what it is owed is unclaimed, and its
  start rate is the current one.
\<close>

lemma stake_deposit_ok:
  assumes "stake_deposit c n a = Inr a'"
  shows "dec (reward_wads (unclaimed_reward_wads a')) = dec (reward_wads (unclaimed_reward_wads a)) +
      unat (staked_amount a) * (dec (rate_reward c) - dec (rate_reward (start_rate a)))"
    "start_rate a' = c" "unat (staked_amount a') = unat (staked_amount a) + unat n" "n \<noteq> 0"
  using assms by (auto simp: stake_deposit_def checked dest!: calculate_reward_ok accumulate_reward_ok)

lemma stake_withdraw_ok:
  assumes "stake_withdraw c n a = Inr a'"
  shows "dec (reward_wads (unclaimed_reward_wads a')) = dec (reward_wads (unclaimed_reward_wads a)) +
      unat (staked_amount a) * (dec (rate_reward c) - dec (rate_reward (start_rate a)))"
    "start_rate a' = c" "unat (staked_amount a) = unat (staked_amount a') + unat n" "n \<noteq> 0"
  using assms by (auto simp: stake_withdraw_def checked dest!: calculate_reward_ok accumulate_reward_ok)

lemma stake_claim_ok:
  assumes "stake_claim_reward c a = Inr ((r, s), a')"
  shows "dec (reward_wads (unclaimed_reward_wads a')) + unat r * wad =
      dec (reward_wads (unclaimed_reward_wads a)) +
      unat (staked_amount a) * (dec (rate_reward c) - dec (rate_reward (start_rate a)))"
    "dec (reward_wads (unclaimed_reward_wads a')) < wad"
    "start_rate a' = c" "staked_amount a' = staked_amount a"
proof -
  from assms obtain w a1 u rest where w: "calculate_reward c a = Inr (w, a1)"
    "accumulate_reward w (unclaimed_reward_wads a1) = Inr u"
    and f: "reward_try_floor_u64 u = Inr (r, s)" "reward_try_sub u (reward_from (r, s)) = Inr rest"
    and a': "a' = a1\<lparr> unclaimed_reward_wads := rest, start_rate := c \<rparr>"
    by (auto simp: stake_claim_reward_def)
  have r: "unat r = dec (reward_wads u) div wad" using f(1) by (auto simp: reward_try_floor_u64_def st_ok)
  have u: "dec (reward_wads u) = unat r * wad + dec (reward_wads rest)"
    using f(2) by (auto simp: reward_try_sub_def reward_from_def st_ok)
  note c = calculate_reward_ok [OF w(1)] and t = accumulate_reward_ok [OF w(2)]
  show "dec (reward_wads (unclaimed_reward_wads a')) + unat r * wad =
      dec (reward_wads (unclaimed_reward_wads a)) +
      unat (staked_amount a) * (dec (rate_reward c) - dec (rate_reward (start_rate a)))"
    using t u c by (simp add: a')
  have "dec (reward_wads u) < (unat r + 1) * wad" using less_div_Suc_mult [of wad] by (simp add: r)
  then show "dec (reward_wads (unclaimed_reward_wads a')) < wad" using u by (simp add: a')
  show "start_rate a' = c" "staked_amount a' = staked_amount a" using c by (simp_all add: a')
qed

section \<open>Any sequence of operations\<close>

text \<open>
  A pool with its stake accounts and the whole tokens of the first reward claimed so far. A run
  starts with the pool's creation; accounts join, deposit, withdraw and claim at any slot, and the
  supply is topped up. The first argument counts what was granted, in units of 1/WAD: the supply,
  every top-up, and a full period's reward whenever a deposit into an emptied pool restarts it.
\<close>

record staking_system =
  sys_pool :: staking_pool
  sys_stakes :: "stake_account list"
  sys_claimed :: nat

definition blank_pool :: "staking_pool \<Rightarrow> bool" where
  "blank_pool p \<longleftrightarrow> pool_size p = 0 \<and> pool_last_update p = 0 \<and> end_time p = 0"

definition blank_stake :: "stake_account \<Rightarrow> bool" where
  "blank_stake a \<longleftrightarrow> staked_amount a = 0 \<and> dec (rate_reward (start_rate a)) = 0 \<and>
     dec (reward_wads (unclaimed_reward_wads a)) = 0"

inductive staking_run :: "nat \<Rightarrow> staking_system \<Rightarrow> bool" where
  create: "blank_pool p0 \<Longrightarrow> pool_init own adm rpool subpool dur supply sub claim_time bump p0 = Inr p \<Longrightarrow>
    staking_run (unat supply * wad) \<lparr> sys_pool = p, sys_stakes = [], sys_claimed = 0 \<rparr>"
| join: "staking_run g s \<Longrightarrow> blank_stake a0 \<Longrightarrow> stake_account_init own pool a0 = Inr a \<Longrightarrow>
    staking_run g (s\<lparr> sys_stakes := sys_stakes s @ [a] \<rparr>)"
| deposit: "staking_run g s \<Longrightarrow> i < length (sys_stakes s) \<Longrightarrow>
    pool_deposit t n (sys_pool s) = Inr (c, p) \<Longrightarrow> stake_deposit c n (sys_stakes s ! i) = Inr a \<Longrightarrow>
    staking_run (if pool_size (sys_pool s) = 0 \<and> end_time (sys_pool s) \<noteq> 0 then g + remaining p else g)
      (s\<lparr> sys_pool := p, sys_stakes := (sys_stakes s)[i := a] \<rparr>)"
| withdraw: "staking_run g s \<Longrightarrow> i < length (sys_stakes s) \<Longrightarrow>
    pool_withdraw t n (sys_pool s) = Inr (c, p) \<Longrightarrow> stake_withdraw c n (sys_stakes s ! i) = Inr a \<Longrightarrow>
    staking_run g (s\<lparr> sys_pool := p, sys_stakes := (sys_stakes s)[i := a] \<rparr>)"
| claim: "staking_run g s \<Longrightarrow> i < length (sys_stakes s) \<Longrightarrow>
    pool_claim_reward t (sys_pool s) = Inr (c, p) \<Longrightarrow>
    stake_claim_reward c (sys_stakes s ! i) = Inr ((r, sub), a) \<Longrightarrow>
    staking_run g (s\<lparr> sys_pool := p, sys_stakes := (sys_stakes s)[i := a],
      sys_claimed := sys_claimed s + unat r \<rparr>)"
| topup: "staking_run g s \<Longrightarrow> 0 < signed_val n \<Longrightarrow>
    update_reward_supply n sub t (sys_pool s) = Inr p \<Longrightarrow>
    staking_run (g + unat n * wad) (s\<lparr> sys_pool := p \<rparr>)"

lemma sum_list_upd:
  "i < length xs \<Longrightarrow> sum_list (map f (xs[i := a])) + f (xs ! i) = sum_list (map f xs) + (f a :: nat)"
  by (induction xs arbitrary: i) (auto split: nat.split)

definition stakes_ok :: "staking_pool \<Rightarrow> stake_account list \<Rightarrow> bool" where
  "stakes_ok p as \<longleftrightarrow> (\<Sum>a\<leftarrow>as. unat (staked_amount a)) = unat (pool_size p) \<and>
     (\<forall>a\<in>set as. dec (rate_reward (start_rate a)) \<le> dec (rate_reward (pool_cumulative_rate p)))"

text \<open>Moving the pool's mark gives the accounts no more than it takes from the rest of the period.\<close>

lemma settle_pool:
  assumes h: "claim_reward_helper t p = Inr (c, p1)" and ok: "stakes_ok p as"
    and p': "pool_cumulative_rate p' = c" "pool_size p' = pool_size p"
  shows "stakes_ok p' as"
    and "(\<Sum>a\<leftarrow>as. owed p' a) + remaining p1 \<le> (\<Sum>a\<leftarrow>as. owed p a) + remaining p"
proof -
  note h = claim_reward_helper_ok [OF h]
  define \<delta> where "\<delta> = released t p div unat (pool_size p)"
  have c: "dec (rate_reward c) = dec (rate_reward (pool_cumulative_rate p)) + \<delta>"
    using h(4) by (simp add: \<delta>_def)
  show "stakes_ok p' as" using ok by (fastforce simp: stakes_ok_def p' c)
  have "owed p' a = owed p a + unat (staked_amount a) * \<delta>" if "a \<in> set as" for a
  proof -
    have le: "dec (rate_reward (start_rate a)) \<le> dec (rate_reward (pool_cumulative_rate p))"
      using ok that by (simp add: stakes_ok_def)
    then show ?thesis by (simp add: owed_def p' c add_mult_distrib2 [symmetric])
  qed
  then have "(\<Sum>a\<leftarrow>as. owed p' a) = (\<Sum>a\<leftarrow>as. owed p a + unat (staked_amount a) * \<delta>)"
    by (intro arg_cong [where f = sum_list] map_cong) auto
  also have "\<dots> = (\<Sum>a\<leftarrow>as. owed p a) + unat (pool_size p) * \<delta>"
    using ok by (simp add: stakes_ok_def sum_list_addf sum_list_mult_const)
  also have "\<dots> \<le> (\<Sum>a\<leftarrow>as. owed p a) + released t p"
    by (simp add: \<delta>_def)
  finally show "(\<Sum>a\<leftarrow>as. owed p' a) + remaining p1 \<le> (\<Sum>a\<leftarrow>as. owed p a) + remaining p"
    using h(6) by linarith
qed

text \<open>Replacing an account by a settled one that is owed the same, less what was paid.\<close>

lemma settle_stake:
  assumes ok: "stakes_ok p as" and i: "i < length as" and c: "start_rate a = pool_cumulative_rate p"
    and u: "dec (reward_wads (unclaimed_reward_wads a)) + paid =
      dec (reward_wads (unclaimed_reward_wads (as ! i))) + unat (staked_amount (as ! i)) *
        (dec (rate_reward (pool_cumulative_rate p)) - dec (rate_reward (start_rate (as ! i))))"
    and n: "unat (pool_size p') + unat (staked_amount (as ! i)) = unat (pool_size p) + unat (staked_amount a)"
    and p': "pool_cumulative_rate p' = pool_cumulative_rate p"
  shows "stakes_ok p' (as[i := a])"
    and "(\<Sum>b\<leftarrow>as[i := a]. owed p' b) + paid = (\<Sum>b\<leftarrow>as. owed p b)"
proof -
  have "(\<Sum>b\<leftarrow>as[i := a]. unat (staked_amount b)) = unat (pool_size p')"
    using sum_list_upd [OF i, of "\<lambda>b. unat (staked_amount b)" a] ok n by (simp add: stakes_ok_def)
  then show "stakes_ok p' (as[i := a])"
    using ok c set_update_subset_insert [of as i a] by (auto simp: stakes_ok_def p')
  have same: "owed p' b = owed p b" for b by (simp add: owed_def p')
  have "owed p a + paid = owed p (as ! i)" using u by (simp add: owed_def c)
  with sum_list_upd [OF i, of "owed p" a] show "(\<Sum>b\<leftarrow>as[i := a]. owed p' b) + paid = (\<Sum>b\<leftarrow>as. owed p b)"
    by (simp add: same)
qed

lemma claim_helper_frame:
  "claim_reward_helper t p = Inr (c, p1) \<Longrightarrow> pool_size p1 = pool_size p \<and> end_time p1 = end_time p \<and>
     pool_duration p1 = pool_duration p"
  by (drule claim_reward_helper_ok(1)) simp

lemma pool_deposit_ok:
  assumes "pool_deposit t n p = Inr (c, p')"
  shows "pool_cumulative_rate p' = c" "unat (pool_size p') = unat (pool_size p) + unat n" "n \<noteq> 0"
    "pool_size p \<noteq> 0 \<Longrightarrow> \<exists>p1. claim_reward_helper t p = Inr (c, p1) \<and> remaining p' = remaining p1"
    "pool_size p = 0 \<Longrightarrow> c = pool_cumulative_rate p \<and>
      remaining p' = dec (slot_reward (pool_rate p)) * unat (pool_duration p) \<and>
      unat (end_time p') = unat t + unat (pool_duration p)"
    "pool_size p \<noteq> 0 \<Longrightarrow> end_time p' = end_time p" "pool_duration p' = pool_duration p"
  using assms
  by (auto simp: pool_deposit_def checked remaining_def dest: claim_helper_frame split: if_splits)

lemma pool_withdraw_ok:
  assumes "pool_withdraw t n p = Inr (c, p')"
  obtains p1 where "claim_reward_helper t p = Inr (c, p1)" "remaining p' = remaining p1"
    "pool_cumulative_rate p' = c" "unat (pool_size p) = unat (pool_size p') + unat n"
    "end_time p' = end_time p" "pool_duration p' = pool_duration p"
proof -
  from assms obtain p1 m where h: "claim_reward_helper t p = Inr (c, p1)"
    and m: "unat (pool_size p1) = unat m + unat n"
    and p': "p' = p1\<lparr> pool_cumulative_rate := c, pool_size := m \<rparr>"
    by (auto simp: pool_withdraw_def checked)
  from that [OF h] claim_helper_frame [OF h] m show thesis by (simp add: p' remaining_def)
qed

lemma pool_claim_ok:
  assumes "pool_claim_reward t p = Inr (c, p')"
  obtains p1 where "claim_reward_helper t p = Inr (c, p1)" "remaining p' = remaining p1"
    "pool_cumulative_rate p' = c" "pool_size p' = pool_size p" "end_time p' = end_time p"
    "pool_duration p' = pool_duration p"
proof -
  from assms obtain p1 where h: "claim_reward_helper t p = Inr (c, p1)"
    and p': "p' = p1\<lparr> pool_cumulative_rate := c \<rparr>"
    by (auto simp: pool_claim_reward_def)
  from that [OF h] claim_helper_frame [OF h] show thesis by (simp add: p' remaining_def)
qed

lemma topup_ok:
  assumes "update_reward_supply n sub t p = Inr p'" "0 < signed_val n"
  obtains c p1 where "claim_reward_helper t p = Inr (c, p1)" "pool_cumulative_rate p' = c"
    "pool_size p' = pool_size p" "end_time p' = end_time p" "pool_duration p' = pool_duration p"
    "remaining p' \<le> remaining p1 + unat n * wad"
proof -
  from assms(1) obtain e c p1 ch r where e: "unat (end_time p) = unat t + unat e"
    and h: "claim_reward_helper t p = Inr (c, p1)"
    and ch: "st_try_div_u64 (decimal_from_u64 (i64_abs n)) e = Inr ch"
    and r: "st_try_add (slot_reward (pool_rate p1)) ch = Inr r"
    and p': "pool_cumulative_rate p' = c" "pool_size p' = pool_size p1" "end_time p' = end_time p1"
      "pool_duration p' = pool_duration p1"
      "pool_last_update p' = pool_last_update p1" "slot_reward (pool_rate p') = r"
    using assms(2) by (auto simp: update_reward_supply_def checked Let_def)
  note p1 = claim_reward_helper_ok(1) [OF h]
  have t: "min t (end_time p) = t" using e by (simp add: min_def word_le_nat_alt)
  have "i64_abs n = n" using assms(2) by (simp add: i64_abs_def)
  then have "dec ch = unat n * wad div unat e" using ch by (simp add: st_ok)
  then have "dec ch * unat e \<le> unat n * wad" by simp
  moreover have "dec r = dec (slot_reward (pool_rate p1)) + dec ch" using r by (simp add: st_ok)
  ultimately have "remaining p' \<le> remaining p1 + unat n * wad"
    by (simp add: remaining_def p' p1 t e add_mult_distrib)
  with h p' p1 that show thesis by simp
qed

lemma pool_init_ok:
  assumes "pool_init own adm rpool subpool dur supply sub claim_time bump p0 = Inr p"
  shows "pool_duration p \<noteq> 0" "dec (slot_reward (pool_rate p)) * unat (pool_duration p) \<le> unat supply * wad"
    "pool_size p = pool_size p0" "end_time p = end_time p0" "pool_last_update p = pool_last_update p0"
  using assms by (auto simp: pool_init_def rate_init_def st_ok split: if_splits)

text \<open>
  The invariant of a run. Before the first deposit nothing is staked or owed, and the period's
  reward is covered by the grants; afterwards what is owed, claimed and still to come is.
\<close>

definition backed :: "nat \<Rightarrow> staking_system \<Rightarrow> bool" where
  "backed g s \<longleftrightarrow> stakes_ok (sys_pool s) (sys_stakes s) \<and> pool_duration (sys_pool s) \<noteq> 0 \<and>
     (if end_time (sys_pool s) = 0
      then pool_size (sys_pool s) = 0 \<and>
        (\<Sum>a\<leftarrow>sys_stakes s. owed (sys_pool s) a) = 0 \<and> sys_claimed s = 0 \<and>
        dec (slot_reward (pool_rate (sys_pool s))) * unat (pool_duration (sys_pool s)) \<le> g
      else (\<Sum>a\<leftarrow>sys_stakes s. owed (sys_pool s) a) + sys_claimed s * wad + remaining (sys_pool s) \<le> g)"

lemma backed_started:
  "end_time (sys_pool s) \<noteq> 0 \<Longrightarrow> backed g s \<longleftrightarrow> stakes_ok (sys_pool s) (sys_stakes s) \<and>
     pool_duration (sys_pool s) \<noteq> 0 \<and> (\<Sum>a\<leftarrow>sys_stakes s. owed (sys_pool s) a) + sys_claimed s * wad + remaining (sys_pool s) \<le> g"
  by (simp add: backed_def)

text \<open>The step every operation on a running pool makes: settle the pool, then one account.\<close>

lemma backed_step:
  assumes inv: "backed g s" and h: "claim_reward_helper t (sys_pool s) = Inr (c, p1)"
    and i: "i < length (sys_stakes s)" and a: "start_rate a = c"
    and u: "dec (reward_wads (unclaimed_reward_wads a)) + unat r * wad =
      dec (reward_wads (unclaimed_reward_wads (sys_stakes s ! i))) + unat (staked_amount (sys_stakes s ! i)) *
        (dec (rate_reward c) - dec (rate_reward (start_rate (sys_stakes s ! i))))"
    and n: "unat (pool_size p') + unat (staked_amount (sys_stakes s ! i)) =
      unat (pool_size (sys_pool s)) + unat (staked_amount a)"
    and p': "pool_cumulative_rate p' = c" "remaining p' = remaining p1" "end_time p' = end_time (sys_pool s)"
      "pool_duration p' = pool_duration (sys_pool s)"
  shows "backed g (s\<lparr> sys_pool := p', sys_stakes := (sys_stakes s)[i := a],
    sys_claimed := sys_claimed s + unat r \<rparr>)"
proof -
  have run: "end_time (sys_pool s) \<noteq> 0" using inv claim_reward_helper_ok(2) [OF h] by (auto simp: backed_def)
  define q where "q = (sys_pool s)\<lparr> pool_cumulative_rate := c \<rparr>"
  have q: "pool_cumulative_rate q = c" "pool_size q = pool_size (sys_pool s)" by (simp_all add: q_def)
  from inv run have ok: "stakes_ok (sys_pool s) (sys_stakes s)" by (simp add: backed_started)
  note pool = settle_pool [OF h ok q]
  have c: "start_rate a = pool_cumulative_rate q" and p: "pool_cumulative_rate p' = pool_cumulative_rate q"
    by (simp_all add: q a p')
  note stake = settle_stake [OF pool(1) i c u [folded q(1)] n [folded q(2)] p]
  show ?thesis using inv run stake pool(2) by (simp add: backed_started p' algebra_simps)
qed

lemma owed_unstaked: "stakes_ok p as \<Longrightarrow> pool_size p = 0 \<Longrightarrow> a \<in> set as \<Longrightarrow> staked_amount a = 0"
  by (auto simp: stakes_ok_def unat_eq_0)

text \<open>A deposit into an empty pool starts the period, or starts it again.\<close>

lemma backed_restart:
  assumes inv: "backed g s" and i: "i < length (sys_stakes s)" and z: "pool_size (sys_pool s) = 0"
    and p: "pool_deposit t n (sys_pool s) = Inr (c, p')" and a: "stake_deposit c n (sys_stakes s ! i) = Inr a"
  shows "backed (if end_time (sys_pool s) \<noteq> 0 then g + remaining p' else g)
    (s\<lparr> sys_pool := p', sys_stakes := (sys_stakes s)[i := a] \<rparr>)"
proof -
  note d = pool_deposit_ok [OF p] and s = stake_deposit_ok [OF a]
  have c: "c = pool_cumulative_rate (sys_pool s)" using d(5) z by simp
  have ok: "stakes_ok (sys_pool s) (sys_stakes s)" using inv by (simp add: backed_def)
  have n: "unat (pool_size p') + unat (staked_amount (sys_stakes s ! i)) =
      unat (pool_size (sys_pool s)) + unat (staked_amount a)" using d(2) s(3) by simp
  have u: "dec (reward_wads (unclaimed_reward_wads a)) + 0 =
      dec (reward_wads (unclaimed_reward_wads (sys_stakes s ! i))) + unat (staked_amount (sys_stakes s ! i)) *
        (dec (rate_reward (pool_cumulative_rate (sys_pool s))) - dec (rate_reward (start_rate (sys_stakes s ! i))))"
    using s(1) c by simp
  have cp: "start_rate a = pool_cumulative_rate (sys_pool s)" "pool_cumulative_rate p' = pool_cumulative_rate (sys_pool s)"
    using s(2) d(1) c by simp_all
  note stake = settle_stake [OF ok i cp(1) u n cp(2)]
  have rem: "remaining p' = dec (slot_reward (pool_rate (sys_pool s))) * unat (pool_duration (sys_pool s))"
    "unat (end_time p') = unat t + unat (pool_duration (sys_pool s))" using d(5) z by simp_all
  have dur: "pool_duration p' \<noteq> 0" using inv d(7) by (simp add: backed_def)
  then have run: "end_time p' \<noteq> 0" using rem(2) d(7) by (metis add_is_0 unat_0 unat_eq_0)
  show ?thesis
    using inv stake rem run dur by (cases "end_time (sys_pool s) = 0") (simp_all add: backed_def del: sum_list_eq_0_iff)
qed


text \<open>A pool as it is created and a stake account as it is created: every byte zero.\<close>

definition sample_pool0 :: staking_pool where
  "sample_pool0 = \<lparr> pool_version = 0, owner_authority = 0, admin_authority = 0, reward_token_pool = 0,
     pool_last_update = 0, end_time = 0, pool_duration = 0, earliest_claim_time = 0,
     pool_rate = \<lparr> slot_reward = decimal_zero, slot_sub_reward = None \<rparr>,
     pool_cumulative_rate = \<lparr> rate_reward = decimal_zero, rate_sub_reward = None \<rparr>,
     pool_size = 0, bump_seed = 0, sub_reward_token_pool = None,
     pool_reserve_fields3 = replicate 32 0, pool_reserve_fields4 = replicate 29 0 \<rparr>"

definition sample_stake0 :: stake_account where
  "sample_stake0 = \<lparr> stake_version = 0, start_rate = \<lparr> rate_reward = decimal_zero, rate_sub_reward = None \<rparr>,
     stake_owner = 0, pool_pubkey = 0, staked_amount = 0,
     unclaimed_reward_wads = \<lparr> reward_wads = decimal_zero, sub_reward_wads = None \<rparr>,
     stake_reserve_fields2 = replicate 32 0, stake_reserve_fields3 = replicate 32 0,
     stake_reserve_fields4 = replicate 30 0 \<rparr>"

lemma sample_blank: "blank_pool sample_pool0" "blank_stake sample_stake0"
  by (simp_all add: blank_pool_def blank_stake_def sample_pool0_def sample_stake0_def)


text \<open>
  The period starts again when the pool was emptied: a supply of 1000 for 10 slots pays 2000 to one
  staker who is in the pool for 20 slots, with a gap between.
\<close>

lemma restart_pays_twice_the_supply:
  "attempt (pool_init 12 13 40 None 10 1000 None 0 255 sample_pool0) (\<lambda>p.
   attempt (stake_account_init 9 50 sample_stake0) (\<lambda>a.
   attempt (pool_deposit 100 5 p) (\<lambda>(c, p).
   attempt (stake_deposit c 5 a) (\<lambda>a.
   attempt (pool_withdraw 110 5 p) (\<lambda>(c, p).
   attempt (stake_withdraw c 5 a) (\<lambda>a.
   attempt (pool_deposit 200 5 p) (\<lambda>(c, p).
   attempt (stake_deposit c 5 a) (\<lambda>a.
   attempt (pool_claim_reward 210 p) (\<lambda>(c, p).
   attempt (stake_claim_reward c a) (\<lambda>(claimed, a). Inr claimed)))))))))) = Inr (2000, None)"
  by (simp add: run sample_pool0_def sample_stake0_def stake_account_init_def PROGRAM_VERSION_def del: attempt_Inr_iff)
end
