(* ===== verification/Staking_Storage.thy ===== *)
theory Staking_Storage
  imports Staking_Correct Processor_Common
begin

text \<open>
  The staking program's accounts as storage: what a handler packs is what the next one unpacks,
  and what its handlers check and leave behind.
\<close>

section \<open>States that are read back\<close>

definition current_pool :: "staking_pool \<Rightarrow> bool" where
  "current_pool p \<longleftrightarrow> pool_version p = PROGRAM_VERSION \<and>
     pool_reserve_fields3 p = replicate 32 0 \<and> pool_reserve_fields4 p = replicate 29 0"

definition current_stake :: "stake_account \<Rightarrow> bool" where
  "current_stake a \<longleftrightarrow> stake_version a = PROGRAM_VERSION \<and>
     stake_reserve_fields2 a = replicate 32 0 \<and> stake_reserve_fields3 a = replicate 32 0 \<and>
     stake_reserve_fields4 a = replicate 30 0"

lemma pack_option_decimal_fits: "pack_option_decimal d dst = Inr bs \<Longrightarrow> option_fits d"
  by (auto simp: pack_option_decimal_def option_fits_def split: option.splits dest: pack_decimal_fits)

lemma staking_pool_read_fields:
  "staking_pool_read bs = Inr p \<Longrightarrow> pool_version p \<le> PROGRAM_VERSION \<and>
     pool_reserve_fields3 p = replicate 32 0 \<and> pool_reserve_fields4 p = replicate 29 0"
  by (auto simp: staking_pool_read_def split: if_splits)

lemma stake_account_read_fields:
  "stake_account_read bs = Inr a \<Longrightarrow> stake_version a \<le> PROGRAM_VERSION \<and>
     stake_reserve_fields2 a = replicate 32 0 \<and> stake_reserve_fields3 a = replicate 32 0 \<and>
     stake_reserve_fields4 a = replicate 30 0"
  by (auto simp: stake_account_read_def split: if_splits)

interpretation stored_pool: stored STAKING_POOL_LEN staking_pool_fits staking_pool_write
  staking_pool_read current_pool staking_pool_is_initialized
proof unfold_locales
  fix p and dst bs :: "byte list"
  assume "current_pool p" "length dst = STAKING_POOL_LEN" "staking_pool_write p dst = Inr bs"
  then show "staking_pool_fits p"
    by (elim staking_pool_write_cases)
      (auto simp: staking_pool_fits_def current_pool_def dest!: pack_decimal_fits pack_option_decimal_fits)
next
  fix p and bs :: "byte list"
  assume "staking_pool_read bs = Inr p" "staking_pool_is_initialized p"
  then show "current_pool p"
    by (auto simp: staking_pool_is_initialized_def current_pool_def intro!: version_current
        dest: staking_pool_read_fields)
qed (simp add: current_pool_def staking_pool_is_initialized_def PROGRAM_VERSION_def UNINITIALIZED_VERSION_def)

interpretation stored_stake: stored STAKE_ACCOUNT_LEN stake_account_fits stake_account_write
  stake_account_read current_stake stake_account_is_initialized
proof unfold_locales
  fix a and dst bs :: "byte list"
  assume "current_stake a" "length dst = STAKE_ACCOUNT_LEN" "stake_account_write a dst = Inr bs"
  then show "stake_account_fits a"
    by (elim stake_account_write_cases)
      (auto simp: stake_account_fits_def current_stake_def dest!: pack_decimal_fits pack_option_decimal_fits)
next
  fix a and bs :: "byte list"
  assume "stake_account_read bs = Inr a" "stake_account_is_initialized a"
  then show "current_stake a"
    by (auto simp: stake_account_is_initialized_def current_stake_def intro!: version_current
        dest: stake_account_read_fields)
qed (simp add: current_stake_def stake_account_is_initialized_def PROGRAM_VERSION_def UNINITIALIZED_VERSION_def)

lemma load_pool_current:
  "pack_checks rt \<Longrightarrow> unpack_pool rt w i = Inr p \<Longrightarrow> current_pool p \<and> length (data_of w i) = STAKING_POOL_LEN"
  unfolding unpack_pool_def staking_pool_unpack_from_slice_def by (rule stored_pool.load_current)

lemma load_stake_current:
  "pack_checks rt \<Longrightarrow> unpack_stake rt w i = Inr a \<Longrightarrow>
     current_stake a \<and> length (data_of w i) = STAKE_ACCOUNT_LEN"
  unfolding unpack_stake_def stake_account_unpack_from_slice_def by (rule stored_stake.load_current)

lemma stored_pool_read:
  "pack_checks rt \<Longrightarrow> current_pool p \<Longrightarrow> pack_pool rt p i w = Inr w' \<Longrightarrow> unpack_pool rt w' i = Inr p"
  unfolding unpack_pool_def pack_pool_def staking_pool_unpack_from_slice_def
    staking_pool_pack_into_slice_def by (rule stored_pool.load_store)

lemma stored_stake_read:
  "pack_checks rt \<Longrightarrow> current_stake a \<Longrightarrow> pack_stake rt a i w = Inr w' \<Longrightarrow> unpack_stake rt w' i = Inr a"
  unfolding unpack_stake_def pack_stake_def stake_account_unpack_from_slice_def
    stake_account_pack_into_slice_def by (rule stored_stake.load_store)

lemma pool_store_total:
  "pack_checks rt \<Longrightarrow> staking_pool_fits p \<Longrightarrow> length (data_of w i) = STAKING_POOL_LEN \<Longrightarrow>
     \<exists>w'. pack_pool rt p i w = Inr w'"
  unfolding pack_pool_def staking_pool_pack_into_slice_def by (rule stored_pool.store_total)

lemma stake_store_total:
  "pack_checks rt \<Longrightarrow> stake_account_fits a \<Longrightarrow> length (data_of w i) = STAKE_ACCOUNT_LEN \<Longrightarrow>
     \<exists>w'. pack_stake rt a i w = Inr w'"
  unfolding pack_stake_def stake_account_pack_into_slice_def by (rule stored_stake.store_total)

text \<open>The two states are different accounts, so both are found again.\<close>

lemma staking_lengths [simp]: "STAKING_POOL_LEN \<noteq> STAKE_ACCOUNT_LEN"
  by (simp add: STAKING_POOL_LEN_def STAKE_ACCOUNT_LEN_def)

lemma stored_staking_pair:
  assumes pc: "pack_checks rt" and load: "unpack_pool rt w pi = Inr p" "unpack_stake rt w ai = Inr a"
    and cur: "current_pool p'" "current_stake a'"
    and w1: "pack_stake rt a' ai w = Inr w1" and w2: "pack_pool rt p' pi w1 = Inr w'"
  shows "unpack_pool rt w' pi = Inr p' \<and> unpack_stake rt w' ai = Inr a'"
proof -
  have k: "info_key ai \<noteq> info_key pi"
    using load_pool_current [OF pc load(1)] load_stake_current [OF pc load(2)] staking_lengths
    unfolding data_of_def by metis
  have "unpack_stake rt w1 ai = Inr a'" using stored_stake_read [OF pc cur(2) w1] .
  moreover have "data_of w' ai = data_of w1 ai"
    using w2 k by (simp add: pack_pool_def data_of_def pack_into_frame)
  ultimately show ?thesis
    using stored_pool_read [OF pc cur(1) w2] by (simp add: unpack_stake_def)
qed

section \<open>The operations keep the version\<close>

lemma pool_deposit_current: "pool_deposit t n p = Inr (c, p') \<Longrightarrow> current_pool p \<Longrightarrow> current_pool p'"
  by (auto simp: pool_deposit_def current_pool_def dest!: claim_reward_helper_ok(1) split: if_splits)

lemma pool_withdraw_current: "pool_withdraw t n p = Inr (c, p') \<Longrightarrow> current_pool p \<Longrightarrow> current_pool p'"
  by (auto simp: pool_withdraw_def current_pool_def dest!: claim_reward_helper_ok(1) split: if_splits)

lemma pool_claim_current: "pool_claim_reward t p = Inr (c, p') \<Longrightarrow> current_pool p \<Longrightarrow> current_pool p'"
  by (auto simp: pool_claim_reward_def current_pool_def dest!: claim_reward_helper_ok(1))

lemma calculate_reward_current: "calculate_reward c a = Inr (r, a') \<Longrightarrow> current_stake a \<Longrightarrow> current_stake a'"
  by (auto simp: calculate_reward_def current_stake_def Let_def split: if_splits)

lemma stake_update_current [simp]:
  "current_stake (a\<lparr> unclaimed_reward_wads := u, start_rate := c \<rparr>) = current_stake a"
  "current_stake (a\<lparr> unclaimed_reward_wads := u, staked_amount := n, start_rate := c \<rparr>) = current_stake a"
  by (simp_all add: current_stake_def)

lemma stake_deposit_current: "stake_deposit c n a = Inr a' \<Longrightarrow> current_stake a \<Longrightarrow> current_stake a'"
  by (auto simp: stake_deposit_def dest: calculate_reward_current split: if_splits)

lemma stake_withdraw_current: "stake_withdraw c n a = Inr a' \<Longrightarrow> current_stake a \<Longrightarrow> current_stake a'"
  by (auto simp: stake_withdraw_def dest: calculate_reward_current split: if_splits)

lemma stake_claim_current:
  "stake_claim_reward c a = Inr (rs, a') \<Longrightarrow> current_stake a \<Longrightarrow> current_stake a'"
  by (auto simp: stake_claim_reward_def dest: calculate_reward_current)

end
