(* ===== verification/Staking_World.thy ===== *)
theory Staking_World
  imports Staking_Storage Sample_World
begin

text \<open>
  A concrete staking pool and stake account, in the runtime of \<open>Sample_World\<close>: the pool at address
  50 pays 10 tokens a slot between slots 4 and 104 to its one account at address 51, which has
  staked 5 tokens. Program 100 owns both; every other account is a token account.
\<close>

definition sample_pool :: staking_pool where
  "sample_pool = \<lparr> pool_version = 1, owner_authority = 9, admin_authority = 8, reward_token_pool = 40,
     pool_last_update = 4, end_time = 104, pool_duration = 100, earliest_claim_time = 7,
     pool_rate = \<lparr> slot_reward = Decimal 10000000000000000000, slot_sub_reward = None \<rparr>,
     pool_cumulative_rate = \<lparr> rate_reward = Decimal 2000000000000000000, rate_sub_reward = None \<rparr>,
     pool_size = 5, bump_seed = 255, sub_reward_token_pool = None,
     pool_reserve_fields3 = replicate 32 0, pool_reserve_fields4 = replicate 29 0 \<rparr>"

definition sample_stake :: stake_account where
  "sample_stake = \<lparr> stake_version = 1,
     start_rate = \<lparr> rate_reward = Decimal 1000000000000000000, rate_sub_reward = None \<rparr>,
     stake_owner = 9, pool_pubkey = 50, staked_amount = 5,
     unclaimed_reward_wads = \<lparr> reward_wads = Decimal 3500000000000000000, sub_reward_wads = None \<rparr>,
     stake_reserve_fields2 = replicate 32 0, stake_reserve_fields3 = replicate 32 0,
     stake_reserve_fields4 = replicate 30 0 \<rparr>"

definition staking_world :: "staking_pool \<Rightarrow> world" where
  "staking_world p = (\<lambda>k.
     if k = 50 then \<lparr> acc_lamports = 5000, acc_owner = 100,
       acc_data = packed_data (staking_pool_pack_into_slice p) STAKING_POOL_LEN \<rparr>
     else if k = 51 then \<lparr> acc_lamports = 5000, acc_owner = 100,
       acc_data = packed_data (stake_account_pack_into_slice sample_stake) STAKE_ACCOUNT_LEN \<rparr>
     else \<lparr> acc_lamports = 5000, acc_owner = 200, acc_data = u64_to 4000 \<rparr>)"

lemma staking_world_owner [simp]:
  "acc_owner (staking_world p k) = (if k \<in> {50, 51} then 100 else 200)"
  "owner_of (staking_world p) (acct k) = (if k \<in> {50, 51} then 100 else 200)"
  by (simp_all add: staking_world_def owner_of_def)

lemma sample_staking_fits [simp]:
  "staking_pool_fits sample_pool" "stake_account_fits sample_stake"
  "current_pool sample_pool" "current_stake sample_stake"
  by (simp_all add: staking_pool_fits_def stake_account_fits_def current_pool_def current_stake_def
      sample_pool_def sample_stake_def PROGRAM_VERSION_def option_fits_def)

lemma staking_world_load:
  assumes "staking_pool_fits p" "current_pool p"
  shows "unpack_pool sample_rt (staking_world p) (acct 50) = Inr p"
    and "length (data_of (staking_world p) (acct 50)) = STAKING_POOL_LEN"
    and "unpack_stake sample_rt (staking_world p) (acct 51) = Inr sample_stake"
    and "length (data_of (staking_world p) (acct 51)) = STAKE_ACCOUNT_LEN"
  using stored_pool.load_packed [OF sample_pack_checks assms]
    stored_stake.load_packed [OF sample_pack_checks sample_staking_fits(2,4)]
  by (simp_all add: unpack_pool_def unpack_stake_def staking_pool_unpack_from_slice_def
      stake_account_unpack_from_slice_def staking_pool_pack_into_slice_def
      stake_account_pack_into_slice_def data_of_def staking_world_def)

text \<open>Both states can be stored, one after the other, in any world that holds accounts of their size.\<close>

lemma staking_store:
  assumes "staking_pool_fits p" "stake_account_fits a"
    and "length (data_of w (acct 50)) = STAKING_POOL_LEN" "length (data_of w (acct 51)) = STAKE_ACCOUNT_LEN"
  obtains w1 w' where "pack_stake sample_rt a (acct 51) w = Inr w1" "pack_pool sample_rt p (acct 50) w1 = Inr w'"
proof -
  obtain w1 where w1: "pack_stake sample_rt a (acct 51) w = Inr w1"
    using stake_store_total [OF sample_pack_checks assms(2), of w "acct 51"] assms(4) by auto
  then have "data_of w1 (acct 50) = data_of w (acct 50)"
    by (simp add: pack_stake_def data_of_def pack_into_frame)
  with pool_store_total [OF sample_pack_checks assms(1), of w1 "acct 50"] assms(3)
  obtain w' where "pack_pool sample_rt p (acct 50) w1 = Inr w'" by auto
  with w1 that show thesis by blast
qed

lemma st_transfer_spl:
  "spl_token_transfer rt s d n auth seeds tp w = Inr w' \<Longrightarrow> st_token_transfer rt s d n auth seeds tp w = Inr w'"
  by (auto simp: spl_token_transfer_def st_token_transfer_def invoke_optionally_signed_def)

lemma sample_derived [simp]: "check_derived sample_rt p pi b (acct 11) = Inr ()"
  by (simp add: check_derived_def sample_rt_def lib_def st_refuse_if_def)

end
