(* ===== verification/Staking_Admin.thy ===== *)
theory Staking_Admin
  imports Staking_World
begin

text \<open>
  What an administrator's changes do to the rewards of a staking pool, and the round trips of the
  staking program's data.
\<close>

section \<open>Changing the duration\<close>

lemma extend_unstarted_ok:
  assumes "extend_unstarted n p = Inr p'"
  shows "unat (pool_duration p') = unat (pool_duration p) + unat n"
    "dec (slot_reward (pool_rate p')) * unat (pool_duration p') \<le>
       dec (slot_reward (pool_rate p)) * unat (pool_duration p)"
proof -
  from assms obtain d s r where d: "unat d = unat (pool_duration p) + unat n"
    and s: "rate_mul (pool_rate p) (pool_duration p) = Inr s" and r: "rate_div s d = Inr r"
    and p': "p' = p\<lparr> pool_duration := d, pool_rate := r \<rparr>"
    by (auto simp: extend_unstarted_def i64_to_u64_def checked split: if_splits)
  show "unat (pool_duration p') = unat (pool_duration p) + unat n" by (simp add: p' d)
  have "dec (slot_reward r) * unat d \<le> dec (slot_reward s)" using slot_rate_div_ok [OF r] by simp
  then show "dec (slot_reward (pool_rate p')) * unat (pool_duration p') \<le>
       dec (slot_reward (pool_rate p)) * unat (pool_duration p)"
    using slot_rate_mul_ok [OF s] by (simp add: p')
qed

text \<open>A supply that replaces a cleared rate promises at most that supply.\<close>

lemma refill_ok:
  assumes up: "update_reward_supply n sub t p = Inr p'" and n: "0 \<le> signed_val n"
    and rate: "dec (slot_reward (pool_rate p)) = 0"
  shows "remaining p' \<le> unat n * wad"
proof -
  from up obtain e c p1 ch r where e: "unat (end_time p) = unat t + unat e"
    and h: "claim_reward_helper t p = Inr (c, p1)"
    and ch: "st_try_div_u64 (decimal_from_u64 (i64_abs n)) e = Inr ch"
    and r: "(if 0 < signed_val n then st_try_add (slot_reward (pool_rate p1)) ch
      else map_err (st_try_sub (slot_reward (pool_rate p1)) ch) (staking S_ReduceRewardTooMuch)) = Inr r"
    and p': "end_time p' = end_time p1" "pool_last_update p' = pool_last_update p1" "slot_reward (pool_rate p') = r"
    by (auto simp: update_reward_supply_def checked Let_def)
  note p1 = claim_reward_helper_ok(1) [OF h]
  have t: "min t (end_time p) = t" using e by (simp add: min_def word_le_nat_alt)
  have "i64_abs n = n" using n by (simp add: i64_abs_def)
  then have ch: "dec ch = unat n * wad div unat e" using ch by (simp add: st_ok)
  have "dec r \<le> dec ch" using r rate by (auto simp: p1 st_ok split: if_splits)
  then have "dec r * unat e \<le> dec ch * unat e" by simp
  also have "\<dots> \<le> unat n * wad" by (simp add: ch)
  finally show ?thesis by (simp add: remaining_def p' p1 t e)
qed

lemma extend_running_ok:
  assumes "extend_running n e t p = Inr p'"
  shows "remaining p' \<le> dec (slot_reward (pool_rate p)) * unat e"
proof -
  from assms obtain d r sub ri subi where d: "rate_mul (pool_rate p) e = Inr d"
    and f: "rate_try_floor_u64 d = Inr (r, sub)" and i: "u64_to_i64 r = Some ri"
    and up: "update_reward_supply ri subi t
      ((move_end n p)\<lparr> pool_rate := rate_clear (pool_rate (move_end n p)) \<rparr>) = Inr p'"
    by (auto simp: extend_running_def Let_def split: if_splits)
  have r: "unat r = dec (slot_reward (pool_rate p)) * unat e div wad"
    using f slot_rate_mul_ok [OF d] by (auto simp: rate_try_floor_u64_def st_ok)
  from u64_to_i64_abs [OF i] have ri: "ri = r" "0 \<le> signed_val ri" by linarith+
  from refill_ok [OF up ri(2)] have "remaining p' \<le> unat r * wad"
    by (simp add: rate_clear_def ri(1))
  also have "\<dots> \<le> dec (slot_reward (pool_rate p)) * unat e" by (simp add: r)
  finally show ?thesis .
qed



section \<open>Round trips\<close>

text \<open>
  C27: A staking pool and a stake account that fit their accounts are read back as they were
  written, whatever the buffers held; the bytes after the first 298 and 233 keep their value.
\<close>

theorem staking_state_roundtrip:
  assumes "staking_pool_fits p" "STAKING_POOL_LEN \<le> length dst"
    and "stake_account_fits a" "STAKE_ACCOUNT_LEN \<le> length dst"
  shows "(\<exists>bs. staking_pool_pack_into_slice p dst = Inr bs \<and> staking_pool_unpack_from_slice bs = Inr p \<and>
      length bs = length dst \<and> drop STAKING_POOL_LEN bs = drop STAKING_POOL_LEN dst) \<and>
    (\<exists>bs. stake_account_pack_into_slice a dst = Inr bs \<and> stake_account_unpack_from_slice bs = Inr a \<and>
      length bs = length dst \<and> drop STAKE_ACCOUNT_LEN bs = drop STAKE_ACCOUNT_LEN dst)"
  unfolding staking_pool_pack_into_slice_def staking_pool_unpack_from_slice_def
    stake_account_pack_into_slice_def stake_account_unpack_from_slice_def
  using pool_pack.pack_total [OF assms(1,2)] pool_pack.unpack_pack [OF assms(1)]
    pool_pack.pack_length pool_pack.pack_frame
    stake_pack.pack_total [OF assms(3,4)] stake_pack.unpack_pack [OF assms(3)]
    stake_pack.pack_length stake_pack.pack_frame by blast

theorem staking_state_roundtrip_witness:
  "(\<exists>bs. staking_pool_pack_into_slice sample_pool (replicate 300 7) = Inr bs \<and>
     staking_pool_unpack_from_slice bs = Inr sample_pool) \<and>
   (\<exists>bs. stake_account_pack_into_slice sample_stake (replicate 300 7) = Inr bs \<and>
     stake_account_unpack_from_slice bs = Inr sample_stake)"
proof -
  have "STAKING_POOL_LEN \<le> length (replicate 300 7 :: byte list)"
    "STAKE_ACCOUNT_LEN \<le> length (replicate 300 7 :: byte list)"
    by (simp_all add: STAKING_POOL_LEN_def STAKE_ACCOUNT_LEN_def)
  from staking_state_roundtrip [OF sample_staking_fits(1) this(1) sample_staking_fits(2) this(2)]
  show ?thesis by blast
qed

end
