(* ===== verification/Staking_Safe.thy ===== *)
theory Staking_Safe
  imports Staking_World
begin

text \<open>
  What a successful run of the staking program's handlers checked, and what it left in the accounts;
  how the lending program's calls reach them; and two sequences whose outcome is surprising.
\<close>

section \<open>Inverting the handlers\<close>

lemma st_refuse_if_ok [simp]: "st_refuse_if bad e = Inr u \<longleftrightarrow> \<not> bad"
  by (simp add: st_refuse_if_def)

lemma next_account_infos_ok:
  "next_account_infos rt n as = Inr (infos, rest) \<longleftrightarrow> n \<le> length as \<and> infos = take n as \<and> rest = drop n as"
  by (auto simp: next_account_infos_def)

lemma load_staked_ok:
  "load_staked rt pid auth ai pi w = Inr (p, a) \<longleftrightarrow> is_signer auth \<and> owner_of w pi = pid \<and>
     owner_of w ai = pid \<and> unpack_pool rt w pi = Inr p \<and>
     (info_key auth = owner_authority p \<or> info_key auth = admin_authority p) \<and>
     unpack_stake rt w ai = Inr a \<and> pool_pubkey a = info_key pi"
  by (auto simp: load_staked_def)

lemma st_deposit_cases:
  assumes "process_deposit rt pid n (auth # ai # pi # ci # rest) w = Inr w'"
    and "unpack_pool rt w pi = Inr p" "unpack_stake rt w ai = Inr a"
  obtains clock c p' a' w1 where "load_staked rt pid auth ai pi w = Inr (p, a)"
    "clock_from rt w ci = Inr clock" "pool_deposit clock n p = Inr (c, p')"
    "stake_deposit c n a = Inr a'" "pack_stake rt a' ai w = Inr w1" "pack_pool rt p' pi w1 = Inr w'"
  using assms by (auto simp: process_deposit_def next_account_infos_def load_staked_ok)

lemma st_withdraw_cases:
  assumes "process_withdraw rt pid n (auth # ai # pi # ci # rest) w = Inr w'"
    and "unpack_pool rt w pi = Inr p" "unpack_stake rt w ai = Inr a"
  obtains clock c p' a' w1 where "load_staked rt pid auth ai pi w = Inr (p, a)"
    "clock_from rt w ci = Inr clock" "pool_withdraw clock n p = Inr (c, p')"
    "stake_withdraw c n a = Inr a'" "pack_stake rt a' ai w = Inr w1" "pack_pool rt p' pi w1 = Inr w'"
  using assms by (auto simp: process_withdraw_def next_account_infos_def load_staked_ok)

lemma staking_pack_frame:
  assumes "pack_stake rt a ai w = Inr w1" "pack_pool rt p pi w1 = Inr w'" "k \<noteq> info_key ai" "k \<noteq> info_key pi"
  shows "w' k = w k"
  using assms by (simp add: pack_stake_def pack_pool_def pack_into_frame)

section \<open>Depositing and withdrawing\<close>

text \<open>
  C11: A stake changes only through the pool's owner or administrator, who signed, on a pool and a
  stake account of the program that belong together. Stake and pool size move by the same amount,
  the account is settled at the pool's new rate with exactly the reward it had earned, its owner
  stays, and no other account changes.
\<close>

theorem stake_change_safe:
  assumes rt: "pack_checks rt" and load: "unpack_pool rt w pi = Inr p" "unpack_stake rt w ai = Inr a"
    and run: "process_deposit rt pid n (auth # ai # pi # ci # rest) w = Inr w' \<or>
      process_withdraw rt pid n (auth # ai # pi # ci # rest) w = Inr w'"
  shows "is_signer auth \<and> info_key auth \<in> {owner_authority p, admin_authority p} \<and>
    owner_of w pi = pid \<and> owner_of w ai = pid \<and> pool_pubkey a = info_key pi \<and> n \<noteq> 0 \<and>
    (\<exists>p' a'. unpack_pool rt w' pi = Inr p' \<and> unpack_stake rt w' ai = Inr a' \<and>
      unat (staked_amount a') + unat (pool_size p) = unat (staked_amount a) + unat (pool_size p') \<and>
      start_rate a' = pool_cumulative_rate p' \<and>
      dec (reward_wads (unclaimed_reward_wads a')) = dec (reward_wads (unclaimed_reward_wads a)) +
        unat (staked_amount a) *
          (dec (rate_reward (pool_cumulative_rate p')) - dec (rate_reward (start_rate a))) \<and>
      (\<forall>k. k \<noteq> info_key ai \<longrightarrow> k \<noteq> info_key pi \<longrightarrow> w' k = w k))"
  using run
proof
  assume "process_deposit rt pid n (auth # ai # pi # ci # rest) w = Inr w'"
  then obtain clock c p' a' w1 where l: "load_staked rt pid auth ai pi w = Inr (p, a)"
    and p: "pool_deposit clock n p = Inr (c, p')" and a: "stake_deposit c n a = Inr a'"
    and w1: "pack_stake rt a' ai w = Inr w1" and w': "pack_pool rt p' pi w1 = Inr w'"
    using load by (rule st_deposit_cases)
  have cur: "current_pool p'" "current_stake a'"
    using pool_deposit_current [OF p] stake_deposit_current [OF a] load_pool_current [OF rt load(1)]
      load_stake_current [OF rt load(2)] by simp_all
  show ?thesis
    using l pool_deposit_ok [OF p] stake_deposit_ok [OF a] stored_staking_pair [OF rt load cur w1 w']
      staking_pack_frame [OF w1 w'] by (auto simp: load_staked_ok)
next
  assume "process_withdraw rt pid n (auth # ai # pi # ci # rest) w = Inr w'"
  then obtain clock c p' a' w1 where l: "load_staked rt pid auth ai pi w = Inr (p, a)"
    and p: "pool_withdraw clock n p = Inr (c, p')" and a: "stake_withdraw c n a = Inr a'"
    and w1: "pack_stake rt a' ai w = Inr w1" and w': "pack_pool rt p' pi w1 = Inr w'"
    using load by (rule st_withdraw_cases)
  have cur: "current_pool p'" "current_stake a'"
    using pool_withdraw_current [OF p] stake_withdraw_current [OF a] load_pool_current [OF rt load(1)]
      load_stake_current [OF rt load(2)] by simp_all
  from p obtain p1 where "claim_reward_helper clock p = Inr (c, p1)" "pool_cumulative_rate p' = c"
    "unat (pool_size p) = unat (pool_size p') + unat n" by (rule pool_withdraw_ok)
  then show ?thesis
    using l stake_withdraw_ok [OF a] stored_staking_pair [OF rt load cur w1 w']
      staking_pack_frame [OF w1 w'] by (auto simp: load_staked_ok)
qed

lemma sample_deposit_run:
  "\<exists>w'. process_deposit sample_rt 100 5 (acct 9 # acct 51 # acct 50 # acct 1 # [])
     (staking_world sample_pool) = Inr w'"
proof -
  define w where "w = staking_world sample_pool"
  note load = staking_world_load [OF sample_staking_fits(1,3), folded w_def]
  define p where "p = sample_pool\<lparr> pool_last_update := 10, pool_size := 10, pool_cumulative_rate :=
    \<lparr> rate_reward = Decimal 14000000000000000000, rate_sub_reward = None \<rparr> \<rparr>"
  define a where "a = sample_stake\<lparr> staked_amount := 10, start_rate := pool_cumulative_rate p,
    unclaimed_reward_wads := \<lparr> reward_wads = Decimal 68500000000000000000, sub_reward_wads = None \<rparr> \<rparr>"
  have p: "pool_deposit 10 5 sample_pool = Inr (pool_cumulative_rate p, p)"
    by (simp add: sample_pool_def p_def run del: attempt_Inr_iff)
  have a: "stake_deposit (pool_cumulative_rate p) 5 sample_stake = Inr a"
    by (simp add: sample_stake_def sample_pool_def p_def a_def run del: attempt_Inr_iff)
  have "staking_pool_fits p" "stake_account_fits a"
    by (simp_all add: staking_pool_fits_def stake_account_fits_def p_def a_def sample_pool_def
        sample_stake_def PROGRAM_VERSION_def option_fits_def)
  then obtain w1 w' where "pack_stake sample_rt a (acct 51) w = Inr w1" "pack_pool sample_rt p (acct 50) w1 = Inr w'"
    using load(2,4) by (rule staking_store)
  moreover have "load_staked sample_rt 100 (acct 9) (acct 51) (acct 50) w = Inr (sample_pool, sample_stake)"
    using load by (simp add: load_staked_ok w_def) (simp add: sample_pool_def sample_stake_def)
  ultimately show ?thesis
    by (simp add: process_deposit_def next_account_infos_def p a w_def)
qed

theorem stake_change_safe_witness:
  "\<exists>w' p' a'. process_deposit sample_rt 100 5 (acct 9 # acct 51 # acct 50 # acct 1 # [])
      (staking_world sample_pool) = Inr w' \<and>
    unpack_pool sample_rt w' (acct 50) = Inr p' \<and> unpack_stake sample_rt w' (acct 51) = Inr a' \<and>
    unat (staked_amount a') + unat (pool_size sample_pool) =
      unat (staked_amount sample_stake) + unat (pool_size p')"
proof -
  obtain w' where run: "process_deposit sample_rt 100 5 (acct 9 # acct 51 # acct 50 # acct 1 # [])
      (staking_world sample_pool) = Inr w'" using sample_deposit_run by blast
  from stake_change_safe [OF sample_pack_checks staking_world_load(1,3) [OF sample_staking_fits(1,3)] disjI1 [OF run]] run
  show ?thesis by blast
qed

section \<open>Claiming\<close>

lemma process_claim_cases:
  assumes "process_claim_reward rt pid (oi # ai # pi # ri # di # vi # ci # tp # rest) w = Inr w'"
    and "unpack_pool rt w pi = Inr p" "unpack_stake rt w ai = Inr a" "clock_from rt w ci = Inr clock"
    and "\<not> clock < earliest_claim_time p"
  obtains c p' r sub a' w1 w2 w3 where "is_signer oi" "claim_checks pid oi ai pi ri di tp p a w = Inr ()"
    "pool_claim_reward clock p = Inr (c, p')" "stake_claim_reward c a = Inr ((r, sub), a')"
    "check_derived rt pid pi (bump_seed p') vi = Inr ()"
    "st_token_transfer rt ri di r vi (pool_seeds pi (bump_seed p')) tp w = Inr w1"
    "claim_sub_reward rt sub p' vi (pool_seeds pi (bump_seed p')) tp rest w1 = Inr w2"
    "pack_stake rt a' ai w2 = Inr w3" "pack_pool rt p' pi w3 = Inr w'"
  using assms by (auto simp: process_claim_reward_def next_account_infos_def)

lemma claim_checks_ok:
  "claim_checks pid oi ai pi ri di tp p a w = Inr u \<longleftrightarrow> owner_of w pi = pid \<and> owner_of w ai = pid \<and>
     pool_pubkey a = info_key pi \<and> stake_owner a = info_key oi \<and> reward_token_pool p = info_key ri \<and>
     owner_of w di = info_key tp \<and> owner_of w ri = info_key tp"
  by (auto simp: claim_checks_def)

lemma st_transfer_same:
  assumes rt: "runtime_ok rt pid" and tp: "info_key tp \<noteq> pid"
  shows "st_token_transfer rt s d n auth seeds tp w = Inr w' \<Longrightarrow> same_for pid w w'"
proof -
  have b: "token_builders rt" using rt by (simp add: runtime_ok_def)
  show "st_token_transfer rt s d n auth seeds tp w = Inr w' \<Longrightarrow> same_for pid w w'"
    using b tp by (auto simp: st_token_transfer_def token_builders_def split: if_splits
        dest: invoke_same [OF rt])
qed

lemma claim_sub_same:
  "runtime_ok rt pid \<Longrightarrow> info_key tp \<noteq> pid \<Longrightarrow>
     claim_sub_reward rt sub p vi seeds tp rest w = Inr w' \<Longrightarrow> same_for pid w w'"
  by (auto simp: claim_sub_reward_def split: option.splits dest: st_transfer_same)


lemma sample_claim_run:
  "\<exists>w'. process_claim_reward sample_rt 100 (acct 9 # acct 51 # acct 50 # acct 40 # acct 41 # acct 11 #
     acct 1 # acct 200 # []) (staking_world sample_pool) = Inr w'"
proof -
  define w where "w = staking_world sample_pool"
  note load = staking_world_load [OF sample_staking_fits(1,3), folded w_def]
  define p where "p = sample_pool\<lparr> pool_last_update := 10, pool_cumulative_rate :=
    \<lparr> rate_reward = Decimal 14000000000000000000, rate_sub_reward = None \<rparr> \<rparr>"
  define a where "a = sample_stake\<lparr> start_rate := pool_cumulative_rate p,
    unclaimed_reward_wads := \<lparr> reward_wads = Decimal 500000000000000000, sub_reward_wads = None \<rparr> \<rparr>"
  have p: "pool_claim_reward 10 sample_pool = Inr (pool_cumulative_rate p, p)"
    by (simp add: sample_pool_def p_def run del: attempt_Inr_iff)
  have a: "stake_claim_reward (pool_cumulative_rate p) sample_stake = Inr ((68, None), a)"
    by (simp add: sample_stake_def sample_pool_def p_def a_def run del: attempt_Inr_iff)
  have fits: "staking_pool_fits p" "stake_account_fits a" "bump_seed p = 255" "\<not> 10 < earliest_claim_time sample_pool"
    by (simp_all add: staking_pool_fits_def stake_account_fits_def p_def a_def sample_pool_def
        sample_stake_def PROGRAM_VERSION_def option_fits_def)
  have bal: "balance w 40 = 4000" by (simp add: balance_def w_def staking_world_def)
  obtain w0 where w0: "spl_token_transfer sample_rt (acct 40) (acct 41) 68 (acct 11)
      (pool_seeds (acct 50) 255) (acct 200) w = Inr w0"
    and f: "\<And>k. k \<noteq> 40 \<Longrightarrow> k \<noteq> 41 \<Longrightarrow> w0 k = w k"
    by (rule sample_transfer [of w "acct 40" "acct 41" 68 "acct 11" "pool_seeds (acct 50) 255"])
      (simp_all add: bal, simp_all add: w_def)
  have "data_of w0 (acct 50) = data_of w (acct 50)" "data_of w0 (acct 51) = data_of w (acct 51)"
    by (simp_all add: data_of_def f)
  with load(2,4) obtain w1 w' where st: "pack_stake sample_rt a (acct 51) w0 = Inr w1"
    "pack_pool sample_rt p (acct 50) w1 = Inr w'"
    using staking_store [OF fits(1,2), of w0] by auto
  have "claim_checks 100 (acct 9) (acct 51) (acct 50) (acct 40) (acct 41) (acct 200) sample_pool sample_stake w = Inr ()"
    by (simp add: claim_checks_ok w_def) (simp add: sample_pool_def sample_stake_def)
  then have "process_claim_reward sample_rt 100 (acct 9 # acct 51 # acct 50 # acct 40 # acct 41 # acct 11 #
     acct 1 # acct 200 # []) w = Inr w'"
    using st_transfer_spl [OF w0] st fits load
    by (simp add: process_claim_reward_def next_account_infos_def p a claim_sub_reward_def)
  then show ?thesis by (auto simp: w_def)
qed


text \<open>
  C22: While nothing is staked in a pool no reward can be claimed: the rate per staked token is
  divided by the pool's size, and from the earliest claim time on every claim fails, so that what a
  staker had earned stays locked until someone stakes again.
\<close>

theorem empty_pool_blocks_claims:
  assumes "unpack_pool rt w pi = Inr p" "unpack_stake rt w ai = Inr a" "clock_from rt w ci = Inr clock"
    and "pool_size p = 0" "\<not> clock < earliest_claim_time p"
  shows "\<exists>e. process_claim_reward rt pid (oi # ai # pi # ri # di # vi # ci # tp # rest) w = Inl e"
proof (cases "process_claim_reward rt pid (oi # ai # pi # ri # di # vi # ci # tp # rest) w")
  case (Inr w')
  from Inr assms(1-3,5) obtain c p' where "pool_claim_reward clock p = Inr (c, p')"
    by (rule process_claim_cases)
  then obtain p1 where "claim_reward_helper clock p = Inr (c, p1)" by (rule pool_claim_ok)
  with assms(4) show ?thesis using claim_reward_helper_ok(2) by blast
qed auto

theorem empty_pool_blocks_claims_witness:
  "\<exists>e. process_claim_reward sample_rt 100 (acct 9 # acct 51 # acct 50 # acct 40 # acct 41 # acct 11 #
      acct 1 # acct 200 # []) (staking_world (sample_pool\<lparr> pool_size := 0 \<rparr>)) = Inl e"
proof -
  have p: "staking_pool_fits (sample_pool\<lparr> pool_size := 0 \<rparr>)" "current_pool (sample_pool\<lparr> pool_size := 0 \<rparr>)"
    using sample_staking_fits(1,3) by (simp_all add: staking_pool_fits_def current_pool_def)
  show ?thesis
    by (rule empty_pool_blocks_claims [OF staking_world_load(1,3) [OF p] sample_clock])
      (simp_all add: sample_pool_def)
qed

section \<open>Administration\<close>

lemma admin_cases:
  "process_change_owner rt pid k (oi # pi # rest) w = Inr w' \<Longrightarrow> \<exists>p. unpack_pool rt w pi = Inr p \<and>
     is_signer oi \<and> info_key oi = owner_authority p \<and> owner_of w pi = pid \<and>
     pack_pool rt (p\<lparr> owner_authority := k \<rparr>) pi w = Inr w'"
  "process_change_admin rt pid k (oi # pi # rest) w = Inr w' \<Longrightarrow> \<exists>p. unpack_pool rt w pi = Inr p \<and>
     is_signer oi \<and> info_key oi = admin_authority p \<and> owner_of w pi = pid \<and>
     pack_pool rt (p\<lparr> admin_authority := k \<rparr>) pi w = Inr w'"
  "process_update_earliest_reward_claim_time rt pid t (oi # pi # rest) w = Inr w' \<Longrightarrow>
     \<exists>p. unpack_pool rt w pi = Inr p \<and> is_signer oi \<and> info_key oi = admin_authority p \<and>
     owner_of w pi = pid \<and> pack_pool rt (p\<lparr> earliest_claim_time := t \<rparr>) pi w = Inr w'"
  "process_change_duration rt pid n (oi # pi # ci # rest) w = Inr w' \<Longrightarrow>
     \<exists>p p' clock. unpack_pool rt w pi = Inr p \<and> is_signer oi \<and> info_key oi = admin_authority p \<and>
     owner_of w pi = pid \<and> extend_duration n clock p = Inr p' \<and> pack_pool rt p' pi w = Inr w'"
  by (auto simp: process_change_owner_def process_change_admin_def process_change_duration_def
      process_update_earliest_reward_claim_time_def next_account_infos_def)

section \<open>Calls from the lending program\<close>


end
