(* ===== verification/Staking_Rates.thy ===== *)
theory Staking_Rates
  imports Staking_Math Rates
begin

text \<open>
  The staking program's own copy of \<open>Rate\<close> (staking/program/src/math/rate.rs) and the operations
  of its decimals that no handler uses (staking/program/src/math/decimal.rs). The representation is
  the lending program's; every operation is translated from the staking source, and the lemmas show
  that it is the lending program's with the other error.
\<close>

section \<open>Operations\<close>

definition st_rate_wad :: u128 where
  "st_rate_wad = ucast WAD"

definition st_rate_half_wad :: u128 where
  "st_rate_half_wad = ucast HALF_WAD"

definition st_rate_one :: rate where
  "st_rate_one = Rate st_rate_wad"

definition st_rate_zero :: rate where
  "st_rate_zero = Rate 0"

definition st_rate_from_percent :: "u8 \<Rightarrow> rate" where
  "st_rate_from_percent percent = Rate (ucast ((ucast percent :: u64) * PERCENT_SCALER))"

definition st_rate_to_scaled_val :: "rate \<Rightarrow> u128" where
  "st_rate_to_scaled_val r = rate_bits r"

definition st_rate_from_scaled_val :: "u64 \<Rightarrow> rate" where
  "st_rate_from_scaled_val v = Rate (ucast v)"

definition st_rate_try_round_u64 :: "rate \<Rightarrow> u64 result" where
  "st_rate_try_round_u64 r =
     attempt (ok_or (checked_add st_rate_half_wad (rate_bits r)) st_overflow) (\<lambda>sum.
     attempt (ok_or (checked_div sum st_rate_wad) st_overflow) (\<lambda>rounded_val.
     ok_or (try_narrow rounded_val) st_overflow))"

definition st_rate_try_add :: "rate \<Rightarrow> rate \<Rightarrow> rate result" where
  "st_rate_try_add a b =
     attempt (ok_or (checked_add (rate_bits a) (rate_bits b)) st_overflow) (\<lambda>v. Inr (Rate v))"

definition st_rate_try_sub :: "rate \<Rightarrow> rate \<Rightarrow> rate result" where
  "st_rate_try_sub a b =
     attempt (ok_or (checked_sub (rate_bits a) (rate_bits b)) st_overflow) (\<lambda>v. Inr (Rate v))"

definition st_rate_try_div_u64 :: "rate \<Rightarrow> u64 \<Rightarrow> rate result" where
  "st_rate_try_div_u64 a b =
     attempt (ok_or (checked_div (rate_bits a) (ucast b)) st_overflow) (\<lambda>v. Inr (Rate v))"

definition st_rate_try_div :: "rate \<Rightarrow> rate \<Rightarrow> rate result" where
  "st_rate_try_div a b =
     attempt (ok_or (checked_mul (rate_bits a) st_rate_wad) st_overflow) (\<lambda>scaled.
     attempt (ok_or (checked_div scaled (rate_bits b)) st_overflow) (\<lambda>v. Inr (Rate v)))"

definition st_rate_try_mul_u64 :: "rate \<Rightarrow> u64 \<Rightarrow> rate result" where
  "st_rate_try_mul_u64 a b =
     attempt (ok_or (checked_mul (rate_bits a) (ucast b)) st_overflow) (\<lambda>v. Inr (Rate v))"

definition st_rate_try_mul :: "rate \<Rightarrow> rate \<Rightarrow> rate result" where
  "st_rate_try_mul a b =
     attempt (ok_or (checked_mul (rate_bits a) (rate_bits b)) st_overflow) (\<lambda>product.
     attempt (ok_or (checked_div product st_rate_wad) st_overflow) (\<lambda>v. Inr (Rate v)))"

function st_rate_pow_loop :: "rate \<Rightarrow> rate \<Rightarrow> u64 \<Rightarrow> rate result" where
  "st_rate_pow_loop base ret exp =
     (if 0 < exp then
        attempt (st_rate_try_mul base base) (\<lambda>base'.
          if exp div 2 mod 2 \<noteq> 0
          then attempt (st_rate_try_mul ret base') (\<lambda>ret'. st_rate_pow_loop base' ret' (exp div 2))
          else st_rate_pow_loop base' ret (exp div 2))
      else Inr ret)"
  by pat_completeness auto

termination
proof (relation "measure (\<lambda>(base, ret, exp). unat exp)", goal_cases)
  case 1
  show ?case by simp
qed (simp_all add: unat_div word_gt_0 unat_gt_0)

declare st_rate_pow_loop.simps [simp del]

definition st_rate_try_pow :: "rate \<Rightarrow> u64 \<Rightarrow> rate result" where
  "st_rate_try_pow base exp =
     st_rate_pow_loop base (if exp mod 2 \<noteq> 0 then base else Rate st_rate_wad) exp"

definition st_rate_of_decimal :: "decimal \<Rightarrow> rate result" where
  "st_rate_of_decimal d = attempt (st_to_scaled_val d) (\<lambda>v. Inr (Rate v))"

text \<open>The rest of math/decimal.rs.\<close>

definition st_decimal_wad :: u192 where
  "st_decimal_wad = ucast WAD"

definition st_decimal_half_wad :: u192 where
  "st_decimal_half_wad = ucast HALF_WAD"

definition st_decimal_one :: decimal where
  "st_decimal_one = Decimal st_decimal_wad"

definition st_decimal_zero :: decimal where
  "st_decimal_zero = Decimal 0"

definition st_decimal_from_percent :: "u8 \<Rightarrow> decimal" where
  "st_decimal_from_percent percent = Decimal (ucast ((ucast percent :: u64) * PERCENT_SCALER))"

definition st_decimal_from_scaled_val :: "u128 \<Rightarrow> decimal" where
  "st_decimal_from_scaled_val v = Decimal (ucast v)"

definition st_decimal_from_rate :: "rate \<Rightarrow> decimal" where
  "st_decimal_from_rate r = Decimal (ucast (st_rate_to_scaled_val r))"

definition st_try_div_rate :: "decimal \<Rightarrow> rate \<Rightarrow> decimal result" where
  "st_try_div_rate d r = st_try_div d (st_decimal_from_rate r)"

definition st_try_mul_rate :: "decimal \<Rightarrow> rate \<Rightarrow> decimal result" where
  "st_try_mul_rate d r = st_try_mul d (st_decimal_from_rate r)"

section \<open>Agreement with the lending program\<close>

lemmas st_rate_constants = st_rate_wad_def st_rate_half_wad_def st_rate_one_def st_rate_zero_def
  rate_wad_def rate_half_wad_def rate_one_def rate_zero_def

lemma st_constants_as_lending:
  "st_rate_wad = rate_wad" "st_rate_half_wad = rate_half_wad" "st_rate_one = rate_one"
  "st_rate_zero = rate_zero" "st_decimal_wad = decimal_wad" "st_decimal_half_wad = decimal_half_wad"
  "st_decimal_one = decimal_one" "st_decimal_zero = decimal_zero"
  by (simp_all add: st_rate_constants st_decimal_wad_def st_decimal_half_wad_def st_decimal_one_def
      st_decimal_zero_def decimal_wad_def decimal_half_wad_def decimal_one_def decimal_zero_def)

lemma st_conversions_as_lending:
  "st_rate_from_percent p = rate_from_percent p" "st_rate_from_scaled_val v = rate_from_scaled_val v"
  "st_decimal_from_percent p = decimal_from_percent p"
  "st_decimal_from_scaled_val s = decimal_from_scaled_val s"
  "st_decimal_from_rate r = decimal_from_rate r"
  by (simp_all add: st_rate_from_percent_def rate_from_percent_def st_rate_from_scaled_val_def
      rate_from_scaled_val_def st_decimal_from_percent_def decimal_from_percent_def
      st_decimal_from_scaled_val_def decimal_from_scaled_val_def st_decimal_from_rate_def
      decimal_from_rate_def st_rate_to_scaled_val_def rate_to_scaled_val_def)

lemma st_rate_as_lending:
  "st_rate_try_round_u64 a = map_err (rate_try_round_u64 a) st_overflow"
  "st_rate_try_add a b = map_err (rate_try_add a b) st_overflow"
  "st_rate_try_sub a b = map_err (rate_try_sub a b) st_overflow"
  "st_rate_try_div_u64 a n = map_err (rate_try_div_u64 a n) st_overflow"
  "st_rate_try_div a b = map_err (rate_try_div a b) st_overflow"
  "st_rate_try_mul_u64 a n = map_err (rate_try_mul_u64 a n) st_overflow"
  "st_rate_try_mul a b = map_err (rate_try_mul a b) st_overflow"
  "st_rate_of_decimal d = map_err (rate_of_decimal d) st_overflow"
  unfolding st_rate_try_round_u64_def rate_try_round_u64_def st_rate_try_add_def rate_try_add_def
    st_rate_try_sub_def rate_try_sub_def st_rate_try_div_u64_def rate_try_div_u64_def
    st_rate_try_div_def rate_try_div_def st_rate_try_mul_u64_def rate_try_mul_u64_def
    st_rate_try_mul_def rate_try_mul_def st_rate_of_decimal_def rate_of_decimal_def
    st_to_scaled_val_def decimal_to_scaled_val_def st_as_lending_defs map_err_Inr st_constants_as_lending
  by (rule refl)+

lemma st_decimal_rates_as_lending:
  "st_try_div_rate d r = map_err (decimal_try_div_rate d r) st_overflow"
  "st_try_mul_rate d r = map_err (decimal_try_mul_rate d r) st_overflow"
  by (simp_all only: st_try_div_rate_def decimal_try_div_rate_def st_try_mul_rate_def
      decimal_try_mul_rate_def st_as_lending st_conversions_as_lending)

lemma st_rate_ok:
  "st_rate_try_add a b = Inr c \<longleftrightarrow> rat c = rat a + rat b"
  "st_rate_try_sub a b = Inr c \<longleftrightarrow> rat a = rat b + rat c"
  "st_rate_try_mul a b = Inr c \<longleftrightarrow> rat a * rat b < 2 ^ 128 \<and> rat c = rat a * rat b div wad"
  "st_rate_try_div a b = Inr c \<longleftrightarrow> rat b \<noteq> 0 \<and> rat a * wad < 2 ^ 128 \<and> rat c = rat a * wad div rat b"
  unfolding st_rate_as_lending map_err_Inr_iff by (simp_all only: rate_ok)

lemma st_rate_err:
  "st_rate_try_add a b = Inl e \<longleftrightarrow> e = st_overflow \<and> 2 ^ 128 \<le> rat a + rat b"
  "st_rate_try_sub a b = Inl e \<longleftrightarrow> e = st_overflow \<and> rat a < rat b"
  "st_rate_try_mul a b = Inl e \<longleftrightarrow> e = st_overflow \<and> 2 ^ 128 \<le> rat a * rat b"
  "st_rate_try_div a b = Inl e \<longleftrightarrow> e = st_overflow \<and> (rat b = 0 \<or> 2 ^ 128 \<le> rat a * wad)"
  unfolding st_rate_as_lending map_err_Inl_iff by (auto simp: rate_err lending_def)

interpretation st_rate: fixed_point rat 128 st_overflow
  st_rate_try_add st_rate_try_sub st_rate_try_mul st_rate_try_div
  by unfold_locales (rule rat_less, simp_all only: rat_inject st_rate_ok st_rate_err)

lemma st_rate_pow_loop_as_lending:
  "st_rate_pow_loop base ret exp = map_err (rate_pow_loop base ret exp) st_overflow"
proof (induction base ret exp rule: rate_pow_loop.induct)
  case (1 base ret exp)
  show ?case
  proof (cases "0 < exp")
    case True
    show ?thesis
      by (subst st_rate_pow_loop.simps, subst rate_pow_loop.simps)
        (auto simp: True st_rate_as_lending map_err_attempt 1 [OF True] intro!: attempt_cong)
  qed (simp add: st_rate_pow_loop.simps rate_pow_loop.simps)
qed

lemma st_rate_pow_as_lending: "st_rate_try_pow base exp = map_err (rate_try_pow base exp) st_overflow"
  by (simp add: st_rate_try_pow_def rate_try_pow_def st_rate_pow_loop_as_lending st_constants_as_lending)

end
