(* ===== verification/Pow_Correct.thy ===== *)
theory Pow_Correct
  imports Staking_Rates
begin

text \<open>
  The loop of \<open>try_pow\<close>, turn by turn: it ends after as many turns as the exponent has binary digits,
  and what it returns is bounded by the exact power. Both programs have the same loop.
\<close>

definition pow_turn :: "rate \<times> rate \<times> u64 \<Rightarrow> (rate \<times> rate \<times> u64) result" where
  "pow_turn = (\<lambda>(base, ret, exp).
     attempt (rate_try_mul base base) (\<lambda>base'.
     if exp div 2 mod 2 \<noteq> 0 then attempt (rate_try_mul ret base') (\<lambda>ret'. Inr (base', ret', exp div 2))
     else Inr (base', ret, exp div 2)))"

text \<open>The loop stopped after a number of turns: \<open>None\<close> if it has not ended.\<close>

fun pow_within :: "nat \<Rightarrow> rate \<times> rate \<times> u64 \<Rightarrow> rate result option" where
  "pow_within 0 (base, ret, exp) = (if exp = 0 then Some (Inr ret) else None)"
| "pow_within (Suc k) (base, ret, exp) =
     (if exp = 0 then Some (Inr ret)
      else case pow_turn (base, ret, exp) of
        Inl e \<Rightarrow> Some (Inl e)
      | Inr s \<Rightarrow> pow_within k s)"

lemma half_below: "unat (exp :: u64) < 2 ^ Suc m \<Longrightarrow> unat (exp div 2) < 2 ^ m"
  by (simp add: unat_div less_mult_imp_div_less)

lemma half_above: "2 ^ Suc m \<le> unat (exp :: u64) \<Longrightarrow> 2 ^ m \<le> unat (exp div 2)"
  by (simp add: unat_div)

lemma pow_loop_turn:
  assumes "0 < exp"
  shows "rate_pow_loop base ret exp = attempt (pow_turn (base, ret, exp)) (\<lambda>(b, r, n). rate_pow_loop b r n)"
  using assms by (subst rate_pow_loop.simps) (simp add: pow_turn_def attempt_def split: sum.split)

lemma pow_turn_halves: "pow_turn (base, ret, exp) = Inr (b, r, n) \<Longrightarrow> n = exp div 2"
  by (auto simp: pow_turn_def even_iff_mod_2_eq_zero split: if_splits)

lemma pow_within_enough:
  "unat exp < 2 ^ m \<Longrightarrow> pow_within m (base, ret, exp) = Some (rate_pow_loop base ret exp)"
proof (induction m arbitrary: base ret exp)
  case 0
  then have "exp = 0" by (simp add: unat_eq_0)
  then show ?case by (simp add: rate_pow_loop.simps)
next
  case (Suc m)
  show ?case
  proof (cases "0 < exp")
    case True
    then show ?thesis
      using Suc.IH half_below [OF Suc.prems] pow_turn_halves [of base ret exp]
      by (auto simp: pow_loop_turn word_gt_0 split: sum.split)
  qed (simp add: word_gt_0 rate_pow_loop.simps)
qed

lemma pow_within_needed:
  assumes "2 ^ m \<le> unat exp" "rate_pow_loop base ret exp = Inr r"
  shows "pow_within m (base, ret, exp) = None"
  using assms
proof (induction m arbitrary: base ret exp)
  case 0
  then have "exp \<noteq> 0" by auto
  then show ?case by simp
next
  case (Suc m)
  from Suc.prems(1) have "exp \<noteq> 0" by (auto simp: unat_eq_0)
  with Suc.prems(2) obtain b s n where turn: "pow_turn (base, ret, exp) = Inr (b, s, n)"
    and rest: "rate_pow_loop b s n = Inr r" by (auto simp: pow_loop_turn word_gt_0)
  from turn have n: "n = exp div 2" by (rule pow_turn_halves)
  have "pow_within m (b, s, n) = None" using Suc.IH [of n b s] half_above [OF Suc.prems(1)] rest n by simp
  with turn \<open>exp \<noteq> 0\<close> show ?case by simp
qed

text \<open>
  C38: \<open>try_pow\<close> ends: its loop takes as many turns as the exponent has binary digits, so never more
  than 64, and no fewer when it returns a value. It fails only by an overflow; what it returns is at
  most the exact power of the base, and at least one when the base is. The staking
  program's copy computes the same.
\<close>

theorem try_pow_terminates:
  fixes exp :: u64
  shows "(unat exp < 2 ^ m \<longrightarrow> pow_within m (base, ret, exp) = Some (rate_pow_loop base ret exp)) \<and>
    pow_within 64 (base, ret, exp) = Some (rate_pow_loop base ret exp) \<and>
    (rate_pow_loop base ret exp = Inr r \<and> 2 ^ m \<le> unat exp \<longrightarrow> pow_within m (base, ret, exp) = None) \<and>
    (rate_try_pow base exp = Inl e \<longrightarrow> e = math_overflow) \<and>
    (rate_try_pow base exp = Inr p \<longrightarrow>
      (0 < exp \<longrightarrow> rat p * wad ^ (unat exp - 1) \<le> rat base ^ unat exp) \<and>
      (wad \<le> rat base \<longrightarrow> wad \<le> rat p) \<and> st_rate_try_pow base exp = Inr p)"
proof -
  have "unat exp < 2 ^ 64" using unsigned_less [of exp, where ?'a = nat] by simp
  then show ?thesis
    using pow_within_enough pow_within_needed rate_try_pow_err rate_try_pow_upper rate_try_pow_ge_one
    by (simp add: st_rate_pow_as_lending)
qed

theorem try_pow_terminates_witness:
  "pow_within 2 (Rate (of_nat (2 * wad)), Rate (of_nat (2 * wad)), 3) = Some (rate_pow_loop (Rate (of_nat (2 * wad))) (Rate (of_nat (2 * wad))) 3)"
proof -
  have "unat (3 :: u64) < 2 ^ 2" by simp
  then show ?thesis using try_pow_terminates by blast
qed

end
