(* ===== verification/Entry.thy ===== *)
theory Entry
  imports Processor Staking_Rewards
begin

text \<open>
  The messages of the errors (\<open>#[error(..)]\<close>, error.rs of both programs) and the entry points
  (entrypoint.rs), which run the processor, print its error and return it. How the runtime prints
  a \<open>ProgramError\<close> (\<open>error.print\<close>) is a parameter, given the function that prints one of the program's
  own codes.
\<close>

section \<open>Messages\<close>

primrec lending_message :: "lending_error \<Rightarrow> string" where
  "lending_message InstructionUnpackError = ''Failed to unpack instruction data''"
| "lending_message AlreadyInitialized = ''Account is already initialized''"
| "lending_message NotRentExempt = ''Lamport balance below rent-exempt threshold''"
| "lending_message InvalidMarketAuthority = ''Market authority is invalid''"
| "lending_message InvalidMarketOwner = ''Market owner is invalid''"
| "lending_message InvalidAccountOwner = ''Input account owner is not the program address''"
| "lending_message InvalidTokenOwner = ''Input token account is not owned by the correct token program id''"
| "lending_message InvalidTokenAccount = ''Input token account is not valid''"
| "lending_message InvalidTokenMint = ''Input token mint account is not valid''"
| "lending_message InvalidTokenProgram = ''Input token program account is not valid''"
| "lending_message InvalidAmount = ''Input amount is invalid''"
| "lending_message InvalidConfig = ''Input config value is invalid''"
| "lending_message InvalidSigner = ''Input account must be a signer''"
| "lending_message InvalidAccountInput = ''Invalid account input''"
| "lending_message MathOverflow = ''Math operation overflow''"
| "lending_message TokenInitializeMintFailed = ''Token initialize mint failed''"
| "lending_message TokenInitializeAccountFailed = ''Token initialize account failed''"
| "lending_message TokenTransferFailed = ''Token transfer failed''"
| "lending_message TokenMintToFailed = ''Token mint to failed''"
| "lending_message TokenBurnFailed = ''Token burn failed''"
| "lending_message InsufficientLiquidity = ''Insufficient liquidity available''"
| "lending_message ReserveCollateralDisabled = ''Input reserve has collateral disabled''"
| "lending_message ReserveStale = ''Reserve state needs to be refreshed''"
| "lending_message WithdrawTooSmall = ''Withdraw amount too small''"
| "lending_message WithdrawTooLarge = ''Withdraw amount too large''"
| "lending_message BorrowTooSmall = ''Borrow amount too small to receive liquidity after fees''"
| "lending_message BorrowTooLarge = ''Borrow amount too large for deposited collateral''"
| "lending_message RepayTooSmall = ''Repay amount too small to transfer liquidity''"
| "lending_message LiquidationTooSmall = ''Liquidation amount too small to receive collateral''"
| "lending_message ObligationHealthy = ''Cannot liquidate healthy obligations''"
| "lending_message ObligationStale = ''Obligation state needs to be refreshed''"
| "lending_message ObligationReserveLimit = ''Obligation reserve limit exceeded''"
| "lending_message InvalidObligationOwner = ''Obligation owner is invalid''"
| "lending_message ObligationDepositsEmpty = ''Obligation deposits are empty''"
| "lending_message ObligationBorrowsEmpty = ''Obligation borrows are empty''"
| "lending_message ObligationDepositsZero = ''Obligation deposits have zero value''"
| "lending_message ObligationBorrowsZero = ''Obligation borrows have zero value''"
| "lending_message InvalidObligationCollateral = ''Invalid obligation collateral''"
| "lending_message InvalidObligationLiquidity = ''Invalid obligation liquidity''"
| "lending_message ObligationCollateralEmpty = ''Obligation collateral is empty''"
| "lending_message ObligationLiquidityEmpty = ''Obligation liquidity is empty''"
| "lending_message NegativeInterestRate = ''Interest rate is negative''"
| "lending_message InvalidOracleConfig = ''Input oracle config is invalid''"
| "lending_message InvalidFlashLoanReceiverProgram = ''Input flash loan receiver program account is not valid''"
| "lending_message NotEnoughLiquidityAfterFlashLoan = ''Not enough liquidity after flash loan''"
| "lending_message InvalidStakingPool = ''Invalid Staking pool argument for staking''"
| "lending_message InvalidStakeAccount = ''Invalid Staking account argument for staking''"
| "lending_message InvalidReserveFeeAccount = ''Invalid reserve fee account''"

primrec staking_message :: "staking_error \<Rightarrow> string" where
  "staking_message S_InstructionUnpackError = ''Failed to unpack instruction data''"
| "staking_message S_AlreadyInitialized = ''Account is already initialized''"
| "staking_message S_NotRentExempt = ''Lamport balance below rent-exempt threshold''"
| "staking_message S_MathOverflow = ''Math operation overflow''"
| "staking_message S_StakeDepositsZero = ''Stake Account deposits have zero value''"
| "staking_message S_StakeWithdrawsZero = ''Stake Account withdraws have zero value''"
| "staking_message S_InvalidArgumentError = ''Invalid Argument''"
| "staking_message S_InvalidSupplyError = ''Supply to the staking pool must be non zero''"
| "staking_message S_InvalidDurationError = ''Duration to the staking pool must be non zero''"
| "staking_message S_InvalidCurrentTimeError = ''Current Time must be greater than start time''"
| "staking_message S_InvalidWithdrawAmountError = ''Withdraw amount must be smaller than balance''"
| "staking_message S_InvalidCurrentRateError = ''Reward rate must be monotonic increasing''"
| "staking_message S_InvalidAccountOwner = ''Invalid account owner''"
| "staking_message S_InSufficientSupplyError = ''Insufficient token supply for rewarding''"
| "staking_message S_InvalidSigner = ''Not correct signer''"
| "staking_message S_InvalidRewardSupplyAccountError = ''Reward supply token account is illegal''"
| "staking_message S_InvalidTokenMint = ''Input token mint account is not valid''"
| "staking_message S_InvalidTokenOwner = ''Input token account is not owned by the correct token program id''"
| "staking_message S_InvalidRewardTokenPoolOwner = ''Reward token pool must be owned by the staking program''"
| "staking_message S_InvalidRewardTokenSupplyAccount = ''Invalid reward token supply account''"
| "staking_message S_InvalidStakingPool = ''Invalid staking pool''"
| "staking_message S_InvalidStakeAccount = ''Invalid stake account''"
| "staking_message S_InvalidRewardTokenPool = ''Invalid reward token pool''"
| "staking_message S_TokenTransferFailed = ''Transfer token failed''"
| "staking_message S_TokenInitializeAccountFailed = ''token account init failed''"
| "staking_message S_ReduceRewardTooMuch = ''Cannot reduce reward smaller than zero''"
| "staking_message S_AlreadyHasSubReward = ''The staking pool already has a sub reward''"

text \<open>\<open>impl PrintProgramError\<close>: the message is logged.\<close>

definition lending_print :: "lending_error \<Rightarrow> string list" where
  "lending_print e = [lending_message e]"

definition staking_print :: "staking_error \<Rightarrow> string list" where
  "staking_print e = [staking_message e]"

section \<open>Entry points\<close>

text \<open>The result of the instruction and the lines it adds to the log.\<close>

definition lending_entrypoint ::
    "((u32 \<Rightarrow> string list option) \<Rightarrow> program_error \<Rightarrow> string list) \<Rightarrow> solana \<Rightarrow> pubkey \<Rightarrow> account_info list \<Rightarrow>
      byte list \<Rightarrow> world \<Rightarrow> world result \<times> string list" where
  "lending_entrypoint print_error rt program_id accounts instruction_data w =
     (case process_instruction rt program_id accounts instruction_data w of
        Inl (Err e) \<Rightarrow> (Inl (Err e), print_error (map_option lending_print \<circ> lending_of_code) e)
      | r \<Rightarrow> (r, []))"

definition staking_entrypoint ::
    "((u32 \<Rightarrow> string list option) \<Rightarrow> program_error \<Rightarrow> string list) \<Rightarrow> solana \<Rightarrow> pubkey \<Rightarrow> account_info list \<Rightarrow>
      byte list \<Rightarrow> world \<Rightarrow> world result \<times> string list" where
  "staking_entrypoint print_error rt program_id accounts instruction_data w =
     (case staking_process_instruction rt program_id accounts instruction_data w of
        Inl (Err e) \<Rightarrow> (Inl (Err e), print_error (map_option staking_print \<circ> staking_of_code) e)
      | r \<Rightarrow> (r, []))"

text \<open>
  What \<open>ProgramError::print\<close> is documented to do with the program's own codes.
\<close>

definition prints_own_codes :: "((u32 \<Rightarrow> string list option) \<Rightarrow> program_error \<Rightarrow> string list) \<Rightarrow> bool" where
  "prints_own_codes print_error \<longleftrightarrow>
     (\<forall>decode n s. decode n = Some s \<longrightarrow> print_error decode (Custom n) = s)"

lemma lending_messages_distinct: "distinct (map lending_message lending_errors)"
  by (simp add: lending_errors_def)

lemma staking_messages_distinct: "distinct (map staking_message staking_errors)"
  by (simp add: staking_errors_def)

lemma messages_inject [simp]:
  "lending_message e = lending_message e' \<longleftrightarrow> e = e'"
  "staking_message s = staking_message s' \<longleftrightarrow> s = s'"
proof -
  have "e \<in> set lending_errors" for e by (cases e) (simp_all add: lending_errors_def)
  then show "lending_message e = lending_message e' \<longleftrightarrow> e = e'"
    using lending_messages_distinct by (metis distinct_map inj_on_eq_iff)
  have "s \<in> set staking_errors" for s by (cases s) (simp_all add: staking_errors_def)
  then show "staking_message s = staking_message s' \<longleftrightarrow> s = s'"
    using staking_messages_distinct by (metis distinct_map inj_on_eq_iff)
qed

text \<open>The entry point neither hides nor changes the result.\<close>

lemma entrypoint_transparent [simp]:
  "fst (lending_entrypoint pr rt program_id accounts input w) = process_instruction rt program_id accounts input w"
  "fst (staking_entrypoint pr rt program_id accounts input w) = staking_process_instruction rt program_id accounts input w"
  by (auto simp: lending_entrypoint_def staking_entrypoint_def split: sum.splits fault.splits)

lemma entrypoint_quiet:
  "process_instruction rt program_id accounts input w = Inr w' \<Longrightarrow>
    lending_entrypoint pr rt program_id accounts input w = (Inr w', [])"
  by (simp add: lending_entrypoint_def)

lemma entrypoint_logs:
  assumes "prints_own_codes pr"
  shows "process_instruction rt program_id accounts input w = Inl (lending e) \<Longrightarrow>
      snd (lending_entrypoint pr rt program_id accounts input w) = [lending_message e]"
    and "staking_process_instruction rt program_id accounts input w = Inl (staking s) \<Longrightarrow>
      snd (staking_entrypoint pr rt program_id accounts input w) = [staking_message s]"
  using assms
  by (simp_all add: lending_entrypoint_def staking_entrypoint_def lending_def staking_def prints_own_codes_def
      lending_print_def staking_print_def)



end
