(* ===== verification/Display.thy ===== *)
theory Display
  imports Rates
begin

text \<open>
  The printed form of the fixed-point types (\<open>impl fmt::Display\<close> in math/decimal.rs and math/rate.rs
  of both programs, which share the code): the digits of the scaled value with a point before the
  last 18. \<open>to_string\<close> of an unsigned integer is its decimal digits. A reference reader gives the
  scaled value back.
\<close>

definition SCALE :: nat where
  "SCALE = 18"

section \<open>Printing\<close>

definition digit :: "nat \<Rightarrow> char" where
  "digit n = char_of (48 + n)"

function uint_to_string :: "nat \<Rightarrow> string" where
  "uint_to_string n = (if n < 10 then [digit n] else uint_to_string (n div 10) @ [digit (n mod 10)])"
  by pat_completeness auto

termination
  by (relation "measure id") simp_all

declare uint_to_string.simps [simp del]

definition scaled_display :: "nat \<Rightarrow> string" where
  "scaled_display n =
     (let scaled_val = uint_to_string n in
      if length scaled_val \<le> SCALE
      then ''0.'' @ replicate (SCALE - length scaled_val) CHR ''0'' @ scaled_val
      else take (length scaled_val - SCALE) scaled_val @ ''.'' @
        drop (length scaled_val - SCALE) scaled_val)"

definition decimal_display :: "decimal \<Rightarrow> string" where
  "decimal_display d = scaled_display (unat (decimal_bits d))"

definition rate_display :: "rate \<Rightarrow> string" where
  "rate_display r = scaled_display (unat (rate_bits r))"

text \<open>
  \<open>Decimal::from\<close> of a floating-point number: \<open>scaled val\<close> is the saturating conversion
  \<open>(val * WAD as f64) as u64\<close> of the float type \<open>'f\<close>, the one thing left to a parameter.
\<close>

definition decimal_from_f64 :: "('f \<Rightarrow> u64) \<Rightarrow> 'f \<Rightarrow> decimal" where
  "decimal_from_f64 scaled val = Decimal (ucast (scaled val))"

lemma dec_from_f64 [simp]: "dec (decimal_from_f64 scaled val) = unat (scaled val)"
  by (simp add: dec_def decimal_from_f64_def unat_ucast_up)

section \<open>Reading\<close>

definition read_digits :: "string \<Rightarrow> nat" where
  "read_digits s = foldl (\<lambda>v c. 10 * v + (of_char c - 48)) 0 s"

definition read_scaled :: "string \<Rightarrow> nat" where
  "read_scaled s =
     read_digits (takeWhile (\<lambda>c. c \<noteq> CHR ''.'') s) * wad +
     read_digits (tl (dropWhile (\<lambda>c. c \<noteq> CHR ''.'') s))"

lemma read_digits_acc:
  "foldl (\<lambda>v c. 10 * v + (of_char c - 48)) a s = a * 10 ^ length s + read_digits s"
  unfolding read_digits_def
proof (induction s rule: rev_induct)
  case (snoc c s)
  then show ?case by (simp add: algebra_simps)
qed simp

lemma read_digits_append: "read_digits (s @ t) = read_digits s * 10 ^ length t + read_digits t"
  using read_digits_acc [of "read_digits s" t] by (simp add: read_digits_def)

lemma read_digit [simp]: "n < 10 \<Longrightarrow> read_digits [digit n] = n"
  by (simp add: read_digits_def digit_def)

lemma read_zeros [simp]: "read_digits (replicate k CHR ''0'') = 0"
proof (induction k)
  case (Suc k)
  have "replicate (Suc k) CHR ''0'' = [digit 0] @ replicate k CHR ''0''"
    by (simp add: digit_def char_of_def bit_0)
  then have "read_digits (replicate (Suc k) CHR ''0'') = read_digits ([digit 0] @ replicate k CHR ''0'')"
    by (rule arg_cong)
  also have "\<dots> = 0" unfolding read_digits_append using Suc by simp
  finally show ?case .
qed (simp add: read_digits_def)

lemma read_uint [simp]: "read_digits (uint_to_string n) = n"
proof (induction n rule: uint_to_string.induct)
  case (1 n)
  then show ?case
    by (subst uint_to_string.simps) (auto simp: read_digits_append)
qed

text \<open>Only digits are printed, so the point is found.\<close>

lemma digit_no_point: "n < 10 \<Longrightarrow> digit n \<noteq> CHR ''.''"
proof
  assume "n < 10" "digit n = CHR ''.''"
  then have "(of_char (digit n) :: nat) = of_char CHR ''.''" by simp
  with \<open>n < 10\<close> show False by (simp add: digit_def)
qed

lemma uint_no_point: "c \<in> set (uint_to_string n) \<Longrightarrow> c \<noteq> CHR ''.''"
proof (induction n rule: uint_to_string.induct)
  case (1 n)
  show ?case
  proof (cases "n < 10")
    case True
    then show ?thesis using "1.prems" digit_no_point by (subst (asm) uint_to_string.simps) auto
  next
    case False
    with "1.prems" have "c \<in> set (uint_to_string (n div 10)) \<or> c = digit (n mod 10)"
      by (subst (asm) uint_to_string.simps) auto
    with "1.IH" [OF False] digit_no_point [of "n mod 10"] show ?thesis by auto
  qed
qed

lemma read_split:
  assumes "CHR ''.'' \<notin> set s"
  shows "read_scaled (s @ ''.'' @ t) = read_digits s * wad + read_digits t"
proof -
  have "takeWhile (\<lambda>c. c \<noteq> CHR ''.'') (s @ ''.'' @ t) = s"
    "dropWhile (\<lambda>c. c \<noteq> CHR ''.'') (s @ ''.'' @ t) = ''.'' @ t"
    using assms by (auto simp: takeWhile_append dropWhile_append)
  then show ?thesis by (simp add: read_scaled_def)
qed

lemma scaled_parts:
  obtains s t where "scaled_display n = s @ ''.'' @ t" "CHR ''.'' \<notin> set s" "length t = SCALE"
    "read_digits s * wad + read_digits t = n"
proof (cases "length (uint_to_string n) \<le> SCALE")
  case True
  define t where "t = replicate (SCALE - length (uint_to_string n)) CHR ''0'' @ uint_to_string n"
  have "scaled_display n = ''0'' @ ''.'' @ t" using True by (simp add: scaled_display_def Let_def t_def)
  moreover have "length t = SCALE" using True by (simp add: t_def)
  moreover have "read_digits ''0'' * wad + read_digits t = n"
    using read_zeros [of 1] by (simp add: t_def read_digits_append)
  ultimately show thesis using that [of "''0''" t] by auto
next
  case False
  define k where "k = length (uint_to_string n) - SCALE"
  define s t where "s = take k (uint_to_string n)" and "t = drop k (uint_to_string n)"
  have len: "length t = SCALE" using False by (simp add: t_def k_def)
  have "read_digits s * 10 ^ length t + read_digits t = n"
    by (simp only: read_digits_append [symmetric] s_def t_def append_take_drop_id read_uint)
  moreover have "10 ^ length t = wad" by (simp add: len SCALE_def wad_def)
  ultimately have "read_digits s * wad + read_digits t = n" by simp
  moreover have "scaled_display n = s @ ''.'' @ t"
    using False by (simp add: scaled_display_def Let_def k_def s_def t_def)
  moreover have "CHR ''.'' \<notin> set s"
    using uint_no_point in_set_takeD unfolding s_def by fastforce
  ultimately show thesis using that len by blast
qed

lemma read_scaled_display: "read_scaled (scaled_display n) = n"
proof -
  obtain s t where "scaled_display n = s @ ''.'' @ t" "CHR ''.'' \<notin> set s" "length t = SCALE"
    "read_digits s * wad + read_digits t = n" by (rule scaled_parts [of n])
  then show ?thesis using read_split [of s t] by simp
qed

lemma display_fraction: "length (tl (dropWhile (\<lambda>c. c \<noteq> CHR ''.'') (scaled_display n))) = 18"
proof -
  obtain s t where st: "scaled_display n = s @ ''.'' @ t" "CHR ''.'' \<notin> set s" "length t = SCALE"
    "read_digits s * wad + read_digits t = n" by (rule scaled_parts [of n])
  then have "dropWhile (\<lambda>c. c \<noteq> CHR ''.'') (scaled_display n) = ''.'' @ t"
    by (auto simp: dropWhile_append)
  with st(3) show ?thesis by (simp add: SCALE_def)
qed

text \<open>
  C39: The printed form of a decimal and of a rate reads back as the value, so different values are
  printed differently, and it always has exactly 18 digits after the point.
\<close>

theorem display_roundtrip:
  "read_scaled (decimal_display d) = dec d \<and> read_scaled (rate_display r) = rat r \<and>
   (decimal_display d = decimal_display d' \<longleftrightarrow> d = d') \<and>
   length (tl (dropWhile (\<lambda>c. c \<noteq> CHR ''.'') (decimal_display d))) = 18"
proof (intro conjI)
  show v: "read_scaled (decimal_display d) = dec d" for d
    by (simp add: decimal_display_def read_scaled_display dec_def)
  show "read_scaled (rate_display r) = rat r"
    by (simp add: rate_display_def read_scaled_display rat_def)
  show "decimal_display d = decimal_display d' \<longleftrightarrow> d = d'"
    using v [of d] v [of d'] by (metis dec_inject)
  show "length (tl (dropWhile (\<lambda>c. c \<noteq> CHR ''.'') (decimal_display d))) = 18"
    unfolding decimal_display_def by (rule display_fraction)
qed

end
