(* ===== verification/Arguments.thy ===== *)
theory Arguments
  imports Display Lending_Market
begin

text \<open>
  What the command line programs (token-lending/cli/src/main.rs, staking/cli/src/main.rs) read from
  their command line: the numbers of the standard library, the validators the two files define, the
  declarations of arguments, and the values a command looks up. The parser of the command line
  (clap), the look-ups of solana_clap_utils and what they read from the machine (keys, floating
  point numbers) are parameters; \<open>accepted\<close> and \<open>looks_up\<close> state what they are documented to do.
\<close>

section \<open>Numbers\<close>

text \<open>\<open>str::parse\<close> for integers: an optional sign, then digits, and no overflow.\<close>

definition is_ascii_digit :: "char \<Rightarrow> bool" where
  "is_ascii_digit c \<longleftrightarrow> 48 \<le> (of_char c :: nat) \<and> (of_char c :: nat) \<le> 57"

definition parse_digits :: "string \<Rightarrow> nat option" where
  "parse_digits s = (if s \<noteq> [] \<and> list_all is_ascii_digit s then Some (read_digits s) else None)"

definition strip_sign :: "char \<Rightarrow> string \<Rightarrow> string" where
  "strip_sign c s = (if s \<noteq> [] \<and> hd s = c then tl s else s)"

definition parse_within :: "nat \<Rightarrow> string \<Rightarrow> nat option" where
  "parse_within n s = Option.bind (parse_digits s) (\<lambda>v. if v < n then Some v else None)"

definition parse_u8 :: "string \<Rightarrow> u8 option" where
  "parse_u8 s = map_option of_nat (parse_within (2 ^ 8) (strip_sign CHR ''+'' s))"

definition parse_u64 :: "string \<Rightarrow> u64 option" where
  "parse_u64 s = map_option of_nat (parse_within (2 ^ 64) (strip_sign CHR ''+'' s))"

definition parse_i64 :: "string \<Rightarrow> 64 word option" where
  "parse_i64 s =
     (if s \<noteq> [] \<and> hd s = CHR ''-'' then map_option (\<lambda>v. - of_nat v) (parse_within (2 ^ 63 + 1) (tl s))
      else map_option of_nat (parse_within (2 ^ 63) (strip_sign CHR ''+'' s)))"

lemma is_ascii_digit_digit [simp]: "n < 10 \<Longrightarrow> is_ascii_digit (digit n)"
  by (simp add: is_ascii_digit_def digit_def)

lemma uint_digits: "list_all is_ascii_digit (uint_to_string n)" "uint_to_string n \<noteq> []"
proof (induction n rule: uint_to_string.induct)
  case (1 n)
  {
    case 1
    show ?case
      using "1.IH" by (cases "n < 10") (simp_all add: uint_to_string.simps [of n])
  next
    case 2
    show ?case by (simp add: uint_to_string.simps [of n])
  }
qed

lemma uint_unsigned: "strip_sign CHR ''+'' (uint_to_string n) = uint_to_string n"
proof -
  have "hd (uint_to_string n) \<noteq> CHR ''+''"
    using uint_digits [of n] by (cases "uint_to_string n") (auto simp: is_ascii_digit_def)
  then show ?thesis by (simp add: strip_sign_def)
qed

text \<open>A number is read as it is printed, if it fits the type.\<close>

lemma parse_uint:
  "parse_u64 (uint_to_string n) = (if n < 2 ^ 64 then Some (of_nat n) else None)"
  "parse_u8 (uint_to_string n) = (if n < 2 ^ 8 then Some (of_nat n) else None)"
  by (simp_all add: parse_u64_def parse_u8_def uint_unsigned parse_within_def parse_digits_def uint_digits)

text \<open>Whatever is a \<open>u8\<close> is also a \<open>u64\<close>, of the same value.\<close>

lemma parse_u8_u64: "parse_u8 s = Some x \<Longrightarrow> parse_u64 s = Some (ucast x)"
  by (auto simp: parse_u8_def parse_u64_def parse_within_def unat_of_nat unsigned_of_nat word_eq_iff_unsigned
      take_bit_nat_eq_self split: option.splits if_splits bind_splits)

section \<open>The machine\<close>

record 'f host =
  parse_pubkey :: "string \<Rightarrow> pubkey option"
  read_keypair_file :: "string \<Rightarrow> pubkey option"
  parse_f64 :: "string \<Rightarrow> 'f option"
  f64_wads :: "'f \<Rightarrow> u64"
  ui_amount_to_amount :: "'f \<Rightarrow> u8 \<Rightarrow> u64"
  is_url :: "string \<Rightarrow> bool"

section \<open>Validators\<close>

definition is_u64 :: "string \<Rightarrow> bool" where
  "is_u64 amount \<longleftrightarrow> parse_u64 amount \<noteq> None"

definition is_i64 :: "string \<Rightarrow> bool" where
  "is_i64 amount \<longleftrightarrow> parse_i64 amount \<noteq> None"

definition is_pubkey_or_none :: "'f host \<Rightarrow> string \<Rightarrow> bool" where
  "is_pubkey_or_none h pubkey \<longleftrightarrow> pubkey = ''NONE'' \<or> parse_pubkey h pubkey \<noteq> None"

datatype validator =
    Any_text | Is_pubkey | Is_keypair | Is_u64 | Is_i64 | Is_slot | Parsable_u8 | Parsable_u64
  | Parsable_f64 | Is_amount | Is_pubkey_or_none | Is_url

primrec validates :: "'f host \<Rightarrow> validator \<Rightarrow> string \<Rightarrow> bool" where
  "validates h Any_text s = True"
| "validates h Is_pubkey s = (parse_pubkey h s \<noteq> None)"
| "validates h Is_keypair s = (read_keypair_file h s \<noteq> None)"
| "validates h Is_u64 s = is_u64 s"
| "validates h Is_i64 s = is_i64 s"
| "validates h Is_slot s = (parse_u64 s \<noteq> None)"
| "validates h Parsable_u8 s = (parse_u8 s \<noteq> None)"
| "validates h Parsable_u64 s = (parse_u64 s \<noteq> None)"
| "validates h Parsable_f64 s = (parse_f64 h s \<noteq> None)"
| "validates h Is_amount s = (parse_u64 s \<noteq> None \<or> parse_f64 h s \<noteq> None)"
| "validates h Is_pubkey_or_none s = is_pubkey_or_none h s"
| "validates h Is_url s = is_url h s"

section \<open>Declarations\<close>

record argument =
  arg_name :: string
  arg_long :: string
  arg_validator :: validator
  arg_required :: bool
  arg_multiple :: bool
  arg_default :: "string option"

definition arg :: "string \<Rightarrow> string \<Rightarrow> validator \<Rightarrow> bool \<Rightarrow> argument" where
  "arg name long check required = \<lparr> arg_name = name, arg_long = long, arg_validator = check,
     arg_required = required, arg_multiple = False, arg_default = None \<rparr>"

definition with_default :: "string \<Rightarrow> argument \<Rightarrow> argument" where
  "with_default s a = a\<lparr> arg_default := Some s \<rparr>"

definition repeated :: "argument \<Rightarrow> argument" where
  "repeated a = a\<lparr> arg_multiple := True \<rparr>"

section \<open>Values\<close>

text \<open>
  \<open>ArgMatches\<close> of a subcommand: clap's own values, and what solana_clap_utils makes of them. A key
  pair and a signer are represented by their public keys.
\<close>

record 'f arguments =
  clap_value :: "string \<Rightarrow> string option"
  clap_values :: "string \<Rightarrow> string list option"
  clap_present :: "string \<Rightarrow> bool"
  pubkey_of :: "string \<Rightarrow> pubkey option"
  pubkeys_of :: "string \<Rightarrow> pubkey list option"
  keypair_of :: "string \<Rightarrow> pubkey option"
  signer_from_path :: "string \<Rightarrow> string \<Rightarrow> pubkey option"
  value_u8 :: "string \<Rightarrow> u8 option"
  value_u64 :: "string \<Rightarrow> u64 option"
  value_i64 :: "string \<Rightarrow> 64 word option"
  value_f64 :: "string \<Rightarrow> 'f option"

text \<open>
  What clap is documented to guarantee of an accepted command line: a required argument and one with
  a default have a value, every value passed its validator, and presence is having a value.
\<close>

definition accepted_argument :: "'f host \<Rightarrow> 'f arguments \<Rightarrow> argument \<Rightarrow> bool" where
  "accepted_argument h m a \<longleftrightarrow>
     (arg_required a \<or> arg_default a \<noteq> None \<longrightarrow> clap_value m (arg_name a) \<noteq> None) \<and>
     (\<forall>s. clap_value m (arg_name a) = Some s \<longrightarrow> validates h (arg_validator a) s \<and>
        (\<exists>ss. clap_values m (arg_name a) = Some ss \<and> list_all (validates h (arg_validator a)) ss)) \<and>
     (clap_present m (arg_name a) \<longleftrightarrow> clap_value m (arg_name a) \<noteq> None)"

definition accepted :: "'f host \<Rightarrow> argument list \<Rightarrow> 'f arguments \<Rightarrow> bool" where
  "accepted h decls m \<longleftrightarrow> list_all (accepted_argument h m) decls"

text \<open>What the look-ups are documented to do with a value.\<close>

definition looks_up :: "'f host \<Rightarrow> 'f arguments \<Rightarrow> bool" where
  "looks_up h m \<longleftrightarrow>
     (\<forall>n. value_u8 m n = Option.bind (clap_value m n) parse_u8 \<and>
        value_u64 m n = Option.bind (clap_value m n) parse_u64 \<and>
        value_i64 m n = Option.bind (clap_value m n) parse_i64 \<and>
        value_f64 m n = Option.bind (clap_value m n) (parse_f64 h) \<and>
        (clap_value m n = None \<longrightarrow> pubkey_of m n = None \<and> keypair_of m n = None) \<and>
        (\<forall>s. clap_value m n = Some s \<longrightarrow>
           (parse_pubkey h s \<noteq> None \<longrightarrow> pubkey_of m n = parse_pubkey h s) \<and>
           (read_keypair_file h s \<noteq> None \<longrightarrow> keypair_of m n = read_keypair_file h s)) \<and>
        (\<forall>ss. clap_values m n = Some ss \<and> list_all (\<lambda>s. parse_pubkey h s \<noteq> None) ss \<longrightarrow>
           pubkeys_of m n = Some (map (the \<circ> parse_pubkey h) ss)))"

end
