(* ===== verification/Client.thy ===== *)
theory Client
  imports Processor
begin

text \<open>
  The client side of the lending program: the functions of
  token-lending/program/src/instruction.rs that build its instructions, with the accounts in the
  order of the handlers, their signers, and the authority derived from the market. The addresses
  that other crates declare (the token program, the rent sysvar, the staking program) are parameters.
\<close>

section \<open>Accounts of an instruction\<close>

record addresses =
  token_address :: pubkey
  rent_address :: pubkey
  staking_address :: pubkey

text \<open>\<open>AccountMeta::new\<close> and \<open>AccountMeta::new_readonly\<close>.\<close>

definition meta_new :: "pubkey \<Rightarrow> bool \<Rightarrow> account_meta" where
  "meta_new key signs = \<lparr> meta_pubkey = key, meta_is_signer = signs, meta_is_writable = True \<rparr>"

definition meta_readonly :: "pubkey \<Rightarrow> bool \<Rightarrow> account_meta" where
  "meta_readonly key signs = \<lparr> meta_pubkey = key, meta_is_signer = signs, meta_is_writable = False \<rparr>"

definition option_metas :: "pubkey option \<Rightarrow> account_meta list" where
  "option_metas key = (case key of None \<Rightarrow> [] | Some k \<Rightarrow> [meta_readonly k False])"

text \<open>The staking accounts follow only when both are given.\<close>

definition staking_metas :: "addresses \<Rightarrow> pubkey option \<Rightarrow> pubkey option \<Rightarrow> account_meta list" where
  "staking_metas ids account pool =
     (case (account, pool) of
        (Some staking_account_pubkey, Some staking_pool_pubkey) \<Rightarrow>
          [meta_new staking_account_pubkey False, meta_new staking_pool_pubkey False,
           meta_readonly (staking_address ids) False]
      | _ \<Rightarrow> [])"

definition market_authority :: "solana \<Rightarrow> pubkey \<Rightarrow> pubkey \<Rightarrow> pubkey" where
  "market_authority rt program_id lending_market_pubkey =
     fst (find_program_address rt [bytes32_to lending_market_pubkey] program_id)"

definition built :: "pubkey \<Rightarrow> lending_instruction \<Rightarrow> account_meta list \<Rightarrow> instruction result" where
  "built program_id ins accounts =
     attempt (instruction_pack ins) (\<lambda>data.
     Inr \<lparr> ix_program_id = program_id, ix_accounts = accounts, ix_data = data \<rparr>)"

section \<open>Builders\<close>

definition init_lending_market_ix ::
    "addresses \<Rightarrow> pubkey \<Rightarrow> pubkey \<Rightarrow> bytes32 \<Rightarrow> pubkey \<Rightarrow> instruction result" where
  "init_lending_market_ix ids program_id own currency lending_market_pubkey =
     built program_id (InitLendingMarket own currency)
       [meta_new lending_market_pubkey False, meta_readonly (rent_address ids) False,
        meta_readonly (token_address ids) False]"

definition set_lending_market_owner_ix ::
    "pubkey \<Rightarrow> pubkey \<Rightarrow> pubkey \<Rightarrow> pubkey \<Rightarrow> instruction result" where
  "set_lending_market_owner_ix program_id lending_market_pubkey lending_market_owner new_owner =
     built program_id (SetLendingMarketOwner new_owner)
       [meta_new lending_market_pubkey False, meta_readonly lending_market_owner True]"

definition init_reserve_ix ::
    "solana \<Rightarrow> addresses \<Rightarrow> pubkey \<Rightarrow> u64 \<Rightarrow> decimal option \<Rightarrow> reserve_config \<Rightarrow> pubkey \<Rightarrow>
      pubkey \<Rightarrow> pubkey \<Rightarrow> pubkey \<Rightarrow> pubkey \<Rightarrow> pubkey \<Rightarrow> pubkey \<Rightarrow> pubkey \<Rightarrow> pubkey \<Rightarrow> pubkey \<Rightarrow>
      pubkey \<Rightarrow> pubkey option \<Rightarrow> instruction result" where
  "init_reserve_ix rt ids program_id liquidity_amount fixed_price cfg source_liquidity_pubkey
     destination_collateral_pubkey reserve_pubkey reserve_liquidity_mint_pubkey
     reserve_liquidity_supply_pubkey reserve_liquidity_fee_receiver_pubkey
     reserve_collateral_mint_pubkey reserve_collateral_supply_pubkey lending_market_pubkey
     lending_market_owner_pubkey user_transfer_authority_pubkey coption_pyth_price_pubkey =
     (let lending_market_authority_pubkey = market_authority rt program_id lending_market_pubkey in
      built program_id (InitReserve liquidity_amount fixed_price cfg)
        ([meta_new source_liquidity_pubkey False, meta_new destination_collateral_pubkey False,
          meta_new reserve_pubkey False, meta_readonly reserve_liquidity_mint_pubkey False,
          meta_new reserve_liquidity_supply_pubkey False,
          meta_new reserve_liquidity_fee_receiver_pubkey False,
          meta_new reserve_collateral_mint_pubkey False,
          meta_new reserve_collateral_supply_pubkey False,
          meta_readonly lending_market_pubkey False,
          meta_readonly lending_market_authority_pubkey False,
          meta_readonly lending_market_owner_pubkey True,
          meta_readonly user_transfer_authority_pubkey True, meta_readonly (clock_id rt) False,
          meta_readonly (rent_address ids) False, meta_readonly (token_address ids) False]
          @ option_metas coption_pyth_price_pubkey))"

definition refresh_reserve_ix ::
    "solana \<Rightarrow> pubkey \<Rightarrow> pubkey \<Rightarrow> pubkey option \<Rightarrow> instruction result" where
  "refresh_reserve_ix rt program_id reserve_pubkey reserve_liquidity_oracle_pubkey =
     built program_id RefreshReserve
       ([meta_new reserve_pubkey False, meta_readonly (clock_id rt) False]
        @ option_metas reserve_liquidity_oracle_pubkey)"

definition deposit_reserve_liquidity_ix ::
    "solana \<Rightarrow> addresses \<Rightarrow> pubkey \<Rightarrow> u64 \<Rightarrow> pubkey \<Rightarrow> pubkey \<Rightarrow> pubkey \<Rightarrow> pubkey \<Rightarrow> pubkey \<Rightarrow>
      pubkey \<Rightarrow> pubkey \<Rightarrow> instruction result" where
  "deposit_reserve_liquidity_ix rt ids program_id liquidity_amount source_liquidity_pubkey
     destination_collateral_pubkey reserve_pubkey reserve_liquidity_supply_pubkey
     reserve_collateral_mint_pubkey lending_market_pubkey user_transfer_authority_pubkey =
     (let lending_market_authority_pubkey = market_authority rt program_id lending_market_pubkey in
      built program_id (DepositReserveLiquidity liquidity_amount)
         [meta_new source_liquidity_pubkey False, meta_new destination_collateral_pubkey False,
          meta_new reserve_pubkey False, meta_new reserve_liquidity_supply_pubkey False,
          meta_new reserve_collateral_mint_pubkey False, meta_readonly lending_market_pubkey False,
          meta_readonly lending_market_authority_pubkey False,
          meta_readonly user_transfer_authority_pubkey True, meta_readonly (clock_id rt) False,
          meta_readonly (token_address ids) False])"

definition redeem_reserve_collateral_ix ::
    "solana \<Rightarrow> addresses \<Rightarrow> pubkey \<Rightarrow> u64 \<Rightarrow> pubkey \<Rightarrow> pubkey \<Rightarrow> pubkey \<Rightarrow> pubkey \<Rightarrow> pubkey \<Rightarrow>
      pubkey \<Rightarrow> pubkey \<Rightarrow> instruction result" where
  "redeem_reserve_collateral_ix rt ids program_id collateral_amount source_collateral_pubkey
     destination_liquidity_pubkey reserve_pubkey reserve_collateral_mint_pubkey
     reserve_liquidity_supply_pubkey lending_market_pubkey user_transfer_authority_pubkey =
     (let lending_market_authority_pubkey = market_authority rt program_id lending_market_pubkey in
      built program_id (RedeemReserveCollateral collateral_amount)
         [meta_new source_collateral_pubkey False, meta_new destination_liquidity_pubkey False,
          meta_new reserve_pubkey False, meta_new reserve_collateral_mint_pubkey False,
          meta_new reserve_liquidity_supply_pubkey False, meta_readonly lending_market_pubkey False,
          meta_readonly lending_market_authority_pubkey False,
          meta_readonly user_transfer_authority_pubkey True, meta_readonly (clock_id rt) False,
          meta_readonly (token_address ids) False])"

definition init_obligation_ix ::
    "solana \<Rightarrow> addresses \<Rightarrow> pubkey \<Rightarrow> pubkey \<Rightarrow> pubkey \<Rightarrow> pubkey \<Rightarrow> instruction result" where
  "init_obligation_ix rt ids program_id obligation_pubkey lending_market_pubkey
     obligation_owner_pubkey =
     built program_id InitObligation
       [meta_new obligation_pubkey False, meta_readonly lending_market_pubkey False,
        meta_readonly obligation_owner_pubkey True, meta_readonly (clock_id rt) False,
        meta_readonly (rent_address ids) False, meta_readonly (token_address ids) False]"

definition refresh_obligation_ix ::
    "solana \<Rightarrow> pubkey \<Rightarrow> pubkey \<Rightarrow> pubkey list \<Rightarrow> instruction result" where
  "refresh_obligation_ix rt program_id obligation_pubkey reserve_pubkeys =
     built program_id RefreshObligation
       ([meta_new obligation_pubkey False, meta_readonly (clock_id rt) False]
        @ map (\<lambda>pubkey. meta_readonly pubkey False) reserve_pubkeys)"

definition deposit_obligation_collateral_ix ::
    "solana \<Rightarrow> addresses \<Rightarrow> pubkey \<Rightarrow> u64 \<Rightarrow> pubkey \<Rightarrow> pubkey \<Rightarrow> pubkey \<Rightarrow> pubkey \<Rightarrow> pubkey \<Rightarrow>
      pubkey \<Rightarrow> pubkey \<Rightarrow> pubkey option \<Rightarrow> pubkey option \<Rightarrow> instruction result" where
  "deposit_obligation_collateral_ix rt ids program_id collateral_amount source_collateral_pubkey
     destination_collateral_pubkey deposit_reserve_pubkey obligation_pubkey lending_market_pubkey
     obligation_owner_pubkey user_transfer_authority_pubkey option_stake_account_pubkey
     option_staking_pool_pubkey =
     (let lending_market_authority_pubkey = market_authority rt program_id lending_market_pubkey in
      built program_id (DepositObligationCollateral collateral_amount)
        ([meta_new source_collateral_pubkey False, meta_new destination_collateral_pubkey False,
          meta_readonly deposit_reserve_pubkey False, meta_new obligation_pubkey False,
          meta_readonly lending_market_pubkey False,
          meta_readonly lending_market_authority_pubkey False,
          meta_readonly obligation_owner_pubkey True,
          meta_readonly user_transfer_authority_pubkey True, meta_readonly (clock_id rt) False,
          meta_readonly (token_address ids) False]
          @ staking_metas ids option_stake_account_pubkey option_staking_pool_pubkey))"

definition withdraw_obligation_collateral_ix ::
    "solana \<Rightarrow> addresses \<Rightarrow> pubkey \<Rightarrow> u64 \<Rightarrow> pubkey \<Rightarrow> pubkey \<Rightarrow> pubkey \<Rightarrow> pubkey \<Rightarrow> pubkey \<Rightarrow>
      pubkey \<Rightarrow> pubkey option \<Rightarrow> pubkey option \<Rightarrow> instruction result" where
  "withdraw_obligation_collateral_ix rt ids program_id collateral_amount source_collateral_pubkey
     destination_collateral_pubkey withdraw_reserve_pubkey obligation_pubkey lending_market_pubkey
     obligation_owner_pubkey option_stake_account_pubkey option_staking_pool_pubkey =
     (let lending_market_authority_pubkey = market_authority rt program_id lending_market_pubkey in
      built program_id (WithdrawObligationCollateral collateral_amount)
        ([meta_new source_collateral_pubkey False, meta_new destination_collateral_pubkey False,
          meta_readonly withdraw_reserve_pubkey False, meta_new obligation_pubkey False,
          meta_readonly lending_market_pubkey False,
          meta_readonly lending_market_authority_pubkey False,
          meta_readonly obligation_owner_pubkey True, meta_readonly (clock_id rt) False,
          meta_readonly (token_address ids) False]
          @ staking_metas ids option_stake_account_pubkey option_staking_pool_pubkey))"

definition borrow_obligation_liquidity_ix ::
    "solana \<Rightarrow> addresses \<Rightarrow> pubkey \<Rightarrow> u64 \<Rightarrow> pubkey \<Rightarrow> pubkey \<Rightarrow> pubkey \<Rightarrow> pubkey \<Rightarrow> pubkey \<Rightarrow>
      pubkey \<Rightarrow> pubkey \<Rightarrow> instruction result" where
  "borrow_obligation_liquidity_ix rt ids program_id liquidity_amount source_liquidity_pubkey
     destination_liquidity_pubkey borrow_reserve_pubkey borrow_reserve_liquidity_fee_receiver_pubkey
     obligation_pubkey lending_market_pubkey obligation_owner_pubkey =
     (let lending_market_authority_pubkey = market_authority rt program_id lending_market_pubkey in
      built program_id (BorrowObligationLiquidity liquidity_amount)
         [meta_new source_liquidity_pubkey False, meta_new destination_liquidity_pubkey False,
          meta_new borrow_reserve_pubkey False,
          meta_new borrow_reserve_liquidity_fee_receiver_pubkey False,
          meta_new obligation_pubkey False, meta_readonly lending_market_pubkey False,
          meta_readonly lending_market_authority_pubkey False,
          meta_readonly obligation_owner_pubkey True, meta_readonly (clock_id rt) False,
          meta_readonly (token_address ids) False])"

definition repay_obligation_liquidity_ix ::
    "solana \<Rightarrow> addresses \<Rightarrow> pubkey \<Rightarrow> u64 \<Rightarrow> pubkey \<Rightarrow> pubkey \<Rightarrow> pubkey \<Rightarrow> pubkey \<Rightarrow> pubkey \<Rightarrow>
      pubkey \<Rightarrow> instruction result" where
  "repay_obligation_liquidity_ix rt ids program_id liquidity_amount source_liquidity_pubkey
     destination_liquidity_pubkey repay_reserve_pubkey obligation_pubkey lending_market_pubkey
     user_transfer_authority_pubkey =
     built program_id (RepayObligationLiquidity liquidity_amount)
       [meta_new source_liquidity_pubkey False, meta_new destination_liquidity_pubkey False,
        meta_new repay_reserve_pubkey False, meta_new obligation_pubkey False,
        meta_readonly lending_market_pubkey False,
        meta_readonly user_transfer_authority_pubkey True, meta_readonly (clock_id rt) False,
        meta_readonly (token_address ids) False]"

definition liquidate_obligation_ix ::
    "solana \<Rightarrow> addresses \<Rightarrow> pubkey \<Rightarrow> u64 \<Rightarrow> pubkey \<Rightarrow> pubkey \<Rightarrow> pubkey \<Rightarrow> pubkey \<Rightarrow> pubkey \<Rightarrow>
      pubkey \<Rightarrow> pubkey \<Rightarrow> pubkey \<Rightarrow> pubkey \<Rightarrow> pubkey option \<Rightarrow> pubkey option \<Rightarrow> instruction result" where
  "liquidate_obligation_ix rt ids program_id liquidity_amount source_liquidity_pubkey
     destination_collateral_pubkey repay_reserve_pubkey repay_reserve_liquidity_supply_pubkey
     withdraw_reserve_pubkey withdraw_reserve_collateral_supply_pubkey obligation_pubkey
     lending_market_pubkey user_transfer_authority_pubkey option_borrow_stake_account_pubkey
     option_borrow_staking_pool_pubkey =
     (let lending_market_authority_pubkey = market_authority rt program_id lending_market_pubkey in
      built program_id (LiquidateObligation liquidity_amount)
        ([meta_new source_liquidity_pubkey False, meta_new destination_collateral_pubkey False,
          meta_new repay_reserve_pubkey False, meta_new repay_reserve_liquidity_supply_pubkey False,
          meta_readonly withdraw_reserve_pubkey False,
          meta_new withdraw_reserve_collateral_supply_pubkey False,
          meta_new obligation_pubkey False, meta_readonly lending_market_pubkey False,
          meta_readonly lending_market_authority_pubkey False,
          meta_readonly user_transfer_authority_pubkey True, meta_readonly (clock_id rt) False,
          meta_readonly (token_address ids) False]
          @ staking_metas ids option_borrow_stake_account_pubkey option_borrow_staking_pool_pubkey))"

definition flash_loan_ix ::
    "solana \<Rightarrow> addresses \<Rightarrow> pubkey \<Rightarrow> u64 \<Rightarrow> pubkey \<Rightarrow> pubkey \<Rightarrow> pubkey \<Rightarrow> pubkey \<Rightarrow> pubkey \<Rightarrow>
      pubkey \<Rightarrow> pubkey \<Rightarrow> account_meta list \<Rightarrow> instruction result" where
  "flash_loan_ix rt ids program_id amount source_liquidity_pubkey destination_liquidity_pubkey
     reserve_pubkey reserve_liquidity_fee_receiver_pubkey host_fee_receiver_pubkey
     lending_market_pubkey flash_loan_receiver_program_id flash_loan_receiver_program_accounts =
     (let lending_market_authority_pubkey = market_authority rt program_id lending_market_pubkey in
      built program_id (FlashLoan amount)
        ([meta_new source_liquidity_pubkey False, meta_new destination_liquidity_pubkey False,
          meta_new reserve_pubkey False, meta_new reserve_liquidity_fee_receiver_pubkey False,
          meta_new host_fee_receiver_pubkey False, meta_readonly lending_market_pubkey False,
          meta_readonly lending_market_authority_pubkey False,
          meta_readonly (token_address ids) False,
          meta_readonly flash_loan_receiver_program_id False]
          @ flash_loan_receiver_program_accounts))"

definition deposit_reserve_liquidity_and_obligation_collateral_ix ::
    "solana \<Rightarrow> addresses \<Rightarrow> pubkey \<Rightarrow> u64 \<Rightarrow> pubkey \<Rightarrow> pubkey \<Rightarrow> pubkey \<Rightarrow> pubkey \<Rightarrow> pubkey \<Rightarrow>
      pubkey \<Rightarrow> pubkey \<Rightarrow> pubkey \<Rightarrow> pubkey \<Rightarrow> pubkey \<Rightarrow> pubkey option \<Rightarrow> pubkey option \<Rightarrow>
      instruction result" where
  "deposit_reserve_liquidity_and_obligation_collateral_ix rt ids program_id liquidity_amount
     source_liquidity_pubkey user_collateral_pubkey reserve_pubkey reserve_liquidity_supply_pubkey
     reserve_collateral_mint_pubkey lending_market_pubkey destination_deposit_collateral_pubkey
     obligation_pubkey obligation_owner_pubkey user_transfer_authority_pubkey
     option_stake_account_pubkey option_staking_pool_pubkey =
     (let lending_market_authority_pubkey = market_authority rt program_id lending_market_pubkey in
      built program_id (DepositReserveLiquidityAndObligationCollateral liquidity_amount)
        ([meta_new source_liquidity_pubkey False, meta_new user_collateral_pubkey False,
          meta_new reserve_pubkey False, meta_new reserve_liquidity_supply_pubkey False,
          meta_new reserve_collateral_mint_pubkey False, meta_readonly lending_market_pubkey False,
          meta_readonly lending_market_authority_pubkey False,
          meta_new destination_deposit_collateral_pubkey False, meta_new obligation_pubkey False,
          meta_new obligation_owner_pubkey True, meta_readonly user_transfer_authority_pubkey True,
          meta_readonly (clock_id rt) False, meta_readonly (token_address ids) False]
          @ staking_metas ids option_stake_account_pubkey option_staking_pool_pubkey))"

definition update_reserve_ix ::
    "solana \<Rightarrow> addresses \<Rightarrow> pubkey \<Rightarrow> reserve_config \<Rightarrow> pubkey \<Rightarrow> pubkey \<Rightarrow> pubkey \<Rightarrow>
      instruction result" where
  "update_reserve_ix rt ids program_id cfg reserve_pubkey lending_market_pubkey
     lending_market_owner_pubkey =
     (let lending_market_authority_pubkey = market_authority rt program_id lending_market_pubkey in
      built program_id (UpdateReserve cfg)
         [meta_new reserve_pubkey False, meta_readonly lending_market_pubkey False,
          meta_readonly lending_market_authority_pubkey False,
          meta_readonly lending_market_owner_pubkey True, meta_readonly (rent_address ids) False,
          meta_readonly (token_address ids) False])"

definition withdraw_fee_ix ::
    "solana \<Rightarrow> addresses \<Rightarrow> pubkey \<Rightarrow> pubkey \<Rightarrow> pubkey \<Rightarrow> pubkey \<Rightarrow> pubkey \<Rightarrow> pubkey \<Rightarrow>
      instruction result" where
  "withdraw_fee_ix rt ids program_id reserve_pubkey lending_market_pubkey
     lending_market_owner_pubkey reserve_fee_token_pubkey destination_fee_token_pubkey =
     (let lending_market_authority_pubkey = market_authority rt program_id lending_market_pubkey in
      built program_id WithdrawFee
         [meta_new reserve_pubkey False, meta_readonly lending_market_pubkey False,
          meta_readonly lending_market_authority_pubkey False,
          meta_readonly lending_market_owner_pubkey True, meta_new reserve_fee_token_pubkey False,
          meta_new destination_fee_token_pubkey False, meta_readonly (rent_address ids) False,
          meta_readonly (token_address ids) False])"

section \<open>Sending\<close>

text \<open>The program receives the accounts of the instruction with the rights it asks for.\<close>

definition passed :: "account_meta \<Rightarrow> account_info" where
  "passed m = \<lparr> info_key = meta_pubkey m, is_signer = meta_is_signer m, is_writable = meta_is_writable m \<rparr>"

definition send :: "solana \<Rightarrow> world \<Rightarrow> instruction result \<Rightarrow> world result" where
  "send rt w b = attempt b (\<lambda>ix.
     process_instruction rt (ix_program_id ix) (map passed (ix_accounts ix)) (ix_data ix) w)"

abbreviation writable :: "pubkey \<Rightarrow> account_info" where
  "writable k \<equiv> \<lparr> info_key = k, is_signer = False, is_writable = True \<rparr>"

abbreviation readonly :: "pubkey \<Rightarrow> account_info" where
  "readonly k \<equiv> \<lparr> info_key = k, is_signer = False, is_writable = False \<rparr>"

abbreviation signer :: "pubkey \<Rightarrow> account_info" where
  "signer k \<equiv> \<lparr> info_key = k, is_signer = True, is_writable = False \<rparr>"

abbreviation writable_signer :: "pubkey \<Rightarrow> account_info" where
  "writable_signer k \<equiv> \<lparr> info_key = k, is_signer = True, is_writable = True \<rparr>"

lemma passed_simps [simp]:
  "passed (meta_new k True) = writable_signer k" "passed (meta_new k False) = writable k"
  "passed (meta_readonly k True) = signer k" "passed (meta_readonly k False) = readonly k"
  by (simp_all add: passed_def meta_new_def meta_readonly_def)

lemma price_panics: "\<not> price_fits price \<Longrightarrow> ix_pack_coption_decimal price = Inl Panic"
  by (auto simp: price_fits_def ix_pack_coption_decimal_def pack_decimal_def decimal_to_scaled_val_def
      try_narrow_def ok_or_def dec_def split: option.splits sum.splits)

text \<open>What was built is decoded again, so the handler of the instruction runs.\<close>

lemma send_built:
  "send rt w (built program_id ins metas) =
     (if instruction_fits ins then process rt program_id (map passed metas) ins w else Inl Panic)"
proof (cases "instruction_fits ins")
  case True
  then obtain bs where bs: "instruction_pack ins = Inr bs" using instruction_pack_total by blast
  then have "instruction_unpack bs = Inr ins" using instruction_unpack_pack [of ins bs "[]"] by simp
  with True bs show ?thesis by (simp add: send_def built_def process_instruction_def)
next
  case False
  then show ?thesis
    by (cases ins) (auto simp: send_def built_def price_panics)
qed

lemmas builders = init_lending_market_ix_def set_lending_market_owner_ix_def init_reserve_ix_def
  refresh_reserve_ix_def deposit_reserve_liquidity_ix_def redeem_reserve_collateral_ix_def
  init_obligation_ix_def refresh_obligation_ix_def deposit_obligation_collateral_ix_def
  withdraw_obligation_collateral_ix_def borrow_obligation_liquidity_ix_def
  repay_obligation_liquidity_ix_def liquidate_obligation_ix_def flash_loan_ix_def
  deposit_reserve_liquidity_and_obligation_collateral_ix_def update_reserve_ix_def
  withdraw_fee_ix_def


end
