(* ===== verification/Staking_Client.thy ===== *)
theory Staking_Client
  imports Client Staking_Rewards
begin

text \<open>
  The client side of the staking program: the functions of staking/program/src/instruction.rs that
  build its instructions, apart from the two that the lending program also calls
  (\<open>Staking_Instruction\<close>). A missing second reward is passed as the default key.
\<close>

section \<open>Builders\<close>

definition staking_built :: "pubkey \<Rightarrow> staking_instruction \<Rightarrow> account_meta list \<Rightarrow> instruction" where
  "staking_built program_id ins accounts =
     \<lparr> ix_program_id = program_id, ix_accounts = accounts, ix_data = staking_instruction_pack ins \<rparr>"

text \<open>\<open>dummy_id!()\<close> and \<open>unwrap_or_else(|| dummy_id!())\<close>.\<close>

definition dummy_id :: pubkey where
  "dummy_id = 0"

definition or_dummy :: "pubkey option \<Rightarrow> pubkey" where
  "or_dummy key = (case key of None \<Rightarrow> dummy_id | Some k \<Rightarrow> k)"

definition staking_program_derived :: "solana \<Rightarrow> pubkey \<Rightarrow> pubkey \<Rightarrow> pubkey \<times> u8" where
  "staking_program_derived rt program_id pool = find_program_address rt [bytes32_to pool] program_id"

definition change_owner_ix :: "pubkey \<Rightarrow> pubkey \<Rightarrow> pubkey \<Rightarrow> pubkey \<Rightarrow> instruction" where
  "change_owner_ix program_id new_owner old_owner pool =
     staking_built program_id (ChangeOwner new_owner) [meta_readonly old_owner True, meta_new pool False]"

definition change_admin_ix :: "pubkey \<Rightarrow> pubkey \<Rightarrow> pubkey \<Rightarrow> pubkey \<Rightarrow> instruction" where
  "change_admin_ix program_id new_admin old_admin pool =
     staking_built program_id (ChangeAdmin new_admin) [meta_readonly old_admin True, meta_new pool False]"

definition init_staking_pool_ix ::
    "solana \<Rightarrow> addresses \<Rightarrow> pubkey \<Rightarrow> u64 \<Rightarrow> u64 option \<Rightarrow> u64 \<Rightarrow> u64 \<Rightarrow> pubkey \<Rightarrow> pubkey \<Rightarrow> pubkey \<Rightarrow>
      pubkey option \<Rightarrow> pubkey option \<Rightarrow> pubkey \<Rightarrow> pubkey \<Rightarrow> pubkey option \<Rightarrow> pubkey \<Rightarrow> pubkey \<Rightarrow>
      instruction" where
  "init_staking_pool_ix rt ids program_id supply_amount sub_supply duration earliest_reward_claim_time
     transfer_reward_token_authority token_supply token_pool sub_reward_token_supply
     sub_token_pool pool token_mint sub_reward_token_mint
     staking_pool_owner_derived admin =
     (let (derived, bump) = staking_program_derived rt program_id pool in
      staking_built program_id
        (InitStakingPool supply_amount sub_supply duration earliest_reward_claim_time bump
          staking_pool_owner_derived admin)
        ([meta_readonly transfer_reward_token_authority True] @
         create_write_accounts [token_supply, token_pool, or_dummy sub_reward_token_supply,
           or_dummy sub_token_pool, pool] @
         create_read_accounts [token_mint, or_dummy sub_reward_token_mint, derived,
           rent_address ids, token_address ids]))"

definition create_stake_account_ix :: "addresses \<Rightarrow> pubkey \<Rightarrow> pubkey \<Rightarrow> pubkey \<Rightarrow> pubkey \<Rightarrow> instruction" where
  "create_stake_account_ix ids program_id stake_acc pool stake_account_owner =
     staking_built program_id CreateStakeAccount
       ([meta_new stake_acc False] @
        create_read_accounts [pool, stake_account_owner, rent_address ids])"

definition claim_reward_ix ::
    "solana \<Rightarrow> addresses \<Rightarrow> pubkey \<Rightarrow> pubkey \<Rightarrow> pubkey \<Rightarrow> pubkey \<Rightarrow> pubkey \<Rightarrow> pubkey option \<Rightarrow> pubkey \<Rightarrow>
      pubkey option \<Rightarrow> instruction" where
  "claim_reward_ix rt ids program_id stake_account_owner stake_acc pool token_pool
     sub_token_pool reward_destination sub_reward_destination =
     staking_built program_id ClaimReward
       ([meta_readonly stake_account_owner True] @
        create_write_accounts [stake_acc, pool, token_pool, reward_destination] @
        create_read_accounts [fst (staking_program_derived rt program_id pool), clock_id rt,
          token_address ids] @
        create_write_accounts
          (case (sub_token_pool, sub_reward_destination) of
             (Some p, Some dest) \<Rightarrow> [p, dest]
           | _ \<Rightarrow> []))"

definition update_earliest_reward_claim_time_ix :: "pubkey \<Rightarrow> u64 \<Rightarrow> pubkey \<Rightarrow> pubkey \<Rightarrow> instruction" where
  "update_earliest_reward_claim_time_ix program_id time admin pool =
     staking_built program_id (UpdateEarliestRewardClaimTime time)
       [meta_readonly admin True, meta_new pool False]"

definition change_reward_supply_ix ::
    "solana \<Rightarrow> addresses \<Rightarrow> pubkey \<Rightarrow> i64 \<Rightarrow> i64 option \<Rightarrow> pubkey \<Rightarrow> pubkey \<Rightarrow> pubkey \<Rightarrow> pubkey \<Rightarrow> pubkey \<Rightarrow>
      pubkey option \<Rightarrow> pubkey option \<Rightarrow> pubkey option \<Rightarrow> instruction" where
  "change_reward_supply_ix rt ids program_id amount sub_amount transfer_reward_token_authority
     token_supply token_mint pool token_pool sub_reward_token_supply
     sub_reward_token_mint sub_token_pool =
     staking_built program_id (ChangeRewardSupply amount sub_amount)
       ([meta_readonly transfer_reward_token_authority True] @
        create_write_accounts [pool, token_supply, token_pool,
          or_dummy sub_reward_token_supply, or_dummy sub_token_pool] @
        create_read_accounts [fst (staking_program_derived rt program_id pool), token_mint,
          or_dummy sub_reward_token_mint, token_address ids, clock_id rt])"

definition change_duration_ix :: "solana \<Rightarrow> pubkey \<Rightarrow> i64 \<Rightarrow> pubkey \<Rightarrow> pubkey \<Rightarrow> instruction" where
  "change_duration_ix rt program_id amount admin pool =
     staking_built program_id (ChangeDuration amount)
       ([meta_readonly admin True] @ create_write_accounts [pool] @ create_read_accounts [clock_id rt])"

definition add_sub_reward_pool_ix ::
    "solana \<Rightarrow> addresses \<Rightarrow> pubkey \<Rightarrow> u64 \<Rightarrow> pubkey \<Rightarrow> pubkey \<Rightarrow> pubkey \<Rightarrow> pubkey \<Rightarrow> pubkey \<Rightarrow> pubkey \<Rightarrow>
      instruction" where
  "add_sub_reward_pool_ix rt ids program_id amount transfer_reward_token_authority admin
     token_supply token_mint pool token_pool =
     staking_built program_id (AddSubRewardPool amount)
       ([meta_readonly admin True, meta_readonly transfer_reward_token_authority True] @
        create_write_accounts [pool, token_supply, token_pool] @
        create_read_accounts [token_mint, fst (staking_program_derived rt program_id pool),
          token_address ids, rent_address ids, clock_id rt])"

section \<open>Sending\<close>

definition staking_send :: "solana \<Rightarrow> world \<Rightarrow> instruction \<Rightarrow> world result" where
  "staking_send rt w ix =
     staking_process_instruction rt (ix_program_id ix) (map passed (ix_accounts ix)) (ix_data ix) w"

lemma staking_send_built:
  "staking_send rt w (staking_built program_id ins metas) = staking_process rt program_id (map passed metas) ins w"
  by (simp add: staking_send_def staking_built_def staking_process_instruction_def staking_instruction_unpack_pack)

lemma passed_lists [simp]:
  "map passed (create_write_accounts ks) = map writable ks"
  "map passed (create_read_accounts ks) = map readonly ks"
  by (simp_all add: create_write_accounts_def create_read_accounts_def passed_def)

lemmas staking_builders = change_owner_ix_def change_admin_ix_def init_staking_pool_ix_def
  create_stake_account_ix_def claim_reward_ix_def update_earliest_reward_claim_time_ix_def
  change_reward_supply_ix_def change_duration_ix_def add_sub_reward_pool_ix_def

text \<open>Each builder runs its handler, on the accounts in the handler's order.\<close>

lemma staking_client_reaches_handler:
  "staking_send rt w (change_owner_ix program_id new_owner old_owner pool) =
     process_change_owner rt program_id new_owner [signer old_owner, writable pool] w"
  "staking_send rt w (change_admin_ix program_id new_admin old_admin pool) =
     process_change_admin rt program_id new_admin [signer old_admin, writable pool] w"
  "staking_send rt w (create_stake_account_ix ids program_id stk pool own) =
     process_create_stake_account rt program_id
       [writable stk, readonly pool, readonly own, readonly (rent_address ids)] w"
  "staking_send rt w (update_earliest_reward_claim_time_ix program_id time admin pool) =
     process_update_earliest_reward_claim_time rt program_id time [signer admin, writable pool] w"
  "staking_send rt w (change_duration_ix rt program_id delta admin pool) =
     process_change_duration rt program_id delta [signer admin, writable pool, readonly (clock_id rt)] w"
  "staking_send rt w (claim_reward_ix rt ids program_id own stk pool rewards (Some sub_rewards) dest
       (Some sub_dest)) =
     process_claim_reward rt program_id
       [signer own, writable stk, writable pool, writable rewards, writable dest,
        readonly (fst (staking_program_derived rt program_id pool)), readonly (clock_id rt),
        readonly (token_address ids), writable sub_rewards, writable sub_dest] w"
  "staking_send rt w (add_sub_reward_pool_ix rt ids program_id n auth admin tokens mint pool rewards) =
     process_add_sub_reward_pool rt program_id n
       [signer admin, signer auth, writable pool, writable tokens, writable rewards, readonly mint,
        readonly (fst (staking_program_derived rt program_id pool)), readonly (token_address ids),
        readonly (rent_address ids), readonly (clock_id rt)] w"
  "staking_send rt w (change_reward_supply_ix rt ids program_id delta sub_delta auth tokens mint pool rewards
       o_tokens o_mint o_rewards) =
     process_change_reward_supply rt program_id delta sub_delta
       [signer auth, writable pool, writable tokens, writable rewards, writable (or_dummy o_tokens),
        writable (or_dummy o_rewards), readonly (fst (staking_program_derived rt program_id pool)),
        readonly mint, readonly (or_dummy o_mint), readonly (token_address ids), readonly (clock_id rt)] w"
  "staking_send rt w (init_staking_pool_ix rt ids program_id n sub_n duration time auth tokens rewards
       o_tokens o_rewards pool mint o_mint own admin) =
     process_init_staking_pool rt program_id n sub_n duration time
       (snd (staking_program_derived rt program_id pool)) own admin
       [signer auth, writable tokens, writable rewards, writable (or_dummy o_tokens),
        writable (or_dummy o_rewards), writable pool, readonly mint, readonly (or_dummy o_mint),
        readonly (fst (staking_program_derived rt program_id pool)), readonly (rent_address ids),
        readonly (token_address ids)] w"
  by (simp_all add: staking_builders staking_send_built split_def Let_def)

end
