(* ===== verification/Command.thy ===== *)
theory Command
  imports Arguments Staking_Client
begin

text \<open>
  How the command line programs act: commands read the ledger through an RPC client, build and sign
  transactions, and send them. The client, the key generator and the instruction builders of other
  crates are parameters (\<open>cluster\<close>); the ledger is the type \<open>'n\<close> they act on, and it changes only by
  sending. A command ends with a value, with an error that \<open>main\<close> prints, by exiting, or by a panic.
\<close>

section \<open>Ends of a command\<close>

datatype cli_error = Rpc_error nat | Program_failure program_error

datatype cli_end = Failed cli_error | Exited nat | Panicked

type_synonym 'a outcome = "cli_end + 'a"

definition unwrap :: "'a option \<Rightarrow> 'a outcome" where
  "unwrap x = (case x of None \<Rightarrow> Inl Panicked | Some v \<Rightarrow> Inr v)"

definition expect_ok :: "'e + 'a \<Rightarrow> 'a outcome" where
  "expect_ok r = (case r of Inl _ \<Rightarrow> Inl Panicked | Inr v \<Rightarrow> Inr v)"

definition rpc :: "cli_error + 'a \<Rightarrow> 'a outcome" where
  "rpc r = (case r of Inl e \<Rightarrow> Inl (Failed e) | Inr v \<Rightarrow> Inr v)"

text \<open>A result of the program's own code, which the client links.\<close>

definition own_code :: "'a result \<Rightarrow> 'a outcome" where
  "own_code r = (case r of Inl (Err e) \<Rightarrow> Inl (Failed (Program_failure e)) | Inl Panic \<Rightarrow> Inl Panicked | Inr v \<Rightarrow> Inr v)"

text \<open>\<open>iter().map(..).collect()\<close>, where the function may panic.\<close>

fun map_outcome :: "('a \<Rightarrow> 'b outcome) \<Rightarrow> 'a list \<Rightarrow> 'b list outcome" where
  "map_outcome f [] = Inr []"
| "map_outcome f (x # xs) = attempt (f x) (\<lambda>y. attempt (map_outcome f xs) (\<lambda>ys. Inr (y # ys)))"

definition exit_if :: "bool \<Rightarrow> unit outcome" where
  "exit_if bad = (if bad then Inl (Exited 1) else Inr ())"

definition panic_if :: "bool \<Rightarrow> unit outcome" where
  "panic_if bad = (if bad then Inl Panicked else Inr ())"

lemma outcome_Inr_iff [simp]:
  "unwrap x = Inr v \<longleftrightarrow> x = Some v" "expect_ok r = Inr v \<longleftrightarrow> r = Inr v" "rpc q = Inr v \<longleftrightarrow> q = Inr v"
  "own_code f = Inr v \<longleftrightarrow> f = Inr v" "exit_if b = Inr u \<longleftrightarrow> \<not> b" "panic_if b = Inr u \<longleftrightarrow> \<not> b"
  by (auto simp: unwrap_def expect_ok_def rpc_def own_code_def exit_if_def panic_if_def
      split: option.splits sum.splits fault.splits)

lemma outcome_panics [simp]:
  "unwrap x = Inl Panicked \<longleftrightarrow> x = None" "rpc q \<noteq> Inl Panicked" "exit_if b \<noteq> Inl Panicked"
  "panic_if b = Inl Panicked \<longleftrightarrow> b"
  by (auto simp: unwrap_def rpc_def exit_if_def panic_if_def split: option.splits sum.splits)

lemma map_outcome_ok: "map_outcome f xs = Inr ys \<longleftrightarrow> list_all2 (\<lambda>x y. f x = Inr y) xs ys"
  by (induction xs arbitrary: ys) (auto simp: list_all2_Cons1)

lemma map_outcome_panics: "map_outcome f xs = Inl Panicked \<Longrightarrow> \<exists>x\<in>set xs. f x = Inl Panicked"
  by (induction xs) (auto simp: attempt_Inl_iff)

section \<open>Transactions\<close>

record transaction =
  tx_instructions :: "instruction list"
  tx_payer :: pubkey
  tx_signers :: "pubkey list"
  tx_blockhash :: nat

record ('n, 'f) cluster =
  get_account :: "'n \<Rightarrow> pubkey \<Rightarrow> cli_error + byte list"
  get_balance :: "'n \<Rightarrow> pubkey \<Rightarrow> cli_error + u64"
  rent_minimum :: "'n \<Rightarrow> nat \<Rightarrow> cli_error + u64"
  latest_blockhash :: "'n \<Rightarrow> cli_error + nat"
  simulate :: "'n \<Rightarrow> transaction \<Rightarrow> cli_error + string"
  send_and_confirm :: "'n \<Rightarrow> transaction \<Rightarrow> (cli_error + string) \<times> 'n"
  signs :: "transaction \<Rightarrow> bool"
  new_keypair :: "nat \<Rightarrow> pubkey"
  system_create_account :: "pubkey \<Rightarrow> pubkey \<Rightarrow> u64 \<Rightarrow> u64 \<Rightarrow> pubkey \<Rightarrow> instruction"
  token_approve :: "pubkey \<Rightarrow> pubkey \<Rightarrow> pubkey \<Rightarrow> pubkey \<Rightarrow> pubkey list \<Rightarrow> u64 \<Rightarrow> program_error + instruction"
  token_revoke :: "pubkey \<Rightarrow> pubkey \<Rightarrow> pubkey \<Rightarrow> pubkey list \<Rightarrow> program_error + instruction"
  token_unpack_from_slice :: "byte list \<Rightarrow> program_error + token_account"
  mint_unpack_from_slice :: "byte list \<Rightarrow> program_error + token_mint"
  token_account_len :: nat
  token_mint_len :: nat
  the_host :: "'f host"
  the_runtime :: solana
  the_addresses :: addresses

record config_args =
  fee_payer :: pubkey
  cli_program_id :: pubkey
  verbose :: bool
  dry_run :: bool

text \<open>
  The end of \<open>main\<close>'s preamble: the configuration file (\<open>solana_cli_config\<close>, which gives the address of
  the cluster and the path of the default key pair) is read if it is named and readable.
\<close>

record cli_config =
  config_rpc_url :: string
  config_keypair_path :: string

definition unwrap_or :: "'a option \<Rightarrow> 'a \<Rightarrow> 'a" where
  "unwrap_or x d = (case x of None \<Rightarrow> d | Some v \<Rightarrow> v)"

definition loaded_config :: "(string \<Rightarrow> cli_config option) \<Rightarrow> cli_config \<Rightarrow> 'f arguments \<Rightarrow> cli_config" where
  "loaded_config load base m =
     (case clap_value m ''config_file'' of Some config_file \<Rightarrow> unwrap_or (load config_file) base | None \<Rightarrow> base)"

text \<open>\<open>Transaction::sign\<close>: the keys given and the blockhash; it panics unless the keys are the ones needed.\<close>

definition sign :: "('n, 'f) cluster \<Rightarrow> instruction list \<Rightarrow> pubkey \<Rightarrow> pubkey list \<Rightarrow> nat \<Rightarrow> transaction outcome" where
  "sign cl ixs payer signers blockhash =
     (let t = \<lparr> tx_instructions = ixs, tx_payer = payer, tx_signers = signers, tx_blockhash = blockhash \<rparr> in
      if signs cl t then Inr t else Inl Panicked)"

text \<open>Both files have the same \<open>send_transaction\<close>; its end and the ledger after it.\<close>

definition send_transaction ::
    "('n, 'f) cluster \<Rightarrow> config_args \<Rightarrow> transaction \<Rightarrow> 'n \<Rightarrow> unit outcome \<times> 'n" where
  "send_transaction cl cfg t n =
     (if dry_run cfg then (attempt (rpc (simulate cl n t)) (\<lambda>_. Inr ()), n)
      else let (r, n') = send_and_confirm cl n t in (attempt (rpc r) (\<lambda>_. Inr ()), n'))"

definition staking_send_transaction ::
    "('n, 'f) cluster \<Rightarrow> config_args \<Rightarrow> transaction \<Rightarrow> 'n \<Rightarrow> unit outcome \<times> 'n" where
  "staking_send_transaction cl cfg t n =
     (if dry_run cfg then (attempt (rpc (simulate cl n t)) (\<lambda>_. Inr ()), n)
      else let (r, n') = send_and_confirm cl n t in (attempt (rpc r) (\<lambda>_. Inr ()), n'))"

text \<open>A command reads the ledger as it is, and then sends its transactions until one fails.\<close>

fun send_all ::
    "(transaction \<Rightarrow> 'n \<Rightarrow> unit outcome \<times> 'n) \<Rightarrow> transaction list \<Rightarrow> 'n \<Rightarrow> unit outcome \<times> 'n" where
  "send_all send_one [] n = (Inr (), n)"
| "send_all send_one (t # ts) n =
     (case send_one t n of
        (Inl e, n') \<Rightarrow> (Inl e, n')
      | (Inr _, n') \<Rightarrow> send_all send_one ts n')"

definition command ::
    "(transaction \<Rightarrow> 'n \<Rightarrow> unit outcome \<times> 'n) \<Rightarrow> ('n \<Rightarrow> transaction list outcome) \<Rightarrow> 'n \<Rightarrow> unit outcome \<times> 'n" where
  "command send_one prepare n =
     (case prepare n of
        Inl e \<Rightarrow> (Inl e, n)
      | Inr ts \<Rightarrow> send_all send_one ts n)"

section \<open>Lemmas\<close>

lemma dry_run_keeps:
  assumes "dry_run cfg"
  shows "snd (send_transaction cl cfg t n) = n" "snd (staking_send_transaction cl cfg t n) = n"
  using assms by (simp_all add: send_transaction_def staking_send_transaction_def)

lemma send_all_keeps:
  assumes "\<And>t n. snd (send_one t n) = n"
  shows "snd (send_all send_one ts n) = n"
proof (induction ts arbitrary: n)
  case (Cons t ts)
  then show ?case using assms [of t n] by (auto split: prod.splits sum.splits)
qed simp

lemma command_keeps:
  assumes "\<And>t n. snd (send_one t n) = n"
  shows "snd (command send_one prepare n) = n"
  using send_all_keeps [of send_one, OF assms] by (simp add: command_def split: sum.split)

text \<open>
  The keys a transaction must be signed with: the payer's and those its instructions mark. What
  \<open>Transaction::sign\<close> is documented to accept, and how the builders of the system program and of the
  token program mark their accounts.
\<close>

definition marked :: "instruction \<Rightarrow> pubkey set" where
  "marked ix = {meta_pubkey m |m. m \<in> set (ix_accounts ix) \<and> meta_is_signer m}"

definition exactly_signed :: "transaction \<Rightarrow> bool" where
  "exactly_signed t \<longleftrightarrow> set (tx_signers t) = insert (tx_payer t) (\<Union> (marked ` set (tx_instructions t)))"

definition sign_accepts :: "('n, 'f) cluster \<Rightarrow> bool" where
  "sign_accepts cl \<longleftrightarrow> (\<forall>t. exactly_signed t \<longrightarrow> signs cl t)"

definition builders_mark :: "('n, 'f) cluster \<Rightarrow> bool" where
  "builders_mark cl \<longleftrightarrow>
     (\<forall>payer key n len own. marked (system_create_account cl payer key n len own) = {payer, key}) \<and>
     (\<forall>prog src del own n ix. token_approve cl prog src del own [] n = Inr ix \<longrightarrow> marked ix = {own}) \<and>
     (\<forall>prog src own ix. token_revoke cl prog src own [] = Inr ix \<longrightarrow> marked ix = {own})"

lemma sign_ok:
  assumes "sign_accepts cl" "set signers = insert payer (\<Union> (marked ` set ixs))"
  shows "sign cl ixs payer signers hash =
    Inr \<lparr> tx_instructions = ixs, tx_payer = payer, tx_signers = signers, tx_blockhash = hash \<rparr>"
  using assms by (simp add: sign_def Let_def sign_accepts_def exactly_signed_def)

lemma sign_result:
  "sign cl ixs payer signers hash = Inr t \<Longrightarrow> tx_instructions t = ixs \<and> tx_payer t = payer \<and> tx_signers t = signers"
  by (auto simp: sign_def Let_def split: if_splits)

end
