(* ===== verification/Cli_Lending.thy ===== *)
theory Cli_Lending
  imports Command
begin

text \<open>
  The lending program's command line (token-lending/cli/src/main.rs): the declarations of its
  subcommands, the arms of \<open>main\<close> that read the arguments, and the commands that build, sign and send
  the transactions. Printing is left out.
\<close>

section \<open>Declarations\<close>

text \<open>
  The arguments before the subcommand, but for \<open>--fee-payer\<close>, which solana_clap_utils declares; the
  default of \<open>--config\<close> is the one of solana_cli_config, if it has one.
\<close>

definition lending_global_decls :: "string option \<Rightarrow> string \<Rightarrow> argument list" where
  "lending_global_decls config_default program_default =
     [(arg ''config_file'' ''config'' Any_text False)\<lparr> arg_default := config_default \<rparr>,
      arg ''json_rpc_url'' ''url'' Is_url False,
      with_default program_default (arg ''lending_program_id'' ''program'' Is_pubkey True)]"

definition lending_flags :: "string list" where
  "lending_flags = [''verbose'', ''dry_run'']"

definition update_reserve_args :: "argument list" where
  "update_reserve_args = map (\<lambda>name. arg name name Is_u64 False)
     [''optimal_utilization_rate'', ''loan_to_value_ratio'', ''liquidation_bonus'',
      ''liquidation_threshold'', ''min_borrow_rate'', ''optimal_borrow_rate'', ''max_borrow_rate'',
      ''borrow_fee_wad'', ''flash_loan_fee_wad'', ''host_fee_percentage'', ''deposit_limit'',
      ''borrow_limit'']"

definition update_reserve_decls :: "argument list" where
  "update_reserve_decls =
     [arg ''reserve'' ''reserve'' Is_pubkey True,
      arg ''lending_market'' ''market'' Is_pubkey True,
      arg ''lending_market_owner'' ''market-owner'' Any_text True,
      arg ''deposit_staking_pool'' ''deposit_staking_pool'' Any_text False] @ update_reserve_args"

definition repay_loan_decls :: "argument list" where
  "repay_loan_decls =
     [arg ''amount_to_repay'' ''amount'' Is_u64 True,
      arg ''token_account_to_repay'' ''source-token'' Is_pubkey True,
      arg ''wallet_to_repay'' ''source-wallet'' Is_keypair True,
      arg ''destination_token_account'' ''dest-token'' Is_pubkey True,
      arg ''repay_reserve'' ''repay-reserve'' Is_pubkey True,
      repeated (arg ''all_reserves'' ''reserve'' Is_pubkey True),
      repeated (arg ''all_oracles'' ''oracle'' Is_pubkey_or_none True),
      arg ''repay_obligation'' ''obligation'' Is_pubkey True,
      arg ''lending_market'' ''market'' Is_pubkey True]"

definition create_market_decls :: "argument list" where
  "create_market_decls =
     [arg ''lending_market_owner'' ''market-owner'' Is_pubkey True,
      with_default ''USD'' (arg ''quote_currency'' ''quote'' Any_text True)]"

definition add_reserve_decls :: "argument list" where
  "add_reserve_decls =
     [arg ''lending_market_owner'' ''market-owner'' Any_text True,
      arg ''source_liquidity_owner'' ''source-owner'' Is_keypair True,
      arg ''lending_market'' ''market'' Is_pubkey True,
      arg ''source_liquidity'' ''source'' Is_pubkey True,
      arg ''liquidity_amount'' ''amount'' Is_amount True,
      arg ''fixed_price'' ''fixed-price'' Is_amount False,
      arg ''pyth_price'' ''pyth-price'' Is_pubkey False,
      with_default ''80'' (arg ''optimal_utilization_rate'' ''optimal-utilization-rate'' Parsable_u8 True),
      with_default ''50'' (arg ''loan_to_value_ratio'' ''loan-to-value-ratio'' Parsable_u8 True),
      with_default ''5'' (arg ''liquidation_bonus'' ''liquidation-bonus'' Parsable_u8 True),
      with_default ''55'' (arg ''liquidation_threshold'' ''liquidation-threshold'' Parsable_u8 True),
      with_default ''0'' (arg ''min_borrow_rate'' ''min-borrow-rate'' Parsable_u8 True),
      with_default ''4'' (arg ''optimal_borrow_rate'' ''optimal-borrow-rate'' Parsable_u8 True),
      with_default ''30'' (arg ''max_borrow_rate'' ''max-borrow-rate'' Parsable_u8 True),
      with_default ''0.0001'' (arg ''borrow_fee'' ''borrow-fee'' Parsable_f64 True),
      with_default ''0.0009'' (arg ''flash_loan_fee'' ''flash-loan-fee'' Parsable_f64 True),
      with_default ''20'' (arg ''host_fee_percentage'' ''host-fee-percentage'' Parsable_u8 True),
      with_default ''18446744073709551615'' (arg ''deposit_limit'' ''deposit-limit'' Parsable_u64 True),
      with_default ''18446744073709551615'' (arg ''borrow_limit'' ''borrow-limit'' Parsable_u64 True)]"

section \<open>Special values\<close>

text \<open>A key, or else the key of a key file; neither panics. \<open>NONE\<close> is no key.\<close>

definition key_text :: "'f host \<Rightarrow> string \<Rightarrow> pubkey option outcome" where
  "key_text h v =
     (if v = ''NONE'' then Inr None
      else case parse_pubkey h v of
        Some k \<Rightarrow> Inr (Some k)
      | None \<Rightarrow> attempt (unwrap (read_keypair_file h v)) (\<lambda>k. Inr (Some k)))"

definition pubkey_or_none_of :: "'f host \<Rightarrow> 'f arguments \<Rightarrow> string \<Rightarrow> pubkey option option outcome" where
  "pubkey_or_none_of h m name =
     (case clap_value m name of
        None \<Rightarrow> Inr None
      | Some v \<Rightarrow> attempt (key_text h v) (\<lambda>k. Inr (Some k)))"

definition pubkeys_or_none_of :: "'f host \<Rightarrow> 'f arguments \<Rightarrow> string \<Rightarrow> pubkey option list option outcome" where
  "pubkeys_or_none_of h m name =
     (case clap_values m name of
        None \<Rightarrow> Inr None
      | Some vs \<Rightarrow> attempt (map_outcome (key_text h) vs) (\<lambda>ks. Inr (Some ks)))"

definition as_bytes :: "string \<Rightarrow> byte list" where
  "as_bytes s = map of_char s"

definition USD :: "byte list" where
  "USD = [85, 83, 68, 0, 0, 0, 0, 0, 0, 0, 0, 0, 0, 0, 0, 0, 0, 0, 0, 0, 0, 0, 0, 0, 0, 0, 0, 0, 0, 0, 0, 0]"

definition quote_currency_of :: "'f host \<Rightarrow> 'f arguments \<Rightarrow> string \<Rightarrow> bytes32 option outcome" where
  "quote_currency_of h m name =
     (case clap_value m name of
        None \<Rightarrow> Inr None
      | Some s \<Rightarrow>
          if s = ''USD'' then Inr (Some (bytes32_from USD))
          else if length s \<le> 32 then
            Inr (Some (bytes32_from (as_bytes s @ drop (length s) (replicate 32 0))))
          else attempt (unwrap (parse_pubkey h s)) (\<lambda>k. Inr (Some k)))"

section \<open>Reading the arguments\<close>

definition read_create_market :: "'f host \<Rightarrow> 'f arguments \<Rightarrow> (pubkey \<times> bytes32) outcome" where
  "read_create_market h m =
     attempt (unwrap (pubkey_of m ''lending_market_owner'')) (\<lambda>lending_market_owner.
     attempt (quote_currency_of h m ''quote_currency'') (\<lambda>q.
     attempt (unwrap q) (\<lambda>quote_currency.
     Inr (lending_market_owner, quote_currency))))"

record reserve_changes =
  new_optimal_utilization_rate :: "u8 option"
  new_loan_to_value_ratio :: "u8 option"
  new_liquidation_bonus :: "u8 option"
  new_liquidation_threshold :: "u8 option"
  new_min_borrow_rate :: "u8 option"
  new_optimal_borrow_rate :: "u8 option"
  new_max_borrow_rate :: "u8 option"
  new_borrow_fee_wad :: "u64 option"
  new_flash_loan_fee_wad :: "u64 option"
  new_host_fee_percentage :: "u8 option"
  new_deposit_limit :: "u64 option"
  new_borrow_limit :: "u64 option"
  new_deposit_staking_pool :: "pubkey option option"

definition read_update_reserve ::
    "'f host \<Rightarrow> 'f arguments \<Rightarrow> (pubkey \<times> pubkey \<times> pubkey \<times> reserve_changes) outcome" where
  "read_update_reserve h m =
     attempt (unwrap (pubkey_of m ''reserve'')) (\<lambda>reserve.
     attempt (unwrap (pubkey_of m ''lending_market'')) (\<lambda>lending_market.
     attempt (unwrap (clap_value m ''lending_market_owner'')) (\<lambda>path.
     attempt (unwrap (signer_from_path m path ''lending_market_owner'')) (\<lambda>lending_market_owner.
     attempt (pubkey_or_none_of h m ''deposit_staking_pool'') (\<lambda>pool.
     Inr (reserve, lending_market, lending_market_owner,
       \<lparr> new_optimal_utilization_rate = value_u8 m ''optimal_utilization_rate'',
         new_loan_to_value_ratio = value_u8 m ''loan_to_value_ratio'',
         new_liquidation_bonus = value_u8 m ''liquidation_bonus'',
         new_liquidation_threshold = value_u8 m ''liquidation_threshold'',
         new_min_borrow_rate = value_u8 m ''min_borrow_rate'',
         new_optimal_borrow_rate = value_u8 m ''optimal_borrow_rate'',
         new_max_borrow_rate = value_u8 m ''max_borrow_rate'',
         new_borrow_fee_wad = value_u64 m ''borrow_fee_wad'',
         new_flash_loan_fee_wad = value_u64 m ''flash_loan_fee_wad'',
         new_host_fee_percentage = value_u8 m ''host_fee_percentage'',
         new_deposit_limit = value_u64 m ''deposit_limit'',
         new_borrow_limit = value_u64 m ''borrow_limit'',
         new_deposit_staking_pool = pool \<rparr>))))))"

definition merge_config :: "reserve_changes \<Rightarrow> reserve_config \<Rightarrow> reserve_config" where
  "merge_config x old =
     old\<lparr> optimal_utilization_rate := unwrap_or (new_optimal_utilization_rate x) (optimal_utilization_rate old),
       loan_to_value_ratio := unwrap_or (new_loan_to_value_ratio x) (loan_to_value_ratio old),
       liquidation_bonus := unwrap_or (new_liquidation_bonus x) (liquidation_bonus old),
       liquidation_threshold := unwrap_or (new_liquidation_threshold x) (liquidation_threshold old),
       min_borrow_rate := unwrap_or (new_min_borrow_rate x) (min_borrow_rate old),
       max_borrow_rate := unwrap_or (new_max_borrow_rate x) (max_borrow_rate old),
       optimal_borrow_rate := unwrap_or (new_optimal_borrow_rate x) (optimal_borrow_rate old),
       config_fees := (config_fees old)\<lparr>
         borrow_fee_wad := unwrap_or (new_borrow_fee_wad x) (borrow_fee_wad (config_fees old)),
         host_fee_percentage := unwrap_or (new_host_fee_percentage x) (host_fee_percentage (config_fees old)),
         flash_loan_fee_wad := unwrap_or (new_flash_loan_fee_wad x) (flash_loan_fee_wad (config_fees old)) \<rparr>,
       deposit_limit := unwrap_or (new_deposit_limit x) (deposit_limit old),
       borrow_limit := unwrap_or (new_borrow_limit x) (borrow_limit old),
       deposit_staking_pool := unwrap_or (new_deposit_staking_pool x) (deposit_staking_pool old) \<rparr>"

record 'f new_reserve =
  nr_ui_amount :: 'f
  nr_fixed_price :: "decimal option"
  nr_config :: reserve_config
  nr_source_liquidity :: pubkey
  nr_source_owner :: pubkey
  nr_market :: pubkey
  nr_market_owner :: pubkey
  nr_pyth_price :: "pubkey option"

definition read_fixed_price :: "'f arguments \<Rightarrow> decimal option outcome" where
  "read_fixed_price m =
     (if clap_present m ''fixed_price''
      then attempt (unwrap (value_u64 m ''fixed_price'')) (\<lambda>price. Inr (Some (decimal_from_u64 price)))
      else Inr None)"

definition read_pyth_price :: "'f arguments \<Rightarrow> pubkey option outcome" where
  "read_pyth_price m =
     (if clap_present m ''pyth_price''
      then attempt (unwrap (pubkey_of m ''pyth_price'')) (\<lambda>key. Inr (Some key))
      else Inr None)"

definition read_new_config :: "'f host \<Rightarrow> 'f arguments \<Rightarrow> reserve_config outcome" where
  "read_new_config h m =
     attempt (unwrap (value_u8 m ''optimal_utilization_rate'')) (\<lambda>optimal.
     attempt (unwrap (value_u8 m ''loan_to_value_ratio'')) (\<lambda>ltv.
     attempt (unwrap (value_u8 m ''liquidation_bonus'')) (\<lambda>bonus.
     attempt (unwrap (value_u8 m ''liquidation_threshold'')) (\<lambda>threshold.
     attempt (unwrap (value_u8 m ''min_borrow_rate'')) (\<lambda>lowest.
     attempt (unwrap (value_u8 m ''optimal_borrow_rate'')) (\<lambda>middle.
     attempt (unwrap (value_u8 m ''max_borrow_rate'')) (\<lambda>highest.
     attempt (unwrap (value_f64 m ''borrow_fee'')) (\<lambda>borrow_fee.
     attempt (unwrap (value_f64 m ''flash_loan_fee'')) (\<lambda>flash_loan_fee.
     attempt (unwrap (value_u8 m ''host_fee_percentage'')) (\<lambda>host.
     Inr \<lparr> optimal_utilization_rate = optimal, loan_to_value_ratio = ltv, liquidation_bonus = bonus,
       liquidation_threshold = threshold, min_borrow_rate = lowest, optimal_borrow_rate = middle,
       max_borrow_rate = highest,
       config_fees = \<lparr> borrow_fee_wad = f64_wads h borrow_fee, flash_loan_fee_wad = f64_wads h flash_loan_fee,
         host_fee_percentage = host \<rparr>,
       deposit_staking_pool = None, deposit_limit = - 1, borrow_limit = - 1 \<rparr>))))))))))"

definition read_add_reserve :: "'f host \<Rightarrow> 'f arguments \<Rightarrow> 'f new_reserve outcome" where
  "read_add_reserve h m =
     attempt (unwrap (clap_value m ''lending_market_owner'')) (\<lambda>path.
     attempt (unwrap (signer_from_path m path ''lending_market_owner'')) (\<lambda>lending_market_owner.
     attempt (unwrap (keypair_of m ''source_liquidity_owner'')) (\<lambda>source_liquidity_owner.
     attempt (unwrap (pubkey_of m ''lending_market'')) (\<lambda>lending_market.
     attempt (unwrap (pubkey_of m ''source_liquidity'')) (\<lambda>source_liquidity.
     attempt (unwrap (value_f64 m ''liquidity_amount'')) (\<lambda>ui_amount.
     attempt (read_fixed_price m) (\<lambda>fixed_price.
     attempt (read_pyth_price m) (\<lambda>pyth_price.
     attempt (read_new_config h m) (\<lambda>cfg.
     attempt (exit_if (fixed_price = None \<and> pyth_price = None)) (\<lambda>_.
     attempt (exit_if (fixed_price \<noteq> None \<and> pyth_price \<noteq> None)) (\<lambda>_.
     Inr \<lparr> nr_ui_amount = ui_amount, nr_fixed_price = fixed_price, nr_config = cfg,
       nr_source_liquidity = source_liquidity, nr_source_owner = source_liquidity_owner,
       nr_market = lending_market, nr_market_owner = lending_market_owner,
       nr_pyth_price = pyth_price \<rparr>)))))))))))"

record repayment =
  rp_amount :: u64
  rp_source_token :: pubkey
  rp_source_wallet :: pubkey
  rp_dest_token :: pubkey
  rp_reserve :: pubkey
  rp_obligation :: pubkey
  rp_reserves :: "(pubkey \<times> pubkey option) list"
  rp_market :: pubkey

definition read_repay_loan :: "'f host \<Rightarrow> 'f arguments \<Rightarrow> repayment outcome" where
  "read_repay_loan h m =
     attempt (unwrap (value_u64 m ''amount_to_repay'')) (\<lambda>amount.
     attempt (unwrap (keypair_of m ''wallet_to_repay'')) (\<lambda>source_wallet.
     attempt (unwrap (pubkey_of m ''token_account_to_repay'')) (\<lambda>source_token.
     attempt (unwrap (pubkey_of m ''destination_token_account'')) (\<lambda>dest_token.
     attempt (unwrap (pubkey_of m ''repay_reserve'')) (\<lambda>repay_reserve.
     attempt (unwrap (pubkey_of m ''repay_obligation'')) (\<lambda>repay_obligation.
     attempt (unwrap (pubkey_of m ''lending_market'')) (\<lambda>lending_market.
     attempt (unwrap (pubkeys_of m ''all_reserves'')) (\<lambda>reserves.
     attempt (pubkeys_or_none_of h m ''all_oracles'') (\<lambda>given.
     attempt (unwrap given) (\<lambda>oracles.
     attempt (exit_if (length reserves \<noteq> length oracles)) (\<lambda>_.
     Inr \<lparr> rp_amount = amount, rp_source_token = source_token, rp_source_wallet = source_wallet,
       rp_dest_token = dest_token, rp_reserve = repay_reserve, rp_obligation = repay_obligation,
       rp_reserves = zip reserves oracles, rp_market = lending_market \<rparr>)))))))))))"

section \<open>Commands\<close>

definition create_market_instructions ::
    "('n, 'f) cluster \<Rightarrow> config_args \<Rightarrow> pubkey \<Rightarrow> bytes32 \<Rightarrow> pubkey \<Rightarrow> u64 \<Rightarrow> instruction list outcome" where
  "create_market_instructions cl cfg lending_market_owner quote market lending_market_balance =
     attempt (own_code (init_lending_market_ix (the_addresses cl) (cli_program_id cfg) lending_market_owner
       quote market)) (\<lambda>init.
     Inr [system_create_account cl (fee_payer cfg) market lending_market_balance
            (of_nat LENDING_MARKET_LEN) (cli_program_id cfg),
          init])"

definition command_create_lending_market ::
    "('n, 'f) cluster \<Rightarrow> config_args \<Rightarrow> pubkey \<Rightarrow> bytes32 \<Rightarrow> 'n \<Rightarrow> transaction list outcome" where
  "command_create_lending_market cl cfg lending_market_owner quote n =
     (let market = new_keypair cl 0 in
      attempt (rpc (rent_minimum cl n LENDING_MARKET_LEN)) (\<lambda>lending_market_balance.
      attempt (create_market_instructions cl cfg lending_market_owner quote market
        lending_market_balance) (\<lambda>ixs.
      attempt (rpc (latest_blockhash cl n)) (\<lambda>recent_blockhash.
      attempt (sign cl ixs (fee_payer cfg) [fee_payer cfg, market] recent_blockhash) (\<lambda>t.
      Inr [t])))))"

definition command_update_reserve ::
    "('n, 'f) cluster \<Rightarrow> config_args \<Rightarrow> pubkey \<Rightarrow> pubkey \<Rightarrow> pubkey \<Rightarrow> reserve_config \<Rightarrow> 'n \<Rightarrow> transaction list outcome" where
  "command_update_reserve cl cfg reserve lending_market lending_market_owner reserve_cfg n =
     attempt (own_code (update_reserve_ix (the_runtime cl) (the_addresses cl) (cli_program_id cfg) reserve_cfg
       reserve lending_market lending_market_owner)) (\<lambda>update.
     attempt (rpc (latest_blockhash cl n)) (\<lambda>recent_blockhash.
     attempt (sign cl [update] (fee_payer cfg) [fee_payer cfg, lending_market_owner] recent_blockhash) (\<lambda>t.
     Inr [t])))"

text \<open>The arm of \<open>main\<close> reads the configuration the reserve has, and changes what was given.\<close>

definition update_reserve_arm ::
    "('n, 'f) cluster \<Rightarrow> config_args \<Rightarrow> 'f arguments \<Rightarrow> 'n \<Rightarrow> transaction list outcome" where
  "update_reserve_arm cl cfg m n =
     attempt (read_update_reserve (the_host cl) m) (\<lambda>(reserve_key, lending_market, lending_market_owner, changes).
     attempt (expect_ok (get_account cl n reserve_key)) (\<lambda>data.
     attempt (expect_ok (unpack_checked (the_runtime cl) RESERVE_LEN reserve_is_initialized
       reserve_unpack_from_slice data)) (\<lambda>r.
     command_update_reserve cl cfg reserve_key lending_market lending_market_owner
       (merge_config changes (config r)) n)))"

definition repay_loan_instructions ::
    "('n, 'f) cluster \<Rightarrow> config_args \<Rightarrow> repayment \<Rightarrow> instruction list outcome" where
  "repay_loan_instructions cl cfg a =
     (let rt = the_runtime cl; ids = the_addresses cl; program = cli_program_id cfg in
      attempt (map_outcome (\<lambda>(r, oracle). own_code (refresh_reserve_ix rt program r oracle))
        (rp_reserves a)) (\<lambda>refresh.
      attempt (own_code (refresh_obligation_ix rt program (rp_obligation a) (map fst (rp_reserves a)))) (\<lambda>refresh_ob.
      attempt (own_code (repay_obligation_liquidity_ix rt ids program (rp_amount a) (rp_source_token a)
        (rp_dest_token a) (rp_reserve a) (rp_obligation a) (rp_market a) (rp_source_wallet a))) (\<lambda>repay.
      Inr (refresh @ [refresh_ob] @ [repay])))))"

definition command_repay_loan ::
    "('n, 'f) cluster \<Rightarrow> config_args \<Rightarrow> repayment \<Rightarrow> 'n \<Rightarrow> transaction list outcome" where
  "command_repay_loan cl cfg a n =
     attempt (expect_ok (get_balance cl n (rp_source_wallet a))) (\<lambda>source_balance.
     attempt (panic_if (\<not> rp_amount a < source_balance)) (\<lambda>_.
     attempt (repay_loan_instructions cl cfg a) (\<lambda>ixs.
     attempt (rpc (latest_blockhash cl n)) (\<lambda>recent_blockhash.
     attempt (sign cl ixs (fee_payer cfg) [fee_payer cfg, rp_source_wallet a] recent_blockhash) (\<lambda>t.
     Inr [t])))))"

text \<open>The accounts \<open>add-reserve\<close> creates, with fresh keys in this order.\<close>

record reserve_keys =
  rk_reserve :: pubkey
  rk_collateral_mint :: pubkey
  rk_collateral_supply :: pubkey
  rk_liquidity_supply :: pubkey
  rk_fee_receiver :: pubkey
  rk_user_collateral :: pubkey
  rk_transfer_authority :: pubkey

definition reserve_keypairs :: "('n, 'f) cluster \<Rightarrow> reserve_keys" where
  "reserve_keypairs cl =
     \<lparr> rk_reserve = new_keypair cl 0, rk_collateral_mint = new_keypair cl 1,
       rk_collateral_supply = new_keypair cl 2, rk_liquidity_supply = new_keypair cl 3,
       rk_fee_receiver = new_keypair cl 4, rk_user_collateral = new_keypair cl 5,
       rk_transfer_authority = new_keypair cl 6 \<rparr>"

definition create_token_account :: "('n, 'f) cluster \<Rightarrow> config_args \<Rightarrow> u64 \<Rightarrow> pubkey \<Rightarrow> instruction" where
  "create_token_account cl cfg balance key =
     system_create_account cl (fee_payer cfg) key balance (of_nat (token_account_len cl))
       (token_address (the_addresses cl))"

definition add_reserve_first ::
    "('n, 'f) cluster \<Rightarrow> config_args \<Rightarrow> reserve_keys \<Rightarrow> u64 \<Rightarrow> u64 \<Rightarrow> u64 \<Rightarrow> instruction list" where
  "add_reserve_first cl cfg ks reserve_balance mint_balance token_balance =
     [system_create_account cl (fee_payer cfg) (rk_reserve ks) reserve_balance (of_nat RESERVE_LEN)
        (cli_program_id cfg),
      system_create_account cl (fee_payer cfg) (rk_collateral_mint ks) mint_balance
        (of_nat (token_mint_len cl)) (token_address (the_addresses cl)),
      create_token_account cl cfg token_balance (rk_collateral_supply ks),
      create_token_account cl cfg token_balance (rk_user_collateral ks)]"

definition add_reserve_second ::
    "('n, 'f) cluster \<Rightarrow> config_args \<Rightarrow> 'f new_reserve \<Rightarrow> reserve_keys \<Rightarrow> u64 \<Rightarrow> u64 \<Rightarrow> pubkey \<Rightarrow>
      instruction list outcome" where
  "add_reserve_second cl cfg a ks token_balance liquidity_amount mint =
     (let token = token_address (the_addresses cl) in
      attempt (expect_ok (token_approve cl token (nr_source_liquidity a) (rk_transfer_authority ks)
        (nr_source_owner a) [] liquidity_amount)) (\<lambda>approve.
      attempt (own_code (init_reserve_ix (the_runtime cl) (the_addresses cl) (cli_program_id cfg)
        liquidity_amount (nr_fixed_price a) (nr_config a) (nr_source_liquidity a) (rk_user_collateral ks)
        (rk_reserve ks) mint (rk_liquidity_supply ks) (rk_fee_receiver ks) (rk_collateral_mint ks)
        (rk_collateral_supply ks) (nr_market a) (nr_market_owner a) (rk_transfer_authority ks)
        (nr_pyth_price a))) (\<lambda>init.
      attempt (expect_ok (token_revoke cl token (nr_source_liquidity a) (nr_source_owner a) [])) (\<lambda>revoke.
      Inr [create_token_account cl cfg token_balance (rk_liquidity_supply ks),
           create_token_account cl cfg token_balance (rk_fee_receiver ks),
           approve, init, revoke]))))"

definition command_add_reserve ::
    "('n, 'f) cluster \<Rightarrow> config_args \<Rightarrow> 'f new_reserve \<Rightarrow> 'n \<Rightarrow> transaction list outcome" where
  "command_add_reserve cl cfg a n =
     attempt (rpc (get_account cl n (nr_source_liquidity a))) (\<lambda>source_data.
     attempt (own_code (lib (token_unpack_from_slice cl source_data))) (\<lambda>source_liquidity.
     attempt (rpc (get_account cl n (token_account_mint source_liquidity))) (\<lambda>mint_data.
     attempt (own_code (lib (mint_unpack_from_slice cl mint_data))) (\<lambda>source_liquidity_mint.
     let liquidity_amount = ui_amount_to_amount (the_host cl) (nr_ui_amount a) (token_decimals source_liquidity_mint);
         ks = reserve_keypairs cl in
     attempt (rpc (rent_minimum cl n RESERVE_LEN)) (\<lambda>reserve_balance.
     attempt (rpc (rent_minimum cl n (token_mint_len cl))) (\<lambda>mint_balance.
     attempt (rpc (rent_minimum cl n (token_account_len cl))) (\<lambda>token_balance.
     attempt (add_reserve_second cl cfg a ks token_balance liquidity_amount
       (token_account_mint source_liquidity)) (\<lambda>second.
     attempt (rpc (latest_blockhash cl n)) (\<lambda>recent_blockhash.
     attempt (sign cl (add_reserve_first cl cfg ks reserve_balance mint_balance token_balance)
       (fee_payer cfg) [fee_payer cfg, rk_reserve ks, rk_collateral_mint ks, rk_collateral_supply ks,
         rk_user_collateral ks] recent_blockhash) (\<lambda>transaction_1.
     attempt (sign cl second (fee_payer cfg)
       [fee_payer cfg, rk_liquidity_supply ks, rk_fee_receiver ks, nr_source_owner a,
         nr_market_owner a, rk_transfer_authority ks] recent_blockhash) (\<lambda>transaction_2.
     Inr [transaction_1, transaction_2])))))))))))"

section \<open>The program\<close>

text \<open>The configuration of a run, with the address of the cluster.\<close>

definition lending_config ::
    "(string \<Rightarrow> cli_config option) \<Rightarrow> cli_config \<Rightarrow> 'f arguments \<Rightarrow> (config_args \<times> string) outcome" where
  "lending_config load base m =
     (let cfg = loaded_config load base m;
          json_rpc_url = unwrap_or (clap_value m ''json_rpc_url'') (config_rpc_url cfg);
          payer = signer_from_path m (unwrap_or (clap_value m ''fee_payer'') (config_keypair_path cfg)) ''fee_payer'' in
      attempt (exit_if (payer = None)) (\<lambda>_.
      attempt (unwrap payer) (\<lambda>payer.
      attempt (unwrap (pubkey_of m ''lending_program_id'')) (\<lambda>program.
      Inr (\<lparr> fee_payer = payer, cli_program_id = program, verbose = clap_present m ''verbose'',
        dry_run = clap_present m ''dry_run'' \<rparr>, json_rpc_url)))))"

definition lending_cli ::
    "('n, 'f) cluster \<Rightarrow> config_args \<Rightarrow> string \<Rightarrow> 'f arguments \<Rightarrow> 'n \<Rightarrow> transaction list outcome" where
  "lending_cli cl cfg sub m n =
     (if sub = ''create-market'' then
        attempt (read_create_market (the_host cl) m) (\<lambda>(lending_market_owner, quote).
        command_create_lending_market cl cfg lending_market_owner quote n)
      else if sub = ''update-reserve'' then update_reserve_arm cl cfg m n
      else if sub = ''add-reserve'' then
        attempt (read_add_reserve (the_host cl) m) (\<lambda>a. command_add_reserve cl cfg a n)
      else if sub = ''repay-loan'' then
        attempt (read_repay_loan (the_host cl) m) (\<lambda>a. command_repay_loan cl cfg a n)
      else Inl Panicked)"

definition exit_on_failure :: "unit outcome \<Rightarrow> unit outcome" where
  "exit_on_failure r = (case r of Inl (Failed _) \<Rightarrow> Inl (Exited 1) | _ \<Rightarrow> r)"

definition lending_main ::
    "('n, 'f) cluster \<Rightarrow> config_args \<Rightarrow> string \<Rightarrow> 'f arguments \<Rightarrow> 'n \<Rightarrow> unit outcome \<times> 'n" where
  "lending_main cl cfg sub m n =
     (let (r, n') = command (send_transaction cl cfg) (lending_cli cl cfg sub m) n in
      (exit_on_failure r, n'))"

end
