(* ===== verification/Cli_Staking.thy ===== *)
theory Cli_Staking
  imports Command
begin

text \<open>
  The staking program's command line (staking/cli/src/main.rs): the declarations of its subcommands,
  the arms of \<open>main\<close> that read the arguments, and the commands that build, sign and send the
  transactions. Printing is left out.
\<close>

section \<open>Declarations\<close>

text \<open>
  The arguments before the subcommand, but for \<open>--fee-payer\<close>, which solana_clap_utils declares; the
  default of \<open>--config\<close> is the one of solana_cli_config, if it has one.
\<close>

definition staking_global_decls :: "string option \<Rightarrow> string \<Rightarrow> argument list" where
  "staking_global_decls config_default program_default =
     [(arg ''config_file'' ''config'' Any_text False)\<lparr> arg_default := config_default \<rparr>,
      arg ''json_rpc_url'' ''url'' Is_url False,
      with_default program_default (arg ''staking_program_id'' ''program'' Is_pubkey True)]"

definition staking_flags :: "string list" where
  "staking_flags = [''verbose'', ''dry_run'']"

definition init_staking_pool_decls :: "argument list" where
  "init_staking_pool_decls =
     [arg ''transfer_authority'' ''authority'' Is_keypair True,
      arg ''reward_supply_pubkey'' ''supply_pubkey'' Is_pubkey True,
      arg ''sub_reward_supply_pubkey'' ''sub_supply_pubkey'' Is_pubkey False,
      arg ''reward_token_mint'' ''mint'' Is_pubkey True,
      arg ''sub_reward_token_mint'' ''sub-mint'' Is_pubkey False,
      arg ''staking_program_owner_authority'' ''owner_authority'' Is_pubkey True,
      arg ''staking_program_admin_authority'' ''admin_authority'' Is_pubkey True,
      arg ''reward_supply_amount'' ''supply'' Is_u64 True,
      arg ''sub_reward_supply_amount'' ''sub_supply'' Is_u64 False,
      arg ''duration_of_rewarding'' ''duration'' Is_slot True,
      arg ''earliest_reward_claim_time'' ''claim-time'' Is_slot True]"

definition add_sub_reward_decls :: "argument list" where
  "add_sub_reward_decls =
     [arg ''transfer_authority'' ''transfer_authority'' Is_keypair True,
      arg ''admin_authority'' ''admin_authority'' Any_text True,
      arg ''reward_supply_pubkey'' ''supply_pubkey'' Is_pubkey True,
      arg ''reward_token_mint'' ''mint'' Is_pubkey True,
      arg ''reward_supply_amount'' ''supply'' Is_u64 True,
      arg ''staking_pool'' ''pool'' Is_pubkey True]"

definition change_duration_decls :: "argument list" where
  "change_duration_decls =
     [arg ''admin_authority'' ''admin'' Any_text True,
      arg ''staking_pool'' ''pool'' Is_pubkey True,
      arg ''amount'' ''amount'' Is_i64 True]"

definition update_claim_time_decls :: "argument list" where
  "update_claim_time_decls =
     [arg ''staking-pool'' ''pool'' Is_pubkey True,
      arg ''admin authority'' ''authority'' Is_pubkey True,
      arg ''updated time'' ''time'' Is_slot True]"

definition change_reward_supply_decls :: "argument list" where
  "change_reward_supply_decls =
     [arg ''source_token_owner'' ''source_token_owner'' Is_keypair False,
      arg ''staking_pool_owner'' ''staking_pool_owner'' Any_text False,
      arg ''reward_token_supply'' ''supply'' Is_pubkey True,
      arg ''sub_reward_token_supply'' ''sub_supply'' Is_pubkey False,
      arg ''staking_pool'' ''staking_pool'' Is_pubkey True,
      arg ''reward_token_mint'' ''reward_token_mint'' Is_pubkey True,
      arg ''sub_reward_token_mint'' ''sub_reward_token_mint'' Is_pubkey False,
      arg ''reward_supply_diff'' ''supply_change'' Is_i64 True,
      arg ''sub_reward_supply_diff'' ''sub_supply_change'' Is_i64 False]"

definition change_pool_owner_decls :: "argument list" where
  "change_pool_owner_decls =
     [arg ''old_staking_pool_owner'' ''old_staking_pool_owner'' Any_text True,
      arg ''new_staking_pool_owner'' ''new_staking_pool_owner'' Is_pubkey True,
      arg ''staking_pool'' ''staking_pool'' Is_pubkey True]"

definition change_pool_admin_decls :: "argument list" where
  "change_pool_admin_decls =
     [arg ''old_staking_pool_admin'' ''old_staking_pool_admin'' Any_text True,
      arg ''new_staking_pool_admin'' ''new_staking_pool_admin'' Is_pubkey True,
      arg ''staking_pool'' ''staking_pool'' Is_pubkey True]"

section \<open>Reading the arguments\<close>

text \<open>\<open>signer_from_path\<close> of a required argument.\<close>

definition signer_arg :: "'f arguments \<Rightarrow> string \<Rightarrow> pubkey outcome" where
  "signer_arg m name =
     attempt (unwrap (clap_value m name)) (\<lambda>path. unwrap (signer_from_path m path name))"

record pool_request =
  pq_transfer_authority :: pubkey
  pq_reward_supply :: pubkey
  pq_sub_reward_supply :: "pubkey option"
  pq_mint :: pubkey
  pq_sub_mint :: "pubkey option"
  pq_owner :: pubkey
  pq_admin :: pubkey
  pq_supply :: u64
  pq_sub_supply :: "u64 option"
  pq_duration :: u64
  pq_claim_time :: u64

definition read_init_staking_pool :: "'f arguments \<Rightarrow> pool_request outcome" where
  "read_init_staking_pool m =
     attempt (unwrap (keypair_of m ''transfer_authority'')) (\<lambda>transfer_authority.
     attempt (unwrap (pubkey_of m ''reward_supply_pubkey'')) (\<lambda>reward_supply.
     attempt (unwrap (pubkey_of m ''reward_token_mint'')) (\<lambda>reward_token_mint.
     attempt (unwrap (pubkey_of m ''staking_program_owner_authority'')) (\<lambda>own.
     attempt (unwrap (pubkey_of m ''staking_program_admin_authority'')) (\<lambda>admin.
     attempt (unwrap (value_u64 m ''reward_supply_amount'')) (\<lambda>supply_amount.
     attempt (unwrap (value_u64 m ''duration_of_rewarding'')) (\<lambda>duration.
     attempt (unwrap (value_u64 m ''earliest_reward_claim_time'')) (\<lambda>claim_time.
     Inr \<lparr> pq_transfer_authority = transfer_authority, pq_reward_supply = reward_supply,
       pq_sub_reward_supply = pubkey_of m ''sub_reward_supply_pubkey'', pq_mint = reward_token_mint,
       pq_sub_mint = pubkey_of m ''sub_reward_token_mint'', pq_owner = own, pq_admin = admin,
       pq_supply = supply_amount, pq_sub_supply = value_u64 m ''sub_reward_supply_amount'',
       pq_duration = duration, pq_claim_time = claim_time \<rparr>))))))))"

record reward_request =
  rq_transfer_authority :: pubkey
  rq_admin :: pubkey
  rq_pool :: pubkey
  rq_reward_supply :: pubkey
  rq_mint :: pubkey
  rq_supply :: u64

definition read_add_sub_reward :: "'f arguments \<Rightarrow> reward_request outcome" where
  "read_add_sub_reward m =
     attempt (signer_arg m ''transfer_authority'') (\<lambda>transfer_authority.
     attempt (signer_arg m ''admin_authority'') (\<lambda>admin.
     attempt (unwrap (pubkey_of m ''reward_supply_pubkey'')) (\<lambda>reward_supply.
     attempt (unwrap (pubkey_of m ''reward_token_mint'')) (\<lambda>reward_token_mint.
     attempt (unwrap (pubkey_of m ''staking_pool'')) (\<lambda>pool.
     attempt (unwrap (value_u64 m ''reward_supply_amount'')) (\<lambda>supply_amount.
     Inr \<lparr> rq_transfer_authority = transfer_authority, rq_admin = admin, rq_pool = pool,
       rq_reward_supply = reward_supply, rq_mint = reward_token_mint, rq_supply = supply_amount \<rparr>))))))"

definition read_change_duration :: "'f arguments \<Rightarrow> (pubkey \<times> pubkey \<times> i64) outcome" where
  "read_change_duration m =
     attempt (signer_arg m ''admin_authority'') (\<lambda>admin.
     attempt (unwrap (pubkey_of m ''staking_pool'')) (\<lambda>pool.
     attempt (unwrap (value_i64 m ''amount'')) (\<lambda>amount.
     Inr (admin, pool, amount))))"

record supply_request =
  sq_pool_owner :: "pubkey option"
  sq_source_owner :: "pubkey option"
  sq_pool :: pubkey
  sq_token_supply :: pubkey
  sq_mint :: pubkey
  sq_diff :: i64
  sq_sub_token_supply :: "pubkey option"
  sq_sub_mint :: "pubkey option"
  sq_sub_diff :: "i64 option"

definition read_change_reward_supply :: "'f arguments \<Rightarrow> supply_request outcome" where
  "read_change_reward_supply m =
     attempt (case clap_value m ''staking_pool_owner'' of
        None \<Rightarrow> Inr None
      | Some _ \<Rightarrow> attempt (signer_arg m ''staking_pool_owner'') (\<lambda>k. Inr (Some k))) (\<lambda>pool_owner.
     attempt (unwrap (pubkey_of m ''reward_token_supply'')) (\<lambda>token_supply.
     attempt (unwrap (pubkey_of m ''staking_pool'')) (\<lambda>pool.
     attempt (unwrap (pubkey_of m ''reward_token_mint'')) (\<lambda>reward_token_mint.
     attempt (unwrap (value_i64 m ''reward_supply_diff'')) (\<lambda>diff.
     Inr \<lparr> sq_pool_owner = pool_owner, sq_source_owner = keypair_of m ''source_token_owner'',
       sq_pool = pool, sq_token_supply = token_supply, sq_mint = reward_token_mint, sq_diff = diff,
       sq_sub_token_supply = pubkey_of m ''sub_reward_token_supply'',
       sq_sub_mint = pubkey_of m ''sub_reward_token_mint'',
       sq_sub_diff = value_i64 m ''sub_reward_supply_diff'' \<rparr>)))))"

definition read_change_owner :: "'f arguments \<Rightarrow> (pubkey \<times> pubkey \<times> pubkey) outcome" where
  "read_change_owner m =
     attempt (signer_arg m ''old_staking_pool_owner'') (\<lambda>old.
     attempt (unwrap (pubkey_of m ''new_staking_pool_owner'')) (\<lambda>new.
     attempt (unwrap (pubkey_of m ''staking_pool'')) (\<lambda>pool.
     Inr (old, new, pool))))"

definition read_change_admin :: "'f arguments \<Rightarrow> (pubkey \<times> pubkey \<times> pubkey) outcome" where
  "read_change_admin m =
     attempt (signer_arg m ''old_staking_pool_admin'') (\<lambda>old.
     attempt (unwrap (pubkey_of m ''new_staking_pool_admin'')) (\<lambda>new.
     attempt (unwrap (pubkey_of m ''staking_pool'')) (\<lambda>pool.
     Inr (old, new, pool))))"

section \<open>Commands\<close>

definition command_change_staking_pool_admin ::
    "('n, 'f) cluster \<Rightarrow> config_args \<Rightarrow> pubkey \<Rightarrow> pubkey \<Rightarrow> pubkey \<Rightarrow> 'n \<Rightarrow> transaction list outcome" where
  "command_change_staking_pool_admin cl cfg old new pool n =
     attempt (rpc (latest_blockhash cl n)) (\<lambda>recent_blockhash.
     attempt (sign cl [change_admin_ix (cli_program_id cfg) new old pool] (fee_payer cfg)
       [fee_payer cfg, old] recent_blockhash) (\<lambda>t.
     Inr [t]))"

definition command_change_staking_pool_owner ::
    "('n, 'f) cluster \<Rightarrow> config_args \<Rightarrow> pubkey \<Rightarrow> pubkey \<Rightarrow> pubkey \<Rightarrow> 'n \<Rightarrow> transaction list outcome" where
  "command_change_staking_pool_owner cl cfg old new pool n =
     attempt (rpc (latest_blockhash cl n)) (\<lambda>recent_blockhash.
     attempt (sign cl [change_owner_ix (cli_program_id cfg) new old pool] (fee_payer cfg)
       [fee_payer cfg, old] recent_blockhash) (\<lambda>t.
     Inr [t]))"

definition command_change_duration ::
    "('n, 'f) cluster \<Rightarrow> config_args \<Rightarrow> pubkey \<Rightarrow> pubkey \<Rightarrow> i64 \<Rightarrow> 'n \<Rightarrow> transaction list outcome" where
  "command_change_duration cl cfg admin pool amount n =
     attempt (rpc (latest_blockhash cl n)) (\<lambda>recent_blockhash.
     attempt (sign cl [change_duration_ix (the_runtime cl) (cli_program_id cfg) amount admin pool]
       (fee_payer cfg) [fee_payer cfg, admin] recent_blockhash) (\<lambda>t.
     Inr [t]))"

text \<open>\<open>i64::try_into::<u64>().unwrap()\<close>.\<close>

definition unsigned_amount :: "i64 \<Rightarrow> u64 outcome" where
  "unsigned_amount x = (if sint x < 0 then Inl Panicked else Inr (ucast x))"

definition increase_supply_instructions ::
    "('n, 'f) cluster \<Rightarrow> config_args \<Rightarrow> supply_request \<Rightarrow> staking_pool \<Rightarrow> pubkey \<Rightarrow> pubkey \<Rightarrow>
      instruction list outcome" where
  "increase_supply_instructions cl cfg a p source_owner transfer_authority =
     (let token = token_address (the_addresses cl) in
      attempt (unsigned_amount (sq_diff a)) (\<lambda>amount.
      attempt (expect_ok (token_approve cl token (sq_token_supply a) transfer_authority source_owner []
        amount)) (\<lambda>approve.
      attempt (unwrap (sq_sub_token_supply a)) (\<lambda>sub_token_supply.
      attempt (unwrap (sq_sub_diff a)) (\<lambda>sub_diff.
      attempt (unsigned_amount sub_diff) (\<lambda>sub_amount.
      attempt (expect_ok (token_approve cl token sub_token_supply transfer_authority source_owner []
        sub_amount)) (\<lambda>sub_approve.
      Inr [approve, sub_approve,
        change_reward_supply_ix (the_runtime cl) (the_addresses cl) (cli_program_id cfg) (sq_diff a)
          (sq_sub_diff a) transfer_authority (sq_token_supply a) (sq_mint a) (sq_pool a)
          (reward_token_pool p) (sq_sub_token_supply a) (sq_sub_mint a) (sub_reward_token_pool p)])))))))"

definition decrease_supply_instructions ::
    "('n, 'f) cluster \<Rightarrow> config_args \<Rightarrow> supply_request \<Rightarrow> staking_pool \<Rightarrow> pubkey \<Rightarrow> instruction list" where
  "decrease_supply_instructions cl cfg a p pool_owner =
     [change_reward_supply_ix (the_runtime cl) (the_addresses cl) (cli_program_id cfg) (sq_diff a)
        (sq_sub_diff a) pool_owner (sq_token_supply a) (sq_mint a) (sq_pool a)
        (reward_token_pool p) (sq_sub_token_supply a) (sq_sub_mint a) (sub_reward_token_pool p)]"

definition read_pool :: "('n, 'f) cluster \<Rightarrow> pubkey \<Rightarrow> 'n \<Rightarrow> staking_pool outcome" where
  "read_pool cl key n =
     attempt (expect_ok (get_account cl n key)) (\<lambda>data.
     expect_ok (unpack_checked (the_runtime cl) STAKING_POOL_LEN staking_pool_is_initialized
       staking_pool_unpack_from_slice data))"

definition command_change_reward_supply ::
    "('n, 'f) cluster \<Rightarrow> config_args \<Rightarrow> supply_request \<Rightarrow> 'n \<Rightarrow> transaction list outcome" where
  "command_change_reward_supply cl cfg a n =
     attempt (rpc (latest_blockhash cl n)) (\<lambda>recent_blockhash.
     attempt (read_pool cl (sq_pool a) n) (\<lambda>p.
     if sq_source_owner a \<noteq> None \<and> 0 < sint (sq_diff a) then
       let transfer_authority = new_keypair cl 0 in
       attempt (unwrap (sq_source_owner a)) (\<lambda>source_owner.
       attempt (increase_supply_instructions cl cfg a p source_owner transfer_authority) (\<lambda>ixs.
       attempt (sign cl ixs (fee_payer cfg) [fee_payer cfg, source_owner, transfer_authority]
         recent_blockhash) (\<lambda>t.
       Inr [t])))
     else if sq_pool_owner a \<noteq> None \<and> sint (sq_diff a) < 0 then
       attempt (unwrap (sq_pool_owner a)) (\<lambda>pool_owner.
       attempt (sign cl (decrease_supply_instructions cl cfg a p pool_owner) (fee_payer cfg)
         [fee_payer cfg, pool_owner] recent_blockhash) (\<lambda>t.
       Inr [t]))
     else Inl Panicked))"

definition create_reward_account :: "('n, 'f) cluster \<Rightarrow> config_args \<Rightarrow> u64 \<Rightarrow> pubkey \<Rightarrow> instruction" where
  "create_reward_account cl cfg balance key =
     system_create_account cl (fee_payer cfg) key balance (of_nat (token_account_len cl))
       (token_address (the_addresses cl))"

definition init_pool_instructions ::
    "('n, 'f) cluster \<Rightarrow> config_args \<Rightarrow> pool_request \<Rightarrow> pubkey \<Rightarrow> pubkey \<Rightarrow> pubkey \<Rightarrow> u64 \<Rightarrow> u64 \<Rightarrow>
      instruction list" where
  "init_pool_instructions cl cfg a pool rewards sub_rewards pool_balance reward_balance =
     (if pq_sub_supply a \<noteq> None then [create_reward_account cl cfg reward_balance sub_rewards] else []) @
     [create_reward_account cl cfg reward_balance rewards,
      system_create_account cl (fee_payer cfg) pool pool_balance (of_nat STAKING_POOL_LEN)
        (cli_program_id cfg),
      init_staking_pool_ix (the_runtime cl) (the_addresses cl) (cli_program_id cfg) (pq_supply a)
        (pq_sub_supply a) (pq_duration a) (pq_claim_time a) (pq_transfer_authority a)
        (pq_reward_supply a) rewards (pq_sub_reward_supply a)
        (map_option (\<lambda>_. sub_rewards) (pq_sub_mint a)) pool (pq_mint a) (pq_sub_mint a) (pq_owner a)
        (pq_admin a)]"

definition command_init_staking_pool ::
    "('n, 'f) cluster \<Rightarrow> config_args \<Rightarrow> pool_request \<Rightarrow> 'n \<Rightarrow> transaction list outcome" where
  "command_init_staking_pool cl cfg a n =
     (let pool = new_keypair cl 0; rewards = new_keypair cl 1; sub_rewards = new_keypair cl 2 in
      attempt (rpc (rent_minimum cl n STAKING_POOL_LEN)) (\<lambda>pool_balance.
      attempt (rpc (rent_minimum cl n (token_account_len cl))) (\<lambda>reward_balance.
      attempt (rpc (latest_blockhash cl n)) (\<lambda>recent_blockhash.
      attempt (sign cl (init_pool_instructions cl cfg a pool rewards sub_rewards pool_balance reward_balance)
        (fee_payer cfg)
        ((if pq_sub_supply a \<noteq> None then [sub_rewards] else []) @
         [fee_payer cfg, rewards, pool, pq_transfer_authority a]) recent_blockhash) (\<lambda>t.
      Inr [t])))))"

definition command_add_sub_reward ::
    "('n, 'f) cluster \<Rightarrow> config_args \<Rightarrow> reward_request \<Rightarrow> 'n \<Rightarrow> transaction list outcome" where
  "command_add_sub_reward cl cfg a n =
     (let rewards = new_keypair cl 0 in
      attempt (rpc (rent_minimum cl n (token_account_len cl))) (\<lambda>reward_balance.
      attempt (rpc (latest_blockhash cl n)) (\<lambda>recent_blockhash.
      attempt (sign cl
        [create_reward_account cl cfg reward_balance rewards,
         add_sub_reward_pool_ix (the_runtime cl) (the_addresses cl) (cli_program_id cfg) (rq_supply a)
           (rq_transfer_authority a) (rq_admin a) (rq_reward_supply a) (rq_mint a) (rq_pool a) rewards]
        (fee_payer cfg) [fee_payer cfg, rewards, rq_admin a, rq_transfer_authority a] recent_blockhash) (\<lambda>t.
      Inr [t]))))"

section \<open>The program\<close>

text \<open>The configuration of a run, with the address of the cluster.\<close>

definition staking_config ::
    "(string \<Rightarrow> cli_config option) \<Rightarrow> cli_config \<Rightarrow> 'f arguments \<Rightarrow> (config_args \<times> string) outcome" where
  "staking_config load base m =
     (let cfg = loaded_config load base m;
          json_rpc_url = unwrap_or (clap_value m ''json_rpc_url'') (config_rpc_url cfg);
          payer = signer_from_path m (unwrap_or (clap_value m ''fee_payer'') (config_keypair_path cfg)) ''fee_payer'' in
      attempt (exit_if (payer = None)) (\<lambda>_.
      attempt (unwrap payer) (\<lambda>payer.
      attempt (unwrap (pubkey_of m ''staking_program_id'')) (\<lambda>program.
      Inr (\<lparr> fee_payer = payer, cli_program_id = program, verbose = clap_present m ''verbose'',
        dry_run = clap_present m ''dry_run'' \<rparr>, json_rpc_url)))))"

definition staking_cli ::
    "('n, 'f) cluster \<Rightarrow> config_args \<Rightarrow> string \<Rightarrow> 'f arguments \<Rightarrow> 'n \<Rightarrow> transaction list outcome" where
  "staking_cli cl cfg sub m n =
     (if sub = ''init-staking-pool'' then
        attempt (read_init_staking_pool m) (\<lambda>a. command_init_staking_pool cl cfg a n)
      else if sub = ''add-sub-reward'' then
        attempt (read_add_sub_reward m) (\<lambda>a. command_add_sub_reward cl cfg a n)
      else if sub = ''change-duration'' then
        attempt (read_change_duration m) (\<lambda>(admin, pool, amount). command_change_duration cl cfg admin pool amount n)
      else if sub = ''update-earliest-reward-claim-time'' then Inr []
      else if sub = ''change-reward-supply'' then
        attempt (read_change_reward_supply m) (\<lambda>a. command_change_reward_supply cl cfg a n)
      else if sub = ''change-staking-pool-owner'' then
        attempt (read_change_owner m) (\<lambda>(old, new, pool). command_change_staking_pool_owner cl cfg old new pool n)
      else if sub = ''change-staking-pool-admin'' then
        attempt (read_change_admin m) (\<lambda>(old, new, pool). command_change_staking_pool_admin cl cfg old new pool n)
      else Inl Panicked)"

definition staking_exit_on_failure :: "unit outcome \<Rightarrow> unit outcome" where
  "staking_exit_on_failure r = (case r of Inl (Failed _) \<Rightarrow> Inl (Exited 1) | _ \<Rightarrow> r)"

definition staking_main ::
    "('n, 'f) cluster \<Rightarrow> config_args \<Rightarrow> string \<Rightarrow> 'f arguments \<Rightarrow> 'n \<Rightarrow> unit outcome \<times> 'n" where
  "staking_main cl cfg sub m n =
     (let (r, n') = command (staking_send_transaction cl cfg) (staking_cli cl cfg sub m) n in
      (staking_exit_on_failure r, n'))"

end
