(* ===== verification/Loan_Correct.thy ===== *)
theory Loan_Correct
  imports Sample_World
begin

text \<open>
  The properties of the loan handlers (token-lending/program/src/processor.rs): what a successful
  borrow, repayment or liquidation checked, and what it left in the accounts.
\<close>

text \<open>The debt an obligation records towards a reserve.\<close>

definition loan_debt :: "obligation \<Rightarrow> pubkey \<Rightarrow> nat" where
  "loan_debt ob k = (case loans.lookup ob k of None \<Rightarrow> 0 | Some l \<Rightarrow> dec (loan_borrowed_amount_wads l))"

text \<open>Both states are found again after the other programs ran.\<close>

lemma stored_pair:
  assumes rt: "runtime_ok rt pid" and own: "owner_of w ri = pid" "owner_of w oi = pid"
    and load: "unpack_reserve rt w ri = Inr r" "unpack_obligation rt w oi = Inr ob"
    and new: "reserve_version r' = reserve_version r" "ob_version ob' = ob_version ob"
    and w1: "pack_reserve rt r' ri w = Inr w1" and w2: "pack_obligation rt ob' oi w1 = Inr w2"
    and same: "same_for pid w2 w'"
  shows "unpack_reserve rt w' ri = Inr r' \<and> unpack_obligation rt w' oi = Inr ob'"
proof -
  note pc = runtime_ok_pack [OF rt]
  have k: "info_key ri \<noteq> info_key oi" using different_kinds(1) [OF pc load] .
  have "unpack_reserve rt w1 ri = Inr r'"
    using stored_reserve_read [OF pc _ w1] load_reserve_version [OF pc load(1)] new(1) by simp
  then have r: "unpack_reserve rt w2 ri = Inr r'" using pack_other_load(2) [OF k w2] by simp
  have ob: "unpack_obligation rt w2 oi = Inr ob'"
    using stored_obligation_read [OF pc _ w2] load_obligation_version [OF pc load(2)] new(2) by simp
  have "owner_of w2 ri = pid" "owner_of w2 oi = pid"
    using pack_owner(1) [OF w1] pack_owner(2) [OF w2] own by simp_all
  then show ?thesis using same_for_load(2,3) [OF same] r ob by simp
qed

section \<open>Borrowing\<close>

lemma check_borrow_limit_ok:
  "check_borrow_limit n r = Inr u \<Longrightarrow> n \<noteq> u64_max \<Longrightarrow>
     (unat n * wad + dec (borrowed_amount_wads (liquidity r))) div wad \<le> unat (borrow_limit (config r))"
  by (auto simp: check_borrow_limit_def decimal_ok word_le_nat_alt not_less)

lemma process_borrow_cases:
  assumes "process_borrow_obligation_liquidity rt pid amount
      (src # dst # ri # fi # oi # mi # ai # oo # ci # tp # rest) w = Inr w'"
    and "unpack_reserve rt w ri = Inr r" "unpack_obligation rt w oi = Inr ob"
  obtains clock m where "clock_from rt w ci = Inr clock" "unpack_market rt w mi = Inr m"
    "token_program_id m = info_key tp" "owner_of w ri = pid" "owner_of w oi = pid"
    "reserve_lending_market r = info_key mi" "ob_lending_market ob = info_key mi"
    "liq_supply_pubkey (liquidity r) = info_key src" "fee_receiver (liquidity r) = info_key fi"
    "\<not> stale (reserve_last_update r)" "clock = slot (reserve_last_update r)"
    "check_borrow_limit amount r = Inr ()"
    "ob_owner ob = info_key oo" "is_signer oo"
    "\<not> stale (ob_last_update ob)" "clock = slot (ob_last_update ob)"
    "borrow_from_reserve rt amount r ob src dst ri fi oi ai (authority_signer_seeds mi m) tp w = Inr w'"
proof -
  from assms(1) show thesis
    by (simp add: process_borrow_obligation_liquidity_def load_ok assms(2,3)) (elim exE conjE, rule that, assumption+)
qed

lemma borrow_from_reserve_cases:
  assumes rt: "runtime_ok rt pid" "info_key tp \<noteq> pid"
    and own: "owner_of w ri = pid" "owner_of w oi = pid"
    and load: "unpack_reserve rt w ri = Inr r" "unpack_obligation rt w oi = Inr ob"
    and run: "borrow_from_reserve rt amount r ob src dst ri fi oi ai seeds tp w = Inr w'"
  obtains rem b liq ob1 i loan where "remaining_borrow_value ob = Inr rem"
    "calculate_borrow r amount rem = Inr b"
    "liquidity_borrow (borrow_amount b) (liquidity r) = Inr liq"
    "unpack_reserve rt w' ri = Inr (r\<lparr> liquidity := liq,
       reserve_last_update := mark_stale (reserve_last_update r) \<rparr>)"
    "find_or_add_liquidity_to_borrows (info_key ri) ob = Inr (ob1, i)"
    "dec (loan_borrowed_amount_wads loan) =
       dec (loan_borrowed_amount_wads (borrows ob1 ! i)) + dec (borrow_amount b)"
    "borrow_reserve loan = borrow_reserve (borrows ob1 ! i)"
    "unpack_obligation rt w' oi = Inr (ob1\<lparr> borrows := (borrows ob1)[i := loan],
       ob_last_update := mark_stale (ob_last_update ob1) \<rparr>)"
proof -
  from run obtain rem b liq w1 ob1 i loan0 loan w2 w3 where
    b: "remaining_borrow_value ob = Inr rem" "calculate_borrow r amount rem = Inr b"
      "liquidity_borrow (borrow_amount b) (liquidity r) = Inr liq"
    and w1: "pack_reserve rt (r\<lparr> liquidity := liq,
       reserve_last_update := mark_stale (reserve_last_update r) \<rparr>) ri w = Inr w1"
    and f: "find_or_add_liquidity_to_borrows (info_key ri) ob = Inr (ob1, i)"
    and l0: "loan0 = (if loan_cumulative_borrow_rate_wads (borrows ob1 ! i) = decimal_zero
                 then (borrows ob1 ! i)\<lparr> loan_cumulative_borrow_rate_wads :=
                   cumulative_borrow_rate_wads (liquidity r) \<rparr> else borrows ob1 ! i)"
    and l: "loan_borrow (borrow_amount b) loan0 = Inr loan"
    and w2: "pack_obligation rt (ob1\<lparr> borrows := (borrows ob1)[i := loan],
       ob_last_update := mark_stale (ob_last_update ob1) \<rparr>) oi w1 = Inr w2"
    and w3: "(if 0 < borrow_fee b then spl_token_transfer rt src fi (borrow_fee b) ai seeds tp w2
       else Inr w2) = Inr w3"
    and w': "spl_token_transfer rt src dst (receive_amount b) ai seeds tp w3 = Inr w'"
    by (auto simp: borrow_from_reserve_def Let_def)
  have "same_for pid w2 w3" using w3 token_call_same(1) [OF rt] by (auto split: if_splits)
  also have "same_for pid w3 w'" using w' by (rule token_call_same(1) [OF rt])
  finally have same: "same_for pid w2 w'" .
  have ver: "ob_version ob1 = ob_version ob"
    using find_or_add_liquidity_frame [OF f] by (metis obligation.select_convs(1) obligation.surjective obligation.update_convs(6))
  have key: "borrow_reserve loan = borrow_reserve (borrows ob1 ! i)"
    "dec (loan_borrowed_amount_wads loan) =
       dec (loan_borrowed_amount_wads (borrows ob1 ! i)) + dec (borrow_amount b)"
    using l by (auto simp: loan_borrow_def l0 decimal_ok)
  from stored_pair [OF rt(1) own load _ _ w1 w2 same] ver that [OF b _ f key(2,1)] show thesis by simp
qed

text \<open>The debt after the loan was written back into the obligation.\<close>

lemma added_loan_debt:
  assumes wf: "obligation_wf ob" and f: "find_or_add_liquidity_to_borrows k ob = Inr (ob1, i)"
    and d: "dec (loan_borrowed_amount_wads loan) = dec (loan_borrowed_amount_wads (borrows ob1 ! i)) + n"
    and key: "borrow_reserve loan = borrow_reserve (borrows ob1 ! i)"
    and ob': "ob' = ob1\<lparr> borrows := (borrows ob1)[i := loan], ob_last_update := u \<rparr>"
  shows "loan_debt ob' k = loan_debt ob k + n"
    and "k' \<noteq> k \<Longrightarrow> loan_debt ob' k' = loan_debt ob k'"
    and "deposits ob' = deposits ob" and "obligation_wf ob'"
proof -
  from wf have u: "loans.unique ob" by (simp add: obligation_wf_iff)
  note e = loans.find_or_add_entry [OF f] and u1 = loans.find_or_add_unique [OF f u]
    and l1 = loans.find_or_add_lookup [OF f] and wf1 = find_or_add_liquidity_wf [OF f wf]
  have old: "borrows ob1 ! i = (case loans.lookup ob k of None \<Rightarrow> obligation_liquidity_new k | Some x \<Rightarrow> x)"
    using loans.find_or_add_result [OF f u] l1 by simp
  from loans.lookup_update [OF u1 e(1) key, of ob'] e(2) l1
  have upd: "loans.lookup ob' = (loans.lookup ob)(k \<mapsto> loan)" by (simp add: ob' key)
  then show "loan_debt ob' k = loan_debt ob k + n"
    using d old by (simp add: loan_debt_def obligation_liquidity_new_def decimal_zero_def split: option.splits)
  show "k' \<noteq> k \<Longrightarrow> loan_debt ob' k' = loan_debt ob k'" using upd by (simp add: loan_debt_def)
  have "deposits ob1 = deposits ob"
    using f by (auto simp: find_or_add_liquidity_to_borrows_def split: option.splits if_splits)
  then show "deposits ob' = deposits ob" by (simp add: ob')
  show "obligation_wf ob'"
    using update_loan_wf [OF wf1 e(1) key] by (simp add: ob' obligation_wf_def)
qed

text \<open>
  C2: A borrow succeeds only for the obligation's owner, who signed, with the reserve and the
  obligation refreshed in the current slot and the reserve's borrow limit respected (unless the
  amount is \<open>u64::MAX\<close>). Afterwards the reserve's outstanding loans and the obligation's debt to it
  have grown by the same amount, whose value is within what was left of the allowed value (up to
  one unit of the last decimal), the available liquidity has shrunk by its whole units, both
  accounts are stale, and no other debt and no deposit changed.
\<close>

theorem borrow_safe:
  assumes "runtime_ok rt pid" "info_key tp \<noteq> pid"
    and "unpack_reserve rt w ri = Inr r" "unpack_obligation rt w oi = Inr ob" "obligation_wf ob"
    and "process_borrow_obligation_liquidity rt pid amount
      (src # dst # ri # fi # oi # mi # ai # oo # ci # tp # rest) w = Inr w'"
  shows "ob_owner ob = info_key oo \<and> is_signer oo \<and>
    clock_from rt w ci = Inr (slot (reserve_last_update r)) \<and> \<not> stale (reserve_last_update r) \<and>
    slot (ob_last_update ob) = slot (reserve_last_update r) \<and> \<not> stale (ob_last_update ob) \<and>
    (amount \<noteq> u64_max \<longrightarrow> (unat amount * wad + dec (borrowed_amount_wads (liquidity r))) div wad \<le>
      unat (borrow_limit (config r))) \<and>
    (\<exists>r' ob' d. unpack_reserve rt w' ri = Inr r' \<and> unpack_obligation rt w' oi = Inr ob' \<and>
      dec (borrowed_amount_wads (liquidity r')) = dec (borrowed_amount_wads (liquidity r)) + d \<and>
      unat (available_amount (liquidity r)) = unat (available_amount (liquidity r')) + d div wad \<and>
      (\<forall>k. loan_debt ob' k = loan_debt ob k + (if k = info_key ri then d else 0)) \<and>
      d * dec (market_price (liquidity r)) <
        (dec (allowed_borrow_value ob) - dec (borrowed_value ob) + 1) *
          10 ^ unat (mint_decimals (liquidity r)) * wad \<and>
      deposits ob' = deposits ob \<and> obligation_wf ob' \<and>
      stale (reserve_last_update r') \<and> stale (ob_last_update ob'))"
proof -
  from assms(6,3,4) obtain clock m where c: "clock_from rt w ci = Inr clock"
    "clock = slot (reserve_last_update r)" "\<not> stale (reserve_last_update r)"
    "clock = slot (ob_last_update ob)" "\<not> stale (ob_last_update ob)"
    and own: "owner_of w ri = pid" "owner_of w oi = pid"
    and lim: "check_borrow_limit amount r = Inr ()"
    and sig: "ob_owner ob = info_key oo" "is_signer oo"
    and run: "borrow_from_reserve rt amount r ob src dst ri fi oi ai (authority_signer_seeds mi m) tp w = Inr w'"
    by (rule process_borrow_cases)
  from assms(1,2) own assms(3,4) run obtain rem b liq ob1 i loan where
    rem: "remaining_borrow_value ob = Inr rem"
    and b: "calculate_borrow r amount rem = Inr b"
    and liq: "liquidity_borrow (borrow_amount b) (liquidity r) = Inr liq"
    and r': "unpack_reserve rt w' ri = Inr (r\<lparr> liquidity := liq,
       reserve_last_update := mark_stale (reserve_last_update r) \<rparr>)"
    and f: "find_or_add_liquidity_to_borrows (info_key ri) ob = Inr (ob1, i)"
    and l: "dec (loan_borrowed_amount_wads loan) =
       dec (loan_borrowed_amount_wads (borrows ob1 ! i)) + dec (borrow_amount b)"
    and key: "borrow_reserve loan = borrow_reserve (borrows ob1 ! i)"
    and ob': "unpack_obligation rt w' oi = Inr (ob1\<lparr> borrows := (borrows ob1)[i := loan],
       ob_last_update := mark_stale (ob_last_update ob1) \<rparr>)"
    by (rule borrow_from_reserve_cases)
  note debt = added_loan_debt [OF assms(5) f l key refl]
  have "dec rem = dec (allowed_borrow_value ob) - dec (borrowed_value ob)"
    using rem by (simp add: remaining_borrow_value_def decimal_ok)
  with calculate_borrow_value [OF b] have worth: "dec (borrow_amount b) * dec (market_price (liquidity r)) <
      (dec (allowed_borrow_value ob) - dec (borrowed_value ob) + 1) *
        10 ^ unat (mint_decimals (liquidity r)) * wad" by simp
  have q: "dec (borrowed_amount_wads liq) = dec (borrowed_amount_wads (liquidity r)) + dec (borrow_amount b)"
    "unat (available_amount (liquidity r)) = unat (available_amount liq) + dec (borrow_amount b) div wad"
    using liq by (auto simp: liquidity_borrow_ok)
  show ?thesis
    using sig c check_borrow_limit_ok [OF lim] r' ob' q worth debt
    by (intro conjI exI [of _ "r\<lparr> liquidity := liq, reserve_last_update := mark_stale (reserve_last_update r) \<rparr>"]
        exI [of _ "ob1\<lparr> borrows := (borrows ob1)[i := loan], ob_last_update := mark_stale (ob_last_update ob1) \<rparr>"]
        exI [of _ "dec (borrow_amount b)"]) auto
qed

text \<open>The sample obligation with more collateral value: 200 of the allowed value are left.\<close>

definition sample_healthy :: obligation where
  "sample_healthy = sample_obligation\<lparr> allowed_borrow_value := Decimal 400000000000000000000,
     unhealthy_borrow_value := Decimal 440000000000000000000 \<rparr>"

lemma sample_healthy_ok [simp]:
  "obligation_fits sample_healthy" "ob_version sample_healthy = PROGRAM_VERSION"
  "obligation_wf sample_healthy"
  by (simp_all add: obligation_fits_def obligation_wf_def sample_healthy_def sample_obligation_def
      sample_coll_def sample_loan_def PROGRAM_VERSION_def MAX_OBLIGATION_RESERVES_def)

lemma sample_healthy_fields:
  "ob_lending_market sample_healthy = 7" "ob_owner sample_healthy = 9"
  "ob_last_update sample_healthy = \<lparr> slot = 10, stale = False \<rparr>"
  "deposits sample_healthy = [sample_coll]" "borrows sample_healthy = [sample_loan]"
  "deposited_value sample_healthy \<noteq> decimal_zero"
  by (simp_all add: sample_healthy_def sample_fields)

lemma sample_borrow_run:
  "\<exists>w'. process_borrow_obligation_liquidity sample_rt 100 10
     (acct 22 # acct 41 # acct 5 # acct 23 # acct 10 # acct 7 # acct 11 # acct 9 # acct 1 # acct 200 # [])
     (sample_world sample_healthy) = Inr w'"
proof -
  define w where "w = sample_world sample_healthy"
  define liq where "liq = (liquidity sample_reserve)\<lparr> available_amount := 988,
    borrowed_amount_wads := Decimal 512000000000000000000 \<rparr>"
  define ob where "ob = sample_healthy\<lparr> borrows := [sample_loan\<lparr> loan_borrowed_amount_wads :=
    Decimal 112000000000000000000 \<rparr>], ob_last_update := mark_stale (ob_last_update sample_healthy) \<rparr>"
  have "reserve_fits (sample_reserve\<lparr> liquidity := liq,
      reserve_last_update := mark_stale (reserve_last_update sample_reserve) \<rparr>)"
    by (simp add: reserve_fits_def liq_def sample_reserve_def PROGRAM_VERSION_def)
  then obtain w1 where w1: "pack_reserve sample_rt (sample_reserve\<lparr> liquidity := liq,
      reserve_last_update := mark_stale (reserve_last_update sample_reserve) \<rparr>) (acct 5) w = Inr w1"
    and f1: "\<And>k. k \<noteq> 5 \<Longrightarrow> w1 k = w k" "\<And>k. acc_owner (w1 k) = acc_owner (w k)"
      "\<And>j. length (data_of w1 j) = length (data_of w j)"
    by (rule sample_store_reserve [of _ w "acct 5"]) (simp_all add: w_def sample_load)
  have "obligation_fits ob"
    by (simp add: obligation_fits_def ob_def sample_healthy_def sample_obligation_def
        sample_coll_def sample_loan_def PROGRAM_VERSION_def)
  then obtain w2 where w2: "pack_obligation sample_rt ob (acct 10) w1 = Inr w2"
    and f2: "\<And>k. k \<noteq> 10 \<Longrightarrow> w2 k = w1 k" "\<And>k. acc_owner (w2 k) = acc_owner (w1 k)"
    by (rule sample_store_obligation [of _ w1 "acct 10"])
      (simp_all add: f1 w_def sample_load_obligation)
  have bal: "balance w2 k = 4000" "acc_owner (w2 k) = 200" if "k \<notin> {5, 6, 7, 10}" for k
    using that f1 f2 by (simp_all add: w_def balance_def) (simp add: sample_balance [unfolded balance_def])
  obtain w3 where w3: "spl_token_transfer sample_rt (acct 22) (acct 23) 2 (acct 11)
      (authority_signer_seeds (acct 7) sample_market) (acct 200) w2 = Inr w3"
    and f3: "\<And>k. acc_owner (w3 k) = acc_owner (w2 k)" "balance w3 22 = 3998"
    by (rule sample_transfer [of w2 "acct 22" "acct 23" 2 "acct 11" "authority_signer_seeds (acct 7) sample_market"])
      (simp_all add: bal)
  obtain w' where w4: "spl_token_transfer sample_rt (acct 22) (acct 41) 10 (acct 11)
      (authority_signer_seeds (acct 7) sample_market) (acct 200) w3 = Inr w'"
    by (rule sample_transfer [of w3 "acct 22" "acct 41" 10 "acct 11" "authority_signer_seeds (acct 7) sample_market"])
      (simp_all add: bal f3)
  have b: "calculate_borrow sample_reserve 10 (Decimal 200000000000000000000) =
      Inr \<lparr> borrow_amount = Decimal 12000000000000000000, receive_amount = 10, borrow_fee = 2, host_fee = 1 \<rparr>"
    by (simp add: sample_reserve_def run del: attempt_Inr_iff)
  have l: "liquidity_borrow (Decimal 12000000000000000000) (liquidity sample_reserve) = Inr liq"
    by (simp add: sample_reserve_def liq_def run del: attempt_Inr_iff)
  have rem: "Decimal 200000000000000000000 \<noteq> decimal_zero" "remaining_borrow_value sample_healthy = Inr (Decimal 200000000000000000000)"
    by (simp_all add: sample_healthy_def sample_obligation_def run del: attempt_Inr_iff)
  have f: "find_or_add_liquidity_to_borrows 5 sample_healthy = Inr (sample_healthy, 0)"
    by (simp add: sample_healthy_def sample_obligation_def sample_loan_def run del: attempt_Inr_iff)
  have loan: "borrows sample_healthy ! 0 = sample_loan"
    "loan_cumulative_borrow_rate_wads sample_loan \<noteq> decimal_zero"
    "loan_borrow (Decimal 12000000000000000000) sample_loan =
      Inr (sample_loan\<lparr> loan_borrowed_amount_wads := Decimal 112000000000000000000 \<rparr>)"
    by (simp_all add: sample_healthy_def sample_obligation_def sample_loan_def run del: attempt_Inr_iff)
  have ob: "ob = sample_healthy\<lparr> borrows := (borrows sample_healthy)[0 := sample_loan\<lparr> loan_borrowed_amount_wads :=
      Decimal 112000000000000000000 \<rparr>], ob_last_update := mark_stale (ob_last_update sample_healthy) \<rparr>"
    by (simp add: ob_def sample_healthy_def sample_obligation_def)
  have "borrow_from_reserve sample_rt 10 sample_reserve sample_healthy (acct 22) (acct 41) (acct 5) (acct 23)
      (acct 10) (acct 11) (authority_signer_seeds (acct 7) sample_market) (acct 200) w = Inr w'"
    using w2 unfolding ob
    by (simp add: borrow_from_reserve_def rem b l f loan w1 w3 w4 Let_def del: attempt_Inr_iff)
  moreover have "check_borrow_limit 10 sample_reserve = Inr ()"
    by (simp add: check_borrow_limit_def sample_reserve_def run del: attempt_Inr_iff)
  ultimately show ?thesis
    by (simp add: process_borrow_obligation_liquidity_def load_ok sample_load sample_load_obligation
        sample_fields sample_healthy_fields w_def)
qed

theorem borrow_safe_witness:
  "\<exists>w' r' ob' d. process_borrow_obligation_liquidity sample_rt 100 10
     (acct 22 # acct 41 # acct 5 # acct 23 # acct 10 # acct 7 # acct 11 # acct 9 # acct 1 # acct 200 # [])
     (sample_world sample_healthy) = Inr w' \<and>
   unpack_reserve sample_rt w' (acct 5) = Inr r' \<and> unpack_obligation sample_rt w' (acct 10) = Inr ob' \<and>
   dec (borrowed_amount_wads (liquidity r')) = dec (borrowed_amount_wads (liquidity sample_reserve)) + d \<and>
   loan_debt ob' 5 = loan_debt sample_healthy 5 + d"
proof -
  obtain w' where run: "process_borrow_obligation_liquidity sample_rt 100 10
     (acct 22 # acct 41 # acct 5 # acct 23 # acct 10 # acct 7 # acct 11 # acct 9 # acct 1 # acct 200 # [])
     (sample_world sample_healthy) = Inr w'" using sample_borrow_run by blast
  have "info_key (acct 200) \<noteq> (100 :: pubkey)" "unpack_reserve sample_rt (sample_world sample_healthy) (acct 5) = Inr sample_reserve"
    "unpack_obligation sample_rt (sample_world sample_healthy) (acct 10) = Inr sample_healthy"
    by (simp_all add: sample_load sample_load_obligation)
  from borrow_safe [OF sample_rt_ok this sample_healthy_ok(3) run] run show ?thesis by auto
qed

end
