(* ===== verification/Collateral_Correct.thy ===== *)
theory Collateral_Correct
  imports Loan_Correct
begin

text \<open>
  The properties of the handlers that move collateral (token-lending/program/src/processor.rs):
  depositing it into an obligation and withdrawing it.
\<close>

text \<open>The collateral an obligation records for a reserve.\<close>

definition coll_amount :: "obligation \<Rightarrow> pubkey \<Rightarrow> nat" where
  "coll_amount ob k = (case deps.lookup ob k of None \<Rightarrow> 0 | Some c \<Rightarrow> unat (deposited_amount c))"

lemma withdrawn_collateral:
  assumes "obligation_withdraw n i ob = Inr ob1" "obligation_wf ob"
    and "find_collateral_in_deposits ob k = Inr (c, i)"
  shows "coll_amount ob k = coll_amount ob1 k + unat n" "k' \<noteq> k \<Longrightarrow> coll_amount ob1 k' = coll_amount ob k'"
    "borrows ob1 = borrows ob" "obligation_wf ob1" "n \<le> deposited_amount c"
proof -
  note l = obligation_withdraw_lookup [OF assms] and f = find_collateral_facts(4) [OF assms(3)]
  show "borrows ob1 = borrows ob" "n \<le> deposited_amount c" using l by simp_all
  show "obligation_wf ob1" using obligation_withdraw_wf [OF assms(1,2)] .
  show "k' \<noteq> k \<Longrightarrow> coll_amount ob1 k' = coll_amount ob k'" using l(1) by (simp add: coll_amount_def)
  show "coll_amount ob k = coll_amount ob1 k + unat n"
    using l(1,3) f by (simp add: coll_amount_def unat_sub word_le_nat_alt)
qed

lemma added_collateral:
  assumes wf: "obligation_wf ob" and f: "find_or_add_collateral_to_deposits k ob = Inr (ob1, i)"
    and c: "collateral_deposit n (deposits ob1 ! i) = Inr c"
    and ob': "ob' = ob1\<lparr> deposits := (deposits ob1)[i := c], ob_last_update := u \<rparr>"
  shows "coll_amount ob' k = coll_amount ob k + unat n" "k' \<noteq> k \<Longrightarrow> coll_amount ob' k' = coll_amount ob k'"
    "borrows ob' = borrows ob" "obligation_wf ob'"
proof -
  from wf have u: "deps.unique ob" by (simp add: obligation_wf_iff)
  note e = deps.find_or_add_entry [OF f] and u1 = deps.find_or_add_unique [OF f u]
    and l1 = deps.find_or_add_lookup [OF f] and wf1 = find_or_add_collateral_wf [OF f wf]
  have key: "deposit_reserve c = deposit_reserve (deposits ob1 ! i)"
    and amt: "unat (deposited_amount c) = unat (deposited_amount (deposits ob1 ! i)) + unat n"
    using c by (auto simp: collateral_deposit_def checked)
  have old: "deposits ob1 ! i = (case deps.lookup ob k of None \<Rightarrow> obligation_collateral_new k | Some x \<Rightarrow> x)"
    using deps.find_or_add_result [OF f u] l1 by simp
  from deps.lookup_update [OF u1 e(1) key, of ob'] e(2) l1
  have upd: "deps.lookup ob' = (deps.lookup ob)(k \<mapsto> c)" by (simp add: ob' key)
  then show "coll_amount ob' k = coll_amount ob k + unat n"
    using amt old by (simp add: coll_amount_def obligation_collateral_new_def split: option.splits)
  show "k' \<noteq> k \<Longrightarrow> coll_amount ob' k' = coll_amount ob k'" using upd by (simp add: coll_amount_def)
  have "borrows ob1 = borrows ob"
    using f by (auto simp: find_or_add_collateral_to_deposits_def split: option.splits if_splits)
  then show "borrows ob' = borrows ob" by (simp add: ob')
  show "obligation_wf ob'" using update_deposit_wf [OF wf1 e(1) key] by (simp add: ob' obligation_wf_def)
qed

section \<open>How much may be withdrawn\<close>

text \<open>
  The amount taken out of collateral worth \<open>mv\<close> is worth at most \<open>v\<close>, up to one unit of the last
  decimal of each of the two divisions, and withdrawing the value \<open>v\<close> keeps the obligation healthy.
\<close>

lemma share_bound:
  fixes n d mv :: nat
  assumes "0 < d"
  shows "mv * n * wad \<le> d * ((mv * (n * wad div d) div wad + 1) * wad + mv)"
proof -
  have "mv * n * wad \<le> mv * ((n * wad div d + 1) * d)"
    using less_div_Suc_mult [OF assms, of "n * wad"] by (simp add: mult.assoc)
  also have "\<dots> = d * (mv * (n * wad div d) + mv)" by (simp add: algebra_simps)
  also have "\<dots> \<le> d * ((mv * (n * wad div d) div wad + 1) * wad + mv)"
    using less_div_Suc_mult [OF wad_pos(1), of "mv * (n * wad div d)"] by (intro mult_le_mono2 add_mono) auto
  finally show ?thesis .
qed

lemma withdraw_amount_healthy:
  assumes w: "withdraw_amount_with_loans amount ltv c ob = Inr n" and ltv: "rat ltv \<noteq> 0"
  shows "n \<noteq> 0 \<and> (\<exists>v. dec (borrowed_value ob) * wad + v * rat ltv \<le> dec (allowed_borrow_value ob) * wad \<and>
    dec (coll_market_value c) * unat n * wad \<le>
      unat (deposited_amount c) * ((v + 1) * wad + dec (coll_market_value c)))"
proof -
  let ?mv = "dec (coll_market_value c)" and ?d = "unat (deposited_amount c)"
  from w [unfolded withdraw_amount_with_loans_def Let_def]
  obtain m where m: "max_withdraw_value ob ltv = Inr m" and pos: "m \<noteq> decimal_zero" "n \<noteq> 0"
    and n: "(if amount = u64_max then
        attempt (decimal_try_div (min m (coll_market_value c)) (coll_market_value c)) (\<lambda>pct.
        attempt (decimal_try_mul_u64 pct (deposited_amount c)) (\<lambda>a.
        attempt (decimal_try_floor_u64 a) (\<lambda>a. Inr (min a (deposited_amount c)))))
      else
        attempt (decimal_try_div_u64 (decimal_from_u64 (min amount (deposited_amount c)))
          (deposited_amount c)) (\<lambda>pct.
        attempt (decimal_try_mul (coll_market_value c) pct) (\<lambda>v.
        attempt (refuse_if (m < v) WithdrawTooLarge) (\<lambda>_. Inr (min amount (deposited_amount c)))))) = Inr n"
    by auto
  have "borrowed_value ob \<le> allowed_borrow_value ob"
    using m pos(1) by (auto simp: max_withdraw_value_def split: if_splits)
  from max_withdraw_value_healthy [OF m ltv this]
  have health: "dec (borrowed_value ob) * wad + dec m * rat ltv \<le> dec (allowed_borrow_value ob) * wad" .
  have "\<exists>v \<le> dec m. ?mv * unat n * wad \<le> ?d * ((v + 1) * wad + ?mv)"
  proof (cases "amount = u64_max")
    case True
    with n obtain pct a where pct: "?mv \<noteq> 0" "dec pct = min (dec m) ?mv * wad div ?mv"
      and a: "unat a = dec pct * ?d div wad" and na: "n = min a (deposited_amount c)"
      by (auto simp: decimal_ok dec_min)
    have "unat n \<le> dec pct * ?d div wad" using a na by (metis min.cobounded1 word_le_nat_alt)
    then have "unat n * wad \<le> dec pct * ?d" by (metis div_mult_le_nat le_trans mult_le_mono1)
    then have "?mv * unat n * wad \<le> (dec pct * ?mv) * ?d" by (simp add: mult.assoc mult.commute mult.left_commute)
    also have "\<dots> \<le> (min (dec m) ?mv * wad) * ?d" by (simp add: pct)
    also have "\<dots> \<le> ?d * ((min (dec m) ?mv + 1) * wad + ?mv)" by (simp add: algebra_simps)
    finally show ?thesis by (intro exI [of _ "min (dec m) ?mv"]) simp
  next
    case False
    with n obtain pct v where d: "deposited_amount c \<noteq> 0" and pct: "dec pct = unat n * wad div ?d"
      and v: "dec v = ?mv * dec pct div wad" "dec v \<le> dec m"
      by (auto simp: decimal_ok)
    from d have "0 < ?d" by (simp add: unat_gt_0)
    from share_bound [OF this, of ?mv "unat n"] v show ?thesis by (auto simp: pct)
  qed
  then obtain v where v: "v \<le> dec m" "?mv * unat n * wad \<le> ?d * ((v + 1) * wad + ?mv)" by blast
  have "v * rat ltv \<le> dec m * rat ltv" using v(1) by simp
  with health have "dec (borrowed_value ob) * wad + v * rat ltv \<le> dec (allowed_borrow_value ob) * wad"
    by linarith
  with v(2) pos(2) show ?thesis by blast
qed

section \<open>The calls to the staking program\<close>

lemma staking_call_same:
  assumes rt: "runtime_ok rt pid" and sp: "\<forall>i\<in>set rest. info_key i \<noteq> pid"
  shows "with_staking_accounts rt rest pool w (\<lambda>sa p sp. withdraw_from_staking_program rt pid n mi ai ci sa p sp own w)
      = Inr w' \<Longrightarrow> same_for pid w w'"
    and "with_staking_accounts rt rest pool w (\<lambda>sa p sp. deposit_to_staking_program rt pid n mi ai ci sa p sp own w)
      = Inr w' \<Longrightarrow> same_for pid w w'"
  using sp
  by (auto simp: with_staking_accounts_def withdraw_from_staking_program_def deposit_to_staking_program_def
      staking_withdraw_def staking_deposit_def split: if_splits dest: invoke_same [OF rt])

section \<open>Withdrawing\<close>

lemma process_withdraw_cases:
  assumes "process_withdraw_obligation_collateral rt pid amount
      (src # dst # ri # oi # mi # ai # oo # ci # tp # rest) w = Inr w'"
  obtains clock q where "clock_from rt w ci = Inr clock"
    "withdraw_obligation_collateral rt pid amount src dst ri oi mi ai oo clock tp w = Inr q"
    "with_staking_accounts rt rest (attempt (unpack_reserve rt (snd q) ri) (\<lambda>r.
      Inr (deposit_staking_pool (config r)))) (snd q)
      (\<lambda>sa p sp. withdraw_from_staking_program rt pid (fst q) mi ai ci sa p sp (info_key oo) (snd q)) = Inr w'"
  using assms by (auto simp: process_withdraw_obligation_collateral_def)

lemma withdraw_cases:
  assumes "withdraw_obligation_collateral rt pid amount src dst ri oi mi ai oo clock tp w = Inr q"
    and "unpack_reserve rt w ri = Inr r" "unpack_obligation rt w oi = Inr ob"
  obtains m c i n ob1 w0 w1 where "owner_of w oi = pid" "ob_owner ob = info_key oo" "is_signer oo"
    "\<not> stale (ob_last_update ob)" "clock = slot (ob_last_update ob)"
    "\<not> stale (reserve_last_update r)" "clock = slot (reserve_last_update r)"
    "coll_supply_pubkey (collateral r) = info_key src"
    "find_collateral_in_deposits ob (info_key ri) = Inr (c, i)" "deposited_amount c \<noteq> 0"
    "withdraw_collateral_amount amount r c ob = Inr n" "obligation_withdraw n i ob = Inr ob1"
    "pack_obligation rt (ob1\<lparr> ob_last_update := mark_stale (ob_last_update ob1) \<rparr>) oi w = Inr w0"
    "spl_token_transfer rt src dst n ai (authority_signer_seeds mi m) tp w0 = Inr w1" "(n, w1) = q"
proof -
  from assms(1) show thesis
    by (simp add: withdraw_obligation_collateral_def load_ok assms(2,3) split_paired_Ex)
      (elim exE conjE, rule that, assumption+)
qed

text \<open>
  C4: Collateral is withdrawn only by the obligation's owner, who signed, on states refreshed in
  the current slot, and a positive amount, no more than was deposited. Afterwards the obligation
  records exactly that much less for the one reserve, with every loan as it was, and is stale. While
  there are loans, and the collateral counts for borrowing, the amount is worth no more than a value
  whose withdrawal keeps the obligation within its allowed value, up to the rounding of two
  divisions.
\<close>

theorem withdraw_safe:
  assumes rt: "runtime_ok rt pid" "info_key tp \<noteq> pid" "\<forall>i\<in>set rest. info_key i \<noteq> pid"
    and load: "unpack_reserve rt w ri = Inr r" "unpack_obligation rt w oi = Inr ob" and wf: "obligation_wf ob"
    and amount: "amount \<noteq> 0"
    and run: "process_withdraw_obligation_collateral rt pid amount
      (src # dst # ri # oi # mi # ai # oo # ci # tp # rest) w = Inr w'"
  shows "ob_owner ob = info_key oo \<and> is_signer oo \<and>
    clock_from rt w ci = Inr (slot (ob_last_update ob)) \<and> \<not> stale (ob_last_update ob) \<and>
    slot (reserve_last_update r) = slot (ob_last_update ob) \<and> \<not> stale (reserve_last_update r) \<and>
    (\<exists>c n ob'. deps.lookup ob (info_key ri) = Some c \<and> 0 < n \<and> n \<le> unat (deposited_amount c) \<and>
      unpack_obligation rt w' oi = Inr ob' \<and>
      (\<forall>k. coll_amount ob k = coll_amount ob' k + (if k = info_key ri then n else 0)) \<and>
      borrows ob' = borrows ob \<and> obligation_wf ob' \<and> stale (ob_last_update ob') \<and>
      (borrows ob = [] \<or> loan_to_value_ratio (config r) = 0 \<or>
        (\<exists>v. dec (borrowed_value ob) * wad + v * rat (rate_from_percent (loan_to_value_ratio (config r))) \<le>
            dec (allowed_borrow_value ob) * wad \<and>
          dec (coll_market_value c) * n * wad \<le>
            unat (deposited_amount c) * ((v + 1) * wad + dec (coll_market_value c)))))"
proof -
  from run obtain clock q where clock: "clock_from rt w ci = Inr clock"
    and wd: "withdraw_obligation_collateral rt pid amount src dst ri oi mi ai oo clock tp w = Inr q"
    and st: "with_staking_accounts rt rest (attempt (unpack_reserve rt (snd q) ri) (\<lambda>r.
      Inr (deposit_staking_pool (config r)))) (snd q)
      (\<lambda>sa p sp. withdraw_from_staking_program rt pid (fst q) mi ai ci sa p sp (info_key oo) (snd q)) = Inr w'"
    by (rule process_withdraw_cases)
  from wd load obtain m c i n ob1 w0 w1 where own: "owner_of w oi = pid"
    and sig: "ob_owner ob = info_key oo" "is_signer oo"
    and fresh: "\<not> stale (ob_last_update ob)" "clock = slot (ob_last_update ob)"
      "\<not> stale (reserve_last_update r)" "clock = slot (reserve_last_update r)"
    and f: "find_collateral_in_deposits ob (info_key ri) = Inr (c, i)" and c0: "deposited_amount c \<noteq> 0"
    and n: "withdraw_collateral_amount amount r c ob = Inr n" and ob1: "obligation_withdraw n i ob = Inr ob1"
    and w0: "pack_obligation rt (ob1\<lparr> ob_last_update := mark_stale (ob_last_update ob1) \<rparr>) oi w = Inr w0"
    and tr: "spl_token_transfer rt src dst n ai (authority_signer_seeds mi m) tp w0 = Inr w1"
    and q: "(n, w1) = q"
    by (rule withdraw_cases)
  have pc: "pack_checks rt" using rt(1) by simp
  note wdr = withdrawn_collateral [OF ob1 wf f]
  have "same_for pid w0 w1" using tr by (rule token_call_same(1) [OF rt(1,2)])
  also have "same_for pid w1 w'" using st unfolding q [symmetric] fst_conv snd_conv by (rule staking_call_same(1) [OF rt(1,3)])
  finally have same: "same_for pid w0 w'" .
  define ob' where "ob' = ob1\<lparr> ob_last_update := mark_stale (ob_last_update ob1) \<rparr>"
  have "ob_version ob' = PROGRAM_VERSION"
    using load_obligation_version [OF pc load(2)] ob1
    by (auto simp: ob'_def obligation_withdraw_def Let_def split: if_splits)
  then have "unpack_obligation rt w0 oi = Inr ob'"
    using stored_obligation_read [OF pc _ w0] by (simp add: ob'_def)
  then have ob': "unpack_obligation rt w' oi = Inr ob'"
    using same_for_load(3) [OF same] pack_owner(2) [OF w0] own by simp
  have n0: "n \<noteq> 0"
    using n c0 amount
    by (auto simp: withdraw_collateral_amount_def withdraw_amount_with_loans_def min_def split: if_splits)
  have health: "borrows ob = [] \<or> loan_to_value_ratio (config r) = 0 \<or>
      (\<exists>v. dec (borrowed_value ob) * wad + v * rat (rate_from_percent (loan_to_value_ratio (config r))) \<le>
          dec (allowed_borrow_value ob) * wad \<and>
        dec (coll_market_value c) * unat n * wad \<le>
          unat (deposited_amount c) * ((v + 1) * wad + dec (coll_market_value c)))"
  proof (cases "borrows ob = [] \<or> loan_to_value_ratio (config r) = 0")
    case False
    then have "withdraw_amount_with_loans amount (rate_from_percent (loan_to_value_ratio (config r))) c ob = Inr n"
      using n by (auto simp: withdraw_collateral_amount_def split: if_splits)
    moreover have "rat (rate_from_percent (loan_to_value_ratio (config r))) \<noteq> 0"
      using False by (simp add: unat_eq_0 wad_def)
    ultimately show ?thesis using withdraw_amount_healthy by blast
  qed auto
  have "coll_amount ob' k = coll_amount ob1 k" "borrows ob' = borrows ob1" "obligation_wf ob'" "stale (ob_last_update ob')" for k
    using wdr(4) by (simp_all add: ob'_def coll_amount_def deps.lookup_def obligation_wf_def)
  with sig fresh clock find_collateral_facts(4) [OF f] n0 wdr ob' health show ?thesis
    by (intro conjI exI [of _ c] exI [of _ "unat n"] exI [of _ ob']) (auto simp: unat_gt_0 word_le_nat_alt)
qed

lemma sample_withdraw_run:
  "\<exists>w'. process_withdraw_obligation_collateral sample_rt 100 10
     (acct 34 # acct 42 # acct 6 # acct 10 # acct 7 # acct 11 # acct 9 # acct 1 # acct 200 # [])
     (sample_world sample_healthy) = Inr w'"
proof -
  define w where "w = sample_world sample_healthy"
  define ob1 where "ob1 = sample_healthy\<lparr> deposits := [sample_coll\<lparr> deposited_amount := 990 \<rparr>] \<rparr>"
  have "obligation_fits (ob1\<lparr> ob_last_update := mark_stale (ob_last_update ob1) \<rparr>)"
    by (simp add: obligation_fits_def ob1_def sample_healthy_def sample_obligation_def
        sample_coll_def sample_loan_def PROGRAM_VERSION_def)
  then obtain w1 where w1: "pack_obligation sample_rt (ob1\<lparr> ob_last_update :=
      mark_stale (ob_last_update ob1) \<rparr>) (acct 10) w = Inr w1"
    and f1: "\<And>k. k \<noteq> 10 \<Longrightarrow> w1 k = w k" "\<And>k. acc_owner (w1 k) = acc_owner (w k)"
      "\<And>j. length (data_of w1 j) = length (data_of w j)"
    by (rule sample_store_obligation [of _ w "acct 10"]) (simp_all add: w_def sample_load_obligation)
  have bal: "balance w1 34 = 4000" "acc_owner (w1 34) = 200" "acc_owner (w1 42) = 200"
    using f1 by (simp_all add: w_def balance_def) (simp add: sample_balance [unfolded balance_def])
  obtain w' where w2: "spl_token_transfer sample_rt (acct 34) (acct 42) 10 (acct 11)
      (authority_signer_seeds (acct 7) sample_market) (acct 200) w1 = Inr w'"
    and f2: "\<And>k. k \<noteq> 34 \<Longrightarrow> k \<noteq> 42 \<Longrightarrow> w' k = w1 k"
    by (rule sample_transfer [of w1 "acct 34" "acct 42" 10 "acct 11" "authority_signer_seeds (acct 7) sample_market"])
      (simp_all add: bal)
  have "w' 6 = w 6" using f1(1) [of 6] f2 [of 6] by simp
  then have r6: "unpack_reserve sample_rt w' (acct 6) = Inr sample_reserve6"
    using sample_load(2) [of sample_healthy] by (simp add: w_def unpack_reserve_def data_of_def)
  have amount: "withdraw_collateral_amount 10 sample_reserve6 sample_coll sample_healthy = Inr 10"
    by (simp add: withdraw_collateral_amount_def withdraw_amount_with_loans_def sample_healthy_def
        sample_obligation_def sample_coll_def sample_fields run del: attempt_Inr_iff)
  have f: "find_collateral_in_deposits sample_healthy 6 = Inr (sample_coll, 0)" "deposited_amount sample_coll \<noteq> 0"
    by (simp_all add: sample_healthy_def sample_obligation_def sample_coll_def run del: attempt_Inr_iff)
  have ob1: "obligation_withdraw 10 0 sample_healthy = Inr ob1"
    by (simp add: ob1_def sample_healthy_def sample_obligation_def sample_coll_def run del: attempt_Inr_iff)
  have "withdraw_obligation_collateral sample_rt 100 10 (acct 34) (acct 42) (acct 6) (acct 10) (acct 7)
      (acct 11) (acct 9) 10 (acct 200) w = Inr (10, w')"
    by (simp add: withdraw_obligation_collateral_def load_ok sample_load sample_load_obligation
        sample_fields sample_healthy_fields f amount ob1 w1 [unfolded w_def] w2 w_def)
  then show ?thesis
    by (simp add: process_withdraw_obligation_collateral_def sample_load sample_fields w_def r6
        check_staking_accounts_def with_staking_accounts_def)
qed

theorem withdraw_safe_witness:
  "\<exists>w' ob'. process_withdraw_obligation_collateral sample_rt 100 10
     (acct 34 # acct 42 # acct 6 # acct 10 # acct 7 # acct 11 # acct 9 # acct 1 # acct 200 # [])
     (sample_world sample_healthy) = Inr w' \<and>
   unpack_obligation sample_rt w' (acct 10) = Inr ob' \<and> coll_amount ob' 6 < coll_amount sample_healthy 6"
proof -
  obtain w' where run: "process_withdraw_obligation_collateral sample_rt 100 10
     (acct 34 # acct 42 # acct 6 # acct 10 # acct 7 # acct 11 # acct 9 # acct 1 # acct 200 # [])
     (sample_world sample_healthy) = Inr w'" using sample_withdraw_run by blast
  have "info_key (acct 200) \<noteq> (100 :: pubkey)" "\<forall>i\<in>set []. info_key i \<noteq> (100 :: pubkey)"
    "unpack_reserve sample_rt (sample_world sample_healthy) (acct 6) = Inr sample_reserve6"
    "unpack_obligation sample_rt (sample_world sample_healthy) (acct 10) = Inr sample_healthy"
    by (simp_all add: sample_load sample_load_obligation)
  from withdraw_safe [OF sample_rt_ok this sample_healthy_ok(3) _ run] run show ?thesis by auto
qed

end
