(* ===== verification/Settlement_Correct.thy ===== *)
theory Settlement_Correct
  imports Collateral_Correct
begin

text \<open>
  The properties of the handlers that settle debt (token-lending/program/src/processor.rs):
  repayment and liquidation.
\<close>

section \<open>Repayment\<close>

lemma repaid_loan:
  assumes "obligation_repay a i ob = Inr ob1" "obligation_wf ob"
    and "find_liquidity_in_borrows ob k = Inr (l, i)"
  shows "loan_debt ob k = loan_debt ob1 k + dec a" "k' \<noteq> k \<Longrightarrow> loan_debt ob1 k' = loan_debt ob k'"
    "deposits ob1 = deposits ob" "obligation_wf ob1" "ob_version ob1 = ob_version ob"
    "loan_debt ob k = dec (loan_borrowed_amount_wads l)"
proof -
  note l = obligation_repay_lookup [OF assms] and f = find_liquidity_facts(4) [OF assms(3)]
  show "deposits ob1 = deposits ob" using l by simp
  show "obligation_wf ob1" using obligation_repay_wf [OF assms(1,2)] .
  show "k' \<noteq> k \<Longrightarrow> loan_debt ob1 k' = loan_debt ob k'" using l(1) by (simp add: loan_debt_def)
  show d: "loan_debt ob k = dec (loan_borrowed_amount_wads l)" using f by (simp add: loan_debt_def)
  show "ob_version ob1 = ob_version ob"
    using assms(1) by (auto simp: obligation_repay_def Let_def split: if_splits)
  have "loan_debt ob1 k + dec a = dec (loan_borrowed_amount_wads l)"
  proof (cases "a = loan_borrowed_amount_wads l")
    case False
    obtain l' where "loan_repay a l = Inr l'"
      using l(3) by (cases "decimal_try_sub (loan_borrowed_amount_wads l) a")
        (auto simp: loan_repay_def decimal_err)
    with False l(1) show ?thesis by (simp add: loan_debt_def loan_repay_ok)
  qed (use l(1) in \<open>simp add: loan_debt_def\<close>)
  with d show "loan_debt ob k = loan_debt ob1 k + dec a" by simp
qed

lemma process_repay_cases:
  assumes "process_repay_obligation_liquidity rt pid amount
      (src # dst # ri # oi # mi # ui # ci # tp # rest) w = Inr w'"
    and "unpack_reserve rt w ri = Inr r" "unpack_obligation rt w oi = Inr ob"
  obtains clock l i p liq w1 ob1 w2 where "clock_from rt w ci = Inr clock"
    "owner_of w ri = pid" "owner_of w oi = pid"
    "liq_supply_pubkey (liquidity r) \<noteq> info_key src" "liq_supply_pubkey (liquidity r) = info_key dst"
    "\<not> stale (reserve_last_update r)" "clock = slot (reserve_last_update r)"
    "\<not> stale (ob_last_update ob)" "clock = slot (ob_last_update ob)"
    "find_liquidity_in_borrows ob (info_key ri) = Inr (l, i)"
    "calculate_repay amount (loan_borrowed_amount_wads l) = Inr p" "repay_amount p \<noteq> 0"
    "liquidity_repay (repay_amount p) (settle_amount p) (liquidity r) = Inr liq"
    "pack_reserve rt (r\<lparr> liquidity := liq,
       reserve_last_update := mark_stale (reserve_last_update r) \<rparr>) ri w = Inr w1"
    "obligation_repay (settle_amount p) i ob = Inr ob1"
    "pack_obligation rt (ob1\<lparr> ob_last_update := mark_stale (ob_last_update ob1) \<rparr>) oi w1 = Inr w2"
    "spl_token_transfer rt src dst (repay_amount p) ui [] tp w2 = Inr w'"
proof -
  from assms(1) show thesis
    by (simp add: process_repay_obligation_liquidity_def load_ok assms(2,3) split_paired_Ex)
      (elim exE conjE, rule that, assumption+)
qed

text \<open>
  C5: A repayment settles the debt to one reserve by the amount named, or all of it, on states
  refreshed in the current slot. The reserve's outstanding loans and the obligation's debt fall by
  the same amount, which is charged to the payer rounded up to a whole unit and added to the
  available liquidity; the tokens go to the reserve's supply account. Any account may pay. No other
  debt and no deposit changes, and both accounts are stale afterwards.
\<close>

theorem repay_safe:
  assumes rt: "runtime_ok rt pid" "info_key tp \<noteq> pid"
    and load: "unpack_reserve rt w ri = Inr r" "unpack_obligation rt w oi = Inr ob" and wf: "obligation_wf ob"
    and run: "process_repay_obligation_liquidity rt pid amount
      (src # dst # ri # oi # mi # ui # ci # tp # rest) w = Inr w'"
  shows "clock_from rt w ci = Inr (slot (reserve_last_update r)) \<and> \<not> stale (reserve_last_update r) \<and>
    slot (ob_last_update ob) = slot (reserve_last_update r) \<and> \<not> stale (ob_last_update ob) \<and>
    liq_supply_pubkey (liquidity r) = info_key dst \<and> info_key src \<noteq> info_key dst \<and>
    (\<exists>r' ob' d p w2. unpack_reserve rt w' ri = Inr r' \<and> unpack_obligation rt w' oi = Inr ob' \<and>
      d = (if amount = u64_max then loan_debt ob (info_key ri)
        else min (unat amount * wad) (loan_debt ob (info_key ri))) \<and>
      (\<forall>k. loan_debt ob k = loan_debt ob' k + (if k = info_key ri then d else 0)) \<and>
      dec (borrowed_amount_wads (liquidity r')) = dec (borrowed_amount_wads (liquidity r)) - d \<and>
      unat (available_amount (liquidity r')) = unat (available_amount (liquidity r)) + unat p \<and>
      d \<le> unat p * wad \<and> unat p * wad < d + wad \<and>
      spl_token_transfer rt src dst p ui [] tp w2 = Inr w' \<and>
      deposits ob' = deposits ob \<and> obligation_wf ob' \<and>
      stale (reserve_last_update r') \<and> stale (ob_last_update ob'))"
proof -
  from run load obtain clock l i p liq w1 ob1 w2 where c: "clock_from rt w ci = Inr clock"
    and own: "owner_of w ri = pid" "owner_of w oi = pid"
    and keys: "liq_supply_pubkey (liquidity r) \<noteq> info_key src" "liq_supply_pubkey (liquidity r) = info_key dst"
    and fresh: "\<not> stale (reserve_last_update r)" "clock = slot (reserve_last_update r)"
      "\<not> stale (ob_last_update ob)" "clock = slot (ob_last_update ob)"
    and f: "find_liquidity_in_borrows ob (info_key ri) = Inr (l, i)"
    and p: "calculate_repay amount (loan_borrowed_amount_wads l) = Inr p" "repay_amount p \<noteq> 0"
    and liq: "liquidity_repay (repay_amount p) (settle_amount p) (liquidity r) = Inr liq"
    and w1: "pack_reserve rt (r\<lparr> liquidity := liq,
       reserve_last_update := mark_stale (reserve_last_update r) \<rparr>) ri w = Inr w1"
    and ob1: "obligation_repay (settle_amount p) i ob = Inr ob1"
    and w2: "pack_obligation rt (ob1\<lparr> ob_last_update := mark_stale (ob_last_update ob1) \<rparr>) oi w1 = Inr w2"
    and tr: "spl_token_transfer rt src dst (repay_amount p) ui [] tp w2 = Inr w'"
    by (rule process_repay_cases)
  define r' where "r' = r\<lparr> liquidity := liq, reserve_last_update := mark_stale (reserve_last_update r) \<rparr>"
  define ob' where "ob' = ob1\<lparr> ob_last_update := mark_stale (ob_last_update ob1) \<rparr>"
  note rl = repaid_loan [OF ob1 wf f] and pc = calculate_repay_cases [OF p(1)]
  have st: "unpack_reserve rt w' ri = Inr r' \<and> unpack_obligation rt w' oi = Inr ob'"
    unfolding r'_def ob'_def
    by (rule stored_pair [OF rt(1) own load _ _ w1 w2 token_call_same(1) [OF rt tr]]) (simp_all add: rl(5))
  have debt: "loan_debt ob' k = loan_debt ob1 k" for k by (simp add: ob'_def loan_debt_def loans.lookup_def)
  have q: "dec (borrowed_amount_wads liq) = dec (borrowed_amount_wads (liquidity r)) - dec (settle_amount p)"
    "unat (available_amount liq) = unat (available_amount (liquidity r)) + unat (repay_amount p)"
    using liq by (auto simp: liquidity_repay_ok)
  have "deposits ob' = deposits ob" "obligation_wf ob'" "stale (ob_last_update ob')" "stale (reserve_last_update r')"
    "liquidity r' = liq"
    using rl by (simp_all add: ob'_def r'_def obligation_wf_def)
  with c keys fresh st debt q rl(1,2,6) pc(1) ceil_zero_less [OF pc(2)] tr show ?thesis
    by (intro conjI exI [of _ r'] exI [of _ ob'] exI [of _ "dec (settle_amount p)"] exI [of _ "repay_amount p"]
        exI [of _ w2]) auto
qed

text \<open>Both states stored in the sample world.\<close>

lemma sample_store_pair:
  assumes "reserve_fits r'" "obligation_fits ob'" "obligation_fits ob" "ob_version ob = PROGRAM_VERSION"
  obtains w1 w2 where "pack_reserve sample_rt r' (acct 5) (sample_world ob) = Inr w1"
    "pack_obligation sample_rt ob' (acct 10) w1 = Inr w2"
    "\<And>k. k \<notin> {5, 10} \<Longrightarrow> w2 k = sample_world ob k" "\<And>k. acc_owner (w2 k) = acc_owner (sample_world ob k)"
    "\<And>k. k \<notin> {5, 6, 7, 10} \<Longrightarrow> balance w2 k = 4000"
proof -
  obtain w1 where w1: "pack_reserve sample_rt r' (acct 5) (sample_world ob) = Inr w1"
    and f1: "\<And>k. k \<noteq> 5 \<Longrightarrow> w1 k = sample_world ob k"
      "\<And>k. acc_owner (w1 k) = acc_owner (sample_world ob k)"
      "\<And>j. length (data_of w1 j) = length (data_of (sample_world ob) j)"
    by (rule sample_store_reserve [OF assms(1), of "sample_world ob" "acct 5"]) (simp_all add: sample_load)
  obtain w2 where w2: "pack_obligation sample_rt ob' (acct 10) w1 = Inr w2"
    and f2: "\<And>k. k \<noteq> 10 \<Longrightarrow> w2 k = w1 k" "\<And>k. acc_owner (w2 k) = acc_owner (w1 k)"
    by (rule sample_store_obligation [OF assms(2), of w1 "acct 10"])
      (simp_all add: f1 sample_load_obligation [OF assms(3,4)])
  have "balance w2 k = 4000" if "k \<notin> {5, 6, 7, 10}" for k
    using that f1 f2 by (simp add: balance_def) (simp add: sample_balance [unfolded balance_def])
  with that [OF w1 w2] f1 f2 show thesis by simp
qed

lemma sample_repay_run:
  "\<exists>w'. process_repay_obligation_liquidity sample_rt 100 5
     (acct 41 # acct 22 # acct 5 # acct 10 # acct 7 # acct 42 # acct 1 # acct 200 # [])
     (sample_world sample_healthy) = Inr w'"
proof -
  define liq where "liq = (liquidity sample_reserve)\<lparr> available_amount := 1005,
    borrowed_amount_wads := Decimal 495000000000000000000 \<rparr>"
  define ob1 where "ob1 = sample_healthy\<lparr> borrows := [sample_loan\<lparr> loan_borrowed_amount_wads :=
    Decimal 95000000000000000000 \<rparr>] \<rparr>"
  have fits: "reserve_fits (sample_reserve\<lparr> liquidity := liq,
      reserve_last_update := mark_stale (reserve_last_update sample_reserve) \<rparr>)"
    "obligation_fits (ob1\<lparr> ob_last_update := mark_stale (ob_last_update ob1) \<rparr>)"
    by (simp_all add: reserve_fits_def liq_def sample_reserve_def PROGRAM_VERSION_def obligation_fits_def
        ob1_def sample_healthy_def sample_obligation_def sample_coll_def sample_loan_def)
  obtain w1 w2 where w: "pack_reserve sample_rt (sample_reserve\<lparr> liquidity := liq,
      reserve_last_update := mark_stale (reserve_last_update sample_reserve) \<rparr>) (acct 5)
      (sample_world sample_healthy) = Inr w1"
      "pack_obligation sample_rt (ob1\<lparr> ob_last_update := mark_stale (ob_last_update ob1) \<rparr>) (acct 10) w1 = Inr w2"
    and own: "\<And>k. acc_owner (w2 k) = acc_owner (sample_world sample_healthy k)"
    and bal: "\<And>k. k \<notin> {5, 6, 7, 10} \<Longrightarrow> balance w2 k = 4000"
    by (rule sample_store_pair [OF fits sample_healthy_ok(1,2)]) blast
  obtain w' where w3: "spl_token_transfer sample_rt (acct 41) (acct 22) 5 (acct 42) [] (acct 200) w2 = Inr w'"
    by (rule sample_transfer [of w2 "acct 41" "acct 22" 5 "acct 42" "[]"]) (simp_all add: own bal)
  have f: "find_liquidity_in_borrows sample_healthy 5 = Inr (sample_loan, 0)"
    "loan_borrowed_amount_wads sample_loan \<noteq> decimal_zero"
    "calculate_repay 5 (loan_borrowed_amount_wads sample_loan) =
      Inr \<lparr> settle_amount = Decimal 5000000000000000000, repay_amount = 5 \<rparr>"
    "liquidity_repay 5 (Decimal 5000000000000000000) (liquidity sample_reserve) = Inr liq"
    "obligation_repay (Decimal 5000000000000000000) 0 sample_healthy = Inr ob1"
    by (simp_all add: liq_def ob1_def sample_reserve_def sample_healthy_def sample_obligation_def
        sample_loan_def run del: attempt_Inr_iff)
  show ?thesis
    by (simp add: process_repay_obligation_liquidity_def load_ok sample_load sample_load_obligation
        sample_fields sample_healthy_fields f w [unfolded sample_fields] w3)
qed

theorem repay_safe_witness:
  "\<exists>w' r' ob'. process_repay_obligation_liquidity sample_rt 100 5
     (acct 41 # acct 22 # acct 5 # acct 10 # acct 7 # acct 42 # acct 1 # acct 200 # [])
     (sample_world sample_healthy) = Inr w' \<and>
   unpack_reserve sample_rt w' (acct 5) = Inr r' \<and> unpack_obligation sample_rt w' (acct 10) = Inr ob' \<and>
   unat (available_amount (liquidity r')) = 1005 \<and> loan_debt sample_healthy 5 = loan_debt ob' 5 + 5 * wad"
proof -
  obtain w' where run: "process_repay_obligation_liquidity sample_rt 100 5
     (acct 41 # acct 22 # acct 5 # acct 10 # acct 7 # acct 42 # acct 1 # acct 200 # [])
     (sample_world sample_healthy) = Inr w'" using sample_repay_run by blast
  have tp: "info_key (acct 200) \<noteq> (100 :: pubkey)" by simp
  have debt: "loan_debt sample_healthy 5 = 100 * wad" "unat (available_amount (liquidity sample_reserve)) = 1000"
    by (simp_all add: loan_debt_def loans.lookup_def entry_map_def sample_healthy_def sample_obligation_def
        sample_loan_def sample_reserve_def wad_def)
  from repay_safe [OF sample_rt_ok tp sample_load(1) sample_load_obligation(1) [OF sample_healthy_ok(1,2)]
      sample_healthy_ok(3) run]
  obtain r' ob' d and p :: u64 where st: "unpack_reserve sample_rt w' (acct 5) = Inr r'"
      "unpack_obligation sample_rt w' (acct 10) = Inr ob'"
    and d: "d = (if (5 :: u64) = u64_max then loan_debt sample_healthy (info_key (acct 5))
      else min (unat (5 :: u64) * wad) (loan_debt sample_healthy (info_key (acct 5))))"
    and l: "\<forall>k. loan_debt sample_healthy k = loan_debt ob' k + (if k = info_key (acct 5) then d else 0)"
    and a: "unat (available_amount (liquidity r')) = unat (available_amount (liquidity sample_reserve)) + unat p"
    and p: "d \<le> unat p * wad" "unat p * wad < d + wad"
    by (elim conjE exE) (rule that, assumption+)
  have d5: "d = 5 * wad" using d debt(1) by (simp add: wad_def)
  with p have p5: "unat p = 5" by (simp add: wad_def)
  have "loan_debt sample_healthy 5 = loan_debt ob' 5 + 5 * wad" using spec [OF l, of 5] d5 by simp
  moreover have "unat (available_amount (liquidity r')) = 1005" using a p5 debt(2) by simp
  ultimately show ?thesis using run st by blast
qed

section \<open>Liquidation\<close>

lemma check_liquidation_reserves_ok:
  "check_liquidation_reserves rt pid clock src dst ri rs wi ws mi w = Inr (rr, wr) \<Longrightarrow>
     unpack_reserve rt w ri = Inr rr \<and> unpack_reserve rt w wi = Inr wr \<and> owner_of w ri = pid \<and>
     liq_supply_pubkey (liquidity rr) = info_key rs \<and> coll_supply_pubkey (collateral wr) = info_key ws \<and>
     liq_supply_pubkey (liquidity rr) \<noteq> info_key src \<and> coll_supply_pubkey (collateral wr) \<noteq> info_key dst \<and>
     \<not> stale (reserve_last_update rr) \<and> clock = slot (reserve_last_update rr) \<and>
     \<not> stale (reserve_last_update wr) \<and> clock = slot (reserve_last_update wr)"
  by (auto simp: check_liquidation_reserves_def load_ok)

lemma check_unhealthy_ok:
  "check_unhealthy rt pid clock mi oi w = Inr ob \<Longrightarrow>
     unpack_obligation rt w oi = Inr ob \<and> owner_of w oi = pid \<and>
     \<not> stale (ob_last_update ob) \<and> clock = slot (ob_last_update ob) \<and>
     dec (unhealthy_borrow_value ob) \<le> dec (borrowed_value ob)"
  by (auto simp: check_unhealthy_def load_ok not_less)

lemma process_liquidate_cases:
  assumes "process_liquidate_obligation rt pid amount
      (src # dst # ri # rs # wi # ws # oi # mi # ai # ui # ci # tp # rest) w = Inr w'"
  obtains clock m rr wr ob la ca x y w2 w3 w4 where "clock_from rt w ci = Inr clock"
    "check_liquidation_reserves rt pid clock src dst ri rs wi ws mi w = Inr (rr, wr)"
    "check_unhealthy rt pid clock mi oi w = Inr ob"
    "find_liquidity_in_borrows ob (info_key ri) = Inr la"
    "find_collateral_in_deposits ob (info_key wi) = Inr ca"
    "liquidate_states rt amount rr wr ob la ca ri oi w = Inr (x, y, w2)"
    "spl_token_transfer rt src rs x ui [] tp w2 = Inr w3"
    "spl_token_transfer rt ws dst y ai (authority_signer_seeds mi m) tp w3 = Inr w4"
    "with_staking_accounts rt rest (attempt (unpack_reserve rt w4 wi) (\<lambda>r.
       Inr (deposit_staking_pool (config r)))) w4
       (\<lambda>sa p sp. withdraw_from_staking_program rt pid y mi ai ci sa p sp (ob_owner ob) w4) = Inr w'"
proof -
  from assms show thesis
    by (simp add: process_liquidate_obligation_def load_ok [unfolded load_reserve_ok] split_paired_Ex)
      (elim exE conjE, rule that, (simp only: prod.collapse | assumption)+)
qed

lemma liquidate_states_cases:
  assumes "liquidate_states rt amount rr wr ob la ca ri oi w = Inr (x, y, w2)"
  obtains q liq w1 ob1 ob2 where "calculate_liquidation wr amount ob (fst la) (fst ca) = Inr q"
    "liq_repay_amount q = x" "liq_withdraw_amount q = y" "x \<noteq> 0" "y \<noteq> 0"
    "liquidity_repay x (liq_settle_amount q) (liquidity rr) = Inr liq"
    "pack_reserve rt (rr\<lparr> liquidity := liq,
       reserve_last_update := mark_stale (reserve_last_update rr) \<rparr>) ri w = Inr w1"
    "obligation_repay (liq_settle_amount q) (snd la) ob = Inr ob1"
    "obligation_withdraw y (snd ca) ob1 = Inr ob2"
    "pack_obligation rt (ob2\<lparr> ob_last_update := mark_stale (ob_last_update ob2) \<rparr>) oi w1 = Inr w2"
  using assms by (auto simp: liquidate_states_def)

text \<open>What the states of a liquidation are after the obligation repaid and then gave up collateral.\<close>

lemma liquidated_obligation:
  assumes "obligation_repay a (snd la) ob = Inr ob1" "obligation_withdraw n (snd ca) ob1 = Inr ob2"
    and wf: "obligation_wf ob" and "find_liquidity_in_borrows ob k = Inr la" "find_collateral_in_deposits ob j = Inr ca"
    and ob': "ob' = ob2\<lparr> ob_last_update := u \<rparr>"
  shows "loan_debt ob k' = loan_debt ob' k' + (if k' = k then dec a else 0)"
    "coll_amount ob j' = coll_amount ob' j' + (if j' = j then unat n else 0)"
    "obligation_wf ob'" "ob_version ob' = ob_version ob"
proof -
  obtain l i c l' where la: "la = (l, i)" and ca: "ca = (c, l')" by (cases la, cases ca)
  note r = repaid_loan [OF assms(1) [unfolded la snd_conv] wf assms(4) [unfolded la]]
  have f: "find_collateral_in_deposits ob1 j = Inr (c, l')"
    using assms(5) r(3) by (simp add: ca find_collateral_in_deposits_def find_collateral_index_in_deposits_def)
  note wd = withdrawn_collateral [OF assms(2) [unfolded ca snd_conv] r(4) f]
  have same: "loan_debt ob' = loan_debt ob1" "coll_amount ob' = coll_amount ob2" "coll_amount ob1 = coll_amount ob"
    using wd(3) r(3) by (auto simp: ob' loan_debt_def coll_amount_def loans.lookup_def deps.lookup_def)
  show "loan_debt ob k' = loan_debt ob' k' + (if k' = k then dec a else 0)" using r(1,2) by (simp add: same)
  show "coll_amount ob j' = coll_amount ob' j' + (if j' = j then unat n else 0)"
    using wd(1,2) by (simp add: same)
  show "obligation_wf ob'" using wd(4) by (simp add: ob' obligation_wf_def)
  have "ob_version ob2 = ob_version ob1"
    using assms(2) by (auto simp: obligation_withdraw_def Let_def split: if_splits)
  then show "ob_version ob' = ob_version ob" using r(5) by (simp add: ob')
qed

text \<open>
  C3: Only an obligation that reached its unhealthy value is liquidated, on an obligation and two
  reserves refreshed in the current slot. The amounts are those of \<open>calculate_liquidation\<close>, both
  positive: the liquidator pays the repayment into the supply account of the repaid reserve and
  receives the withdrawn collateral from the supply account of the other one. The debt to the one
  reserve falls by the settled amount and the collateral of the other by the amount withdrawn, in
  the obligation as in the reserve's outstanding loans; nothing else of the obligation's amounts
  changes, and it is stale afterwards.
\<close>

theorem liquidate_safe:
  assumes rt: "runtime_ok rt pid" "info_key tp \<noteq> pid" "\<forall>i\<in>set rest. info_key i \<noteq> pid"
    and load: "unpack_reserve rt w ri = Inr rr" "unpack_reserve rt w wi = Inr wr"
      "unpack_obligation rt w oi = Inr ob" and wf: "obligation_wf ob"
    and run: "process_liquidate_obligation rt pid amount
      (src # dst # ri # rs # wi # ws # oi # mi # ai # ui # ci # tp # rest) w = Inr w'"
  shows "clock_from rt w ci = Inr (slot (ob_last_update ob)) \<and> \<not> stale (ob_last_update ob) \<and>
    \<not> stale (reserve_last_update rr) \<and> slot (reserve_last_update rr) = slot (ob_last_update ob) \<and>
    \<not> stale (reserve_last_update wr) \<and> slot (reserve_last_update wr) = slot (ob_last_update ob) \<and>
    unhealthy_borrow_value ob \<le> borrowed_value ob \<and>
    liq_supply_pubkey (liquidity rr) = info_key rs \<and> coll_supply_pubkey (collateral wr) = info_key ws \<and>
    (\<exists>loan c q rr' ob' seeds w2 w3 w4.
      loans.lookup ob (info_key ri) = Some loan \<and> deps.lookup ob (info_key wi) = Some c \<and>
      calculate_liquidation wr amount ob loan c = Inr q \<and> liq_repay_amount q \<noteq> 0 \<and> liq_withdraw_amount q \<noteq> 0 \<and>
      unpack_reserve rt w' ri = Inr rr' \<and> unpack_obligation rt w' oi = Inr ob' \<and>
      dec (borrowed_amount_wads (liquidity rr')) =
        dec (borrowed_amount_wads (liquidity rr)) - dec (liq_settle_amount q) \<and>
      unat (available_amount (liquidity rr')) = unat (available_amount (liquidity rr)) + unat (liq_repay_amount q) \<and>
      (\<forall>k. loan_debt ob k = loan_debt ob' k + (if k = info_key ri then dec (liq_settle_amount q) else 0)) \<and>
      (\<forall>k. coll_amount ob k = coll_amount ob' k + (if k = info_key wi then unat (liq_withdraw_amount q) else 0)) \<and>
      spl_token_transfer rt src rs (liq_repay_amount q) ui [] tp w2 = Inr w3 \<and>
      spl_token_transfer rt ws dst (liq_withdraw_amount q) ai seeds tp w3 = Inr w4 \<and>
      obligation_wf ob' \<and> stale (ob_last_update ob') \<and> stale (reserve_last_update rr'))"
proof -
  from run obtain clock m rr2 wr2 ob2 la ca x y w2 w3 w4 where c: "clock_from rt w ci = Inr clock"
    and res: "check_liquidation_reserves rt pid clock src dst ri rs wi ws mi w = Inr (rr2, wr2)"
    and un: "check_unhealthy rt pid clock mi oi w = Inr ob2"
    and la: "find_liquidity_in_borrows ob2 (info_key ri) = Inr la"
    and ca: "find_collateral_in_deposits ob2 (info_key wi) = Inr ca"
    and st: "liquidate_states rt amount rr2 wr2 ob2 la ca ri oi w = Inr (x, y, w2)"
    and t: "spl_token_transfer rt src rs x ui [] tp w2 = Inr w3"
      "spl_token_transfer rt ws dst y ai (authority_signer_seeds mi m) tp w3 = Inr w4"
    and sk: "with_staking_accounts rt rest (attempt (unpack_reserve rt w4 wi) (\<lambda>r.
       Inr (deposit_staking_pool (config r)))) w4
       (\<lambda>sa p sp. withdraw_from_staking_program rt pid y mi ai ci sa p sp (ob_owner ob2) w4) = Inr w'"
    by (rule process_liquidate_cases)
  note res = check_liquidation_reserves_ok [OF res] and un = check_unhealthy_ok [OF un]
  have eq: "rr2 = rr" "wr2 = wr" "ob2 = ob" using res un load by auto
  note st = st [unfolded eq] and la = la [unfolded eq] and ca = ca [unfolded eq]
  from st obtain q liq w1 ob1 ob3 where q: "calculate_liquidation wr amount ob (fst la) (fst ca) = Inr q"
    "liq_repay_amount q = x" "liq_withdraw_amount q = y" "x \<noteq> 0" "y \<noteq> 0"
    and liq: "liquidity_repay x (liq_settle_amount q) (liquidity rr) = Inr liq"
    and w1: "pack_reserve rt (rr\<lparr> liquidity := liq,
       reserve_last_update := mark_stale (reserve_last_update rr) \<rparr>) ri w = Inr w1"
    and o1: "obligation_repay (liq_settle_amount q) (snd la) ob = Inr ob1"
    and o2: "obligation_withdraw y (snd ca) ob1 = Inr ob3"
    and w2: "pack_obligation rt (ob3\<lparr> ob_last_update := mark_stale (ob_last_update ob3) \<rparr>) oi w1 = Inr w2"
    by (rule liquidate_states_cases)
  define rr' where "rr' = rr\<lparr> liquidity := liq, reserve_last_update := mark_stale (reserve_last_update rr) \<rparr>"
  define ob' where "ob' = ob3\<lparr> ob_last_update := mark_stale (ob_last_update ob3) \<rparr>"
  note new = liquidated_obligation [OF o1 o2 wf la ca ob'_def]
  have "same_for pid w2 w3" using t(1) by (rule token_call_same(1) [OF rt(1,2)])
  also have "same_for pid w3 w4" using t(2) by (rule token_call_same(1) [OF rt(1,2)])
  also have "same_for pid w4 w'" using sk by (rule staking_call_same(1) [OF rt(1,3)])
  finally have same: "same_for pid w2 w'" .
  have stored: "unpack_reserve rt w' ri = Inr rr' \<and> unpack_obligation rt w' oi = Inr ob'"
    unfolding rr'_def ob'_def
    by (rule stored_pair [OF rt(1) _ _ load(1,3) _ _ w1 w2 same])
      (use res un new(4) in \<open>simp_all add: ob'_def\<close>)
  have found: "loans.lookup ob (info_key ri) = Some (fst la)" "deps.lookup ob (info_key wi) = Some (fst ca)"
    using find_liquidity_facts(4) [of ob "info_key ri" "fst la" "snd la"]
      find_collateral_facts(4) [of ob "info_key wi" "fst ca" "snd ca"] la ca by simp_all
  have amounts: "dec (borrowed_amount_wads liq) = dec (borrowed_amount_wads (liquidity rr)) - dec (liq_settle_amount q)"
    "unat (available_amount liq) = unat (available_amount (liquidity rr)) + unat x"
    using liq by (auto simp: liquidity_repay_ok)
  have "liquidity rr' = liq" "stale (ob_last_update ob')" "stale (reserve_last_update rr')"
    by (simp_all add: rr'_def ob'_def)
  with c res un eq t stored found amounts new q show ?thesis
    by (intro conjI exI [of _ "fst la"] exI [of _ "fst ca"] exI [of _ q] exI [of _ rr'] exI [of _ ob']
        exI [of _ "authority_signer_seeds mi m"] exI [of _ w2] exI [of _ w3] exI [of _ w4]) auto
qed

lemma sample_obligation_ok:
  "obligation_fits sample_obligation" "ob_version sample_obligation = PROGRAM_VERSION"
  "obligation_wf sample_obligation"
  by (rule sample_obligation_fits, simp_all add: obligation_wf_def sample_obligation_def sample_coll_def
      sample_loan_def PROGRAM_VERSION_def MAX_OBLIGATION_RESERVES_def)

lemma sample_liquidate_run:
  "\<exists>w'. process_liquidate_obligation sample_rt 100 u64_max
     (acct 41 # acct 42 # acct 5 # acct 22 # acct 6 # acct 34 # acct 10 # acct 7 # acct 11 # acct 43 #
      acct 1 # acct 200 # []) (sample_world sample_obligation) = Inr w'"
proof -
  define liq where "liq = (liquidity sample_reserve)\<lparr> available_amount := 1050,
    borrowed_amount_wads := Decimal 450000000000000000000 \<rparr>"
  define ob1 where "ob1 = sample_obligation\<lparr> borrows := [sample_loan\<lparr> loan_borrowed_amount_wads :=
    Decimal 50000000000000000000 \<rparr>] \<rparr>"
  define ob2 where "ob2 = ob1\<lparr> deposits := [sample_coll\<lparr> deposited_amount := 650 \<rparr>] \<rparr>"
  have fits: "reserve_fits (sample_reserve\<lparr> liquidity := liq,
      reserve_last_update := mark_stale (reserve_last_update sample_reserve) \<rparr>)"
    "obligation_fits (ob2\<lparr> ob_last_update := mark_stale (ob_last_update ob2) \<rparr>)"
    by (simp_all add: reserve_fits_def liq_def sample_reserve_def PROGRAM_VERSION_def obligation_fits_def
        ob1_def ob2_def sample_obligation_def sample_coll_def sample_loan_def)
  obtain w1 w2 where w: "pack_reserve sample_rt (sample_reserve\<lparr> liquidity := liq,
      reserve_last_update := mark_stale (reserve_last_update sample_reserve) \<rparr>) (acct 5)
      (sample_world sample_obligation) = Inr w1"
      "pack_obligation sample_rt (ob2\<lparr> ob_last_update := mark_stale (ob_last_update ob2) \<rparr>) (acct 10) w1 = Inr w2"
    and frame: "\<And>k. k \<notin> {5, 10} \<Longrightarrow> w2 k = sample_world sample_obligation k"
    and own: "\<And>k. acc_owner (w2 k) = acc_owner (sample_world sample_obligation k)"
    and bal: "\<And>k. k \<notin> {5, 6, 7, 10} \<Longrightarrow> balance w2 k = 4000"
    by (rule sample_store_pair [OF fits sample_obligation_ok(1,2)]) blast
  obtain w3 where w3: "spl_token_transfer sample_rt (acct 41) (acct 22) 50 (acct 43) [] (acct 200) w2 = Inr w3"
    and f3: "\<And>k. acc_owner (w3 k) = acc_owner (w2 k)" "\<And>k. k \<noteq> 41 \<Longrightarrow> k \<noteq> 22 \<Longrightarrow> w3 k = w2 k"
    by (rule sample_transfer [of w2 "acct 41" "acct 22" 50 "acct 43" "[]"]) (simp_all add: own bal)
  have bal3: "balance w3 34 = 4000" using f3(2) [of 34] bal [of 34] by (simp add: balance_def)
  obtain w4 where w4: "spl_token_transfer sample_rt (acct 34) (acct 42) 350 (acct 11)
      (authority_signer_seeds (acct 7) sample_market) (acct 200) w3 = Inr w4"
    and f4: "\<And>k. k \<noteq> 34 \<Longrightarrow> k \<noteq> 42 \<Longrightarrow> w4 k = w3 k"
    by (rule sample_transfer [of w3 "acct 34" "acct 42" 350 "acct 11" "authority_signer_seeds (acct 7) sample_market"])
      (simp_all add: own f3 bal3)
  have "w4 6 = sample_world sample_obligation 6" using f4 [of 6] f3(2) [of 6] frame [of 6] by simp
  then have r6: "unpack_reserve sample_rt w4 (acct 6) = Inr sample_reserve6"
    using sample_load(2) [of sample_obligation] by (simp add: unpack_reserve_def data_of_def)
  have f: "find_liquidity_in_borrows sample_obligation 5 = Inr (sample_loan, 0)"
    "find_collateral_in_deposits sample_obligation 6 = Inr (sample_coll, 0)"
    "loan_market_value sample_loan \<noteq> decimal_zero" "coll_market_value sample_coll \<noteq> decimal_zero"
    "\<not> borrowed_value sample_obligation < unhealthy_borrow_value sample_obligation"
    "calculate_liquidation sample_reserve6 u64_max sample_obligation sample_loan sample_coll =
     Inr \<lparr> liq_settle_amount = Decimal 50000000000000000000, liq_repay_amount = 50,
       liq_withdraw_amount = 350 \<rparr>"
    "liquidity_repay 50 (Decimal 50000000000000000000) (liquidity sample_reserve) = Inr liq"
    "obligation_repay (Decimal 50000000000000000000) 0 sample_obligation = Inr ob1"
    "obligation_withdraw 350 0 ob1 = Inr ob2"
    by (simp_all add: liq_def ob1_def ob2_def sample_reserve_def sample_reserve6_def sample_obligation_def
        sample_loan_def sample_coll_def run del: attempt_Inr_iff)
  have st: "liquidate_states sample_rt u64_max sample_reserve sample_reserve6 sample_obligation
      (sample_loan, 0) (sample_coll, 0) (acct 5) (acct 10) (sample_world sample_obligation) = Inr (50, 350, w2)"
    by (simp add: liquidate_states_def f w)
  have "check_liquidation_reserves sample_rt 100 10 (acct 41) (acct 42) (acct 5) (acct 22) (acct 6) (acct 34)
      (acct 7) (sample_world sample_obligation) = Inr (sample_reserve, sample_reserve6)"
    "check_unhealthy sample_rt 100 10 (acct 7) (acct 10) (sample_world sample_obligation) = Inr sample_obligation"
    by (simp_all add: check_liquidation_reserves_def check_unhealthy_def load_ok sample_load
        sample_load_obligation [OF sample_obligation_ok(1,2)] sample_fields f(5) [unfolded less_decimal_dec])
  then show ?thesis
    by (simp add: process_liquidate_obligation_def load_ok sample_load sample_fields f(1-4) st w3 w4 r6
        with_staking_accounts_def)
qed

theorem liquidate_safe_witness:
  "\<exists>w' ob'. process_liquidate_obligation sample_rt 100 u64_max
     (acct 41 # acct 42 # acct 5 # acct 22 # acct 6 # acct 34 # acct 10 # acct 7 # acct 11 # acct 43 #
      acct 1 # acct 200 # []) (sample_world sample_obligation) = Inr w' \<and>
   unpack_obligation sample_rt w' (acct 10) = Inr ob' \<and> coll_amount ob' 6 < coll_amount sample_obligation 6"
proof -
  obtain w' where run: "process_liquidate_obligation sample_rt 100 u64_max
     (acct 41 # acct 42 # acct 5 # acct 22 # acct 6 # acct 34 # acct 10 # acct 7 # acct 11 # acct 43 #
      acct 1 # acct 200 # []) (sample_world sample_obligation) = Inr w'" using sample_liquidate_run by blast
  have tp: "info_key (acct 200) \<noteq> (100 :: pubkey)" "\<forall>i\<in>set []. info_key i \<noteq> (100 :: pubkey)" by simp_all
  from liquidate_safe [OF sample_rt_ok tp sample_load(1,2) sample_load_obligation(1) [OF sample_obligation_ok(1,2)]
      sample_obligation_ok(3) run]
  obtain q :: calculate_liquidation_result and ob' where "unpack_obligation sample_rt w' (acct 10) = Inr ob'" "liq_withdraw_amount q \<noteq> 0"
    "\<forall>k. coll_amount sample_obligation k = coll_amount ob' k +
       (if k = info_key (acct 6) then unat (liq_withdraw_amount q) else 0)"
    by (elim conjE exE) (rule that, assumption+)
  moreover from this(3) [THEN spec, of 6] this(2) have "coll_amount ob' 6 < coll_amount sample_obligation 6"
    by (simp add: unat_gt_0)
  ultimately show ?thesis using run by blast
qed

end
