(* ===== verification/Lending_Invariant.thy ===== *)
theory Lending_Invariant
  imports Settlement_Correct
begin

text \<open>
  The invariant of all accounts the lending program owns (token-lending/program/src/processor.rs):
  every reserve has a valid configuration and every obligation is well formed. It is kept by every
  instruction and by whatever other programs do, so it holds in every world that can be reached.
\<close>

section \<open>Configurations\<close>

definition config_valid :: "reserve_config \<Rightarrow> bool" where
  "config_valid c \<longleftrightarrow> optimal_utilization_rate c \<le> 100 \<and> loan_to_value_ratio c < 100 \<and>
     liquidation_bonus c \<le> 100 \<and> loan_to_value_ratio c < liquidation_threshold c \<and>
     liquidation_threshold c \<le> 100 \<and> min_borrow_rate c \<le> optimal_borrow_rate c \<and>
     optimal_borrow_rate c \<le> max_borrow_rate c \<and> borrow_fee_wad (config_fees c) < WAD \<and>
     host_fee_percentage (config_fees c) \<le> 100"

lemma validate_reserve_config_iff:
  "validate_reserve_config c = (if config_valid c then Inr () else Inl (lending InvalidConfig))"
  by (simp add: validate_reserve_config_def config_valid_def refuse_if_def not_less not_le
      del: attempt_Inr_iff)

section \<open>The invariant\<close>

definition good_reserve :: "reserve \<Rightarrow> bool" where
  "good_reserve r \<longleftrightarrow> reserve_version r = PROGRAM_VERSION \<and> config_valid (config r)"

definition good_obligation :: "obligation \<Rightarrow> bool" where
  "good_obligation ob \<longleftrightarrow> ob_version ob = PROGRAM_VERSION \<and> obligation_wf ob"

definition sound_world :: "solana \<Rightarrow> pubkey \<Rightarrow> world \<Rightarrow> bool" where
  "sound_world rt pid w \<longleftrightarrow> (\<forall>i. owner_of w i = pid \<longrightarrow>
     (\<forall>r. unpack_reserve rt w i = Inr r \<longrightarrow> good_reserve r) \<and>
     (\<forall>ob. unpack_obligation rt w i = Inr ob \<longrightarrow> good_obligation ob))"

lemma sound_world_reserve:
  "sound_world rt pid w \<Longrightarrow> unpack_reserve rt w i = Inr r \<Longrightarrow> owner_of w i = pid \<Longrightarrow> good_reserve r"
  by (simp add: sound_world_def)

lemma sound_world_obligation:
  "sound_world rt pid w \<Longrightarrow> unpack_obligation rt w i = Inr ob \<Longrightarrow> owner_of w i = pid \<Longrightarrow> good_obligation ob"
  by (simp add: sound_world_def)

text \<open>
  Documented behaviour of the runtime: another program leaves the data of this program's accounts
  as it is, and an account that becomes this program's has zeroed data.
\<close>

definition foreign :: "pubkey \<Rightarrow> world \<Rightarrow> world \<Rightarrow> bool" where
  "foreign pid w w' \<longleftrightarrow> (\<forall>k. acc_owner (w' k) = pid \<longrightarrow>
     acc_owner (w k) = pid \<and> acc_data (w' k) = acc_data (w k) \<or> set (acc_data (w' k)) \<subseteq> {0})"

definition guarded :: "solana \<Rightarrow> pubkey \<Rightarrow> bool" where
  "guarded rt pid \<longleftrightarrow> (\<forall>seeds ix infos w w'. ix_program_id ix \<noteq> pid \<longrightarrow>
     invoke_program rt seeds ix infos w = Inr w' \<longrightarrow> foreign pid w w')"

lemma zero_version:
  assumes "set bs \<subseteq> {0}"
  shows "reserve_read bs = Inr r \<Longrightarrow> reserve_version r = 0"
    and "obligation_read bs = Inr ob \<Longrightarrow> ob_version ob = 0"
proof -
  from assms have "take 1 bs = [] \<or> take 1 bs = [0]" by (cases bs) auto
  then have v: "u8_from (take 1 bs) = 0" by (auto simp: u8_from_def from_le_bytes_def)
  show "reserve_read bs = Inr r \<Longrightarrow> reserve_version r = 0"
    using v by (auto simp: reserve_read_def reserve_layout_def split: if_splits)
  show "obligation_read bs = Inr ob \<Longrightarrow> ob_version ob = 0"
    using v by (auto simp: obligation_read_def split: if_splits)
qed

lemma sound_foreign:
  assumes pc: "pack_checks rt" and s: "sound_world rt pid w" and f: "foreign pid w w'"
  shows "sound_world rt pid w'"
  unfolding sound_world_def
proof (intro allI impI conjI)
  fix i assume own: "owner_of w' i = pid"
  with f consider "owner_of w i = pid" "data_of w' i = data_of w i" | "set (data_of w' i) \<subseteq> {0}"
    unfolding foreign_def owner_of_def data_of_def by blast
  note c = this
  show "good_reserve r" if r: "unpack_reserve rt w' i = Inr r" for r
  proof (cases rule: c)
    case 1
    then show ?thesis using sound_world_reserve [OF s] r by (simp add: unpack_reserve_def)
  next
    case 2
    have "reserve_read (data_of w' i) = Inr r"
      using r by (auto simp: unpack_reserve_def unpack_checked_ok [OF pc] reserve_unpack_from_slice_def read_array_def)
    with zero_version(1) [OF 2] load_reserve_version [OF pc r] show ?thesis by (simp add: PROGRAM_VERSION_def)
  qed
  show "good_obligation ob" if ob: "unpack_obligation rt w' i = Inr ob" for ob
  proof (cases rule: c)
    case 1
    then show ?thesis using sound_world_obligation [OF s] ob by (simp add: unpack_obligation_def)
  next
    case 2
    have "obligation_read (data_of w' i) = Inr ob"
      using ob by (auto simp: unpack_obligation_def unpack_checked_ok [OF pc] obligation_unpack_from_slice_def read_array_def)
    with zero_version(2) [OF 2] load_obligation_version [OF pc ob] show ?thesis by (simp add: PROGRAM_VERSION_def)
  qed
qed

text \<open>Writing a good state keeps the invariant; the lengths keep the kinds apart.\<close>

lemma sound_pack_reserve:
  assumes pc: "pack_checks rt" and s: "sound_world rt pid w" and r: "good_reserve r"
    and w': "pack_reserve rt r i w = Inr w'"
  shows "sound_world rt pid w'"
  unfolding sound_world_def
proof (intro allI impI)
  fix j assume own: "owner_of w' j = pid"
  have own_w: "owner_of w j = pid" using own pack_owner(1) [OF w'] by simp
  show "(\<forall>r. unpack_reserve rt w' j = Inr r \<longrightarrow> good_reserve r) \<and>
      (\<forall>ob. unpack_obligation rt w' j = Inr ob \<longrightarrow> good_obligation ob)"
  proof (cases "info_key j = info_key i")
    case True
    have "unpack_reserve rt w' i = Inr r" using stored_reserve_read [OF pc _ w'] r by (simp add: good_reserve_def)
    moreover have "data_of w' j = data_of w' i" using True by (simp add: data_of_def)
    ultimately have j: "unpack_reserve rt w' j = Inr r" by (simp add: unpack_reserve_def)
    moreover have "unpack_obligation rt w' j \<noteq> Inr ob" for ob
      using different_kinds(1) [OF pc j, of j] by auto
    ultimately show ?thesis using r by auto
  next
    case False
    with s own_w pack_other_load(1,3) [OF False w'] show ?thesis by (simp add: sound_world_def)
  qed
qed

lemma sound_pack_obligation:
  assumes pc: "pack_checks rt" and s: "sound_world rt pid w" and ob: "good_obligation ob"
    and w': "pack_obligation rt ob i w = Inr w'"
  shows "sound_world rt pid w'"
  unfolding sound_world_def
proof (intro allI impI)
  fix j assume own: "owner_of w' j = pid"
  have own_w: "owner_of w j = pid" using own pack_owner(2) [OF w'] by simp
  show "(\<forall>r. unpack_reserve rt w' j = Inr r \<longrightarrow> good_reserve r) \<and>
      (\<forall>ob. unpack_obligation rt w' j = Inr ob \<longrightarrow> good_obligation ob)"
  proof (cases "info_key j = info_key i")
    case True
    have "unpack_obligation rt w' i = Inr ob"
      using stored_obligation_read [OF pc _ w'] ob by (simp add: good_obligation_def)
    moreover have "data_of w' j = data_of w' i" using True by (simp add: data_of_def)
    ultimately have j: "unpack_obligation rt w' j = Inr ob" by (simp add: unpack_obligation_def)
    moreover have "unpack_reserve rt w' j \<noteq> Inr r" for r
      using different_kinds(1) [OF pc _ j, of j] by auto
    ultimately show ?thesis using ob by auto
  next
    case False
    have "unpack_obligation rt w' j = unpack_obligation rt w j"
      using pack_other(2) [OF False w'] by (simp add: unpack_obligation_def)
    with s own_w pack_other_load(2) [OF False w'] show ?thesis by (simp add: sound_world_def)
  qed
qed

lemma sound_pack_market:
  assumes pc: "pack_checks rt" and s: "sound_world rt pid w" and m: "market_version m = PROGRAM_VERSION"
    and w': "pack_market rt m i w = Inr w'"
  shows "sound_world rt pid w'"
  unfolding sound_world_def
proof (intro allI impI)
  fix j assume own: "owner_of w' j = pid"
  have own_w: "owner_of w j = pid" using own pack_owner(3) [OF w'] by simp
  show "(\<forall>r. unpack_reserve rt w' j = Inr r \<longrightarrow> good_reserve r) \<and>
      (\<forall>ob. unpack_obligation rt w' j = Inr ob \<longrightarrow> good_obligation ob)"
  proof (cases "info_key j = info_key i")
    case True
    have "unpack_market rt w' i = Inr m" using stored_market_read [OF pc m w'] .
    moreover have "data_of w' j = data_of w' i" using True by (simp add: data_of_def)
    ultimately have j: "unpack_market rt w' j = Inr m" by (simp add: unpack_market_def)
    have "unpack_reserve rt w' j \<noteq> Inr r" "unpack_obligation rt w' j \<noteq> Inr ob" for r ob
      using different_kinds(2,3) [OF pc _ j, of j] by auto
    then show ?thesis by simp
  next
    case False
    have "unpack_reserve rt w' j = unpack_reserve rt w j" "unpack_obligation rt w' j = unpack_obligation rt w j"
      using pack_other(3) [OF False w'] by (simp_all add: unpack_state_defs)
    with s own_w show ?thesis by (simp add: sound_world_def)
  qed
qed

section \<open>Results that keep a property\<close>

definition keeps :: "('a \<Rightarrow> bool) \<Rightarrow> 'a result \<Rightarrow> bool" where
  "keeps P m \<longleftrightarrow> (\<forall>x. m = Inr x \<longrightarrow> P x)"

lemma keepsD: "keeps P m \<Longrightarrow> m = Inr x \<Longrightarrow> P x"
  by (simp add: keeps_def)

lemma keeps_bind: "keeps Q m \<Longrightarrow> (\<And>x. m = Inr x \<Longrightarrow> Q x \<Longrightarrow> keeps P (f x)) \<Longrightarrow> keeps P (attempt m f)"
  by (auto simp: keeps_def)

lemma keeps_pure: "(\<And>x. m = Inr x \<Longrightarrow> keeps P (f x)) \<Longrightarrow> keeps P (attempt m f)"
  by (auto simp: keeps_def)

lemma keeps_pair: "(\<And>a b. p = (a, b) \<Longrightarrow> keeps P (f a b)) \<Longrightarrow> keeps P (case p of (a, b) \<Rightarrow> f a b)"
  by (cases p) simp

lemma keeps_if: "(b \<Longrightarrow> keeps P x) \<Longrightarrow> (\<not> b \<Longrightarrow> keeps P y) \<Longrightarrow> keeps P (if b then x else y)"
  by simp

lemma keeps_Inr: "P x \<Longrightarrow> keeps P (Inr x)"
  by (simp add: keeps_def)

lemma keeps_Inl: "keeps P (Inl e)"
  by (simp add: keeps_def)

end
