(* ===== verification/Flash_Correct.thy ===== *)
theory Flash_Correct
  imports Sample_World
begin

text \<open>
  The property of flash loans (token-lending/program/src/processor.rs): the receiver program may do
  anything a program may do, and the reserve has its tokens back with the fee.
\<close>

lemma process_flash_cases:
  assumes "process_flash_loan rt pid amount
      (src # dst # ri # fi # hi # mi # ai # tp # rp # rest) w = Inr w'"
    and "unpack_reserve rt w ri = Inr r"
  obtains m where "pid \<noteq> info_key rp" "unpack_market rt w mi = Inr m" "owner_of w ri = pid"
    "liq_supply_pubkey (liquidity r) = info_key src" "fee_receiver (liquidity r) = info_key fi"
    "flash_loan_lend rt amount r src dst ri fi hi ai (authority_signer_seeds mi m) tp rp rest w = Inr w'"
proof -
  from assms(1) show thesis
    by (simp add: process_flash_loan_def load_ok assms(2)) (elim exE conjE, rule that, assumption+)
qed

text \<open>The reserve lends and takes back the same amount: its record ends as it began.\<close>

lemma lend_and_take_back:
  assumes "liquidity_borrow (decimal_from_u64 n) l = Inr l1"
    and "liquidity_repay n (decimal_from_u64 n) l1 = Inr l2"
  shows "l2 = l" "unat n \<le> unat (available_amount l)"
proof -
  from assms(1) have b: "l1 = l\<lparr> available_amount := available_amount l1, borrowed_amount_wads := borrowed_amount_wads l1 \<rparr>"
    "unat (available_amount l) = unat (available_amount l1) + unat n"
    "dec (borrowed_amount_wads l1) = dec (borrowed_amount_wads l) + unat n * wad"
    by (auto simp: liquidity_borrow_ok)
  from assms(2) have p: "l2 = l1\<lparr> available_amount := available_amount l2, borrowed_amount_wads := borrowed_amount_wads l2 \<rparr>"
    "unat (available_amount l2) = unat (available_amount l1) + unat n"
    "dec (borrowed_amount_wads l2) = dec (borrowed_amount_wads l1) - unat n * wad"
    by (auto simp: liquidity_repay_ok)
  have "available_amount l2 = available_amount l" "borrowed_amount_wads l2 = borrowed_amount_wads l"
    using b(2,3) p(2,3) by (simp_all add: word_unat_eq_iff dec_eq_iff)
  moreover from p(1) b(1) have "l2 = l\<lparr> available_amount := available_amount l2, borrowed_amount_wads := borrowed_amount_wads l2 \<rparr>"
    by (cases l, cases l1, cases l2) simp
  ultimately show "l2 = l" by (cases l) simp
  show "unat n \<le> unat (available_amount l)" using b(2) by simp
qed

lemma flash_round:
  assumes rt: "runtime_ok rt pid" "info_key tp \<noteq> pid" "pid \<noteq> info_key rp"
    and r: "unpack_reserve rt w ri = Inr r" "owner_of w ri = pid"
    and run: "flash_loan_round rt n due r src dst ri ai seeds tp rp rest w = Inr w3"
  obtains w1 w2 where "invoke_program rt [] (flash_loan_instruction (info_key rp) dst src tp rest due)
      ([dst, rp, src, tp] @ rest) w1 = Inr w2"
    "unpack_reserve rt w3 ri = Inr r" "owner_of w3 ri = pid" "unat n \<le> unat (available_amount (liquidity r))"
proof -
  from run obtain l1 w0 w1 w2 r2 l2 where l1: "liquidity_borrow (decimal_from_u64 n) (liquidity r) = Inr l1"
    and w0: "pack_reserve rt (r\<lparr> liquidity := l1 \<rparr>) ri w = Inr w0"
    and w1: "spl_token_transfer rt src dst n ai seeds tp w0 = Inr w1"
    and w2: "invoke_program rt [] (flash_loan_instruction (info_key rp) dst src tp rest due)
      ([dst, rp, src, tp] @ rest) w1 = Inr w2"
    and r2: "unpack_reserve rt w2 ri = Inr r2"
    and l2: "liquidity_repay n (decimal_from_u64 n) (liquidity r2) = Inr l2"
    and w3: "pack_reserve rt (r2\<lparr> liquidity := l2 \<rparr>) ri w2 = Inr w3"
    by (auto simp: flash_loan_round_def)
  note pc = runtime_ok_pack [OF rt(1)]
  have ver: "reserve_version r = PROGRAM_VERSION" using load_reserve_version [OF pc r(1)] by simp
  then have "unpack_reserve rt w0 ri = Inr (r\<lparr> liquidity := l1 \<rparr>)" using stored_reserve_read [OF pc _ w0] by simp
  moreover have "same_for pid w0 w1" using w1 by (rule token_call_same(1) [OF rt(1,2)])
  moreover have "same_for pid w1 w2"
    using rt(3) by (intro invoke_same [OF rt(1) w2]) (simp add: flash_loan_instruction_def)
  ultimately have r2': "unpack_reserve rt w2 ri = Inr (r\<lparr> liquidity := l1 \<rparr>)" and own: "owner_of w2 ri = pid"
    using same_for_load(2) [of pid w0 w2 ri] same_for_owner [of pid w0 w2 ri] pack_owner(1) [OF w0, of ri] r(2)
      same_for_trans [of pid w0 w1 w2] by simp_all
  with r2 have eq: "r2 = r\<lparr> liquidity := l1 \<rparr>" by simp
  note due = lend_and_take_back [OF l1 l2 [unfolded eq, simplified]]
  have "r2\<lparr> liquidity := l2 \<rparr> = r" by (simp add: eq due(1))
  then have "unpack_reserve rt w3 ri = Inr r" using stored_reserve_read [OF pc ver] w3 by simp
  with that [OF w2] pack_owner(1) [OF w3] own due(2) show thesis by simp
qed

lemma pay_fees_cases:
  assumes "flash_loan_pay_fees rt fee host src fi hi ai seeds tp w3 = Inr w'"
  obtains w4 where "if 0 < host then host \<le> fee \<and> spl_token_transfer rt src hi host ai seeds tp w3 = Inr w4
      else w4 = w3"
    "if fee \<noteq> host then spl_token_transfer rt src fi (fee - host) ai seeds tp w4 = Inr w' else w' = w4"
proof (cases "0 < host")
  case True
  with assms obtain own w4 where own: "checked_sub fee host = Some own"
    and w4: "spl_token_transfer rt src hi host ai seeds tp w3 = Inr w4"
    and w': "if 0 < own then spl_token_transfer rt src fi own ai seeds tp w4 = Inr w' else w' = w4"
    by (auto simp: flash_loan_pay_fees_def simp del: word_gt_0 split: if_splits)
  from own have "own = fee - host" "host \<le> fee" by (simp_all add: checked_sub_def split: if_splits)
  with w4 w' True that [of w4] show thesis by (auto simp: word_gt_0 split: if_splits)
next
  case False
  with assms that [of w3] show thesis by (auto simp: flash_loan_pay_fees_def word_gt_0 split: if_splits)
qed

text \<open>
  C6: A flash loan is back when it ends. Whatever the receiver program does, a successful flash
  loan lent at most the available liquidity, asked the receiver for the loan and the fee, found the
  reserve's supply account holding at least what it held before and the fee, and then paid the fee
  out of it, the host's share to the host and the rest to the reserve's fee receiver. The reserve's
  record is exactly the one before. The lending program itself is never the receiver.
\<close>

theorem flash_loan_safe:
  assumes rt: "runtime_ok rt pid" "info_key tp \<noteq> pid" and load: "unpack_reserve rt w ri = Inr r"
    and run: "process_flash_loan rt pid amount
      (src # dst # ri # fi # hi # mi # ai # tp # rp # rest) w = Inr w'"
  shows "info_key rp \<noteq> pid \<and> liq_supply_pubkey (liquidity r) = info_key src \<and>
    fee_receiver (liquidity r) = info_key fi \<and> unpack_reserve rt w' ri = Inr r \<and>
    (\<exists>n fee host before after due seeds w1 w2 w3 w4.
      n = (if amount = u64_max then available_amount (liquidity r) else amount) \<and>
      unat n \<le> unat (available_amount (liquidity r)) \<and>
      calculate_flash_loan_fees (config_fees (config r)) (decimal_from_u64 n) = Inr (fee, host) \<and>
      unpack_token_account rt (data_of w src) = Inr before \<and>
      unat due = unat n + unat fee \<and>
      invoke_program rt [] (flash_loan_instruction (info_key rp) dst src tp rest due)
        ([dst, rp, src, tp] @ rest) w1 = Inr w2 \<and>
      unpack_token_account rt (data_of w3 src) = Inr after \<and>
      unat (token_amount before) + unat fee \<le> unat (token_amount after) \<and>
      (if 0 < host then host \<le> fee \<and> spl_token_transfer rt src hi host ai seeds tp w3 = Inr w4 else w4 = w3) \<and>
      (if fee \<noteq> host then spl_token_transfer rt src fi (fee - host) ai seeds tp w4 = Inr w' else w' = w4))"
proof -
  from run load obtain m where m: "pid \<noteq> info_key rp" "owner_of w ri = pid"
    "liq_supply_pubkey (liquidity r) = info_key src" "fee_receiver (liquidity r) = info_key fi"
    and lend: "flash_loan_lend rt amount r src dst ri fi hi ai (authority_signer_seeds mi m) tp rp rest w = Inr w'"
    by (rule process_flash_cases)
  define n where "n = (if amount = u64_max then available_amount (liquidity r) else amount)"
  define seeds where "seeds = authority_signer_seeds mi m"
  from lend obtain fee host before expected due w3 after where
    fees: "calculate_flash_loan_fees (config_fees (config r)) (decimal_from_u64 n) = Inr (fee, host)"
    and b: "unpack_token_account rt (data_of w src) = Inr before"
    and e: "checked_add (token_amount before) fee = Some expected" and k: "checked_add n fee = Some due"
    and round: "flash_loan_round rt n due r src dst ri ai seeds tp rp rest w = Inr w3"
    and a: "unpack_token_account rt (data_of w3 src) = Inr after" "\<not> token_amount after < expected"
    and pay: "flash_loan_pay_fees rt fee host src fi hi ai seeds tp w3 = Inr w'"
    by (auto simp: flash_loan_lend_def Let_def n_def [symmetric] seeds_def [symmetric])
  from rt m(1) load m(2) round obtain w1 w2 where inv: "invoke_program rt []
      (flash_loan_instruction (info_key rp) dst src tp rest due) ([dst, rp, src, tp] @ rest) w1 = Inr w2"
    and r3: "unpack_reserve rt w3 ri = Inr r" "owner_of w3 ri = pid" "unat n \<le> unat (available_amount (liquidity r))"
    by (rule flash_round)
  from pay obtain w4 where w4: "if 0 < host then host \<le> fee \<and> spl_token_transfer rt src hi host ai seeds tp w3 = Inr w4
        else w4 = w3"
    and w': "if fee \<noteq> host then spl_token_transfer rt src fi (fee - host) ai seeds tp w4 = Inr w' else w' = w4"
    by (rule pay_fees_cases)
  have "same_for pid w3 w4" using w4 token_call_same(1) [OF rt] by (auto split: if_splits)
  also have "same_for pid w4 w'" using w' token_call_same(1) [OF rt] by (auto split: if_splits)
  finally have "unpack_reserve rt w' ri = Inr r" using same_for_load(2) r3(1,2) by metis
  moreover have "unat due = unat n + unat fee" using k by (simp add: checked)
  moreover have "unat (token_amount before) + unat fee \<le> unat (token_amount after)"
    using e a(2) by (simp add: checked word_less_nat_alt not_less)
  ultimately show ?thesis
    using m(1) [symmetric] m(3,4) n_def fees b inv r3(3) a(1) w4 w'
    by (intro conjI exI [of _ n] exI [of _ fee] exI [of _ host] exI [of _ before] exI [of _ after]
        exI [of _ due] exI [of _ seeds] exI [of _ w1] exI [of _ w2] exI [of _ w3] exI [of _ w4]) assumption+
qed

section \<open>A sample loan\<close>

text \<open>In the sample runtime a transfer and the receiver both move tokens.\<close>

lemma sample_move_total:
  assumes "acc_owner (w a) = 200" "acc_owner (w b) = 200" "n \<le> balance w a" "a \<noteq> b"
  obtains w' where "sample_move a b n w = Inr w'" "\<And>k. acc_owner (w' k) = acc_owner (w k)"
    "\<And>k. k \<noteq> a \<Longrightarrow> k \<noteq> b \<Longrightarrow> w' k = w k" "balance w' a = balance w a - n" "balance w' b = balance w b + n"
  using assms that [of "set_balance b (balance w b + n) (set_balance a (balance w a - n) w)"]
  by (simp add: sample_move_def set_balance_def balance_def Let_def)

lemma sample_move_runs:
  assumes "sample_move (info_key a) (info_key b) n w = Inr w'"
  shows "spl_token_transfer sample_rt a b n auth seeds (acct 200) w = Inr w'"
    and "invoke_program sample_rt [] (flash_loan_instruction 300 a b tp rest n) infos w = Inr w'"
  using assms
  by (simp_all add: spl_token_transfer_def sample_rt_def sample_ix_def invoke_optionally_signed_def
      sample_invoke_def flash_loan_instruction_def flash_loan_metas_def)

lemma sample_flash_round:
  "\<exists>w3. flash_loan_round sample_rt 100 102 sample_reserve (acct 22) (acct 41) (acct 5) (acct 11) seeds
      (acct 200) (acct 300) [] (sample_world ob) = Inr w3 \<and> balance w3 22 = 4002 \<and>
    (\<forall>k\<in>{22, 23, 44}. acc_owner (w3 k) = 200) \<and> acc_data (w3 22) = u64_to 4002"
proof -
  define l where "l = (liquidity sample_reserve)\<lparr> available_amount := 900,
    borrowed_amount_wads := Decimal 600000000000000000000 \<rparr>"
  define r where "r = sample_reserve\<lparr> liquidity := l \<rparr>"
  have fits: "reserve_fits r" "reserve_version r = PROGRAM_VERSION"
    by (simp_all add: reserve_fits_def r_def l_def sample_reserve_def PROGRAM_VERSION_def)
  obtain w0 where w0: "pack_reserve sample_rt r (acct 5) (sample_world ob) = Inr w0"
    and f0: "\<And>k. k \<noteq> 5 \<Longrightarrow> w0 k = sample_world ob k" "\<And>k. acc_owner (w0 k) = acc_owner (sample_world ob k)"
      "\<And>j. length (data_of w0 j) = length (data_of (sample_world ob) j)"
    by (rule sample_store_reserve [OF fits(1), of "sample_world ob" "acct 5"]) (simp_all add: sample_load)
  have b0: "balance w0 22 = 4000" "balance w0 41 = 4000"
    using f0(1) by (simp_all add: balance_def) (simp_all add: sample_balance [unfolded balance_def])
  obtain w1 where w1: "sample_move 22 41 100 w0 = Inr w1" and f1: "\<And>k. acc_owner (w1 k) = acc_owner (w0 k)"
      "\<And>k. k \<noteq> 22 \<Longrightarrow> k \<noteq> 41 \<Longrightarrow> w1 k = w0 k" "balance w1 22 = 3900" "balance w1 41 = 4100"
    by (rule sample_move_total [of w0 22 41 100]) (simp_all add: f0 b0)
  obtain w2 where w2: "sample_move 41 22 102 w1 = Inr w2" and f2: "\<And>k. acc_owner (w2 k) = acc_owner (w1 k)"
      "\<And>k. k \<noteq> 41 \<Longrightarrow> k \<noteq> 22 \<Longrightarrow> w2 k = w1 k" "balance w2 22 = 4002"
    by (rule sample_move_total [of w1 41 22 102]) (simp_all add: f0 f1)
  have "data_of w2 (acct 5) = data_of w0 (acct 5)" using f1(2) [of 5] f2(2) [of 5] by (simp add: data_of_def)
  then have r5: "unpack_reserve sample_rt w2 (acct 5) = Inr r" and len: "length (data_of w2 (acct 5)) = RESERVE_LEN"
    using stored_reserve_read [OF sample_pack_checks fits(2) w0] f0(3) [of "acct 5"] sample_load(4) [of ob]
    by (simp_all add: unpack_reserve_def)
  obtain w3 where w3: "pack_reserve sample_rt sample_reserve (acct 5) w2 = Inr w3"
    and f3: "\<And>k. k \<noteq> 5 \<Longrightarrow> w3 k = w2 k" "\<And>k. acc_owner (w3 k) = acc_owner (w2 k)"
    by (rule sample_store_reserve [OF sample_reserve_fits(1) len]) simp
  have eval: "liquidity_borrow (decimal_from_u64 100) (liquidity sample_reserve) = Inr l"
    "liquidity_repay 100 (decimal_from_u64 100) (liquidity r) = Inr (liquidity sample_reserve)"
    by (simp_all add: r_def l_def sample_reserve_def run del: attempt_Inr_iff)
  have same: "r\<lparr> liquidity := liquidity sample_reserve \<rparr> = sample_reserve" by (simp add: r_def)
  have "flash_loan_round sample_rt 100 102 sample_reserve (acct 22) (acct 41) (acct 5) (acct 11) seeds
      (acct 200) (acct 300) [] (sample_world ob) = Inr w3"
    using sample_move_runs(1) [of "acct 22" "acct 41" 100 w0 w1 "acct 11" seeds]
      sample_move_runs(2) [of "acct 41" "acct 22" 102 w1 w2] w1 w2
    by (simp add: flash_loan_round_def eval w0 [unfolded r_def] r5 same w3 del: sample_move_runs)
  moreover have "acc_data (w3 22) = u64_to 4002"
    using w2 f3(1) [of 22] w1 b0
    by (auto simp: sample_move_def set_balance_def balance_def Let_def split: if_splits)
  ultimately show ?thesis using f3 f2 f1 f0 by (auto simp: balance_def)
qed

lemma sample_flash_run:
  "\<exists>w'. process_flash_loan sample_rt 100 100
     (acct 22 # acct 41 # acct 5 # acct 23 # acct 44 # acct 7 # acct 11 # acct 200 # acct 300 # [])
     (sample_world sample_obligation) = Inr w'"
proof -
  define w where "w = sample_world sample_obligation"
  define seeds where "seeds = authority_signer_seeds (acct 7) sample_market"
  obtain w3 where w3: "flash_loan_round sample_rt 100 102 sample_reserve (acct 22) (acct 41) (acct 5) (acct 11) seeds
      (acct 200) (acct 300) [] w = Inr w3" and bal: "balance w3 22 = 4002"
    and own: "\<And>k. k \<in> {22, 23, 44} \<Longrightarrow> acc_owner (w3 k) = 200" and data: "acc_data (w3 22) = u64_to 4002"
    using sample_flash_round unfolding w_def by blast
  obtain w4 where w4: "sample_move 22 44 1 w3 = Inr w4" and f4: "\<And>k. acc_owner (w4 k) = acc_owner (w3 k)"
      "balance w4 22 = 4001"
    by (rule sample_move_total [of w3 22 44 1]) (simp_all add: own bal)
  obtain w' where w5: "sample_move 22 23 1 w4 = Inr w'"
    by (rule sample_move_total [of w4 22 23 1]) (simp_all add: own f4)
  have fees: "calculate_flash_loan_fees (config_fees (config sample_reserve)) (decimal_from_u64 100) = Inr (2, 1)"
    by (simp add: sample_reserve_def run del: attempt_Inr_iff)
  have before: "unpack_token_account sample_rt (data_of w (acct 22)) = Inr \<lparr> token_amount = 4000, token_account_mint = 300 \<rparr>"
    by (simp add: sample_rt_def w_def sample_world_def data_of_def)
  have after: "unpack_token_account sample_rt (data_of w3 (acct 22)) = Inr \<lparr> token_amount = 4002, token_account_mint = 300 \<rparr>"
    by (simp add: sample_rt_def data_of_def data)
  have pay: "flash_loan_pay_fees sample_rt 2 1 (acct 22) (acct 23) (acct 44) (acct 11) seeds (acct 200) w3 = Inr w'"
    using sample_move_runs(1) [of "acct 22" "acct 44" 1 w3 w4 "acct 11" seeds]
      sample_move_runs(1) [of "acct 22" "acct 23" 1 w4 w' "acct 11" seeds] w4 w5
    by (simp add: flash_loan_pay_fees_def checked_sub_def)
  have small: "(100 :: u64) \<noteq> u64_max" "checked_add (4000 :: u64) 2 = Some 4002"
    "checked_add (100 :: u64) 2 = Some 102"
    by (simp_all add: checked_add_def)
  have "flash_loan_lend sample_rt 100 sample_reserve (acct 22) (acct 41) (acct 5) (acct 23) (acct 44) (acct 11) seeds
      (acct 200) (acct 300) [] w = Inr w'"
    by (simp add: flash_loan_lend_def Let_def fees before small w3 after pay)
  then show ?thesis
    by (simp add: process_flash_loan_def load_ok sample_load sample_fields w_def seeds_def)
qed

theorem flash_loan_safe_witness:
  "\<exists>w'. process_flash_loan sample_rt 100 100
     (acct 22 # acct 41 # acct 5 # acct 23 # acct 44 # acct 7 # acct 11 # acct 200 # acct 300 # [])
     (sample_world sample_obligation) = Inr w' \<and>
   unpack_reserve sample_rt w' (acct 5) = Inr sample_reserve"
proof -
  obtain w' where run: "process_flash_loan sample_rt 100 100
     (acct 22 # acct 41 # acct 5 # acct 23 # acct 44 # acct 7 # acct 11 # acct 200 # acct 300 # [])
     (sample_world sample_obligation) = Inr w'" using sample_flash_run by blast
  have tp: "info_key (acct 200) \<noteq> (100 :: pubkey)" by simp
  from flash_loan_safe [OF sample_rt_ok tp sample_load(1) run] run show ?thesis by blast
qed

end
