(* ===== verification/Health_Correct.thy ===== *)
theory Health_Correct
  imports Sample_World
begin

text \<open>
  The property of refreshing an obligation (token-lending/program/src/processor.rs): the values that
  borrowing, withdrawing and liquidating compare are the sums over its deposits and loans, at the
  prices and rates of their reserves.
\<close>

text \<open>A list of accounts read as the reserves of a list of positions, all fresh.\<close>

definition reserves_of ::
    "solana \<Rightarrow> world \<Rightarrow> u64 \<Rightarrow> pubkey list \<Rightarrow> account_info list \<Rightarrow> reserve list \<Rightarrow> bool" where
  "reserves_of rt w clock keys infos rs \<longleftrightarrow> map info_key infos = keys \<and>
     map (unpack_reserve rt w) infos = map Inr rs \<and>
     (\<forall>r\<in>set rs. reserve_last_update r = \<lparr> slot = clock, stale = False \<rparr>)"

lemma reserves_of_Nil [simp]: "reserves_of rt w clock [] [] []"
  by (simp add: reserves_of_def)

lemma reserves_of_Cons:
  "load_position_reserve rt pid clock k i w = Inr r \<Longrightarrow> reserves_of rt w clock ks is rs \<Longrightarrow>
     reserves_of rt w clock (k # ks) (i # is) (r # rs)"
  by (cases "reserve_last_update r") (auto simp: load_position_reserve_def reserves_of_def check_fresh_ok)

text \<open>A share of a value, as \<open>Decimal * Rate\<close> rounds it.\<close>

definition share_of :: "decimal \<Rightarrow> u8 \<Rightarrow> nat" where
  "share_of v percent = dec v * rat (rate_from_percent percent) div wad"

lemma refresh_deposits_ok:
  assumes "refresh_deposits rt pid clock w cs accounts t = Inr (cs', rest, t')"
  shows "\<exists>infos rs. accounts = infos @ rest \<and> reserves_of rt w clock (map deposit_reserve cs) infos rs \<and>
    map2 (\<lambda>r c. collateral_value r (deposited_amount c)) rs cs = map (\<lambda>c. Inr (coll_market_value c)) cs' \<and>
    map (\<lambda>c. (deposit_reserve c, deposited_amount c)) cs' = map (\<lambda>c. (deposit_reserve c, deposited_amount c)) cs \<and>
    dec (tot_deposited t') = dec (tot_deposited t) + (\<Sum>c\<leftarrow>cs'. dec (coll_market_value c)) \<and>
    dec (tot_allowed t') = dec (tot_allowed t) +
      (\<Sum>(r, c)\<leftarrow>zip rs cs'. share_of (coll_market_value c) (loan_to_value_ratio (config r))) \<and>
    dec (tot_unhealthy t') = dec (tot_unhealthy t) +
      (\<Sum>(r, c)\<leftarrow>zip rs cs'. share_of (coll_market_value c) (liquidation_threshold (config r)))"
  using assms
proof (induction cs arbitrary: accounts t cs')
  case Nil
  then show ?case by (intro exI [of _ "[]"]) simp
next
  case (Cons c cs)
  from Cons.prems obtain i more r v d l a h u cs1 where acc: "accounts = i # more"
    and r: "load_position_reserve rt pid clock (deposit_reserve c) i w = Inr r"
    and v: "collateral_value r (deposited_amount c) = Inr v"
    and d: "decimal_try_add (tot_deposited t) v = Inr d"
    and l: "decimal_try_mul_rate v (rate_from_percent (loan_to_value_ratio (config r))) = Inr l"
    and a: "decimal_try_add (tot_allowed t) l = Inr a"
    and h: "decimal_try_mul_rate v (rate_from_percent (liquidation_threshold (config r))) = Inr h"
    and u: "decimal_try_add (tot_unhealthy t) h = Inr u"
    and rec: "refresh_deposits rt pid clock w cs more
        \<lparr> tot_deposited = d, tot_allowed = a, tot_unhealthy = u \<rparr> = Inr (cs1, rest, t')"
    and cs': "cs' = c\<lparr> coll_market_value := v \<rparr> # cs1"
    by auto
  from Cons.IH [OF rec] obtain infos rs where ih: "more = infos @ rest"
    "reserves_of rt w clock (map deposit_reserve cs) infos rs"
    "map2 (\<lambda>r c. collateral_value r (deposited_amount c)) rs cs = map (\<lambda>c. Inr (coll_market_value c)) cs1"
    "map (\<lambda>c. (deposit_reserve c, deposited_amount c)) cs1 = map (\<lambda>c. (deposit_reserve c, deposited_amount c)) cs"
    "dec (tot_deposited t') = dec d + (\<Sum>c\<leftarrow>cs1. dec (coll_market_value c))"
    "dec (tot_allowed t') = dec a +
      (\<Sum>(r, c)\<leftarrow>zip rs cs1. share_of (coll_market_value c) (loan_to_value_ratio (config r)))"
    "dec (tot_unhealthy t') = dec u +
      (\<Sum>(r, c)\<leftarrow>zip rs cs1. share_of (coll_market_value c) (liquidation_threshold (config r)))"
    by auto
  have "dec d = dec (tot_deposited t) + dec v" "dec a = dec (tot_allowed t) + share_of v (loan_to_value_ratio (config r))"
    "dec u = dec (tot_unhealthy t) + share_of v (liquidation_threshold (config r))"
    using d l a h u by (simp_all add: decimal_ok share_of_def)
  with ih acc v cs' reserves_of_Cons [OF r ih(2)] show ?case
    by (intro exI [of _ "i # infos"] exI [of _ "r # rs"]) simp
qed

lemma refresh_loans_ok:
  assumes "refresh_loans rt pid clock w ls accounts b = Inr (ls', rest, b')"
  shows "\<exists>infos rs. accounts = infos @ rest \<and> reserves_of rt w clock (map borrow_reserve ls) infos rs \<and>
    map borrow_reserve ls' = map borrow_reserve ls \<and>
    map2 (\<lambda>r l. loan_accrue_interest (cumulative_borrow_rate_wads (liquidity r)) l) rs ls =
      map2 (\<lambda>l l'. Inr (l'\<lparr> loan_market_value := loan_market_value l \<rparr>)) ls ls' \<and>
    map2 (\<lambda>r l'. loan_value r (loan_borrowed_amount_wads l')) rs ls' = map (\<lambda>l'. Inr (loan_market_value l')) ls' \<and>
    dec b' = dec b + (\<Sum>l\<leftarrow>ls'. dec (loan_market_value l))"
  using assms
proof (induction ls arbitrary: accounts b ls')
  case Nil
  then show ?case by (intro exI [of _ "[]"]) simp
next
  case (Cons l ls)
  from Cons.prems obtain i more r l1 v b1 ls1 where acc: "accounts = i # more"
    and r: "load_position_reserve rt pid clock (borrow_reserve l) i w = Inr r"
    and l1: "loan_accrue_interest (cumulative_borrow_rate_wads (liquidity r)) l = Inr l1"
    and v: "loan_value r (loan_borrowed_amount_wads l1) = Inr v"
    and b1: "decimal_try_add b v = Inr b1"
    and rec: "refresh_loans rt pid clock w ls more b1 = Inr (ls1, rest, b')"
    and ls': "ls' = l1\<lparr> loan_market_value := v \<rparr> # ls1"
    by auto
  from Cons.IH [OF rec] obtain infos rs where ih: "more = infos @ rest"
    "reserves_of rt w clock (map borrow_reserve ls) infos rs"
    "map borrow_reserve ls1 = map borrow_reserve ls"
    "map2 (\<lambda>r l. loan_accrue_interest (cumulative_borrow_rate_wads (liquidity r)) l) rs ls =
      map2 (\<lambda>l l'. Inr (l'\<lparr> loan_market_value := loan_market_value l \<rparr>)) ls ls1"
    "map2 (\<lambda>r l'. loan_value r (loan_borrowed_amount_wads l')) rs ls1 = map (\<lambda>l'. Inr (loan_market_value l')) ls1"
    "dec b' = dec b1 + (\<Sum>l\<leftarrow>ls1. dec (loan_market_value l))"
    by auto
  note g = loan_accrue_interest_grows(3) [OF l1]
  have "l1\<lparr> loan_market_value := loan_market_value l \<rparr> = l1" using g by simp
  moreover have "dec b1 = dec b + dec v" using b1 by (simp add: decimal_ok)
  ultimately show ?case
    using ih acc l1 v ls' g reserves_of_Cons [OF r ih(2)]
    by (intro exI [of _ "i # infos"] exI [of _ "r # rs"]) simp
qed

lemma reserves_of_append:
  "reserves_of rt w clock ks is rs \<Longrightarrow> reserves_of rt w clock ks' is' rs' \<Longrightarrow>
     reserves_of rt w clock (ks @ ks') (is @ is') (rs @ rs')"
  by (auto simp: reserves_of_def)

lemma reserves_of_length: "reserves_of rt w clock ks is rs \<Longrightarrow> length rs = length ks"
  unfolding reserves_of_def by (metis length_map)

lemma process_refresh_obligation_cases:
  assumes "process_refresh_obligation rt pid (oi # ci # rest) w = Inr w'" "unpack_obligation rt w oi = Inr ob"
  obtains clock ds more t ls b where "clock_from rt w ci = Inr clock" "owner_of w oi = pid"
    "refresh_deposits rt pid clock w (deposits ob) rest zero_totals = Inr (ds, more, t)"
    "refresh_loans rt pid clock w (borrows ob) more decimal_zero = Inr (ls, [], b)"
    "pack_obligation rt (ob\<lparr> deposits := ds, borrows := ls,
       deposited_value := tot_deposited t, borrowed_value := b,
       allowed_borrow_value := tot_allowed t, unhealthy_borrow_value := tot_unhealthy t,
       ob_last_update := update_slot clock (ob_last_update ob) \<rparr>) oi w = Inr w'"
  using assms by (auto simp: process_refresh_obligation_def)

text \<open>
  C13: A refreshed obligation is valued by its own positions. The accounts given are exactly the
  reserves of its deposits and then of its loans, all refreshed in the current slot. Each deposit
  keeps its amount and is valued at its reserve's exchange rate and price; each loan accrues the
  interest of its reserve's index and is valued at its price. The deposited and the borrowed value
  are the sums of these values, and the allowed and the unhealthy value the sums of the deposits'
  shares at their reserve's loan-to-value ratio and liquidation threshold. Nothing else of the
  obligation changes, and no other account.
\<close>

theorem refresh_obligation_sound:
  assumes rt: "pack_checks rt" and load: "unpack_obligation rt w oi = Inr ob"
    and run: "process_refresh_obligation rt pid (oi # ci # rest) w = Inr w'"
  shows "owner_of w oi = pid \<and> (\<forall>k. k \<noteq> info_key oi \<longrightarrow> w' k = w k) \<and>
    (\<exists>clock ob' rs bs. clock_from rt w ci = Inr clock \<and> unpack_obligation rt w' oi = Inr ob' \<and>
      reserves_of rt w clock (map deposit_reserve (deposits ob) @ map borrow_reserve (borrows ob)) rest (rs @ bs) \<and>
      map2 (\<lambda>r c. collateral_value r (deposited_amount c)) rs (deposits ob) =
        map (\<lambda>c. Inr (coll_market_value c)) (deposits ob') \<and>
      map (\<lambda>c. (deposit_reserve c, deposited_amount c)) (deposits ob') =
        map (\<lambda>c. (deposit_reserve c, deposited_amount c)) (deposits ob) \<and>
      map2 (\<lambda>r l. loan_accrue_interest (cumulative_borrow_rate_wads (liquidity r)) l) bs (borrows ob) =
        map2 (\<lambda>l l'. Inr (l'\<lparr> loan_market_value := loan_market_value l \<rparr>)) (borrows ob) (borrows ob') \<and>
      map borrow_reserve (borrows ob') = map borrow_reserve (borrows ob) \<and>
      map2 (\<lambda>r l. loan_value r (loan_borrowed_amount_wads l)) bs (borrows ob') =
        map (\<lambda>l. Inr (loan_market_value l)) (borrows ob') \<and>
      dec (deposited_value ob') = (\<Sum>c\<leftarrow>deposits ob'. dec (coll_market_value c)) \<and>
      dec (borrowed_value ob') = (\<Sum>l\<leftarrow>borrows ob'. dec (loan_market_value l)) \<and>
      dec (allowed_borrow_value ob') =
        (\<Sum>(r, c)\<leftarrow>zip rs (deposits ob'). share_of (coll_market_value c) (loan_to_value_ratio (config r))) \<and>
      dec (unhealthy_borrow_value ob') =
        (\<Sum>(r, c)\<leftarrow>zip rs (deposits ob'). share_of (coll_market_value c) (liquidation_threshold (config r))) \<and>
      ob_last_update ob' = \<lparr> slot = clock, stale = False \<rparr> \<and>
      ob_owner ob' = ob_owner ob \<and> ob_lending_market ob' = ob_lending_market ob)"
proof -
  from run load obtain clock ds more t ls b where c: "clock_from rt w ci = Inr clock" and own: "owner_of w oi = pid"
    and d: "refresh_deposits rt pid clock w (deposits ob) rest zero_totals = Inr (ds, more, t)"
    and l: "refresh_loans rt pid clock w (borrows ob) more decimal_zero = Inr (ls, [], b)"
    and w': "pack_obligation rt (ob\<lparr> deposits := ds, borrows := ls,
       deposited_value := tot_deposited t, borrowed_value := b,
       allowed_borrow_value := tot_allowed t, unhealthy_borrow_value := tot_unhealthy t,
       ob_last_update := update_slot clock (ob_last_update ob) \<rparr>) oi w = Inr w'"
    by (rule process_refresh_obligation_cases)
  define ob' where "ob' = ob\<lparr> deposits := ds, borrows := ls,
       deposited_value := tot_deposited t, borrowed_value := b,
       allowed_borrow_value := tot_allowed t, unhealthy_borrow_value := tot_unhealthy t,
       ob_last_update := update_slot clock (ob_last_update ob) \<rparr>"
  have st: "unpack_obligation rt w' oi = Inr ob'"
    using stored_obligation_read [OF rt _ w'] load_obligation_version [OF rt load] by (simp add: ob'_def)
  have frame: "\<forall>k. k \<noteq> info_key oi \<longrightarrow> w' k = w k" using stored_frame(2) [OF w'] by blast
  from refresh_deposits_ok [OF d] obtain infos rs where ds: "rest = infos @ more"
    "reserves_of rt w clock (map deposit_reserve (deposits ob)) infos rs"
    "map2 (\<lambda>r c. collateral_value r (deposited_amount c)) rs (deposits ob) = map (\<lambda>c. Inr (coll_market_value c)) ds"
    "map (\<lambda>c. (deposit_reserve c, deposited_amount c)) ds = map (\<lambda>c. (deposit_reserve c, deposited_amount c)) (deposits ob)"
    "dec (tot_deposited t) = (\<Sum>c\<leftarrow>ds. dec (coll_market_value c))"
    "dec (tot_allowed t) = (\<Sum>(r, c)\<leftarrow>zip rs ds. share_of (coll_market_value c) (loan_to_value_ratio (config r)))"
    "dec (tot_unhealthy t) = (\<Sum>(r, c)\<leftarrow>zip rs ds. share_of (coll_market_value c) (liquidation_threshold (config r)))"
    by (auto simp: zero_totals_def)
  from refresh_loans_ok [OF l] obtain js bs where ls: "more = js"
    "reserves_of rt w clock (map borrow_reserve (borrows ob)) js bs"
    "map borrow_reserve ls = map borrow_reserve (borrows ob)"
    "map2 (\<lambda>r l. loan_accrue_interest (cumulative_borrow_rate_wads (liquidity r)) l) bs (borrows ob) =
      map2 (\<lambda>l l'. Inr (l'\<lparr> loan_market_value := loan_market_value l \<rparr>)) (borrows ob) ls"
    "map2 (\<lambda>r l. loan_value r (loan_borrowed_amount_wads l)) bs ls = map (\<lambda>l. Inr (loan_market_value l)) ls"
    "dec b = (\<Sum>l\<leftarrow>ls. dec (loan_market_value l))"
    by auto
  have "reserves_of rt w clock (map deposit_reserve (deposits ob) @ map borrow_reserve (borrows ob)) rest (rs @ bs)"
    using reserves_of_append [OF ds(2) ls(2)] ds(1) ls(1) by simp
  moreover have "deposits ob' = ds" "borrows ob' = ls" "deposited_value ob' = tot_deposited t" "borrowed_value ob' = b"
    "allowed_borrow_value ob' = tot_allowed t" "unhealthy_borrow_value ob' = tot_unhealthy t"
    "ob_last_update ob' = \<lparr> slot = clock, stale = False \<rparr>" "ob_owner ob' = ob_owner ob"
    "ob_lending_market ob' = ob_lending_market ob"
    by (simp_all add: ob'_def update_slot_def)
  ultimately show ?thesis using own frame c st ds(3-7) ls(3-6)
    by (intro conjI exI [of _ clock] exI [of _ ob'] exI [of _ rs] exI [of _ bs]) (simp_all only:)
qed

text \<open>Refreshing the sample obligation: its collateral is worth 25 and its loan 2.\<close>

lemma sample_refresh_obligation_run:
  "\<exists>w'. process_refresh_obligation sample_rt 100 (acct 10 # acct 1 # [acct 6, acct 5])
     (sample_world sample_obligation) = Inr w'"
proof -
  define w where "w = sample_world sample_obligation"
  have ok: "ob_version sample_obligation = PROGRAM_VERSION"
    by (simp add: sample_obligation_def PROGRAM_VERSION_def)
  have reserves: "load_position_reserve sample_rt 100 10 6 (acct 6) w = Inr sample_reserve6"
    "load_position_reserve sample_rt 100 10 5 (acct 5) w = Inr sample_reserve"
    by (simp_all add: load_position_reserve_def w_def sample_load sample_fields check_fresh_ok)
  have keys: "deposit_reserve sample_coll = 6" "borrow_reserve sample_loan = 5"
    by (simp_all add: sample_coll_def sample_loan_def)
  have worth: "collateral_value sample_reserve6 (deposited_amount sample_coll) = Inr (Decimal 25000000000000000000)"
    "loan_accrue_interest (cumulative_borrow_rate_wads (liquidity sample_reserve)) sample_loan = Inr sample_loan"
    "loan_value sample_reserve (loan_borrowed_amount_wads sample_loan) = Inr (Decimal 2000000000000000000)"
    by (simp_all add: collateral_value_def loan_value_def sample_reserve6_def sample_reserve_def sample_coll_def
        sample_loan_def run del: attempt_Inr_iff)
  have ltv: "loan_to_value_ratio (config sample_reserve6) = 50" "liquidation_threshold (config sample_reserve6) = 55"
    by (simp_all add: sample_reserve6_def sample_reserve_def)
  have d: "refresh_deposits sample_rt 100 10 w [sample_coll] [acct 6, acct 5] zero_totals =
      Inr ([sample_coll\<lparr> coll_market_value := Decimal 25000000000000000000 \<rparr>], [acct 5],
        \<lparr> tot_deposited = Decimal 25000000000000000000, tot_allowed = Decimal 12500000000000000000,
          tot_unhealthy = Decimal 13750000000000000000 \<rparr>)"
    by (simp add: keys reserves worth zero_totals_def ltv run del: attempt_Inr_iff)
  have l: "refresh_loans sample_rt 100 10 w [sample_loan] [acct 5] decimal_zero =
      Inr ([sample_loan\<lparr> loan_market_value := Decimal 2000000000000000000 \<rparr>], [], Decimal 2000000000000000000)"
  proof -
    have "decimal_try_add decimal_zero (Decimal 2000000000000000000) = Inr (Decimal 2000000000000000000)"
      by (simp add: run del: attempt_Inr_iff)
    then show ?thesis by (simp add: keys reserves worth del: attempt_Inr_iff)
  qed
  have fits: "obligation_fits (sample_obligation\<lparr>
       deposits := [sample_coll\<lparr> coll_market_value := Decimal 25000000000000000000 \<rparr>],
       borrows := [sample_loan\<lparr> loan_market_value := Decimal 2000000000000000000 \<rparr>],
       deposited_value := Decimal 25000000000000000000, borrowed_value := Decimal 2000000000000000000,
       allowed_borrow_value := Decimal 12500000000000000000,
       unhealthy_borrow_value := Decimal 13750000000000000000,
       ob_last_update := update_slot 10 (ob_last_update sample_obligation) \<rparr>)"
    by (simp add: obligation_fits_def sample_obligation_def sample_coll_def sample_loan_def PROGRAM_VERSION_def)
  note load = sample_load_obligation [OF sample_obligation_fits ok]
  obtain w' where "pack_obligation sample_rt (sample_obligation\<lparr>
       deposits := [sample_coll\<lparr> coll_market_value := Decimal 25000000000000000000 \<rparr>],
       borrows := [sample_loan\<lparr> loan_market_value := Decimal 2000000000000000000 \<rparr>],
       deposited_value := Decimal 25000000000000000000, borrowed_value := Decimal 2000000000000000000,
       allowed_borrow_value := Decimal 12500000000000000000,
       unhealthy_borrow_value := Decimal 13750000000000000000,
       ob_last_update := update_slot 10 (ob_last_update sample_obligation) \<rparr>) (acct 10) w = Inr w'"
    using obligation_store_total [OF sample_pack_checks fits load(2)] unfolding w_def by (elim exE)
  then show ?thesis
    using load(1) d l
    by (simp add: process_refresh_obligation_def w_def sample_fields del: refresh_deposits.simps refresh_loans.simps)
qed

theorem refresh_obligation_sound_witness:
  "\<exists>w' ob'. process_refresh_obligation sample_rt 100 (acct 10 # acct 1 # [acct 6, acct 5])
     (sample_world sample_obligation) = Inr w' \<and>
   unpack_obligation sample_rt w' (acct 10) = Inr ob' \<and>
   dec (borrowed_value ob') = (\<Sum>l\<leftarrow>borrows ob'. dec (loan_market_value l))"
proof -
  have ok: "ob_version sample_obligation = PROGRAM_VERSION"
    by (simp add: sample_obligation_def PROGRAM_VERSION_def)
  obtain w' where run: "process_refresh_obligation sample_rt 100 (acct 10 # acct 1 # [acct 6, acct 5])
     (sample_world sample_obligation) = Inr w'" using sample_refresh_obligation_run by blast
  from refresh_obligation_sound [OF sample_pack_checks sample_load_obligation(1) [OF sample_obligation_fits ok] run] run
  show ?thesis by blast
qed

end
