(* ===== verification/Lending_Steps.thy ===== *)
theory Lending_Steps
  imports Lending_Invariant Flash_Correct Health_Correct
begin

text \<open>
  Every instruction of the lending program keeps its accounts sound
  (token-lending/program/src/processor.rs). The handlers are read step by step: what was loaded is
  good, what is written is good again, and a call to another program keeps the accounts.
\<close>

section \<open>Good states stay good\<close>

lemma good_updates [simp]:
  "good_reserve (r\<lparr> liquidity := l \<rparr>) = good_reserve r"
  "good_reserve (r\<lparr> collateral := c \<rparr>) = good_reserve r"
  "good_reserve (r\<lparr> reserve_last_update := u \<rparr>) = good_reserve r"
  "good_obligation (ob\<lparr> ob_last_update := u \<rparr>) = good_obligation ob"
  by (simp_all add: good_reserve_def good_obligation_def obligation_wf_def)

lemma good_steps:
  "obligation_repay a i ob = Inr ob1 \<Longrightarrow> good_obligation ob \<Longrightarrow> good_obligation ob1"
  "obligation_withdraw n i ob = Inr ob1 \<Longrightarrow> good_obligation ob \<Longrightarrow> good_obligation ob1"
  "reserve_deposit_liquidity n r = Inr (c, r1) \<Longrightarrow> good_reserve r \<Longrightarrow> good_reserve r1"
  "reserve_redeem_collateral c r = Inr (n, r1) \<Longrightarrow> good_reserve r \<Longrightarrow> good_reserve r1"
  "reserve_accrue_interest k s r = Inr r1 \<Longrightarrow> good_reserve r \<Longrightarrow> good_reserve r1"
  "refresh_market_price rt r accounts s w = Inr r1 \<Longrightarrow> good_reserve r \<Longrightarrow> good_reserve r1"
proof -
  show "obligation_repay a i ob = Inr ob1 \<Longrightarrow> good_obligation ob \<Longrightarrow> good_obligation ob1"
    using obligation_repay_wf [of a i ob ob1]
    by (auto simp: good_obligation_def obligation_repay_def Let_def split: if_splits)
  show "obligation_withdraw n i ob = Inr ob1 \<Longrightarrow> good_obligation ob \<Longrightarrow> good_obligation ob1"
    using obligation_withdraw_wf [of n i ob ob1]
    by (auto simp: good_obligation_def obligation_withdraw_def Let_def split: if_splits)
qed (auto simp: reserve_deposit_liquidity_def reserve_redeem_collateral_def reserve_accrue_interest_def
    refresh_market_price_def split: if_splits option.splits)

section \<open>Calls\<close>

definition lends :: "solana \<Rightarrow> pubkey \<Rightarrow> bool" where
  "lends rt pid \<longleftrightarrow> runtime_ok rt pid \<and> guarded rt pid"

lemma lends_rt: "lends rt pid \<Longrightarrow> runtime_ok rt pid"
  by (simp add: lends_def)

lemma lends_checks: "lends rt pid \<Longrightarrow> pack_checks rt"
  by (simp add: lends_def runtime_ok_def)

lemma invoked: "lends rt pid \<Longrightarrow> sound_world rt pid w \<Longrightarrow> invoke_program rt seeds ix infos w = Inr w' \<Longrightarrow> ix_program_id ix \<noteq> pid \<Longrightarrow> sound_world rt pid w'"
  using sound_foreign [OF lends_checks] unfolding guarded_def lends_def by blast

lemma token_calls:
  assumes "lends rt pid" "sound_world rt pid w" "info_key tp \<noteq> pid"
  shows "keeps (sound_world rt pid) (spl_token_transfer rt s d a auth seeds tp w)"
    and "keeps (sound_world rt pid) (spl_token_mint_to rt m d a auth seeds tp w)"
    and "keeps (sound_world rt pid) (spl_token_burn rt m s a auth seeds tp w)"
    and "keeps (sound_world rt pid) (spl_token_init_account rt s m own rent tp w)"
    and "keeps (sound_world rt pid) (spl_token_init_mint rt m rent key n tp w)"
proof -
  have b: "token_builders rt" using assms(1) by (simp add: lends_def runtime_ok_def)
  note inv = invoked [OF assms(1)]
  show "keeps (sound_world rt pid) (spl_token_transfer rt s d a auth seeds tp w)"
    using b assms by (auto simp: keeps_def spl_token_transfer_def invoke_optionally_signed_def token_builders_def
        split: if_splits dest: inv)
  show "keeps (sound_world rt pid) (spl_token_mint_to rt m d a auth seeds tp w)"
    using b assms by (auto simp: keeps_def spl_token_mint_to_def invoke_optionally_signed_def token_builders_def
        split: if_splits dest: inv)
  show "keeps (sound_world rt pid) (spl_token_burn rt m s a auth seeds tp w)"
    using b assms by (auto simp: keeps_def spl_token_burn_def invoke_optionally_signed_def token_builders_def
        split: if_splits dest: inv)
  show "keeps (sound_world rt pid) (spl_token_init_account rt s m own rent tp w)"
    using b assms by (auto simp: keeps_def spl_token_init_account_def token_builders_def dest: inv)
  show "keeps (sound_world rt pid) (spl_token_init_mint rt m rent key n tp w)"
    using b assms by (auto simp: keeps_def spl_token_init_mint_def token_builders_def dest: inv)
qed

lemma invocation: "lends rt pid \<Longrightarrow> sound_world rt pid w \<Longrightarrow> ix_program_id ix \<noteq> pid \<Longrightarrow> keeps (sound_world rt pid) (lib (invoke_program rt seeds ix infos w))"
  using invoked by (simp add: keeps_def)

lemmas read_steps = keeps_pair keeps_if keeps_Inl keeps_pure

lemma staking_programs:
  assumes "lends rt pid" "sound_world rt pid w" "info_key sp \<noteq> pid"
  shows "keeps (sound_world rt pid) (withdraw_from_staking_program rt pid n mi ai ci sa p sp own w)"
    and "keeps (sound_world rt pid) (deposit_to_staking_program rt pid n mi ai ci sa p sp own w)"
  unfolding withdraw_from_staking_program_def deposit_to_staking_program_def
  by ((rule read_steps invocation)+, use assms in \<open>auto simp: staking_withdraw_def staking_deposit_def\<close>)+

lemma staking_calls:
  assumes "lends rt pid" "sound_world rt pid w" "\<forall>i\<in>set rest. info_key i \<noteq> pid"
  shows "keeps (sound_world rt pid) (with_staking_accounts rt rest pool w
      (\<lambda>sa p sp. withdraw_from_staking_program rt pid n mi ai ci sa p sp own w))"
    and "keeps (sound_world rt pid) (with_staking_accounts rt rest pool w
      (\<lambda>sa p sp. deposit_to_staking_program rt pid n mi ai ci sa p sp own w))"
  unfolding with_staking_accounts_def
  by ((rule read_steps staking_programs keeps_Inr)+, use assms in auto)+

lemma stores:
  "lends rt pid \<Longrightarrow> sound_world rt pid w \<Longrightarrow> good_reserve r \<Longrightarrow> keeps (sound_world rt pid) (pack_reserve rt r i w)"
  "lends rt pid \<Longrightarrow> sound_world rt pid w \<Longrightarrow> good_obligation ob \<Longrightarrow> keeps (sound_world rt pid) (pack_obligation rt ob i w)"
  "lends rt pid \<Longrightarrow> sound_world rt pid w \<Longrightarrow> market_version m = PROGRAM_VERSION \<Longrightarrow> keeps (sound_world rt pid) (pack_market rt m i w)"
  unfolding keeps_def
  by ((intro allI impI, rule sound_pack_reserve [OF lends_checks] sound_pack_obligation [OF lends_checks]
      sound_pack_market [OF lends_checks], assumption+)+)

lemma loaded:
  "lends rt pid \<Longrightarrow> sound_world rt pid w \<Longrightarrow> load_reserve rt pid mi i w = Inr r \<Longrightarrow> good_reserve r"
  "lends rt pid \<Longrightarrow> sound_world rt pid w \<Longrightarrow> load_obligation rt pid mi i w = Inr ob \<Longrightarrow> good_obligation ob"
  using sound_world_reserve sound_world_obligation by (auto simp: load_ok)

text \<open>A step that returns a world goes on in a sound one.\<close>

lemma bind_steps:
  "(\<And>w'. sound_world rt pid w' \<Longrightarrow> keeps P (f w')) \<Longrightarrow> lends rt pid \<Longrightarrow> sound_world rt pid w \<Longrightarrow> good_reserve r \<Longrightarrow>
     keeps P (attempt (pack_reserve rt r i w) f)"
  "(\<And>w'. sound_world rt pid w' \<Longrightarrow> keeps P (f w')) \<Longrightarrow> lends rt pid \<Longrightarrow> sound_world rt pid w \<Longrightarrow> good_obligation ob \<Longrightarrow>
     keeps P (attempt (pack_obligation rt ob i w) f)"
  "(\<And>w'. sound_world rt pid w' \<Longrightarrow> keeps P (f w')) \<Longrightarrow> lends rt pid \<Longrightarrow> sound_world rt pid w \<Longrightarrow> info_key tp \<noteq> pid \<Longrightarrow>
     keeps P (attempt (spl_token_transfer rt s d a auth seeds tp w) f)"
  "(\<And>w'. sound_world rt pid w' \<Longrightarrow> keeps P (f w')) \<Longrightarrow> lends rt pid \<Longrightarrow> sound_world rt pid w \<Longrightarrow> info_key tp \<noteq> pid \<Longrightarrow>
     keeps P (attempt (spl_token_mint_to rt s d a auth seeds tp w) f)"
  "(\<And>w'. sound_world rt pid w' \<Longrightarrow> keeps P (f w')) \<Longrightarrow> lends rt pid \<Longrightarrow> sound_world rt pid w \<Longrightarrow> info_key tp \<noteq> pid \<Longrightarrow>
     keeps P (attempt (spl_token_burn rt s d a auth seeds tp w) f)"
  "(\<And>w'. sound_world rt pid w' \<Longrightarrow> keeps P (f w')) \<Longrightarrow> lends rt pid \<Longrightarrow> sound_world rt pid w \<Longrightarrow> info_key tp \<noteq> pid \<Longrightarrow>
     keeps P (attempt (spl_token_init_account rt s mint own rent tp w) f)"
  "(\<And>w'. sound_world rt pid w' \<Longrightarrow> keeps P (f w')) \<Longrightarrow> lends rt pid \<Longrightarrow> sound_world rt pid w \<Longrightarrow> info_key tp \<noteq> pid \<Longrightarrow>
     keeps P (attempt (spl_token_init_mint rt mint rent key n tp w) f)"
  by (rule keeps_bind [of "sound_world rt pid"], rule stores token_calls, assumption+)+

lemma bind_optional:
  "(\<And>w'. sound_world rt pid w' \<Longrightarrow> keeps P (f w')) \<Longrightarrow> lends rt pid \<Longrightarrow> sound_world rt pid w \<Longrightarrow> info_key tp \<noteq> pid \<Longrightarrow>
     keeps P (attempt (if b then spl_token_transfer rt s d a auth seeds tp w else Inr w) f)"
  by (rule keeps_bind [of "sound_world rt pid"]) (simp_all add: token_calls keeps_Inr)

lemmas last_steps = token_calls stores staking_calls

lemmas steps = bind_steps bind_optional last_steps read_steps

section \<open>Handlers\<close>

text \<open>An obligation's entry that was found or added and then changed in place.\<close>

lemma good_entry:
  "find_or_add_liquidity_to_borrows k ob = Inr (ob1, i) \<Longrightarrow> good_obligation ob \<Longrightarrow>
     loan_borrow n (if b then (borrows ob1 ! i)\<lparr> loan_cumulative_borrow_rate_wads := x \<rparr> else borrows ob1 ! i) = Inr l \<Longrightarrow> good_obligation (ob1\<lparr> borrows := (borrows ob1)[i := l] \<rparr>)"
  "find_or_add_collateral_to_deposits k ob = Inr (ob1, j) \<Longrightarrow> good_obligation ob \<Longrightarrow>
     collateral_deposit a (deposits ob1 ! j) = Inr c \<Longrightarrow> good_obligation (ob1\<lparr> deposits := (deposits ob1)[j := c] \<rparr>)"
proof -
  assume f: "find_or_add_liquidity_to_borrows k ob = Inr (ob1, i)" and g: "good_obligation ob"
    and l: "loan_borrow n (if b then (borrows ob1 ! i)\<lparr> loan_cumulative_borrow_rate_wads := x \<rparr>
      else borrows ob1 ! i) = Inr l"
  have "ob_version ob1 = ob_version ob"
    using f by (auto simp: find_or_add_liquidity_to_borrows_def split: option.splits if_splits)
  moreover have "borrow_reserve l = borrow_reserve (borrows ob1 ! i)" using l by (auto simp: loan_borrow_def)
  ultimately show "good_obligation (ob1\<lparr> borrows := (borrows ob1)[i := l] \<rparr>)"
    using g update_loan_wf [OF find_or_add_liquidity_wf [OF f] loans.find_or_add_entry(1) [OF f]]
    by (simp add: good_obligation_def)
next
  assume f: "find_or_add_collateral_to_deposits k ob = Inr (ob1, j)" and g: "good_obligation ob"
    and c: "collateral_deposit a (deposits ob1 ! j) = Inr c"
  have "ob_version ob1 = ob_version ob"
    using f by (auto simp: find_or_add_collateral_to_deposits_def split: option.splits if_splits)
  moreover have "deposit_reserve c = deposit_reserve (deposits ob1 ! j)" using c by (auto simp: collateral_deposit_def)
  ultimately show "good_obligation (ob1\<lparr> deposits := (deposits ob1)[j := c] \<rparr>)"
    using g update_deposit_wf [OF find_or_add_collateral_wf [OF f] deps.find_or_add_entry(1) [OF f]]
    by (simp add: good_obligation_def)
qed

lemma repay_keeps:
  assumes "lends rt pid" "sound_world rt pid w" "\<forall>i\<in>set accounts. info_key i \<noteq> pid"
  shows "keeps (sound_world rt pid) (process_repay_obligation_liquidity rt pid amount accounts w)"
  unfolding process_repay_obligation_liquidity_def
  by ((rule steps)+, use assms in \<open>auto dest: loaded intro: good_steps\<close>)

lemma borrow_keeps:
  assumes "lends rt pid" "sound_world rt pid w" "\<forall>i\<in>set accounts. info_key i \<noteq> pid"
  shows "keeps (sound_world rt pid) (process_borrow_obligation_liquidity rt pid amount accounts w)"
  unfolding process_borrow_obligation_liquidity_def borrow_from_reserve_def Let_def
  by ((rule steps)+, use assms in \<open>auto dest: loaded intro: good_entry\<close>)

lemma set_owner_keeps:
  assumes "lends rt pid" "sound_world rt pid w"
  shows "keeps (sound_world rt pid) (process_set_lending_market_owner rt pid own accounts w)"
  unfolding process_set_lending_market_owner_def
  by ((rule steps)+, use assms load_market_version [OF lends_checks [OF assms(1)]] in auto)

lemma init_market_keeps:
  assumes "lends rt pid" "sound_world rt pid w"
  shows "keeps (sound_world rt pid) (process_init_lending_market rt pid own currency accounts w)"
  unfolding process_init_lending_market_def Let_def
  by ((rule steps)+, use assms in \<open>auto simp: lending_market_init_def\<close>)

lemma refresh_reserve_keeps:
  assumes "lends rt pid" "sound_world rt pid w"
  shows "keeps (sound_world rt pid) (process_refresh_reserve rt pid accounts w)"
  unfolding process_refresh_reserve_def
  by ((rule steps)+, use sound_world_reserve [OF assms(2)] assms in \<open>(auto, blast intro: good_steps)\<close>)

lemma update_reserve_keeps:
  assumes "lends rt pid" "sound_world rt pid w"
  shows "keeps (sound_world rt pid) (process_update_reserve rt pid cfg accounts w)"
  unfolding process_update_reserve_def
  by ((rule steps)+, use assms load_reserve_version [OF lends_checks [OF assms(1)]] in
      \<open>auto simp: validate_reserve_config_iff good_reserve_def split: if_splits\<close>)

lemma withdraw_fee_keeps:
  assumes "lends rt pid" "sound_world rt pid w" "\<forall>i\<in>set accounts. info_key i \<noteq> pid"
  shows "keeps (sound_world rt pid) (process_withdraw_fee rt pid accounts w)"
  unfolding process_withdraw_fee_def
  by ((rule steps)+, use assms in auto)

lemma init_obligation_keeps:
  assumes "lends rt pid" "sound_world rt pid w"
  shows "keeps (sound_world rt pid) (process_init_obligation rt pid accounts w)"
  unfolding process_init_obligation_def
  by ((rule steps)+, use assms in \<open>auto simp: good_obligation_def obligation_wf_def obligation_init_def\<close>)

text \<open>Depositing and redeeming liquidity, alone and before a deposit of the collateral.\<close>

lemma deposit_liquidity_keeps:
  assumes "lends rt pid" "sound_world rt pid w" "info_key tp \<noteq> pid"
  shows "keeps (\<lambda>q. sound_world rt pid (snd q)) (deposit_reserve_liquidity rt pid n src dst ri si mi li ai ui clock tp w)"
  unfolding deposit_reserve_liquidity_def
  by ((rule steps keeps_Inr)+, use assms in \<open>auto dest: loaded intro: good_steps\<close>)

lemma deposit_liquidity_owner:
  assumes "lends rt pid" "info_key tp \<noteq> pid"
    and "deposit_reserve_liquidity rt pid n src dst ri si mi li ai ui clock tp w = Inr (c, w')"
  shows "owner_of w' ri = pid"
proof -
  from assms(3) obtain r w0 w1 seeds where own: "owner_of w ri = pid" and w0: "pack_reserve rt r ri w = Inr w0"
    and t: "spl_token_transfer rt src si n ui [] tp w0 = Inr w1" "spl_token_mint_to rt mi dst c ai seeds tp w1 = Inr w'"
    by (auto simp: deposit_reserve_liquidity_def load_ok)
  have "same_for pid w0 w1" "same_for pid w1 w'" using token_call_same(1,2) [OF lends_rt [OF assms(1)] assms(2)] t by blast+
  then show ?thesis using own pack_owner(1) [OF w0] same_for_owner by metis
qed

lemma deposit_reserve_keeps:
  assumes "lends rt pid" "sound_world rt pid w" "\<forall>i\<in>set accounts. info_key i \<noteq> pid"
  shows "keeps (sound_world rt pid) (process_deposit_reserve_liquidity rt pid amount accounts w)"
  unfolding process_deposit_reserve_liquidity_def
  by ((rule keeps_bind [OF deposit_liquidity_keeps, rotated 3] steps keeps_Inr)+, use assms in auto)

lemma redeem_keeps:
  assumes "lends rt pid" "sound_world rt pid w" "\<forall>i\<in>set accounts. info_key i \<noteq> pid"
  shows "keeps (sound_world rt pid) (process_redeem_reserve_collateral rt pid amount accounts w)"
  unfolding process_redeem_reserve_collateral_def redeem_reserve_collateral_def
  by ((rule steps)+, use assms in \<open>auto dest: loaded intro: good_steps\<close>)

lemma deposit_collateral_keeps:
  assumes "lends rt pid" "sound_world rt pid w" "info_key tp \<noteq> pid"
  shows "keeps (sound_world rt pid) (deposit_obligation_collateral rt pid n src dst ri oi mi ai oo ui clock tp w)"
  unfolding deposit_obligation_collateral_def
  by ((rule steps)+, use assms in \<open>auto dest: loaded intro: good_entry\<close>)

lemma deposit_obligation_keeps:
  assumes "lends rt pid" "sound_world rt pid w" "\<forall>i\<in>set accounts. info_key i \<noteq> pid"
  shows "keeps (sound_world rt pid) (process_deposit_obligation_collateral rt pid amount accounts w)"
  unfolding process_deposit_obligation_collateral_def
  by ((rule keeps_bind [OF deposit_collateral_keeps, rotated 3] steps)+, use assms in auto)

lemma deposit_both_keeps:
  assumes "lends rt pid" "sound_world rt pid w" "\<forall>i\<in>set accounts. info_key i \<noteq> pid"
  shows "keeps (sound_world rt pid) (process_deposit_reserve_liquidity_and_obligation_collateral rt pid amount accounts w)"
  unfolding process_deposit_reserve_liquidity_and_obligation_collateral_def
  by ((rule keeps_bind [OF deposit_liquidity_keeps, rotated 3] keeps_bind [OF deposit_collateral_keeps, rotated 3] steps)+,
      use assms in \<open>auto dest: deposit_liquidity_owner intro: sound_world_reserve\<close>)

lemma withdraw_collateral_keeps:
  assumes "lends rt pid" "sound_world rt pid w" "info_key tp \<noteq> pid"
  shows "keeps (\<lambda>q. sound_world rt pid (snd q)) (withdraw_obligation_collateral rt pid n src dst ri oi mi ai oo clock tp w)"
  unfolding withdraw_obligation_collateral_def
  by ((rule steps keeps_Inr)+, use assms in \<open>auto dest: loaded intro: good_steps\<close>)

lemma withdraw_obligation_keeps:
  assumes "lends rt pid" "sound_world rt pid w" "\<forall>i\<in>set accounts. info_key i \<noteq> pid"
  shows "keeps (sound_world rt pid) (process_withdraw_obligation_collateral rt pid amount accounts w)"
  unfolding process_withdraw_obligation_collateral_def
  by ((rule keeps_bind [OF withdraw_collateral_keeps, rotated 3] steps)+, use assms in auto)

text \<open>Liquidation, flash loans and the refresh of an obligation.\<close>

lemma liquidate_states_keeps:
  assumes "lends rt pid" "sound_world rt pid w" "good_reserve rr" "good_obligation ob"
  shows "keeps (\<lambda>q. sound_world rt pid (snd (snd q))) (liquidate_states rt amount rr wr ob la ca ri oi w)"
  unfolding liquidate_states_def
  by ((rule steps keeps_Inr)+, use assms in \<open>auto intro: good_steps\<close>)

lemma liquidate_keeps:
  assumes "lends rt pid" "sound_world rt pid w" "\<forall>i\<in>set accounts. info_key i \<noteq> pid"
  shows "keeps (sound_world rt pid) (process_liquidate_obligation rt pid amount accounts w)"
  unfolding process_liquidate_obligation_def
  by ((rule keeps_bind [OF liquidate_states_keeps, rotated 4] steps)+,
      use assms in \<open>auto dest!: check_liquidation_reserves_ok check_unhealthy_ok
        intro: sound_world_reserve sound_world_obligation\<close>)

lemma flash_round_keeps:
  assumes "lends rt pid" "sound_world rt pid w" "good_reserve r" "owner_of w ri = pid" "info_key tp \<noteq> pid" "info_key rp \<noteq> pid"
  shows "keeps (sound_world rt pid) (flash_loan_round rt n due r src dst ri ai seeds tp rp rest w)"
  unfolding keeps_def
proof (intro allI impI)
  fix w3 assume "flash_loan_round rt n due r src dst ri ai seeds tp rp rest w = Inr w3"
  then obtain l1 w0 w1 w2 r2 l2 where w0: "pack_reserve rt (r\<lparr> liquidity := l1 \<rparr>) ri w = Inr w0"
    and w1: "spl_token_transfer rt src dst n ai seeds tp w0 = Inr w1"
    and w2: "invoke_program rt [] (flash_loan_instruction (info_key rp) dst src tp rest due)
      ([dst, rp, src, tp] @ rest) w1 = Inr w2"
    and r2: "unpack_reserve rt w2 ri = Inr r2"
    and w3: "pack_reserve rt (r2\<lparr> liquidity := l2 \<rparr>) ri w2 = Inr w3"
    by (auto simp: flash_loan_round_def)
  have ix: "ix_program_id (flash_loan_instruction (info_key rp) dst src tp rest due) \<noteq> pid"
    using assms(6) by (simp add: flash_loan_instruction_def)
  have "sound_world rt pid w0" using keepsD [OF stores(1) w0] assms by simp
  then have "sound_world rt pid w1" using keepsD [OF token_calls(1) w1] assms by simp
  then have ok2: "sound_world rt pid w2" using invoked [OF assms(1) _ w2 ix] by blast
  have "same_for pid w0 w1" using w1 by (rule token_call_same(1) [OF lends_rt [OF assms(1)] assms(5)])
  moreover have "same_for pid w1 w2" by (rule invoke_same [OF lends_rt [OF assms(1)] w2 ix])
  ultimately have "owner_of w2 ri = pid" using pack_owner(1) [OF w0] assms(4) same_for_owner by metis
  with ok2 r2 have "good_reserve r2" by (rule sound_world_reserve)
  then show "sound_world rt pid w3" using keepsD [OF stores(1) w3] assms(1) ok2 by simp
qed

lemma pay_fees_keeps:
  assumes "lends rt pid" "sound_world rt pid w" "info_key tp \<noteq> pid"
  shows "keeps (sound_world rt pid) (flash_loan_pay_fees rt fee host src fi hi ai seeds tp w)"
  unfolding keeps_def
proof (intro allI impI)
  fix w' assume "flash_loan_pay_fees rt fee host src fi hi ai seeds tp w = Inr w'"
  then obtain w4 where w4: "if 0 < host then host \<le> fee \<and> spl_token_transfer rt src hi host ai seeds tp w = Inr w4
      else w4 = w"
    and w': "if fee \<noteq> host then spl_token_transfer rt src fi (fee - host) ai seeds tp w4 = Inr w' else w' = w4"
    by (rule pay_fees_cases)
  have "sound_world rt pid w4" using w4 assms keepsD [OF token_calls(1) [OF assms]] by (auto split: if_splits)
  then show "sound_world rt pid w'" using w' assms keepsD [OF token_calls(1)] by (auto split: if_splits)
qed

lemma flash_keeps:
  assumes "lends rt pid" "sound_world rt pid w" "\<forall>i\<in>set accounts. info_key i \<noteq> pid"
  shows "keeps (sound_world rt pid) (process_flash_loan rt pid amount accounts w)"
  unfolding process_flash_loan_def flash_loan_lend_def Let_def
  by ((rule keeps_bind [OF flash_round_keeps, rotated 6] pay_fees_keeps steps)+,
      use assms in \<open>auto simp: load_reserve_ok intro: sound_world_reserve\<close>)

lemma refresh_obligation_keeps:
  assumes "lends rt pid" "sound_world rt pid w"
  shows "keeps (sound_world rt pid) (process_refresh_obligation rt pid accounts w)"
proof -
  have good: "good_obligation (ob\<lparr> deposits := ds, borrows := ls, deposited_value := a, borrowed_value := b,
      allowed_borrow_value := c, unhealthy_borrow_value := d \<rparr>)"
    if "good_obligation ob" "refresh_deposits rt pid clock w (deposits ob) rest t0 = Inr (ds, more, t)"
      "refresh_loans rt pid clock w (borrows ob) more b0 = Inr (ls, end', b)" for ob ds ls a b c d clock rest t0 more t b0 end'
  proof -
    from refresh_deposits_ok [OF that(2)] have "map (\<lambda>c. (deposit_reserve c, deposited_amount c)) ds =
        map (\<lambda>c. (deposit_reserve c, deposited_amount c)) (deposits ob)" by blast
    from arg_cong [OF this, of "map fst"] have "map deposit_reserve ds = map deposit_reserve (deposits ob)"
      by (simp add: comp_def)
    moreover from refresh_loans_ok [OF that(3)] have "map borrow_reserve ls = map borrow_reserve (borrows ob)" by blast
    ultimately show ?thesis using that(1)
      by (simp add: good_obligation_def obligation_wf_def) (metis length_map)
  qed
  show ?thesis
    unfolding process_refresh_obligation_def
    by ((rule steps)+, use assms in \<open>auto intro: good sound_world_obligation\<close>)
qed

lemma init_reserve_keeps:
  assumes "lends rt pid" "sound_world rt pid w" "\<forall>i\<in>set accounts. info_key i \<noteq> pid"
  shows "keeps (sound_world rt pid) (process_init_reserve rt pid amount price cfg accounts w)"
  unfolding process_init_reserve_def init_reserve_tokens_def Let_def
  by ((rule steps)+, use assms in \<open>auto simp: validate_reserve_config_iff good_reserve_def reserve_init_def
      reserve_deposit_liquidity_def split: if_splits\<close>)

text \<open>Every instruction.\<close>

lemma process_keeps:
  assumes "lends rt pid" "sound_world rt pid w" "\<forall>i\<in>set accounts. info_key i \<noteq> pid"
  shows "keeps (sound_world rt pid) (process rt pid accounts ins w)"
  by (cases ins) (simp_all add: assms init_market_keeps init_reserve_keeps init_obligation_keeps deposit_reserve_keeps
      redeem_keeps borrow_keeps repay_keeps liquidate_keeps refresh_reserve_keeps deposit_obligation_keeps
      withdraw_obligation_keeps set_owner_keeps refresh_obligation_keeps flash_keeps deposit_both_keeps
      update_reserve_keeps withdraw_fee_keeps)

end
