(* ===== verification/Lending_Runs.thy ===== *)
theory Lending_Runs
  imports Lending_Steps
begin

text \<open>
  What a chain with the lending program on it can reach: instructions of the program
  (\<open>Processor::process\<close> of token-lending/program/src/processor.rs) in any order on any accounts,
  and between them whatever the other programs do. Every account of the program that can be loaded
  is valid in every such world.
\<close>

section \<open>Runs\<close>

inductive lending_reachable :: "solana \<Rightarrow> pubkey \<Rightarrow> world \<Rightarrow> bool" for rt pid where
  deployed: "(\<And>k. acc_owner (w k) \<noteq> pid) \<Longrightarrow> lending_reachable rt pid w"
| called: "lending_reachable rt pid w \<Longrightarrow> \<forall>i\<in>set accounts. info_key i \<noteq> pid \<Longrightarrow>
    process_instruction rt pid accounts input w = Inr w' \<Longrightarrow> lending_reachable rt pid w'"
| others: "lending_reachable rt pid w \<Longrightarrow> foreign pid w w' \<Longrightarrow> lending_reachable rt pid w'"

lemma reachable_sound:
  assumes "lending_reachable rt pid w" "lends rt pid"
  shows "sound_world rt pid w"
  using assms(1)
proof induction
  case (deployed w)
  then show ?case by (simp add: sound_world_def owner_of_def)
next
  case (called w accounts input w')
  from called.hyps(3) obtain ins where "process rt pid accounts ins w = Inr w'"
    by (auto simp: process_instruction_def)
  then show ?case by (rule keepsD [OF process_keeps [OF assms(2) called.IH called.hyps(2)]])
next
  case (others w w')
  then show ?case using sound_foreign [OF lends_checks [OF assms(2)]] by blast
qed

section \<open>A run of the sample runtime\<close>

lemma sample_foreign: "invoke_program sample_rt seeds ix infos w = Inr w' \<Longrightarrow> foreign 100 w w'"
  by (auto simp: sample_rt_def sample_invoke_def sample_move_def sample_mint_def sample_burn_def set_balance_def
      foreign_def Let_def split: if_splits)

lemma sample_lends [simp]: "lends sample_rt 100"
  using sample_foreign by (auto simp: lends_def guarded_def)

text \<open>
  Two accounts are created for the program; then a market and an obligation are initialized in them.
\<close>

definition bare_world :: world where
  "bare_world = (\<lambda>k. \<lparr> acc_lamports = 5000, acc_owner = 200, acc_data = [] \<rparr>)"

definition created_world :: world where
  "created_world = bare_world
     (7 := \<lparr> acc_lamports = 5000, acc_owner = 100, acc_data = replicate LENDING_MARKET_LEN 0 \<rparr>,
      10 := \<lparr> acc_lamports = 5000, acc_owner = 100, acc_data = replicate OBLIGATION_LEN 0 \<rparr>)"

lemma created_reachable: "lending_reachable sample_rt 100 created_world"
  by (rule others [OF deployed [of bare_world]]) (auto simp: bare_world_def created_world_def foreign_def)

lemma run_step:
  assumes "lending_reachable rt pid w" "\<forall>i\<in>set accounts. info_key i \<noteq> pid"
    and "instruction_fits ins" "process rt pid accounts ins w = Inr w'"
  shows "lending_reachable rt pid w'"
proof -
  obtain bs where "instruction_pack ins = Inr bs" using instruction_pack_total [OF assms(3)] by blast
  then show ?thesis
    using called [OF assms(1,2), of bs w'] instruction_unpack_pack [of ins bs "[]"] assms(4)
    by (simp add: process_instruction_def)
qed

text \<open>Zeroed data reads as a state of version 0, which is not initialized.\<close>

lemma zero_byte [simp]: "u8_from [0] = 0"
  by (simp add: u8_from_def from_le_bytes_def)

lemma unpacked_decimal: "dec (unpack_decimal bs) < 2 ^ 128"
  using unsigned_less [of "u128_from bs", where ?'a = nat] by (simp add: unpack_decimal_def decimal_from_scaled_val_def unsigned_ucast_eq take_bit_nat_eq_self)

lemma zero_market:
  obtains m where "assert_uninitialized sample_rt LENDING_MARKET_LEN lending_market_is_initialized
      lending_market_unpack_from_slice created_world (acct 7) = Inr m"
  by (simp add: assert_uninitialized_def unpack_unchecked_def sample_rt_def created_world_def data_of_def
      lending_market_unpack_from_slice_def read_array_def lending_market_read_def lending_market_is_initialized_def
      PROGRAM_VERSION_def UNINITIALIZED_VERSION_def LENDING_MARKET_LEN_def)

lemma zero_obligation:
  assumes "data_of w (acct 10) = replicate OBLIGATION_LEN 0"
  obtains ob where "assert_uninitialized sample_rt OBLIGATION_LEN obligation_is_initialized
      obligation_unpack_from_slice w (acct 10) = Inr ob"
    "obligation_fits (ob\<lparr> ob_version := PROGRAM_VERSION, deposits := [], borrows := [] \<rparr>)"
  by (simp add: assms assert_uninitialized_def unpack_unchecked_def sample_rt_def
      obligation_unpack_from_slice_def read_array_def obligation_read_def obligation_is_initialized_def
      PROGRAM_VERSION_def UNINITIALIZED_VERSION_def OBLIGATION_LEN_def unpack_bool_def obligation_fits_def
      unpacked_decimal [simplified])

lemma created_world_data:
  "data_of created_world (acct 7) = replicate LENDING_MARKET_LEN 0" "data_of created_world (acct 10) = replicate OBLIGATION_LEN 0"
  "owner_of created_world (acct 7) = 100" "owner_of created_world (acct 10) = 100"
  "acc_lamports (created_world k) = 5000"
  by (simp_all add: created_world_def bare_world_def data_of_def owner_of_def)

lemma sample_rent:
  "info_key i = 2 \<Longrightarrow> rent_from sample_rt w i = Inr (\<lambda>lamports len. len \<le> unat lamports)"
  by (simp add: rent_from_def sample_rt_def)

lemma sample_find: "find_program_address sample_rt seeds p = (11, 255)"
  by (simp add: sample_rt_def)

lemma created_market_run:
  obtains w1 m where "\<And>i j. info_key i = 2 \<Longrightarrow> info_key j = 200 \<Longrightarrow>
      process_init_lending_market sample_rt 100 8 0 [acct 7, i, j] created_world = Inr w1"
    "pack_market sample_rt m (acct 7) created_world = Inr w1" "market_version m = PROGRAM_VERSION"
    "token_program_id m = 200"
proof -
  obtain m0 where m0: "assert_uninitialized sample_rt LENDING_MARKET_LEN lending_market_is_initialized
      lending_market_unpack_from_slice created_world (acct 7) = Inr m0" by (rule zero_market)
  define m where "m = lending_market_init \<lparr> param_bump_seed = 255, param_owner = 8, param_quote_currency = 0,
    param_token_program_id = 200 \<rparr> m0"
  have m: "market_version m = PROGRAM_VERSION" "token_program_id m = 200"
    by (simp_all add: m_def lending_market_init_def)
  obtain w1 where w1: "pack_market sample_rt m (acct 7) created_world = Inr w1"
    using market_store_total [OF sample_pack_checks, of m created_world "acct 7"] m
    by (auto simp: lending_market_fits_def created_world_data)
  have "process_init_lending_market sample_rt 100 8 0 [acct 7, i, j] created_world = Inr w1"
    if "info_key i = 2" "info_key j = 200" for i j
    using m0 w1 that by (simp add: process_init_lending_market_def sample_rent assert_rent_exempt_def
        created_world_data sample_find LENDING_MARKET_LEN_def Let_def flip: m_def)
  then show thesis using w1 m by (rule that)
qed

lemma sample_run:
  "\<exists>w ob. lending_reachable sample_rt 100 w \<and> owner_of w (acct 10) = 100 \<and>
     unpack_obligation sample_rt w (acct 10) = Inr ob"
proof -
  obtain w1 m where run1: "\<And>i j. info_key i = 2 \<Longrightarrow> info_key j = 200 \<Longrightarrow>
      process_init_lending_market sample_rt 100 8 0 [acct 7, i, j] created_world = Inr w1"
    and w1: "pack_market sample_rt m (acct 7) created_world = Inr w1"
    and m: "market_version m = PROGRAM_VERSION" "token_program_id m = 200" by (rule created_market_run) blast
  have r1: "lending_reachable sample_rt 100 w1"
    by (rule run_step [OF created_reachable, of "[acct 7, acct 2, acct 200]" "InitLendingMarket 8 0"])
      (simp_all add: run1)
  have "w1 10 = created_world 10" using stored_frame(3) [OF w1, of 10] by simp
  then have d1: "data_of w1 (acct 10) = replicate OBLIGATION_LEN 0" "owner_of w1 (acct 10) = 100"
      "acc_lamports (w1 10) = 5000"
    using created_world_data by (simp_all add: data_of_def owner_of_def)
  obtain ob0 where ob0: "assert_uninitialized sample_rt OBLIGATION_LEN obligation_is_initialized
      obligation_unpack_from_slice w1 (acct 10) = Inr ob0"
    and bounds: "obligation_fits (ob0\<lparr> ob_version := PROGRAM_VERSION, deposits := [], borrows := [] \<rparr>)"
    using zero_obligation [OF d1(1)] .
  define ob where "ob = obligation_init \<lparr> init_ob_current_slot = 10, init_ob_lending_market = 7, init_ob_owner = 9,
    init_ob_deposits = [], init_ob_borrows = [] \<rparr> ob0"
  have ob: "ob_version ob = PROGRAM_VERSION" "obligation_fits ob"
    using bounds by (simp_all add: ob_def obligation_init_def obligation_fits_def)
  obtain w2 where w2: "pack_obligation sample_rt ob (acct 10) w1 = Inr w2"
    using obligation_store_total [OF sample_pack_checks ob(2), of w1 "acct 10"] d1 by auto
  have market: "load_market sample_rt 100 (acct 7) (acct 200) w1 = Inr m"
    using stored_market_read [OF sample_pack_checks m(1) w1] pack_owner(3) [OF w1, of "acct 7"] m(2)
    by (simp add: load_market_def created_world_data)
  have run2: "process sample_rt 100 [acct 10, acct 7, acct 9, acct 1, acct 2, acct 200] InitObligation w1 = Inr w2"
    using ob0 w2 market by (simp add: process_init_obligation_def sample_rent assert_rent_exempt_def d1
        OBLIGATION_LEN_def flip: ob_def)
  have r2: "lending_reachable sample_rt 100 w2"
    by (rule run_step [OF r1 _ _ run2]) simp_all
  show ?thesis
    using r2 d1(2) pack_owner(2) [OF w2, of "acct 10"] stored_obligation_read [OF sample_pack_checks ob(1) w2]
    by auto
qed

section \<open>Validity\<close>

text \<open>
  C9: Whatever instructions of the lending program ran, on whatever accounts, successfully and in
  whatever order, with other programs' doings between them: every reserve that the program can load
  from an account of its own has a configuration that passes all checks (rates in order, a
  liquidation threshold above the loan to value ratio and at most 100 percent, fees below one), and
  every obligation has at most ten entries, at most one for each reserve.
\<close>

theorem lending_accounts_valid:
  assumes "lends rt pid" "lending_reachable rt pid w" "owner_of w i = pid"
  shows "(\<forall>r. unpack_reserve rt w i = Inr r \<longrightarrow> config_valid (config r)) \<and>
    (\<forall>ob. unpack_obligation rt w i = Inr ob \<longrightarrow> obligation_wf ob)"
  using reachable_sound [OF assms(2,1)] assms(3)
  by (simp add: sound_world_def good_reserve_def good_obligation_def)

theorem lending_accounts_valid_witness:
  "\<exists>w ob. unpack_obligation sample_rt w (acct 10) = Inr ob \<and> obligation_wf ob"
proof -
  obtain w ob where r: "lending_reachable sample_rt 100 w" and own: "owner_of w (acct 10) = 100"
    and ob: "unpack_obligation sample_rt w (acct 10) = Inr ob"
    using sample_run by blast
  then have "obligation_wf ob" using lending_accounts_valid [OF sample_lends r own] by blast
  with ob show ?thesis by blast
qed

end
