(* ===== verification/Market_Correct.thy ===== *)
theory Market_Correct
  imports Lending_Runs Client
begin

text \<open>
  Who may do what (token-lending/program/src/processor.rs): the instructions that only the owner of
  a market or of an obligation can have executed; what a deposit into a reserve checks and leaves
  behind; and that a market opened by a client can be used by its clients.
\<close>

section \<open>Authority\<close>

text \<open>The market that an instruction administers and the account that must sign for it.\<close>

fun market_accounts :: "lending_instruction \<Rightarrow> (nat \<times> nat) option" where
  "market_accounts (SetLendingMarketOwner _) = Some (0, 1)"
| "market_accounts (InitReserve _ _ _) = Some (8, 10)"
| "market_accounts (UpdateReserve _) = Some (1, 3)"
| "market_accounts WithdrawFee = Some (1, 3)"
| "market_accounts _ = None"

text \<open>The obligation whose owner must sign, and the owner's account.\<close>

fun obligation_accounts :: "lending_instruction \<Rightarrow> (nat \<times> nat) option" where
  "obligation_accounts (DepositObligationCollateral _) = Some (3, 6)"
| "obligation_accounts (WithdrawObligationCollateral _) = Some (3, 6)"
| "obligation_accounts (BorrowObligationLiquidity _) = Some (4, 7)"
| "obligation_accounts _ = None"

definition market_signed :: "solana \<Rightarrow> pubkey \<Rightarrow> world \<Rightarrow> account_info \<Rightarrow> account_info \<Rightarrow> bool" where
  "market_signed rt pid w mi oi \<longleftrightarrow> owner_of w mi = pid \<and> is_signer oi \<and>
     (\<exists>m. unpack_market rt w mi = Inr m \<and> info_key oi = market_owner m)"

definition obligation_signed :: "solana \<Rightarrow> pubkey \<Rightarrow> world \<Rightarrow> account_info \<Rightarrow> account_info \<Rightarrow> bool" where
  "obligation_signed rt pid w bi oi \<longleftrightarrow> owner_of w bi = pid \<and> is_signer oi \<and>
     (\<exists>ob. unpack_obligation rt w bi = Inr ob \<and> info_key oi = ob_owner ob)"

lemma set_owner_signed:
  "process_set_lending_market_owner rt pid new accounts w = Inr w' \<Longrightarrow>
     1 < length accounts \<and> market_signed rt pid w (accounts ! 0) (accounts ! 1)"
  by (clarsimp simp: process_set_lending_market_owner_def market_signed_def)

lemma update_reserve_signed:
  "process_update_reserve rt pid cfg accounts w = Inr w' \<Longrightarrow>
     3 < length accounts \<and> market_signed rt pid w (accounts ! 1) (accounts ! 3)"
  by (clarsimp simp: process_update_reserve_def market_signed_def)

lemma withdraw_fee_signed:
  "process_withdraw_fee rt pid accounts w = Inr w' \<Longrightarrow>
     3 < length accounts \<and> market_signed rt pid w (accounts ! 1) (accounts ! 3)"
  by (clarsimp simp: process_withdraw_fee_def market_signed_def)

lemma init_reserve_signed:
  "process_init_reserve rt pid n price cfg accounts w = Inr w' \<Longrightarrow>
     10 < length accounts \<and> market_signed rt pid w (accounts ! 8) (accounts ! 10)"
  by (clarsimp simp: process_init_reserve_def market_signed_def Let_def)

lemma borrow_signed:
  "process_borrow_obligation_liquidity rt pid n accounts w = Inr w' \<Longrightarrow>
     7 < length accounts \<and> obligation_signed rt pid w (accounts ! 4) (accounts ! 7)"
  by (clarsimp simp: process_borrow_obligation_liquidity_def obligation_signed_def load_ok)

lemma withdraw_signed:
  "process_withdraw_obligation_collateral rt pid n accounts w = Inr w' \<Longrightarrow>
     6 < length accounts \<and> obligation_signed rt pid w (accounts ! 3) (accounts ! 6)"
  by (clarsimp simp: process_withdraw_obligation_collateral_def withdraw_obligation_collateral_def
      obligation_signed_def load_ok)

lemma deposit_signed:
  "process_deposit_obligation_collateral rt pid n accounts w = Inr w' \<Longrightarrow>
     6 < length accounts \<and> obligation_signed rt pid w (accounts ! 3) (accounts ! 6)"
  by (clarsimp simp: process_deposit_obligation_collateral_def deposit_obligation_collateral_def
      obligation_signed_def load_ok)



section \<open>Deposits\<close>

lemma process_deposit_cases:
  assumes "process_deposit_reserve_liquidity rt pid n
      (src # dst # ri # si # mi # li # ai # ui # ci # tp # rest) w = Inr w'"
    and "unpack_reserve rt w ri = Inr r"
  obtains clock m d0 d total c r1 w1 w2 where "n \<noteq> 0" "clock_from rt w ci = Inr clock"
    "unpack_market rt w li = Inr m" "owner_of w li = pid" "owner_of w ri = pid"
    "reserve_lending_market r = info_key li"
    "liq_supply_pubkey (liquidity r) = info_key si" "coll_mint_pubkey (collateral r) = info_key mi"
    "liq_supply_pubkey (liquidity r) \<noteq> info_key src" "coll_supply_pubkey (collateral r) \<noteq> info_key dst"
    "\<not> stale (reserve_last_update r)" "clock = slot (reserve_last_update r)"
    "total_supply (liquidity r) = Inr d0" "decimal_try_add (decimal_from_u64 n) d0 = Inr d"
    "decimal_try_floor_u64 d = Inr total" "\<not> deposit_limit (config r) < total"
    "reserve_deposit_liquidity n r = Inr (c, r1)"
    "pack_reserve rt (r1\<lparr> reserve_last_update := mark_stale (reserve_last_update r1) \<rparr>) ri w = Inr w1"
    "spl_token_transfer rt src si n ui [] tp w1 = Inr w2"
    "spl_token_mint_to rt mi dst c ai (authority_signer_seeds li m) tp w2 = Inr w'"
proof -
  from assms(1) show thesis
    by (simp add: process_deposit_reserve_liquidity_def deposit_reserve_liquidity_def load_ok assms(2) split_paired_Ex)
      (elim exE conjE, rule that, assumption+)
qed

text \<open>
  C7: A deposit into a reserve needs the reserve refreshed in the current slot, keeps the supply
  within the deposit limit, and takes the tokens to the reserve's own supply account. The supply
  grows by exactly the deposit and the collateral supply by what is minted, worth at most the
  deposit; the reserve is stale afterwards, and no other account of the program changes.
\<close>

theorem deposit_liquidity_safe:
  assumes rt: "runtime_ok rt pid" "info_key tp \<noteq> pid" and load: "unpack_reserve rt w ri = Inr r"
    and run: "process_deposit_reserve_liquidity rt pid n
      (src # dst # ri # si # mi # li # ai # ui # ci # tp # rest) w = Inr w'"
  shows "n \<noteq> 0 \<and> clock_from rt w ci = Inr (slot (reserve_last_update r)) \<and> \<not> stale (reserve_last_update r) \<and>
    info_key si = liq_supply_pubkey (liquidity r) \<and> info_key src \<noteq> info_key si \<and>
    info_key mi = coll_mint_pubkey (collateral r) \<and> info_key dst \<noteq> coll_supply_pubkey (collateral r) \<and>
    (supply_wads (liquidity r) + unat n * wad) div wad \<le> unat (deposit_limit (config r)) \<and>
    (\<exists>r' c seeds w1 w2. unpack_reserve rt w' ri = Inr r' \<and>
      supply_wads (liquidity r') = supply_wads (liquidity r) + unat n * wad \<and>
      unat (mint_total_supply (collateral r')) = unat (mint_total_supply (collateral r)) + unat c \<and>
      (mint_total_supply (collateral r) \<noteq> 0 \<longrightarrow>
        unat c * supply_wads (liquidity r) \<le> unat n * wad * unat (mint_total_supply (collateral r))) \<and>
      config r' = config r \<and> stale (reserve_last_update r') \<and>
      spl_token_transfer rt src si n ui [] tp w1 = Inr w2 \<and>
      spl_token_mint_to rt mi dst c ai seeds tp w2 = Inr w') \<and>
    (\<forall>i. info_key i \<noteq> info_key ri \<longrightarrow> owner_of w i = pid \<longrightarrow> data_of w' i = data_of w i)"
proof -
  from run load obtain clock m d0 d total c r1 w1 w2 where c: "n \<noteq> 0" "clock_from rt w ci = Inr clock"
    and own: "owner_of w ri = pid"
    and keys: "liq_supply_pubkey (liquidity r) = info_key si" "coll_mint_pubkey (collateral r) = info_key mi"
      "liq_supply_pubkey (liquidity r) \<noteq> info_key src" "coll_supply_pubkey (collateral r) \<noteq> info_key dst"
    and fresh: "\<not> stale (reserve_last_update r)" "clock = slot (reserve_last_update r)"
    and lim: "total_supply (liquidity r) = Inr d0" "decimal_try_add (decimal_from_u64 n) d0 = Inr d"
      "decimal_try_floor_u64 d = Inr total" "\<not> deposit_limit (config r) < total"
    and r1: "reserve_deposit_liquidity n r = Inr (c, r1)"
    and w1: "pack_reserve rt (r1\<lparr> reserve_last_update := mark_stale (reserve_last_update r1) \<rparr>) ri w = Inr w1"
    and w2: "spl_token_transfer rt src si n ui [] tp w1 = Inr w2"
    and w': "spl_token_mint_to rt mi dst c ai (authority_signer_seeds li m) tp w2 = Inr w'"
    by (rule process_deposit_cases)
  define r' where "r' = r1\<lparr> reserve_last_update := mark_stale (reserve_last_update r1) \<rparr>"
  note pc = runtime_ok_pack [OF rt(1)]
  from r1 have parts: "supply_wads (liquidity r1) = supply_wads (liquidity r) + unat n * wad"
    "unat (mint_total_supply (collateral r1)) = unat (mint_total_supply (collateral r)) + unat c"
    "config r1 = config r" "reserve_version r1 = reserve_version r"
    by (auto elim!: deposit_liquidity_cases dest: arg_cong [where f = config] arg_cong [where f = reserve_version])
  have same: "same_for pid w1 w'"
    using token_call_same(1) [OF rt w2] token_call_same(2) [OF rt w'] by (rule same_for_trans)
  have own1: "owner_of w1 i = owner_of w i" for i using pack_owner(1) [OF w1] .
  have "unpack_reserve rt w' ri = unpack_reserve rt w1 ri"
    by (rule same_for_load(2) [OF same]) (simp add: own1 own)
  also have "\<dots> = Inr r'"
    unfolding r'_def using stored_reserve_read [OF pc _ w1] parts(4) load_reserve_version [OF pc load] by simp
  finally have st: "unpack_reserve rt w' ri = Inr r'" .
  have frame: "data_of w' i = data_of w i" if "info_key i \<noteq> info_key ri" "owner_of w i = pid" for i
    using same_for_data [OF same, of i] pack_other(1) [OF that(1) w1] that(2) own1 by simp
  have "dec d = supply_wads (liquidity r) + unat n * wad"
    using lim(1,2) by (simp add: total_supply_ok decimal_ok dec_from_u64)
  with lim(3,4) have limit: "(supply_wads (liquidity r) + unat n * wad) div wad \<le> unat (deposit_limit (config r))"
    by (simp add: try_floor_ok not_less word_le_nat_alt)
  have "liquidity r' = liquidity r1" "collateral r' = collateral r1" "config r' = config r" "stale (reserve_last_update r')"
    by (simp_all add: r'_def parts)
  with c keys fresh limit st parts deposit_share [OF r1] w2 w' show ?thesis
    by (intro conjI exI [of _ r'] exI [of _ c] exI [of _ "authority_signer_seeds li m"] exI [of _ w1] exI [of _ w2]
        allI impI frame) auto
qed

lemma sample_mint_total:
  assumes "acc_owner (w (info_key d)) = 200"
  obtains w' where "spl_token_mint_to sample_rt m d n a seeds (acct 200) w = Inr w'"
  using assms by (simp add: spl_token_mint_to_def sample_rt_def sample_ix_def invoke_optionally_signed_def
      sample_invoke_def sample_mint_def Let_def)

lemma sample_deposit_liquidity_run:
  "\<exists>w'. process_deposit_reserve_liquidity sample_rt 100 100
     (acct 41 # acct 43 # acct 5 # acct 22 # acct 31 # acct 7 # acct 11 # acct 42 # acct 1 # acct 200 # [])
     (sample_world sample_obligation) = Inr w'"
proof -
  define w where "w = sample_world sample_obligation"
  have "reserve_fits (sample_deposited\<lparr> reserve_last_update := mark_stale (reserve_last_update sample_deposited) \<rparr>)"
    by (simp add: reserve_fits_def sample_deposited_def sample_reserve_def PROGRAM_VERSION_def)
  then obtain w1 where w1: "pack_reserve sample_rt (sample_deposited\<lparr> reserve_last_update :=
      mark_stale (reserve_last_update sample_deposited) \<rparr>) (acct 5) w = Inr w1"
    and f1: "\<And>k. k \<noteq> 5 \<Longrightarrow> w1 k = w k" "\<And>k. acc_owner (w1 k) = acc_owner (w k)"
    by (rule sample_store_reserve [of _ w "acct 5"]) (simp_all add: w_def sample_load)
  have bal: "balance w1 41 = 4000" "acc_owner (w1 41) = 200" "acc_owner (w1 22) = 200" "acc_owner (w1 43) = 200"
    using f1 by (simp_all add: w_def balance_def) (simp add: sample_balance [unfolded balance_def])
  obtain w2 where w2: "spl_token_transfer sample_rt (acct 41) (acct 22) 100 (acct 42) [] (acct 200) w1 = Inr w2"
    and f2: "\<And>k. acc_owner (w2 k) = acc_owner (w1 k)"
    by (rule sample_transfer [of w1 "acct 41" "acct 22" 100 "acct 42" "[]"]) (simp_all add: bal)
  obtain w' where w': "spl_token_mint_to sample_rt (acct 31) (acct 43) 80 (acct 11)
      (authority_signer_seeds (acct 7) sample_market) (acct 200) w2 = Inr w'"
    by (rule sample_mint_total [of w2 "acct 43"]) (simp_all add: f2 bal)
  have "\<exists>d0 d total. total_supply (liquidity sample_reserve) = Inr d0 \<and>
      decimal_try_add (decimal_from_u64 100) d0 = Inr d \<and> decimal_try_floor_u64 d = Inr total \<and>
      \<not> deposit_limit (config sample_reserve) < total"
    by (simp add: sample_reserve_def run del: attempt_Inr_iff)
  then show ?thesis
    using w1 w2 w' sample_deposit
    by (auto simp: process_deposit_reserve_liquidity_def deposit_reserve_liquidity_def load_ok sample_load
        sample_fields w_def)
qed

theorem deposit_liquidity_safe_witness:
  "\<exists>w' r'. process_deposit_reserve_liquidity sample_rt 100 100
     (acct 41 # acct 43 # acct 5 # acct 22 # acct 31 # acct 7 # acct 11 # acct 42 # acct 1 # acct 200 # [])
     (sample_world sample_obligation) = Inr w' \<and>
   unpack_reserve sample_rt w' (acct 5) = Inr r' \<and> stale (reserve_last_update r')"
proof -
  obtain w' where run: "process_deposit_reserve_liquidity sample_rt 100 100
     (acct 41 # acct 43 # acct 5 # acct 22 # acct 31 # acct 7 # acct 11 # acct 42 # acct 1 # acct 200 # [])
     (sample_world sample_obligation) = Inr w'" using sample_deposit_liquidity_run by blast
  have "info_key (acct 200) \<noteq> (100 :: pubkey)"
    "unpack_reserve sample_rt (sample_world sample_obligation) (acct 5) = Inr sample_reserve"
    by (simp_all add: sample_load)
  from deposit_liquidity_safe [OF sample_rt_ok this run] run show ?thesis by blast
qed

section \<open>A client's market\<close>

text \<open>Documented behaviour of the runtime: the address found for the seeds is the one they create with the bump seed.\<close>

definition addresses_found :: "solana \<Rightarrow> pubkey \<Rightarrow> bool" where
  "addresses_found rt pid \<longleftrightarrow> (\<forall>seeds key bump. find_program_address rt seeds pid = (key, bump) \<longrightarrow>
     create_program_address rt (seeds @ [[bump]]) pid = Inr key)"

definition usable_market :: "solana \<Rightarrow> addresses \<Rightarrow> pubkey \<Rightarrow> pubkey \<Rightarrow> pubkey \<Rightarrow> world \<Rightarrow> bool" where
  "usable_market rt ids pid key own w \<longleftrightarrow> length (data_of w (readonly key)) = LENDING_MARKET_LEN \<and>
     (\<exists>m. load_market rt pid (readonly key) (readonly (token_address ids)) w = Inr m \<and> market_owner m = own \<and>
       check_market_authority rt pid (readonly key) m (readonly (market_authority rt pid key)) = Inr ())"

lemma stored_usable:
  assumes "pack_checks rt" "pack_market rt m i w = Inr w'" "info_key i = key" "owner_of w i = pid"
    and "market_version m = PROGRAM_VERSION" "token_program_id m = token_address ids"
    and "create_program_address rt [bytes32_to key, [market_bump_seed m]] pid = Inr (market_authority rt pid key)"
  shows "usable_market rt ids pid key (market_owner m) w'"
proof -
  have "unpack_market rt w' i = Inr m" using stored_market_read [OF assms(1,5,2)] .
  then have m: "unpack_market rt w' (readonly key) = Inr m" using assms(3) by (simp add: unpack_market_def data_of_def)
  moreover have "owner_of w' (readonly key) = pid"
    using pack_owner(3) [OF assms(2), of "readonly key"] assms(3,4) by (simp add: owner_of_def)
  ultimately show ?thesis
    using assms(6,7) load_market_version [OF assms(1) m]
    by (simp add: usable_market_def load_market_ok check_market_authority_ok authority_signer_seeds_def)
qed

lemma opened_market:
  assumes found: "addresses_found rt pid"
    and run: "send rt w (init_lending_market_ix ids pid own currency key) = Inr w1"
  obtains m where "pack_market rt m (writable key) w = Inr w1" "owner_of w (writable key) = pid"
    "market_version m = PROGRAM_VERSION" "token_program_id m = token_address ids" "market_owner m = own"
    "quote_currency m = currency"
    "create_program_address rt [bytes32_to key, [market_bump_seed m]] pid = Inr (market_authority rt pid key)"
proof -
  obtain auth bump where f: "find_program_address rt [bytes32_to key] pid = (auth, bump)" by fastforce
  then have create: "create_program_address rt [bytes32_to key, [bump]] pid = Inr (market_authority rt pid key)"
    using found by (force simp: addresses_found_def market_authority_def)
  from run f obtain m where "pack_market rt m (writable key) w = Inr w1"
    "owner_of w (writable key) = pid" "market_version m = PROGRAM_VERSION" "token_program_id m = token_address ids"
    "market_owner m = own" "quote_currency m = currency" "market_bump_seed m = bump"
    by (auto simp: builders send_built process_init_lending_market_def Let_def lending_market_init_def)
  with create show thesis using that by simp
qed

text \<open>
  C29: A market opened with the instruction clients build is usable: it loads with the token program
  of the client, belongs to the owner named, and the authority that the builders derive from its
  address passes the check of the handlers. Its owner can hand it over at any time, and it stays
  usable.
\<close>

theorem client_market_usable:
  assumes pc: "pack_checks rt" and found: "addresses_found rt pid"
    and run: "send rt w (init_lending_market_ix ids pid own currency key) = Inr w1"
  shows "usable_market rt ids pid key own w1 \<and>
    (\<forall>new. \<exists>w2. send rt w1 (set_lending_market_owner_ix pid key own new) = Inr w2 \<and>
      usable_market rt ids pid key new w2)"
proof -
  obtain m where w1: "pack_market rt m (writable key) w = Inr w1" and own: "owner_of w (writable key) = pid"
    and m: "market_version m = PROGRAM_VERSION" "token_program_id m = token_address ids" "market_owner m = own"
    and create: "create_program_address rt [bytes32_to key, [market_bump_seed m]] pid = Inr (market_authority rt pid key)"
    using opened_market [OF found run] .
  have u: "usable_market rt ids pid key own w1"
    using stored_usable [OF pc w1 _ own m(1,2)] m(3) create by simp
  have "\<exists>w2. send rt w1 (set_lending_market_owner_ix pid key own new) = Inr w2 \<and>
      usable_market rt ids pid key new w2" for new
  proof -
    define m' where "m' = m\<lparr> market_owner := new \<rparr>"
    have l: "unpack_market rt w1 (writable key) = Inr m" "length (data_of w1 (writable key)) = LENDING_MARKET_LEN"
      using stored_market_read [OF pc m(1) w1] load_market_version [OF pc] by auto
    obtain w2 where w2: "pack_market rt m' (writable key) w1 = Inr w2"
      using market_store_total [OF pc, of m' w1 "writable key"] l(2) m(1) by (auto simp: m'_def lending_market_fits_def)
    have own1: "owner_of w1 (writable key) = pid" using pack_owner(3) [OF w1] own by simp
    have "send rt w1 (set_lending_market_owner_ix pid key own new) = Inr w2"
      using l(1) own1 m(3) w2 by (simp add: builders send_built process_set_lending_market_owner_def m'_def)
    moreover have "usable_market rt ids pid key new w2"
      using stored_usable [OF pc w2 _ own1, of key ids] m create by (simp add: m'_def)
    ultimately show ?thesis by blast
  qed
  with u show ?thesis by blast
qed

theorem client_market_usable_witness:
  "\<exists>w1. usable_market sample_rt \<lparr> token_address = 200, rent_address = 2, staking_address = 300 \<rparr> 100 7 8 w1"
proof -
  define ids where "ids = \<lparr> token_address = 200, rent_address = 2, staking_address = 300 :: pubkey \<rparr>"
  have key: "acct 7 = writable 7" by (simp add: acct_def)
  obtain w1 where "process_init_lending_market sample_rt 100 8 0 [acct 7, readonly 2, readonly 200] created_world = Inr w1"
    by (rule created_market_run) simp
  then have "send sample_rt created_world (init_lending_market_ix ids 100 8 0 7) = Inr w1"
    by (simp add: builders send_built ids_def key)
  moreover have "addresses_found sample_rt 100" by (simp add: addresses_found_def sample_rt_def)
  ultimately show ?thesis using client_market_usable [of sample_rt 100 created_world ids 8 0 7 w1] by (auto simp: ids_def)
qed

end
