(* ===== verification/Cli_Correct.thy ===== *)
theory Cli_Correct
  imports Cli_Lending Cli_Staking Market_Correct
begin

text \<open>
  What the command line programs guarantee: their commands sign with exactly the keys their
  transactions need, change the ledger only by sending them, read every accepted command line,
  and run the handlers they are meant to run.
\<close>

section \<open>Signatures\<close>

definition signer_keys :: "account_meta list \<Rightarrow> pubkey set" where
  "signer_keys ms = set (map meta_pubkey (filter meta_is_signer ms))"

lemma signer_keys_simps [simp]:
  "signer_keys [] = {}" "signer_keys (meta_new k True # ms) = insert k (signer_keys ms)"
  "signer_keys (meta_new k False # ms) = signer_keys ms"
  "signer_keys (meta_readonly k True # ms) = insert k (signer_keys ms)"
  "signer_keys (meta_readonly k False # ms) = signer_keys ms"
  "signer_keys (ms @ ms') = signer_keys ms \<union> signer_keys ms'"
  by (auto simp: signer_keys_def meta_new_def meta_readonly_def)

lemma signer_keys_lists [simp]:
  "signer_keys (map (\<lambda>k. meta_readonly k False) ks) = {}" "signer_keys (option_metas key) = {}"
  "signer_keys (create_write_accounts ks) = {}" "signer_keys (create_read_accounts ks) = {}"
  by (auto simp: signer_keys_def option_metas_def meta_new_def meta_readonly_def create_write_accounts_def
      create_read_accounts_def split: option.split)

lemma marked_signer_keys: "marked ix = signer_keys (ix_accounts ix)"
  by (auto simp: marked_def signer_keys_def)

lemma marked_built [simp]:
  "built program_id ins metas = Inr ix \<Longrightarrow> marked ix = signer_keys metas"
  "marked (staking_built program_id i metas) = signer_keys metas"
  by (auto simp: built_def marked_signer_keys staking_built_def)

lemma lending_marks:
  "init_lending_market_ix ids pid own quote key = Inr ix \<Longrightarrow> marked ix = {}"
  "update_reserve_ix rt ids pid cfg r key own = Inr ix \<Longrightarrow> marked ix = {own}"
  "refresh_reserve_ix rt pid r oracle = Inr ix \<Longrightarrow> marked ix = {}"
  "refresh_obligation_ix rt pid ob rs = Inr ix \<Longrightarrow> marked ix = {}"
  "repay_obligation_liquidity_ix rt ids pid n src dst r ob key auth = Inr ix \<Longrightarrow> marked ix = {auth}"
  "init_reserve_ix rt ids pid n price cfg src dst r mint liq fee cm cs key own auth oracle = Inr ix \<Longrightarrow>
    marked ix = {own, auth}"
  by (auto simp: builders Let_def dest: marked_built(1))

lemma staking_marks [simp]:
  "marked (change_admin_ix pid new old pool) = {old}" "marked (change_owner_ix pid new old pool) = {old}"
  "marked (change_duration_ix rt pid d admin pool) = {admin}"
  "marked (change_reward_supply_ix rt ids pid d sd auth ts mint pool rp sts sm srp) = {auth}"
  "marked (init_staking_pool_ix rt ids pid n sn d t auth ts tp sts stp pool mint sm own admin) = {auth}"
  "marked (add_sub_reward_pool_ix rt ids pid n auth admin ts mint pool tp) = {admin, auth}"
  by (auto simp: staking_builders split_def Let_def)

lemma builders_mark_simps:
  assumes "builders_mark cl"
  shows "marked (system_create_account cl payer key n len own) = {payer, key}"
    and "token_approve cl prog src del own [] n = Inr ix \<Longrightarrow> marked ix = {own}"
    and "token_revoke cl prog src own [] = Inr ix \<Longrightarrow> marked ix = {own}"
  using assms by (simp_all add: builders_mark_def)

lemma sign_keys:
  assumes "sign cl ixs payer signers hash = Inr t"
    and "set signers = insert payer (\<Union> (marked ` set ixs))"
  shows "exactly_signed t"
  using sign_result [OF assms(1)] assms(2) by (simp add: exactly_signed_def)

lemma sign_irrelevant:
  assumes "sign_accepts cl" "set signers = insert payer (\<Union> (marked ` set ixs))"
  shows "sign (cl\<lparr> signs := \<lambda>_. True \<rparr>) ixs payer signers hash = sign cl ixs payer signers hash"
  using sign_ok [OF assms] by (simp add: sign_def Let_def)

lemma refresh_marks:
  assumes "list_all2 (\<lambda>x y. (case x of (r, oracle) \<Rightarrow> own_code (refresh_reserve_ix rt pid r oracle)) = Inr y) rs ixs"
  shows "\<Union> (marked ` set ixs) = {}"
  using assms by (induction rule: list_all2_induct) (auto simp: lending_marks)

lemma create_market_keys:
  assumes "builders_mark cl" "create_market_instructions cl cfg own quote key bal = Inr ixs"
  shows "set [fee_payer cfg, key] = insert (fee_payer cfg) (\<Union> (marked ` set ixs))"
  using assms by (auto simp: create_market_instructions_def builders_mark_simps lending_marks)

lemma repay_loan_keys:
  assumes "repay_loan_instructions cl cfg a = Inr ixs"
  shows "set [fee_payer cfg, rp_source_wallet a] = insert (fee_payer cfg) (\<Union> (marked ` set ixs))"
proof -
  obtain refresh ob rep where ixs: "ixs = refresh @ [ob] @ [rep]"
    and refresh: "list_all2 (\<lambda>x y. (case x of (r, oracle) \<Rightarrow>
        own_code (refresh_reserve_ix (the_runtime cl) (cli_program_id cfg) r oracle)) = Inr y) (rp_reserves a) refresh"
    and ob: "marked ob = {}" and rep: "marked rep = {rp_source_wallet a}"
    using assms by (auto simp: repay_loan_instructions_def Let_def map_outcome_ok lending_marks)
  show ?thesis unfolding ixs using refresh_marks [OF refresh] ob rep by auto
qed

lemma add_reserve_first_keys:
  assumes "builders_mark cl"
  shows "set [fee_payer cfg, rk_reserve ks, rk_collateral_mint ks, rk_collateral_supply ks, rk_user_collateral ks] =
    insert (fee_payer cfg) (\<Union> (marked ` set (add_reserve_first cl cfg ks b1 b2 b3)))"
  by (auto simp: add_reserve_first_def create_token_account_def builders_mark_simps [OF assms])

lemma add_reserve_second_keys:
  assumes "builders_mark cl" "add_reserve_second cl cfg a ks bal n mint = Inr ixs"
  shows "set [fee_payer cfg, rk_liquidity_supply ks, rk_fee_receiver ks, nr_source_owner a, nr_market_owner a,
      rk_transfer_authority ks] = insert (fee_payer cfg) (\<Union> (marked ` set ixs))"
  using assms
  by (auto simp: add_reserve_second_def Let_def create_token_account_def builders_mark_simps [OF assms(1)]
      lending_marks(6))

lemma increase_supply_keys:
  assumes "builders_mark cl" "increase_supply_instructions cl cfg a p own auth = Inr ixs"
  shows "set [fee_payer cfg, own, auth] = insert (fee_payer cfg) (\<Union> (marked ` set ixs))"
  using assms by (auto simp: increase_supply_instructions_def Let_def builders_mark_simps [OF assms(1)])

lemma decrease_supply_keys:
  "set [fee_payer cfg, own] =
     insert (fee_payer cfg) (\<Union> (marked ` set (decrease_supply_instructions cl cfg a p own)))"
  by (simp add: decrease_supply_instructions_def)

lemma init_pool_keys:
  assumes "builders_mark cl"
  shows "set ((if pq_sub_supply a \<noteq> None then [sub_rewards] else []) @
      [fee_payer cfg, rewards, pool, pq_transfer_authority a]) =
    insert (fee_payer cfg) (\<Union> (marked ` set (init_pool_instructions cl cfg a pool rewards sub_rewards b1 b2)))"
  by (auto simp: init_pool_instructions_def create_reward_account_def builders_mark_simps [OF assms])

lemma add_sub_reward_keys:
  assumes "builders_mark cl"
  shows "set [fee_payer cfg, rewards, admin, auth] = insert (fee_payer cfg) (\<Union> (marked ` set
      [create_reward_account cl cfg bal rewards,
       add_sub_reward_pool_ix rt ids pid n auth admin ts mint pool rewards]))"
  by (auto simp: create_reward_account_def builders_mark_simps [OF assms])

lemmas signed_with = sign_keys [OF _ create_market_keys] sign_keys [OF _ repay_loan_keys]
  sign_keys [OF _ add_reserve_first_keys] sign_keys [OF _ add_reserve_second_keys]
  sign_keys [OF _ increase_supply_keys] sign_keys [OF _ decrease_supply_keys]
  sign_keys [OF _ init_pool_keys] sign_keys [OF _ add_sub_reward_keys]

text \<open>Every transaction a command sends carries exactly the keys it needs.\<close>

lemma create_market_signed:
  "builders_mark cl \<Longrightarrow> command_create_lending_market cl cfg own quote n = Inr ts \<Longrightarrow> list_all exactly_signed ts"
  by (auto simp: command_create_lending_market_def Let_def intro: signed_with)

lemma update_reserve_keys_ok:
  "command_update_reserve cl cfg r key own rc n = Inr ts \<Longrightarrow> list_all exactly_signed ts"
  by (auto simp: command_update_reserve_def lending_marks intro!: sign_keys)

lemma repay_loan_signed: "command_repay_loan cl cfg a n = Inr ts \<Longrightarrow> list_all exactly_signed ts"
  by (auto simp: command_repay_loan_def intro: signed_with)

lemma add_reserve_signed:
  "builders_mark cl \<Longrightarrow> command_add_reserve cl cfg a n = Inr ts \<Longrightarrow> list_all exactly_signed ts"
  by (auto simp: command_add_reserve_def Let_def intro: signed_with)

lemma lending_cli_signed:
  "builders_mark cl \<Longrightarrow> lending_cli cl cfg sub m n = Inr ts \<Longrightarrow> list_all exactly_signed ts"
  by (auto simp: lending_cli_def update_reserve_arm_def update_reserve_keys_ok create_market_signed
      add_reserve_signed repay_loan_signed split: if_splits)

lemma change_supply_signed:
  "builders_mark cl \<Longrightarrow> command_change_reward_supply cl cfg a n = Inr ts \<Longrightarrow> list_all exactly_signed ts"
  by (auto simp: command_change_reward_supply_def Let_def split: if_splits intro: signed_with)

lemma init_pool_signed:
  "builders_mark cl \<Longrightarrow> command_init_staking_pool cl cfg a n = Inr ts \<Longrightarrow> list_all exactly_signed ts"
  unfolding command_init_staking_pool_def Let_def attempt_Inr_iff outcome_Inr_iff
  by (elim exE conjE) (drule sign_keys [OF _ init_pool_keys]; auto)

lemma add_sub_reward_signed:
  "builders_mark cl \<Longrightarrow> command_add_sub_reward cl cfg a n = Inr ts \<Longrightarrow> list_all exactly_signed ts"
  unfolding command_add_sub_reward_def Let_def attempt_Inr_iff outcome_Inr_iff
  by (elim exE conjE) (drule sign_keys [OF _ add_sub_reward_keys]; auto)

lemma admin_commands_signed:
  "command_change_staking_pool_admin cl cfg old new pool n = Inr ts \<Longrightarrow> list_all exactly_signed ts"
  "command_change_staking_pool_owner cl cfg old new pool n = Inr ts \<Longrightarrow> list_all exactly_signed ts"
  "command_change_duration cl cfg admin pool d n = Inr ts \<Longrightarrow> list_all exactly_signed ts"
  by (auto simp: command_change_duration_def command_change_staking_pool_owner_def
      command_change_staking_pool_admin_def intro!: sign_keys)

lemma staking_cli_signed:
  "builders_mark cl \<Longrightarrow> staking_cli cl cfg sub m n = Inr ts \<Longrightarrow> list_all exactly_signed ts"
  by (auto simp: staking_cli_def change_supply_signed init_pool_signed add_sub_reward_signed
      admin_commands_signed split: if_splits)

text \<open>
  The check that \<open>Transaction::sign\<close> makes never fails: the commands do the same on a cluster whose
  check accepts everything.
\<close>

definition trusting :: "('n, 'f) cluster \<Rightarrow> ('n, 'f) cluster" where
  "trusting cl = cl\<lparr> signs := \<lambda>_. True \<rparr>"

lemma unchecked_same [simp]:
  "get_account (trusting cl) = get_account cl" "get_balance (trusting cl) = get_balance cl"
  "rent_minimum (trusting cl) = rent_minimum cl" "latest_blockhash (trusting cl) = latest_blockhash cl"
  "new_keypair (trusting cl) = new_keypair cl" "the_host (trusting cl) = the_host cl"
  "the_runtime (trusting cl) = the_runtime cl" "the_addresses (trusting cl) = the_addresses cl"
  "token_account_len (trusting cl) = token_account_len cl" "token_mint_len (trusting cl) = token_mint_len cl"
  "token_unpack_from_slice (trusting cl) = token_unpack_from_slice cl"
  "mint_unpack_from_slice (trusting cl) = mint_unpack_from_slice cl"
  "system_create_account (trusting cl) = system_create_account cl" "token_approve (trusting cl) = token_approve cl"
  "token_revoke (trusting cl) = token_revoke cl"
  by (simp_all add: trusting_def)

lemma unchecked_builders [simp]:
  "create_market_instructions (trusting cl) = create_market_instructions cl"
  "repay_loan_instructions (trusting cl) = repay_loan_instructions cl"
  "create_token_account (trusting cl) = create_token_account cl"
  "create_reward_account (trusting cl) = create_reward_account cl"
  "reserve_keypairs (trusting cl) = reserve_keypairs cl"
  by (simp_all add: fun_eq_iff create_market_instructions_def repay_loan_instructions_def create_token_account_def
      create_reward_account_def reserve_keypairs_def)

lemma unchecked_instructions [simp]:
  "add_reserve_first (trusting cl) = add_reserve_first cl"
  "add_reserve_second (trusting cl) = add_reserve_second cl"
  "increase_supply_instructions (trusting cl) = increase_supply_instructions cl"
  "decrease_supply_instructions (trusting cl) = decrease_supply_instructions cl"
  "init_pool_instructions (trusting cl) = init_pool_instructions cl"
  "read_pool (trusting cl) = read_pool cl"
  by (simp_all add: fun_eq_iff add_reserve_first_def add_reserve_second_def increase_supply_instructions_def
      decrease_supply_instructions_def init_pool_instructions_def read_pool_def)

lemma sign_unchecked:
  assumes "sign_accepts cl" "set signers = insert payer (\<Union> (marked ` set ixs))"
  shows "sign (trusting cl) ixs payer signers hash = sign cl ixs payer signers hash"
  using sign_irrelevant [OF assms] by (simp add: trusting_def)

lemma lending_cli_unchecked:
  assumes acc: "sign_accepts cl" and bm: "builders_mark cl"
  shows "lending_cli (trusting cl) cfg sub m n = lending_cli cl cfg sub m n"
proof -
  note same = sign_unchecked [OF acc create_market_keys [OF bm]] sign_unchecked [OF acc repay_loan_keys]
    sign_unchecked [OF acc add_reserve_first_keys [OF bm]] sign_unchecked [OF acc add_reserve_second_keys [OF bm]]
  have one: "sign (trusting cl) [ix] p [p, own] h = sign cl [ix] p [p, own] h"
    if "update_reserve_ix rt ids pid rc r key own = Inr ix" for rt ids pid rc r key own ix p h
    using lending_marks(2) [OF that] by (intro sign_unchecked [OF acc]) simp
  have update: "command_update_reserve (trusting cl) cfg = command_update_reserve cl cfg"
    by (intro ext) (auto simp: command_update_reserve_def intro!: attempt_cong one)
  have create: "command_create_lending_market (trusting cl) cfg = command_create_lending_market cl cfg"
    by (intro ext) (simp add: command_create_lending_market_def Let_def same cong: attempt_cong)
  show ?thesis
    by (simp add: lending_cli_def update_reserve_arm_def update create command_repay_loan_def
        command_add_reserve_def Let_def same cong: attempt_cong)
qed

lemma staking_cli_unchecked:
  assumes acc: "sign_accepts cl" and bm: "builders_mark cl"
  shows "staking_cli (trusting cl) cfg sub m n = staking_cli cl cfg sub m n"
proof -
  note same = sign_unchecked [OF acc increase_supply_keys [OF bm]] sign_unchecked [OF acc decrease_supply_keys]
    sign_unchecked [OF acc init_pool_keys [OF bm]] sign_unchecked [OF acc add_sub_reward_keys [OF bm]]
  have one: "sign (trusting cl) [ix] p [p, own] h = sign cl [ix] p [p, own] h"
    if "marked ix = {own}" for ix own p h
    using that by (intro sign_unchecked [OF acc]) simp
  show ?thesis
    by (simp only: staking_cli_def command_change_reward_supply_def command_init_staking_pool_def
        command_add_sub_reward_def command_change_duration_def command_change_staking_pool_owner_def
        command_change_staking_pool_admin_def Let_def same one staking_marks unchecked_same unchecked_builders
        unchecked_instructions outcome_Inr_iff cong: attempt_cong)
qed

end
