(* ===== verification/Cli_Reads.thy ===== *)
theory Cli_Reads
  imports Cli_Lending Cli_Staking
begin

text \<open>
  Reading an accepted command line. Which values make the programs panic although clap accepted
  them is found exactly: the validators of some arguments are weaker than what the commands do with
  the values.
\<close>

section \<open>Accepted arguments\<close>

lemma accepted_pubkey:
  "accepted_argument h m (arg n l Is_pubkey req) \<Longrightarrow> looks_up h m \<Longrightarrow> req \<or> clap_present m n \<Longrightarrow>
     \<exists>k. pubkey_of m n = Some k"
  by (auto simp: accepted_argument_def arg_def looks_up_def)

lemma accepted_keypair:
  "accepted_argument h m (arg n l Is_keypair True) \<Longrightarrow> looks_up h m \<Longrightarrow>
     \<exists>s k. clap_value m n = Some s \<and> keypair_of m n = Some k"
  by (auto simp: accepted_argument_def arg_def looks_up_def)

lemma accepted_number:
  "accepted_argument h m (arg n l Is_u64 True) \<Longrightarrow> looks_up h m \<Longrightarrow> \<exists>x. value_u64 m n = Some x"
  "accepted_argument h m (arg n l Is_slot True) \<Longrightarrow> looks_up h m \<Longrightarrow> \<exists>x. value_u64 m n = Some x"
  "accepted_argument h m (arg n l Is_i64 True) \<Longrightarrow> looks_up h m \<Longrightarrow> \<exists>y. value_i64 m n = Some y"
  by (auto simp: accepted_argument_def arg_def looks_up_def is_u64_def is_i64_def)

lemma accepted_amount:
  "accepted_argument h m (arg n l Is_amount True) \<Longrightarrow> looks_up h m \<Longrightarrow>
     \<forall>s. parse_u64 s \<noteq> None \<longrightarrow> parse_f64 h s \<noteq> None \<Longrightarrow> \<exists>x. value_f64 m n = Some x"
  by (auto simp: accepted_argument_def arg_def looks_up_def)

lemma accepted_text:
  "accepted_argument h m (arg n l Any_text True) \<Longrightarrow> \<exists>s. clap_value m n = Some s"
  by (auto simp: accepted_argument_def arg_def)

lemma accepted_default:
  "accepted_argument h m (with_default d (arg n l Parsable_u8 True)) \<Longrightarrow> looks_up h m \<Longrightarrow>
     \<exists>x. value_u8 m n = Some x"
  "accepted_argument h m (with_default d (arg n l Parsable_f64 True)) \<Longrightarrow> looks_up h m \<Longrightarrow>
     \<exists>y. value_f64 m n = Some y"
  "accepted_argument h m (with_default d (arg n l Any_text True)) \<Longrightarrow> \<exists>s. clap_value m n = Some s"
  by (auto simp: accepted_argument_def arg_def with_default_def looks_up_def)

lemma validates_all:
  "validates h Is_pubkey = (\<lambda>s. parse_pubkey h s \<noteq> None)" "validates h Is_pubkey_or_none = is_pubkey_or_none h"
  by (simp_all add: fun_eq_iff)

lemma accepted_default_key:
  "accepted_argument h m (with_default d (arg n l Is_pubkey True)) \<Longrightarrow> looks_up h m \<Longrightarrow> \<exists>k. pubkey_of m n = Some k"
  by (auto simp: accepted_argument_def arg_def with_default_def looks_up_def)

lemma accepted_pubkeys:
  assumes "accepted_argument h m (repeated (arg n l Is_pubkey True))" "looks_up h m"
  shows "\<exists>ks. pubkeys_of m n = Some ks"
proof -
  obtain ss where "clap_values m n = Some ss" "list_all (\<lambda>s. parse_pubkey h s \<noteq> None) ss"
    using assms(1) by (auto simp: accepted_argument_def arg_def repeated_def validates_all simp del: validates.simps)
  with assms(2) show ?thesis unfolding looks_up_def by blast
qed

lemma key_text_ok: "is_pubkey_or_none h s \<Longrightarrow> key_text h s \<noteq> Inl e"
  by (auto simp: key_text_def is_pubkey_or_none_def)

lemma key_texts_ok: "list_all (is_pubkey_or_none h) ss \<Longrightarrow> \<exists>ks. map_outcome (key_text h) ss = Inr ks"
proof (induction ss)
  case (Cons s ss)
  from Cons obtain ks where "map_outcome (key_text h) ss = Inr ks" by auto
  moreover obtain k where "key_text h s = Inr k"
    using Cons.prems key_text_ok [of h s] by (cases "key_text h s") auto
  ultimately show ?case by simp
qed simp

lemma accepted_keys_or_none:
  assumes "accepted_argument h m (repeated (arg n l Is_pubkey_or_none True))"
  shows "\<exists>ks. pubkeys_or_none_of h m n = Inr (Some ks)"
proof -
  obtain ss where ss: "clap_values m n = Some ss" "list_all (is_pubkey_or_none h) ss"
    using assms by (auto simp: accepted_argument_def arg_def repeated_def validates_all simp del: validates.simps)
  from key_texts_ok [OF ss(2)] ss(1) show ?thesis by (auto simp: pubkeys_or_none_of_def)
qed

section \<open>The lending program\<close>

definition text_is_key :: "'f host \<Rightarrow> string \<Rightarrow> bool" where
  "text_is_key h s \<longleftrightarrow> s = ''NONE'' \<or> parse_pubkey h s \<noteq> None \<or> read_keypair_file h s \<noteq> None"

definition signer_found :: "'f arguments \<Rightarrow> string \<Rightarrow> bool" where
  "signer_found m name \<longleftrightarrow> (\<exists>path k. clap_value m name = Some path \<and> signer_from_path m path name = Some k)"

lemma lending_config_reads:
  assumes laws: "looks_up h m" and acc: "accepted h (lending_global_decls cd pd) m"
  shows "lending_config load base m = Inl e \<Longrightarrow> e = Exited 1"
proof -
  obtain k where "pubkey_of m ''lending_program_id'' = Some k"
    using acc [unfolded accepted_def lending_global_decls_def list.pred_inject] laws accepted_default_key by blast
  then show "lending_config load base m = Inl e \<Longrightarrow> e = Exited 1"
    by (auto simp: lending_config_def Let_def exit_if_def unwrap_def split: if_splits)
qed

lemma create_market_reads:
  assumes laws: "looks_up h m" and acc: "accepted h create_market_decls m"
  shows "read_create_market h m = Inl Panicked \<longleftrightarrow>
    (\<exists>s. clap_value m ''quote_currency'' = Some s \<and> 32 < length s \<and> parse_pubkey h s = None)"
proof -
  obtain k s where "pubkey_of m ''lending_market_owner'' = Some k" "clap_value m ''quote_currency'' = Some s"
    using acc laws accepted_pubkey accepted_default(3) unfolding accepted_def create_market_decls_def list.pred_inject
    by metis
  then show ?thesis
    by (auto simp: read_create_market_def quote_currency_of_def unwrap_def attempt_Inl_iff split: option.splits)
qed

lemma repay_loan_reads:
  assumes laws: "looks_up h m" and acc: "accepted h repay_loan_decls m"
  shows "\<exists>reserves oracles. pubkeys_of m ''all_reserves'' = Some reserves \<and>
    pubkeys_or_none_of h m ''all_oracles'' = Inr (Some oracles) \<and>
    (if length reserves = length oracles
     then \<exists>a. read_repay_loan h m = Inr a \<and> rp_reserves a = zip reserves oracles
     else read_repay_loan h m = Inl (Exited 1))"
proof -
  note as = acc [unfolded accepted_def repay_loan_decls_def list.pred_inject]
  obtain amount where "value_u64 m ''amount_to_repay'' = Some amount" using as laws accepted_number(1) by blast
  moreover obtain wallet where "keypair_of m ''wallet_to_repay'' = Some wallet" using as laws accepted_keypair by blast
  moreover obtain source dest r ob market where "pubkey_of m ''token_account_to_repay'' = Some source"
    "pubkey_of m ''destination_token_account'' = Some dest" "pubkey_of m ''repay_reserve'' = Some r"
    "pubkey_of m ''repay_obligation'' = Some ob" "pubkey_of m ''lending_market'' = Some market"
    using as laws accepted_pubkey [where req = True] by metis
  moreover obtain rs where rs: "pubkeys_of m ''all_reserves'' = Some rs" using as laws accepted_pubkeys by blast
  moreover obtain os where os: "pubkeys_or_none_of h m ''all_oracles'' = Inr (Some os)"
    using as accepted_keys_or_none by blast
  ultimately show ?thesis by (simp add: read_repay_loan_def exit_if_def unwrap_def)
qed

lemma new_config_reads:
  assumes laws: "looks_up h m" and acc: "accepted h add_reserve_decls m"
  shows "\<exists>cfg. read_new_config h m = Inr cfg \<and> deposit_limit cfg = - 1 \<and> borrow_limit cfg = - 1"
proof -
  note as = acc [unfolded accepted_def add_reserve_decls_def list.pred_inject]
  obtain a b c d e f g h' where "value_u8 m ''optimal_utilization_rate'' = Some a"
    "value_u8 m ''loan_to_value_ratio'' = Some b" "value_u8 m ''liquidation_bonus'' = Some c"
    "value_u8 m ''liquidation_threshold'' = Some d" "value_u8 m ''min_borrow_rate'' = Some e"
    "value_u8 m ''optimal_borrow_rate'' = Some f" "value_u8 m ''max_borrow_rate'' = Some g"
    "value_u8 m ''host_fee_percentage'' = Some h'"
    using as laws accepted_default(1) by metis
  moreover obtain x y where "value_f64 m ''borrow_fee'' = Some x" "value_f64 m ''flash_loan_fee'' = Some y"
    using as laws accepted_default(2) by metis
  ultimately show ?thesis by (simp add: read_new_config_def unwrap_def)
qed

lemma pyth_price_reads:
  assumes laws: "looks_up h m" and acc: "accepted h add_reserve_decls m"
  shows "\<exists>k. read_pyth_price m = Inr k"
proof -
  have "accepted_argument h m (arg ''pyth_price'' ''pyth-price'' Is_pubkey False)"
    using acc unfolding accepted_def add_reserve_decls_def list.pred_inject by blast
  from accepted_pubkey [OF this laws] show ?thesis
    by (cases "clap_present m ''pyth_price''") (auto simp: read_pyth_price_def unwrap_def)
qed

lemma fixed_price_reads:
  assumes laws: "looks_up h m" and acc: "accepted h add_reserve_decls m"
  shows "read_fixed_price m = Inl e \<longleftrightarrow>
    e = Panicked \<and> (\<exists>s. clap_value m ''fixed_price'' = Some s \<and> parse_u64 s = None)"
proof -
  have "accepted_argument h m (arg ''fixed_price'' ''fixed-price'' Is_amount False)"
    using acc unfolding accepted_def add_reserve_decls_def list.pred_inject by blast
  then have "clap_present m ''fixed_price'' \<longleftrightarrow> clap_value m ''fixed_price'' \<noteq> None"
    by (simp add: accepted_argument_def arg_def)
  moreover have "value_u64 m ''fixed_price'' = Option.bind (clap_value m ''fixed_price'') parse_u64"
    using laws by (simp add: looks_up_def)
  ultimately show ?thesis
    by (cases "clap_value m ''fixed_price''") (auto simp: read_fixed_price_def unwrap_def split: option.splits)
qed

lemma add_reserve_reads:
  assumes laws: "looks_up h m" and acc: "accepted h add_reserve_decls m"
    and float: "\<forall>s. parse_u64 s \<noteq> None \<longrightarrow> parse_f64 h s \<noteq> None"
  shows "read_add_reserve h m = Inl Panicked \<longleftrightarrow>
    \<not> signer_found m ''lending_market_owner'' \<or>
    (\<exists>s. clap_value m ''fixed_price'' = Some s \<and> parse_u64 s = None)"
proof -
  note as = acc [unfolded accepted_def add_reserve_decls_def list.pred_inject]
  obtain path where path: "clap_value m ''lending_market_owner'' = Some path" using as accepted_text by metis
  obtain own market source where keys: "keypair_of m ''source_liquidity_owner'' = Some own"
    "pubkey_of m ''lending_market'' = Some market" "pubkey_of m ''source_liquidity'' = Some source"
    using as laws accepted_keypair accepted_pubkey [where req = True] by metis
  obtain amount where amount: "value_f64 m ''liquidity_amount'' = Some amount"
    using as laws float accepted_amount by blast
  obtain cfg pyth where rest: "read_new_config h m = Inr cfg" "read_pyth_price m = Inr pyth"
    using new_config_reads [OF laws acc] pyth_price_reads [OF laws acc] by blast
  show ?thesis
    using fixed_price_reads [OF laws acc, of Panicked] path keys amount rest
    by (cases "signer_from_path m path ''lending_market_owner''"; cases "read_fixed_price m")
      (auto simp: read_add_reserve_def signer_found_def attempt_Inl_iff)
qed

lemma deposit_pool_reads:
  "pubkey_or_none_of h m n = Inl Panicked \<longleftrightarrow> (\<exists>s. clap_value m n = Some s \<and> \<not> text_is_key h s)"
  by (auto simp: pubkey_or_none_of_def key_text_def text_is_key_def attempt_Inl_iff split: option.splits if_splits)

lemma update_reserve_reads:
  assumes laws: "looks_up h m" and acc: "accepted h update_reserve_decls m"
  shows "read_update_reserve h m = Inl Panicked \<longleftrightarrow>
    \<not> signer_found m ''lending_market_owner'' \<or>
    (\<exists>s. clap_value m ''deposit_staking_pool'' = Some s \<and> \<not> text_is_key h s)"
proof -
  have as: "accepted_argument h m (arg ''reserve'' ''reserve'' Is_pubkey True)"
    "accepted_argument h m (arg ''lending_market'' ''market'' Is_pubkey True)"
    "accepted_argument h m (arg ''lending_market_owner'' ''market-owner'' Any_text True)"
    using acc unfolding accepted_def update_reserve_decls_def list.pred_inject append_Cons by blast+
  obtain path r market where "clap_value m ''lending_market_owner'' = Some path"
    "pubkey_of m ''reserve'' = Some r" "pubkey_of m ''lending_market'' = Some market"
    using as laws accepted_text accepted_pubkey [where req = True] by metis
  then show ?thesis
    using deposit_pool_reads [of h m "''deposit_staking_pool''"]
    by (cases "signer_from_path m path ''lending_market_owner''")
      (auto simp: read_update_reserve_def signer_found_def attempt_Inl_iff)
qed

text \<open>
  C37: A command line of the lending program that clap accepts is read without a panic, but for these
  cases exactly: the owner's key cannot be loaded, the quote currency is longer than 32 bytes and not
  a key, the fixed price is not a whole number, or the staking pool is no key. The program exits with
  code 1 when the payer's key cannot be loaded, and a repayment exits with code 1 when there are not as many oracles as reserves. A new reserve gets no limits,
  whatever limits were given.
\<close>

theorem lending_arguments_read:
  assumes laws: "looks_up h m" and float: "\<forall>s. parse_u64 s \<noteq> None \<longrightarrow> parse_f64 h s \<noteq> None"
  shows "(\<forall>cd pd load base e. accepted h (lending_global_decls cd pd) m \<longrightarrow>
      lending_config load base m = Inl e \<longrightarrow> e = Exited 1) \<and>
    (accepted h create_market_decls m \<longrightarrow> (read_create_market h m = Inl Panicked \<longleftrightarrow>
      (\<exists>s. clap_value m ''quote_currency'' = Some s \<and> 32 < length s \<and> parse_pubkey h s = None))) \<and>
    (accepted h repay_loan_decls m \<longrightarrow>
      (\<exists>reserves oracles. pubkeys_of m ''all_reserves'' = Some reserves \<and>
        pubkeys_or_none_of h m ''all_oracles'' = Inr (Some oracles) \<and>
        (if length reserves = length oracles
         then \<exists>a. read_repay_loan h m = Inr a \<and> rp_reserves a = zip reserves oracles
         else read_repay_loan h m = Inl (Exited 1)))) \<and>
    (accepted h add_reserve_decls m \<longrightarrow>
      (read_add_reserve h m = Inl Panicked \<longleftrightarrow>
        \<not> signer_found m ''lending_market_owner'' \<or>
        (\<exists>s. clap_value m ''fixed_price'' = Some s \<and> parse_u64 s = None)) \<and>
      (\<forall>a. read_add_reserve h m = Inr a \<longrightarrow>
        deposit_limit (nr_config a) = - 1 \<and> borrow_limit (nr_config a) = - 1)) \<and>
    (accepted h update_reserve_decls m \<longrightarrow> (read_update_reserve h m = Inl Panicked \<longleftrightarrow>
      \<not> signer_found m ''lending_market_owner'' \<or>
      (\<exists>s. clap_value m ''deposit_staking_pool'' = Some s \<and> \<not> text_is_key h s)))"
proof (intro conjI impI allI)
  show "deposit_limit (nr_config a) = - 1" if "accepted h add_reserve_decls m" "read_add_reserve h m = Inr a" for a
    using new_config_reads [OF laws that(1)] that(2) by (auto simp: read_add_reserve_def)
  show "borrow_limit (nr_config a) = - 1" if "accepted h add_reserve_decls m" "read_add_reserve h m = Inr a" for a
    using new_config_reads [OF laws that(1)] that(2) by (auto simp: read_add_reserve_def)
qed (rule lending_config_reads create_market_reads repay_loan_reads add_reserve_reads update_reserve_reads; (rule laws float | assumption))+

section \<open>The staking program\<close>

lemma signer_arg_ok: "signer_arg m n = Inl e \<longleftrightarrow> e = Panicked \<and> \<not> signer_found m n"
  by (auto simp: signer_arg_def signer_found_def attempt_Inl_iff unwrap_def split: option.splits)

lemma signer_arg_found: "signer_found m n \<Longrightarrow> \<exists>k. signer_arg m n = Inr k"
  by (auto simp: signer_arg_def signer_found_def)

lemma staking_config_reads:
  assumes laws: "looks_up h m" and acc: "accepted h (staking_global_decls cd pd) m"
  shows "staking_config load base m = Inl e \<Longrightarrow> e = Exited 1"
proof -
  obtain k where "pubkey_of m ''staking_program_id'' = Some k"
    using acc [unfolded accepted_def staking_global_decls_def list.pred_inject] laws accepted_default_key by blast
  then show "staking_config load base m = Inl e \<Longrightarrow> e = Exited 1"
    by (auto simp: staking_config_def Let_def exit_if_def unwrap_def split: if_splits)
qed

lemma init_pool_reads:
  assumes laws: "looks_up h m" and acc: "accepted h init_staking_pool_decls m"
  shows "\<exists>a. read_init_staking_pool m = Inr a"
proof -
  note as = acc [unfolded accepted_def init_staking_pool_decls_def list.pred_inject]
  obtain auth where "keypair_of m ''transfer_authority'' = Some auth" using as laws accepted_keypair by blast
  moreover obtain a b c d where "pubkey_of m ''reward_supply_pubkey'' = Some a" "pubkey_of m ''reward_token_mint'' = Some b"
    "pubkey_of m ''staking_program_owner_authority'' = Some c" "pubkey_of m ''staking_program_admin_authority'' = Some d"
    using as laws accepted_pubkey [where req = True] by metis
  moreover obtain x y z where "value_u64 m ''reward_supply_amount'' = Some x"
    "value_u64 m ''duration_of_rewarding'' = Some y" "value_u64 m ''earliest_reward_claim_time'' = Some z"
    using as laws accepted_number(1,2) by metis
  ultimately show ?thesis by (simp add: read_init_staking_pool_def)
qed

lemma add_sub_reward_reads:
  assumes laws: "looks_up h m" and acc: "accepted h add_sub_reward_decls m"
  shows "read_add_sub_reward m = Inl e \<longleftrightarrow>
    e = Panicked \<and> \<not> (signer_found m ''transfer_authority'' \<and> signer_found m ''admin_authority'')"
proof -
  note as = acc [unfolded accepted_def add_sub_reward_decls_def list.pred_inject]
  obtain a b c where "pubkey_of m ''reward_supply_pubkey'' = Some a" "pubkey_of m ''reward_token_mint'' = Some b"
    "pubkey_of m ''staking_pool'' = Some c"
    using as laws accepted_pubkey [where req = True] by metis
  moreover obtain x where "value_u64 m ''reward_supply_amount'' = Some x" using as laws accepted_number(1) by metis
  ultimately show ?thesis
    using signer_arg_found [of m "''transfer_authority''"] signer_arg_found [of m "''admin_authority''"]
    by (auto simp: read_add_sub_reward_def attempt_Inl_iff signer_arg_ok unwrap_def)
qed

lemma change_duration_reads:
  assumes laws: "looks_up h m" and acc: "accepted h change_duration_decls m"
  shows "read_change_duration m = Inl e \<longleftrightarrow> e = Panicked \<and> \<not> signer_found m ''admin_authority''"
proof -
  note as = acc [unfolded accepted_def change_duration_decls_def list.pred_inject]
  obtain a x where "pubkey_of m ''staking_pool'' = Some a" "value_i64 m ''amount'' = Some x"
    using as laws accepted_pubkey [where req = True] accepted_number(3) by metis
  then show ?thesis by (auto simp: read_change_duration_def attempt_Inl_iff signer_arg_ok unwrap_def)
qed

lemma change_pool_reads:
  assumes laws: "looks_up h m"
  shows "accepted h change_pool_owner_decls m \<Longrightarrow>
      read_change_owner m = Inl e \<longleftrightarrow> e = Panicked \<and> \<not> signer_found m ''old_staking_pool_owner''"
    and "accepted h change_pool_admin_decls m \<Longrightarrow>
      read_change_admin m = Inl e \<longleftrightarrow> e = Panicked \<and> \<not> signer_found m ''old_staking_pool_admin''"
proof -
  assume acc: "accepted h change_pool_owner_decls m"
  obtain a b where "pubkey_of m ''staking_pool'' = Some a" "pubkey_of m ''new_staking_pool_owner'' = Some b"
    using acc [unfolded accepted_def change_pool_owner_decls_def list.pred_inject] laws
      accepted_pubkey [where req = True] by metis
  then show "read_change_owner m = Inl e \<longleftrightarrow> e = Panicked \<and> \<not> signer_found m ''old_staking_pool_owner''"
    by (auto simp: read_change_owner_def attempt_Inl_iff signer_arg_ok unwrap_def)
next
  assume acc: "accepted h change_pool_admin_decls m"
  obtain a b where "pubkey_of m ''staking_pool'' = Some a" "pubkey_of m ''new_staking_pool_admin'' = Some b"
    using acc [unfolded accepted_def change_pool_admin_decls_def list.pred_inject] laws
      accepted_pubkey [where req = True] by metis
  then show "read_change_admin m = Inl e \<longleftrightarrow> e = Panicked \<and> \<not> signer_found m ''old_staking_pool_admin''"
    by (auto simp: read_change_admin_def attempt_Inl_iff signer_arg_ok unwrap_def)
qed

lemma change_supply_reads:
  assumes laws: "looks_up h m" and acc: "accepted h change_reward_supply_decls m"
  shows "read_change_reward_supply m = Inl e \<longleftrightarrow> e = Panicked \<and>
    clap_value m ''staking_pool_owner'' \<noteq> None \<and> \<not> signer_found m ''staking_pool_owner''"
proof -
  note as = acc [unfolded accepted_def change_reward_supply_decls_def list.pred_inject]
  obtain a b c x where "pubkey_of m ''reward_token_supply'' = Some a" "pubkey_of m ''staking_pool'' = Some b"
    "pubkey_of m ''reward_token_mint'' = Some c" "value_i64 m ''reward_supply_diff'' = Some x"
    using as laws accepted_pubkey [where req = True] accepted_number(3) by metis
  then show ?thesis
    by (auto simp: read_change_reward_supply_def attempt_Inl_iff signer_arg_ok unwrap_def split: option.splits)
qed

text \<open>
  A command line of the staking program that clap accepts is read without a panic, unless the key
  of a signer cannot be loaded: that is the only way to fail, for every subcommand. Opening a pool,
  whose signer is checked by a validator, is always read.
\<close>

theorem staking_arguments_read:
  assumes laws: "looks_up h m"
  shows "(\<forall>cd pd load base e. accepted h (staking_global_decls cd pd) m \<longrightarrow>
      staking_config load base m = Inl e \<longrightarrow> e = Exited 1) \<and>
    (accepted h init_staking_pool_decls m \<longrightarrow> (\<exists>a. read_init_staking_pool m = Inr a)) \<and>
    (accepted h add_sub_reward_decls m \<longrightarrow> (read_add_sub_reward m = Inl e \<longleftrightarrow>
      e = Panicked \<and> \<not> (signer_found m ''transfer_authority'' \<and> signer_found m ''admin_authority''))) \<and>
    (accepted h change_duration_decls m \<longrightarrow> (read_change_duration m = Inl e \<longleftrightarrow>
      e = Panicked \<and> \<not> signer_found m ''admin_authority'')) \<and>
    (accepted h change_pool_owner_decls m \<longrightarrow> (read_change_owner m = Inl e \<longleftrightarrow>
      e = Panicked \<and> \<not> signer_found m ''old_staking_pool_owner'')) \<and>
    (accepted h change_pool_admin_decls m \<longrightarrow> (read_change_admin m = Inl e \<longleftrightarrow>
      e = Panicked \<and> \<not> signer_found m ''old_staking_pool_admin'')) \<and>
    (accepted h change_reward_supply_decls m \<longrightarrow> (read_change_reward_supply m = Inl e \<longleftrightarrow>
      e = Panicked \<and> clap_value m ''staking_pool_owner'' \<noteq> None \<and> \<not> signer_found m ''staking_pool_owner''))"
  using staking_config_reads [OF laws] init_pool_reads [OF laws] add_sub_reward_reads [OF laws] change_duration_reads [OF laws]
    change_pool_reads [OF laws] change_supply_reads [OF laws] by blast

section \<open>A machine and its command lines\<close>

definition sample_key :: "string \<Rightarrow> pubkey option" where
  "sample_key s = map_option of_nat (parse_digits s)"

definition sample_host :: "nat host" where
  "sample_host = \<lparr> parse_pubkey = sample_key, read_keypair_file = sample_key, parse_f64 = (\<lambda>s. Some (length s)),
     f64_wads = of_nat, ui_amount_to_amount = (\<lambda>x d. of_nat x), is_url = (\<lambda>_. True) \<rparr>"

definition sample_arguments :: "(string \<times> string) list \<Rightarrow> nat arguments" where
  "sample_arguments xs = \<lparr> clap_value = map_of xs, clap_values = (\<lambda>n. map_option (\<lambda>s. [s]) (map_of xs n)),
     clap_present = (\<lambda>n. map_of xs n \<noteq> None), pubkey_of = (\<lambda>n. Option.bind (map_of xs n) sample_key),
     pubkeys_of = (\<lambda>n. map_option (\<lambda>s. [the (sample_key s)]) (map_of xs n)),
     keypair_of = (\<lambda>n. Option.bind (map_of xs n) sample_key), signer_from_path = (\<lambda>path n. sample_key path),
     value_u8 = (\<lambda>n. Option.bind (map_of xs n) parse_u8), value_u64 = (\<lambda>n. Option.bind (map_of xs n) parse_u64),
     value_i64 = (\<lambda>n. Option.bind (map_of xs n) parse_i64),
     value_f64 = (\<lambda>n. Option.bind (map_of xs n) (\<lambda>s. Some (length s))) \<rparr>"

lemma sample_looks_up: "looks_up sample_host (sample_arguments xs)"
  by (auto simp: looks_up_def sample_host_def sample_arguments_def)

lemmas sample_parse = sample_key_def parse_digits_def is_ascii_digit_def read_digits_def parse_u8_def parse_u64_def
  parse_i64_def parse_within_def strip_sign_def

lemmas sample_accepts = accepted_def accepted_argument_def arg_def with_default_def repeated_def
  sample_arguments_def sample_host_def is_u64_def is_i64_def is_pubkey_or_none_def

definition add_reserve_line :: "(string \<times> string) list" where
  "add_reserve_line =
     [(''lending_market_owner'', ''8''), (''source_liquidity_owner'', ''9''), (''lending_market'', ''7''),
      (''source_liquidity'', ''21''), (''liquidity_amount'', ''5''), (''fixed_price'', ''1.5''),
      (''optimal_utilization_rate'', ''80''), (''loan_to_value_ratio'', ''50''), (''liquidation_bonus'', ''5''),
      (''liquidation_threshold'', ''55''), (''min_borrow_rate'', ''0''), (''optimal_borrow_rate'', ''4''),
      (''max_borrow_rate'', ''30''), (''borrow_fee'', ''0.0001''), (''flash_loan_fee'', ''0.0009''),
      (''host_fee_percentage'', ''20''), (''deposit_limit'', ''1000''), (''borrow_limit'', ''1000'')]"

theorem lending_arguments_read_witness:
  "accepted sample_host add_reserve_decls (sample_arguments add_reserve_line) \<and>
   read_add_reserve sample_host (sample_arguments add_reserve_line) = Inl Panicked"
proof -
  have acc: "accepted sample_host add_reserve_decls (sample_arguments add_reserve_line)"
    by (simp add: sample_accepts add_reserve_decls_def add_reserve_line_def sample_parse)
  have float: "\<forall>s. parse_u64 s \<noteq> None \<longrightarrow> parse_f64 sample_host s \<noteq> None" by (simp add: sample_host_def)
  have "clap_value (sample_arguments add_reserve_line) ''fixed_price'' = Some ''1.5''" "parse_u64 ''1.5'' = None"
    by (simp_all add: sample_arguments_def add_reserve_line_def sample_parse)
  then show ?thesis using acc lending_arguments_read [OF sample_looks_up float] by blast
qed

definition init_pool_line :: "(string \<times> string) list" where
  "init_pool_line =
     [(''transfer_authority'', ''9''), (''reward_supply_pubkey'', ''41''), (''reward_token_mint'', ''20''),
      (''staking_program_owner_authority'', ''8''), (''staking_program_admin_authority'', ''8''),
      (''reward_supply_amount'', ''1000''), (''duration_of_rewarding'', ''+10''), (''earliest_reward_claim_time'', ''0'')]"

theorem staking_arguments_read_witness:
  "\<exists>a. read_init_staking_pool (sample_arguments init_pool_line) = Inr a"
proof -
  have "accepted sample_host init_staking_pool_decls (sample_arguments init_pool_line)"
    by (simp add: sample_accepts init_staking_pool_decls_def init_pool_line_def sample_parse)
  with staking_arguments_read [OF sample_looks_up, of init_pool_line] show ?thesis by blast
qed

end
