(* ===== verification/Cli_Runs.thy ===== *)
theory Cli_Runs
  imports Cli_Correct Cli_Reads
begin

text \<open>
  The command line programs end to end: what the transactions of a command do when the programs run
  their instructions, and when the ledger changes.
\<close>

section \<open>The ledger\<close>

text \<open>
  What the two programs share: a command line that prepares transactions signed with exactly the keys
  they need, a way of sending that keeps the ledger in a dry run, and an exit code for a failure.
\<close>

locale command_line =
  fixes cl :: "('n, 'f) cluster" and cfg :: config_args
    and send_one :: "transaction \<Rightarrow> 'n \<Rightarrow> unit outcome \<times> 'n"
    and prepare :: "'n \<Rightarrow> transaction list outcome" and finish :: "unit outcome \<Rightarrow> unit outcome"
    and main :: "'n \<Rightarrow> unit outcome \<times> 'n"
  assumes dry: "dry_run cfg \<Longrightarrow> snd (send_one t n) = n"
    and signed: "builders_mark cl \<Longrightarrow> prepare n = Inr ts \<Longrightarrow> list_all exactly_signed ts"
    and finish: "finish r = Inr () \<longleftrightarrow> r = Inr ()"
    and main: "main n = (finish (fst (command send_one prepare n)), snd (command send_one prepare n))"
begin

lemma dry_run_keeps_ledger: "dry_run cfg \<Longrightarrow> snd (main n) = n"
  by (simp add: main command_keeps dry)

lemma failure_keeps_ledger: "prepare n = Inl e \<Longrightarrow> snd (main n) = n"
  by (simp add: main command_def)

lemma success_sends:
  assumes "builders_mark cl" "fst (main n) = Inr ()"
  shows "\<exists>ts. prepare n = Inr ts \<and> list_all exactly_signed ts \<and> snd (main n) = snd (send_all send_one ts n)"
  using assms signed [of n] by (auto simp: main finish command_def split: sum.splits)

end

lemma exit_ok:
  "exit_on_failure r = Inr () \<longleftrightarrow> r = Inr ()" "staking_exit_on_failure r = Inr () \<longleftrightarrow> r = Inr ()"
  by (auto simp: exit_on_failure_def staking_exit_on_failure_def split: sum.splits cli_end.splits)

interpretation lending_line: command_line cl cfg "send_transaction cl cfg" "lending_cli cl cfg sub m" exit_on_failure
  "lending_main cl cfg sub m" for cl cfg sub m
  by unfold_locales
    (simp_all add: dry_run_keeps lending_cli_signed exit_ok lending_main_def split_def Let_def)

interpretation staking_line: command_line cl cfg "staking_send_transaction cl cfg" "staking_cli cl cfg sub m"
  staking_exit_on_failure "staking_main cl cfg sub m" for cl cfg sub m
  by unfold_locales
    (simp_all add: dry_run_keeps staking_cli_signed exit_ok staking_main_def split_def Let_def)

text \<open>
  C30: The command line programs touch the ledger only by sending transactions signed with exactly the
  keys they need. Nothing changes in a dry run, or when a command fails before sending; when a command
  succeeds it has sent the transactions it prepared, in their order, and each carries the payer's key and the keys its
  instructions mark, no more and no less. So the check of \<open>Transaction::sign\<close> never fails.
\<close>

theorem cli_sends_signed:
  assumes bm: "builders_mark cl" and acc: "sign_accepts cl"
  shows "(dry_run cfg \<longrightarrow> snd (lending_main cl cfg sub m n) = n \<and> snd (staking_main cl cfg sub m n) = n) \<and>
    (\<forall>e. lending_cli cl cfg sub m n = Inl e \<longrightarrow> snd (lending_main cl cfg sub m n) = n) \<and>
    (\<forall>e. staking_cli cl cfg sub m n = Inl e \<longrightarrow> snd (staking_main cl cfg sub m n) = n) \<and>
    (fst (lending_main cl cfg sub m n) = Inr () \<longrightarrow>
      (\<exists>ts. lending_cli cl cfg sub m n = Inr ts \<and> list_all exactly_signed ts \<and>
        snd (lending_main cl cfg sub m n) = snd (send_all (send_transaction cl cfg) ts n))) \<and>
    (fst (staking_main cl cfg sub m n) = Inr () \<longrightarrow>
      (\<exists>ts. staking_cli cl cfg sub m n = Inr ts \<and> list_all exactly_signed ts \<and>
        snd (staking_main cl cfg sub m n) = snd (send_all (staking_send_transaction cl cfg) ts n))) \<and>
    lending_cli (trusting cl) cfg sub m n = lending_cli cl cfg sub m n \<and>
    staking_cli (trusting cl) cfg sub m n = staking_cli cl cfg sub m n"
  using lending_line.dry_run_keeps_ledger staking_line.dry_run_keeps_ledger lending_line.failure_keeps_ledger
    staking_line.failure_keeps_ledger lending_line.success_sends [OF bm] staking_line.success_sends [OF bm]
    lending_cli_unchecked [OF acc bm] staking_cli_unchecked [OF acc bm]
  by (intro conjI impI allI) simp_all

section \<open>Commands and handlers\<close>

lemma send_of_built: "built program_id ins metas = Inr ix \<Longrightarrow> send rt w (Inr ix) =
    (if instruction_fits ins then process rt program_id (map passed metas) ins w else Inl Panic)"
  using send_built [of rt w program_id ins metas] by simp

lemma init_market_runs:
  "init_lending_market_ix ids pid own quote key = Inr ix \<Longrightarrow>
     send rt w (Inr ix) = send rt w (init_lending_market_ix ids pid own quote key)"
  by simp

lemma option_metas_passed: "map passed (option_metas k) = (case k of None \<Rightarrow> [] | Some key \<Rightarrow> [readonly key])"
  by (simp add: option_metas_def split: option.split)

lemma refresh_reserve_runs:
  "refresh_reserve_ix rt pid r oracle = Inr ix \<Longrightarrow> send rt w (Inr ix) =
     process_refresh_reserve rt pid ([writable r, readonly (clock_id rt)] @
       (case oracle of None \<Rightarrow> [] | Some key \<Rightarrow> [readonly key])) w"
  by (auto simp: refresh_reserve_ix_def option_metas_passed dest: send_of_built)

lemma refresh_obligation_runs:
  "refresh_obligation_ix rt pid ob rs = Inr ix \<Longrightarrow> send rt w (Inr ix) =
     process_refresh_obligation rt pid ([writable ob, readonly (clock_id rt)] @ map (\<lambda>k. readonly k) rs) w"
  by (auto simp: refresh_obligation_ix_def comp_def dest: send_of_built)

lemma repay_runs:
  "repay_obligation_liquidity_ix rt ids pid amount src dst r ob market auth = Inr ix \<Longrightarrow> send rt w (Inr ix) =
     process_repay_obligation_liquidity rt pid amount [writable src, writable dst, writable r, writable ob,
       readonly market, signer auth, readonly (clock_id rt), readonly (token_address ids)] w"
  by (auto simp: repay_obligation_liquidity_ix_def dest: send_of_built)

lemma update_reserve_runs:
  "update_reserve_ix rt ids pid cfg r market own = Inr ix \<Longrightarrow> send rt w (Inr ix) =
     process_update_reserve rt pid cfg [writable r, readonly market, readonly (market_authority rt pid market),
       signer own, readonly (rent_address ids), readonly (token_address ids)] w"
  by (auto simp: update_reserve_ix_def Let_def dest: send_of_built)

lemma refresh_all_run:
  assumes "list_all2 (\<lambda>x y. (case x of (r, oracle) \<Rightarrow> own_code (refresh_reserve_ix rt pid r oracle)) = Inr y) rs ixs"
  shows "list_all2 (\<lambda>(r, oracle) ix. \<forall>w. send rt w (Inr ix) =
    process_refresh_reserve rt pid ([writable r, readonly (clock_id rt)] @
      (case oracle of None \<Rightarrow> [] | Some key \<Rightarrow> [readonly key])) w) rs ixs"
  using assms by (rule list_all2_mono) (auto simp: refresh_reserve_runs)

lemma USD_padded: "USD = as_bytes ''USD'' @ replicate 29 0"
  by (simp add: USD_def as_bytes_def numeral_eq_Suc)

text \<open>
  C31: A command line \<open>create-market\<close> that prepares a transaction creates the account of the market
  and opens it: when the program runs the second instruction, the account holds a market with the
  owner and the quote currency of the command line, padded with zeros, that every handler
  accepts; and \<open>USD\<close> is no special case.
\<close>

theorem create_market_opens:
  assumes pc: "pack_checks rt" and found: "addresses_found rt (cli_program_id cfg)"
    and rt: "rt = the_runtime cl" "ids = the_addresses cl"
    and quote: "clap_value m ''quote_currency'' = Some q" "length q \<le> 32"
    and run: "lending_cli cl cfg ''create-market'' m n = Inr ts"
  shows "\<exists>own key init t. pubkey_of m ''lending_market_owner'' = Some own \<and> ts = [t] \<and> key = new_keypair cl 0 \<and>
    (\<exists>balance. rent_minimum cl n LENDING_MARKET_LEN = Inr balance \<and>
      tx_instructions t = [system_create_account cl (fee_payer cfg) key balance
        (of_nat LENDING_MARKET_LEN) (cli_program_id cfg), init]) \<and>
    (\<forall>w w1. send rt w (Inr init) = Inr w1 \<longrightarrow> usable_market rt ids (cli_program_id cfg) key own w1 \<and>
      (\<exists>mk. unpack_market rt w1 (writable key) = Inr mk \<and> market_owner mk = own \<and>
        bytes32_to (quote_currency mk) = as_bytes q @ replicate (32 - length q) 0))"
proof -
  have padded: "quote_currency_of (the_host cl) m ''quote_currency'' =
      Inr (Some (bytes32_from (as_bytes q @ replicate (32 - length q) 0)))"
    using quote by (auto simp: quote_currency_of_def USD_padded)
  have bytes: "bytes32_to (bytes32_from (as_bytes q @ replicate (32 - length q) 0)) =
      as_bytes q @ replicate (32 - length q) 0"
    using quote(2) to_from_le_bytes [where 'a = 256, of "as_bytes q @ replicate (32 - length q) 0"]
    by (simp add: bytes32_from_def bytes32_to_def as_bytes_def)
  obtain own balance init t where parts: "pubkey_of m ''lending_market_owner'' = Some own" "ts = [t]"
    "rent_minimum cl n LENDING_MARKET_LEN = Inr balance"
    and init: "init_lending_market_ix ids (cli_program_id cfg) own
      (bytes32_from (as_bytes q @ replicate (32 - length q) 0)) (new_keypair cl 0) = Inr init"
    and ixs: "tx_instructions t = [system_create_account cl (fee_payer cfg) (new_keypair cl 0) balance
        (of_nat LENDING_MARKET_LEN) (cli_program_id cfg), init]"
    using run padded rt by (auto simp: lending_cli_def read_create_market_def command_create_lending_market_def
        create_market_instructions_def Let_def dest!: sign_result)
  have "usable_market rt ids (cli_program_id cfg) (new_keypair cl 0) own w1 \<and>
      (\<exists>mk. unpack_market rt w1 (writable (new_keypair cl 0)) = Inr mk \<and> market_owner mk = own \<and>
        bytes32_to (quote_currency mk) = as_bytes q @ replicate (32 - length q) 0)"
    if "send rt w (Inr init) = Inr w1" for w w1
  proof -
    from that have sent: "send rt w (init_lending_market_ix ids (cli_program_id cfg) own
      (bytes32_from (as_bytes q @ replicate (32 - length q) 0)) (new_keypair cl 0)) = Inr w1" by (simp add: init)
    obtain mk where mk: "pack_market rt mk (writable (new_keypair cl 0)) w = Inr w1"
      "owner_of w (writable (new_keypair cl 0)) = cli_program_id cfg" "market_version mk = PROGRAM_VERSION"
      "token_program_id mk = token_address ids" "market_owner mk = own"
      "quote_currency mk = bytes32_from (as_bytes q @ replicate (32 - length q) 0)"
      "create_program_address rt [bytes32_to (new_keypair cl 0), [market_bump_seed mk]] (cli_program_id cfg) =
        Inr (market_authority rt (cli_program_id cfg) (new_keypair cl 0))"
      using opened_market [OF found sent] .
    show ?thesis
      using stored_usable [OF pc mk(1) _ mk(2-4), of "new_keypair cl 0"] stored_market_read [OF pc mk(3,1)] mk(5-7) bytes
      by auto
  qed
  with parts ixs show ?thesis by blast
qed

text \<open>
  C33: The transaction of \<open>repay-loan\<close> refreshes every reserve of the command line with its oracle, then
  the obligation over the same reserves in the same order, and repays last, so that nothing is
  stale when the repayment runs. It is sent only if the wallet's balance exceeds the amount.
\<close>

theorem repay_loan_refreshes_first:
  assumes rt: "rt = the_runtime cl" "pid = cli_program_id cfg" "ids = the_addresses cl"
    and run: "command_repay_loan cl cfg a n = Inr ts"
  shows "\<exists>t refresh ob rep balance. ts = [t] \<and> tx_instructions t = refresh @ [ob, rep] \<and>
    get_balance cl n (rp_source_wallet a) = Inr balance \<and> rp_amount a < balance \<and>
    list_all2 (\<lambda>(r, oracle) ix. \<forall>w. send rt w (Inr ix) =
      process_refresh_reserve rt pid ([writable r, readonly (clock_id rt)] @
        (case oracle of None \<Rightarrow> [] | Some key \<Rightarrow> [readonly key])) w) (rp_reserves a) refresh \<and>
    (\<forall>w. send rt w (Inr ob) = process_refresh_obligation rt pid
      ([writable (rp_obligation a), readonly (clock_id rt)] @ map (\<lambda>k. readonly k) (map fst (rp_reserves a))) w) \<and>
    (\<forall>w. send rt w (Inr rep) = process_repay_obligation_liquidity rt pid (rp_amount a)
      [writable (rp_source_token a), writable (rp_dest_token a), writable (rp_reserve a),
       writable (rp_obligation a), readonly (rp_market a), signer (rp_source_wallet a),
       readonly (clock_id rt), readonly (token_address ids)] w)"
proof -
  obtain balance t refresh ob rep where parts: "ts = [t]" "tx_instructions t = refresh @ [ob, rep]"
    "get_balance cl n (rp_source_wallet a) = Inr balance" "rp_amount a < balance"
    and refresh: "list_all2 (\<lambda>x y. (case x of (r, oracle) \<Rightarrow> own_code (refresh_reserve_ix rt pid r oracle)) = Inr y)
      (rp_reserves a) refresh"
    and ob: "refresh_obligation_ix rt pid (rp_obligation a) (map fst (rp_reserves a)) = Inr ob"
    and rep: "repay_obligation_liquidity_ix rt ids pid (rp_amount a) (rp_source_token a)
      (rp_dest_token a) (rp_reserve a) (rp_obligation a) (rp_market a) (rp_source_wallet a) = Inr rep"
    using run rt by (auto simp: command_repay_loan_def repay_loan_instructions_def Let_def map_outcome_ok
        dest!: sign_result)
  show ?thesis
    using parts refresh_all_run [OF refresh] refresh_obligation_runs [OF ob] repay_runs [OF rep] by blast
qed

lemma init_reserve_runs:
  assumes "init_reserve_ix rt ids pid n price cfg src dst r mint liq fee cm cs market own auth oracle = Inr ix"
  shows "send rt w (Inr ix) = process_init_reserve rt pid n price cfg
    ([writable src, writable dst, writable r, readonly mint, writable liq, writable fee, writable cm, writable cs,
      readonly market, readonly (market_authority rt pid market), signer own, signer auth, readonly (clock_id rt),
      readonly (rent_address ids), readonly (token_address ids)] @
     (case oracle of None \<Rightarrow> [] | Some key \<Rightarrow> [readonly key])) w"
proof -
  from assms have fits: "instruction_fits (InitReserve n price cfg)"
    using price_panics by (fastforce simp: init_reserve_ix_def built_def Let_def)
  from assms fits show ?thesis
    by (auto simp: init_reserve_ix_def Let_def option_metas_passed dest: send_of_built)
qed

text \<open>
  C32: \<open>add-reserve\<close> opens a reserve in two transactions. The first creates the accounts of the reserve, the
  collateral mint, its supply and the user's collateral; the second those of the liquidity supply and
  the fee receiver, approves the transfer of the amount, opens the reserve on these very accounts with
  the market's owner as a signer, and revokes the approval. The mint is the one of the source account,
  and the amount is in its smallest unit. The second is sent only after the first was
  confirmed.
\<close>

theorem add_reserve_opens:
  assumes rt: "rt = the_runtime cl" "pid = cli_program_id cfg" "ids = the_addresses cl"
    and ks: "ks = reserve_keypairs cl"
    and run: "command_add_reserve cl cfg a n = Inr ts"
  shows "\<exists>t1 t2 d source md mint amount b1 b2 b3 approve init revoke. ts = [t1, t2] \<and>
    get_account cl n (nr_source_liquidity a) = Inr d \<and> token_unpack_from_slice cl d = Inr source \<and>
    get_account cl n (token_account_mint source) = Inr md \<and> mint_unpack_from_slice cl md = Inr mint \<and>
    amount = ui_amount_to_amount (the_host cl) (nr_ui_amount a) (token_decimals mint) \<and>
    tx_instructions t1 =
      [system_create_account cl (fee_payer cfg) (rk_reserve ks) b1 (of_nat RESERVE_LEN) pid,
       system_create_account cl (fee_payer cfg) (rk_collateral_mint ks) b2 (of_nat (token_mint_len cl)) (token_address ids),
       create_token_account cl cfg b3 (rk_collateral_supply ks), create_token_account cl cfg b3 (rk_user_collateral ks)] \<and>
    tx_instructions t2 =
      [create_token_account cl cfg b3 (rk_liquidity_supply ks), create_token_account cl cfg b3 (rk_fee_receiver ks),
       approve, init, revoke] \<and>
    token_approve cl (token_address ids) (nr_source_liquidity a) (rk_transfer_authority ks) (nr_source_owner a) []
      amount = Inr approve \<and>
    token_revoke cl (token_address ids) (nr_source_liquidity a) (nr_source_owner a) [] = Inr revoke \<and>
    (\<forall>w. send rt w (Inr init) = process_init_reserve rt pid amount (nr_fixed_price a) (nr_config a)
      ([writable (nr_source_liquidity a), writable (rk_user_collateral ks), writable (rk_reserve ks),
        readonly (token_account_mint source), writable (rk_liquidity_supply ks), writable (rk_fee_receiver ks),
        writable (rk_collateral_mint ks), writable (rk_collateral_supply ks), readonly (nr_market a),
        readonly (market_authority rt pid (nr_market a)), signer (nr_market_owner a),
        signer (rk_transfer_authority ks), readonly (clock_id rt), readonly (rent_address ids),
        readonly (token_address ids)] @ (case nr_pyth_price a of None \<Rightarrow> [] | Some key \<Rightarrow> [readonly key])) w) \<and>
    (\<forall>send_one e n'. send_one t1 n = (Inl e, n') \<longrightarrow>
      command send_one (command_add_reserve cl cfg a) n = (Inl e, n'))"
proof -
  obtain d source md mint b1 b2 b3 second t1 t2 h where parts: "ts = [t1, t2]"
    "get_account cl n (nr_source_liquidity a) = Inr d" "token_unpack_from_slice cl d = Inr source"
    "get_account cl n (token_account_mint source) = Inr md" "mint_unpack_from_slice cl md = Inr mint"
    and second: "add_reserve_second cl cfg a ks b3
      (ui_amount_to_amount (the_host cl) (nr_ui_amount a) (token_decimals mint)) (token_account_mint source) = Inr second"
    and sign: "sign cl (add_reserve_first cl cfg ks b1 b2 b3) (fee_payer cfg) [fee_payer cfg, rk_reserve ks,
        rk_collateral_mint ks, rk_collateral_supply ks, rk_user_collateral ks] h = Inr t1"
      "sign cl second (fee_payer cfg) [fee_payer cfg, rk_liquidity_supply ks, rk_fee_receiver ks,
        nr_source_owner a, nr_market_owner a, rk_transfer_authority ks] h = Inr t2"
    using run unfolding command_add_reserve_def Let_def attempt_Inr_iff outcome_Inr_iff lib_ok ks by blast
  obtain approve init revoke where "second = [create_token_account cl cfg b3 (rk_liquidity_supply ks),
      create_token_account cl cfg b3 (rk_fee_receiver ks), approve, init, revoke]"
    "token_approve cl (token_address ids) (nr_source_liquidity a) (rk_transfer_authority ks) (nr_source_owner a) []
      (ui_amount_to_amount (the_host cl) (nr_ui_amount a) (token_decimals mint)) = Inr approve"
    "token_revoke cl (token_address ids) (nr_source_liquidity a) (nr_source_owner a) [] = Inr revoke"
    and init: "init_reserve_ix rt ids pid (ui_amount_to_amount (the_host cl) (nr_ui_amount a) (token_decimals mint))
      (nr_fixed_price a) (nr_config a) (nr_source_liquidity a) (rk_user_collateral ks)
        (rk_reserve ks) (token_account_mint source) (rk_liquidity_supply ks) (rk_fee_receiver ks) (rk_collateral_mint ks)
        (rk_collateral_supply ks) (nr_market a) (nr_market_owner a) (rk_transfer_authority ks)
        (nr_pyth_price a) = Inr init"
    using second by (auto simp: add_reserve_second_def Let_def rt)
  moreover have "command send_one (command_add_reserve cl cfg a) n = (Inl e, n')"
    if "send_one t1 n = (Inl e, n')" for send_one e n'
    using that run parts(1) by (simp add: command_def)
  ultimately show ?thesis
    using parts sign_result [OF sign(1)] sign_result [OF sign(2)] init_reserve_runs [OF init]
    unfolding add_reserve_first_def rt by blast
qed

text \<open>What a new value leaves of the old: nothing if it is given and readable, everything otherwise.\<close>

definition overlay :: "('f arguments \<Rightarrow> string \<Rightarrow> 'a option) \<Rightarrow> 'f arguments \<Rightarrow> string \<Rightarrow> 'a \<Rightarrow> 'a" where
  "overlay look m name old = (case look m name of None \<Rightarrow> old | Some new \<Rightarrow> new)"

definition overlaid_config :: "'f arguments \<Rightarrow> pubkey option option \<Rightarrow> reserve_config \<Rightarrow> reserve_config" where
  "overlaid_config m pool old =
     \<lparr> optimal_utilization_rate = overlay value_u8 m ''optimal_utilization_rate'' (optimal_utilization_rate old),
       loan_to_value_ratio = overlay value_u8 m ''loan_to_value_ratio'' (loan_to_value_ratio old),
       liquidation_bonus = overlay value_u8 m ''liquidation_bonus'' (liquidation_bonus old),
       liquidation_threshold = overlay value_u8 m ''liquidation_threshold'' (liquidation_threshold old),
       min_borrow_rate = overlay value_u8 m ''min_borrow_rate'' (min_borrow_rate old),
       optimal_borrow_rate = overlay value_u8 m ''optimal_borrow_rate'' (optimal_borrow_rate old),
       max_borrow_rate = overlay value_u8 m ''max_borrow_rate'' (max_borrow_rate old),
       config_fees =
         \<lparr> borrow_fee_wad = overlay value_u64 m ''borrow_fee_wad'' (borrow_fee_wad (config_fees old)),
           flash_loan_fee_wad = overlay value_u64 m ''flash_loan_fee_wad'' (flash_loan_fee_wad (config_fees old)),
           host_fee_percentage = overlay value_u8 m ''host_fee_percentage'' (host_fee_percentage (config_fees old)) \<rparr>,
       deposit_staking_pool = (case pool of None \<Rightarrow> deposit_staking_pool old | Some new \<Rightarrow> new),
       deposit_limit = overlay value_u64 m ''deposit_limit'' (deposit_limit old),
       borrow_limit = overlay value_u64 m ''borrow_limit'' (borrow_limit old) \<rparr>"

lemma merge_overlay:
  assumes "read_update_reserve h m = Inr (r, market, own, x)"
  shows "\<exists>pool. pubkey_or_none_of h m ''deposit_staking_pool'' = Inr pool \<and>
    merge_config x old = overlaid_config m pool old"
  using assms
  by (auto simp: read_update_reserve_def merge_config_def overlaid_config_def overlay_def unwrap_or_def)

text \<open>
  C34: \<open>update-reserve\<close> changes the settings that are given and keeps the others: the instruction it
  sends runs the handler with the configuration the reserve has, overlaid with the values read. A
  percentage above 255 passes its validator and is dropped without a word.
\<close>

theorem update_reserve_overlays:
  assumes rt: "rt = the_runtime cl" "pid = cli_program_id cfg" "ids = the_addresses cl"
    and laws: "looks_up (the_host cl) m"
    and run: "update_reserve_arm cl cfg m n = Inr ts"
  shows "\<exists>key market own data r pool t ix. ts = [t] \<and> tx_instructions t = [ix] \<and>
    pubkey_of m ''reserve'' = Some key \<and> pubkey_of m ''lending_market'' = Some market \<and>
    Option.bind (clap_value m ''lending_market_owner'') (\<lambda>path. signer_from_path m path ''lending_market_owner'') =
      Some own \<and>
    get_account cl n key = Inr data \<and>
    unpack_checked rt RESERVE_LEN reserve_is_initialized reserve_unpack_from_slice data = Inr r \<and>
    pubkey_or_none_of (the_host cl) m ''deposit_staking_pool'' = Inr pool \<and>
    (\<forall>w. send rt w (Inr ix) = process_update_reserve rt pid (overlaid_config m pool (config r))
      [writable key, readonly market, readonly (market_authority rt pid market), signer own,
       readonly (rent_address ids), readonly (token_address ids)] w) \<and>
    (\<forall>s v. clap_value m ''loan_to_value_ratio'' = Some s \<and> parse_u64 s = Some v \<and> 255 < v \<longrightarrow>
      is_u64 s \<and> loan_to_value_ratio (overlaid_config m pool (config r)) = loan_to_value_ratio (config r))"
proof -
  obtain key market own x data r where read: "read_update_reserve (the_host cl) m = Inr (key, market, own, x)"
    and data: "get_account cl n key = Inr data"
      "unpack_checked rt RESERVE_LEN reserve_is_initialized reserve_unpack_from_slice data = Inr r"
    and sent: "command_update_reserve cl cfg key market own (merge_config x (config r)) n = Inr ts"
    using run rt by (auto simp: update_reserve_arm_def)
  obtain pool where pool: "pubkey_or_none_of (the_host cl) m ''deposit_staking_pool'' = Inr pool"
    "merge_config x (config r) = overlaid_config m pool (config r)"
    using merge_overlay [OF read] by blast
  obtain t ix where t: "ts = [t]" "tx_instructions t = [ix]"
    and ix: "update_reserve_ix rt ids pid (overlaid_config m pool (config r)) key market own = Inr ix"
    using sent rt pool(2) by (auto simp: command_update_reserve_def dest!: sign_result)
  have keys: "pubkey_of m ''reserve'' = Some key" "pubkey_of m ''lending_market'' = Some market"
    "Option.bind (clap_value m ''lending_market_owner'') (\<lambda>path. signer_from_path m path ''lending_market_owner'') =
      Some own"
    using read by (auto simp: read_update_reserve_def)
  have "loan_to_value_ratio (overlaid_config m pool (config r)) = loan_to_value_ratio (config r)"
    if "clap_value m ''loan_to_value_ratio'' = Some s" "parse_u64 s = Some v" "255 < v" for s v
  proof -
    have "parse_u8 s = None"
      using that(2,3) by (auto simp: parse_u8_def parse_u64_def parse_within_def word_less_nat_alt unat_of_nat
          split: option.splits bind_splits if_splits)
    then show ?thesis using laws that(1) by (simp add: overlaid_config_def overlay_def looks_up_def)
  qed
  then show ?thesis using t keys data pool(1) update_reserve_runs [OF ix] by (auto simp: is_u64_def)
qed

section \<open>The staking program\<close>

lemma staking_sent:
  "staking_send rt w (change_admin_ix pid new old pool) =
     process_change_admin rt pid new [signer old, writable pool] w"
  "staking_send rt w (change_owner_ix pid new old pool) =
     process_change_owner rt pid new [signer old, writable pool] w"
  "staking_send rt w (change_duration_ix rt pid d admin pool) =
     process_change_duration rt pid d [signer admin, writable pool, readonly (clock_id rt)] w"
  by (rule staking_client_reaches_handler)+


text \<open>
  C36: \<open>change-reward-supply\<close> can add rewards only to a pool with two rewards, and both at once: it
  prepares a transaction only if the change is positive, the owner of the source tokens is given,
  and a second token account with a second change that is not negative; or the change is negative
  and the owner of the pool is given. In every other case it panics or fails, above all for a pool
  with a single reward, and for a change of nothing.
\<close>

theorem change_reward_supply_prepares:
  "(command_change_reward_supply cl cfg a n = Inr ts \<longrightarrow>
      (0 < sint (sq_diff a) \<and> sq_source_owner a \<noteq> None \<and> sq_sub_token_supply a \<noteq> None \<and>
        (\<exists>d. sq_sub_diff a = Some d \<and> 0 \<le> sint d)) \<or>
      (sint (sq_diff a) < 0 \<and> sq_pool_owner a \<noteq> None)) \<and>
   (sq_sub_token_supply a = None \<and> 0 < sint (sq_diff a) \<and> latest_blockhash cl n = Inr h \<longrightarrow>
      command_change_reward_supply cl cfg a n = Inl Panicked)"
proof (intro conjI impI)
  assume "command_change_reward_supply cl cfg a n = Inr ts"
  then show "(0 < sint (sq_diff a) \<and> sq_source_owner a \<noteq> None \<and> sq_sub_token_supply a \<noteq> None \<and>
        (\<exists>d. sq_sub_diff a = Some d \<and> 0 \<le> sint d)) \<or>
      (sint (sq_diff a) < 0 \<and> sq_pool_owner a \<noteq> None)"
    by (auto simp: command_change_reward_supply_def increase_supply_instructions_def unsigned_amount_def Let_def
        split: if_splits)
next
  assume "sq_sub_token_supply a = None \<and> 0 < sint (sq_diff a) \<and> latest_blockhash cl n = Inr h"
  then show "command_change_reward_supply cl cfg a n = Inl Panicked"
    by (auto simp: command_change_reward_supply_def increase_supply_instructions_def unsigned_amount_def Let_def
        read_pool_def attempt_def unwrap_def expect_ok_def rpc_def split: sum.splits option.splits)
qed

section \<open>A cluster\<close>

text \<open>Its ledger counts the transactions sent; it accepts exactly the signatures needed.\<close>

definition sample_create :: "pubkey \<Rightarrow> pubkey \<Rightarrow> u64 \<Rightarrow> u64 \<Rightarrow> pubkey \<Rightarrow> instruction" where
  "sample_create payer key lamports len own =
     \<lparr> ix_program_id = 0, ix_accounts = [meta_new payer True, meta_new key True], ix_data = [] \<rparr>"

definition sample_owned :: "pubkey \<Rightarrow> pubkey \<Rightarrow> instruction" where
  "sample_owned source own =
     \<lparr> ix_program_id = 200, ix_accounts = [meta_new source False, meta_readonly own True], ix_data = [] \<rparr>"

definition sample_cluster :: "(nat, nat) cluster" where
  "sample_cluster =
     \<lparr> get_account = (\<lambda>n k. Inr (acc_data (sample_world sample_obligation k))), get_balance = (\<lambda>n k. Inr 1000),
       rent_minimum = (\<lambda>n len. Inr 10), latest_blockhash = (\<lambda>n. Inr n), simulate = (\<lambda>n t. Inr ''ok''),
       send_and_confirm = (\<lambda>n t. (Inr ''ok'', Suc n)), signs = exactly_signed, new_keypair = (\<lambda>k. 7 + of_nat k),
       system_create_account = sample_create,
       token_approve = (\<lambda>prog source delegate own signers amount. Inr (sample_owned source own)),
       token_revoke = (\<lambda>prog source own signers. Inr (sample_owned source own)),
       token_unpack_from_slice = (\<lambda>bs. Inr \<lparr> token_amount = 1000, token_account_mint = 20 \<rparr>),
       mint_unpack_from_slice = (\<lambda>bs. Inr \<lparr> token_decimals = 6 \<rparr>),
       token_account_len = 165, token_mint_len = 82, the_host = sample_host, the_runtime = sample_rt,
       the_addresses = \<lparr> token_address = 200, rent_address = 2, staking_address = 300 \<rparr> \<rparr>"

definition sample_config :: config_args where
  "sample_config = \<lparr> fee_payer = 50, cli_program_id = 100, verbose = False, dry_run = False \<rparr>"

lemma sample_cluster_laws: "builders_mark sample_cluster" "sign_accepts sample_cluster"
  by (auto simp: builders_mark_def sign_accepts_def sample_cluster_def sample_create_def sample_owned_def
      marked_signer_keys)

lemma sample_cluster_fields [simp]:
  "rent_minimum sample_cluster n len = Inr 10" "latest_blockhash sample_cluster n = Inr n"
  "get_balance sample_cluster n k = Inr 1000" "the_host sample_cluster = sample_host"
  "the_runtime sample_cluster = sample_rt" "new_keypair sample_cluster 0 = 7"
  "the_addresses sample_cluster = \<lparr> token_address = 200, rent_address = 2, staking_address = 300 \<rparr>"
  "get_account sample_cluster n k = Inr (acc_data (sample_world sample_obligation k))"
  "token_unpack_from_slice sample_cluster bs = Inr \<lparr> token_amount = 1000, token_account_mint = 20 \<rparr>"
  "mint_unpack_from_slice sample_cluster bs = Inr \<lparr> token_decimals = 6 \<rparr>"
  "token_approve sample_cluster prog source delegate own signers amount = Inr (sample_owned source own)"
  "token_revoke sample_cluster prog source own signers = Inr (sample_owned source own)"
  "send_and_confirm sample_cluster n t = (Inr ''ok'', Suc n)"
  "cli_program_id sample_config = 100" "fee_payer sample_config = 50" "\<not> dry_run sample_config"
  by (simp_all add: sample_cluster_def sample_config_def)

lemma trusting_signs:
  "sign (trusting cl) ixs p ks h = Inr \<lparr> tx_instructions = ixs, tx_payer = p, tx_signers = ks, tx_blockhash = h \<rparr>"
  by (simp add: sign_def trusting_def Let_def)

lemma built_total: "instruction_fits ins \<Longrightarrow> \<exists>ix. built program_id ins metas = Inr ix"
  using instruction_pack_total [of ins] by (auto simp: built_def)

definition create_market_line :: "(string \<times> string) list" where
  "create_market_line = [(''lending_market_owner'', ''8''), (''quote_currency'', ''EUR'')]"

lemma sample_create_market:
  "\<exists>ts. lending_cli sample_cluster sample_config ''create-market'' (sample_arguments create_market_line) 0 = Inr ts"
proof -
  define quote where "quote = bytes32_from (as_bytes ''EUR'' @ drop 3 (replicate 32 0))"
  have read: "read_create_market sample_host (sample_arguments create_market_line) = Inr (8, quote)"
    by (simp add: read_create_market_def quote_currency_of_def create_market_line_def sample_arguments_def
        sample_parse unwrap_def quote_def)
  obtain ix where "init_lending_market_ix \<lparr> token_address = 200, rent_address = 2, staking_address = 300 \<rparr> 100 8
      quote 7 = Inr ix"
    using built_total [of "InitLendingMarket 8 quote"] unfolding init_lending_market_ix_def by auto
  then have "\<exists>ts. lending_cli (trusting sample_cluster) sample_config ''create-market''
      (sample_arguments create_market_line) 0 = Inr ts"
    by (simp add: lending_cli_def read command_create_lending_market_def create_market_instructions_def Let_def
        trusting_signs)
  then show ?thesis by (simp add: lending_cli_unchecked sample_cluster_laws)
qed

theorem cli_sends_signed_witness:
  "\<exists>t. lending_cli sample_cluster sample_config ''create-market'' (sample_arguments create_market_line) 0 = Inr [t] \<and>
     exactly_signed t \<and>
     lending_main sample_cluster sample_config ''create-market'' (sample_arguments create_market_line) 0 = (Inr (), 1)"
proof -
  obtain ts where ts: "lending_cli sample_cluster sample_config ''create-market'' (sample_arguments create_market_line) 0 = Inr ts"
    using sample_create_market by blast
  then obtain t where t: "ts = [t]"
    by (auto simp: lending_cli_def command_create_lending_market_def Let_def)
  have main: "lending_main sample_cluster sample_config ''create-market'' (sample_arguments create_market_line) 0 = (Inr (), 1)"
    by (simp add: lending_main_def command_def ts t send_transaction_def rpc_def Let_def exit_on_failure_def)
  show ?thesis
    using cli_sends_signed [OF sample_cluster_laws, of sample_config "''create-market''" "sample_arguments create_market_line" 0]
      ts t main by auto
qed

theorem create_market_opens_witness:
  "\<exists>own ts. pubkey_of (sample_arguments create_market_line) ''lending_market_owner'' = Some own \<and>
     lending_cli sample_cluster sample_config ''create-market'' (sample_arguments create_market_line) 0 = Inr ts \<and>
     length ts = 1"
proof -
  obtain ts where ts: "lending_cli sample_cluster sample_config ''create-market'' (sample_arguments create_market_line) 0 = Inr ts"
    using sample_create_market by blast
  have found: "addresses_found sample_rt (cli_program_id sample_config)"
    by (simp add: addresses_found_def sample_rt_def)
  have rt: "sample_rt = the_runtime sample_cluster"
    "\<lparr> token_address = 200, rent_address = 2, staking_address = 300 \<rparr> = the_addresses sample_cluster" by simp_all
  have quote: "clap_value (sample_arguments create_market_line) ''quote_currency'' = Some ''EUR''" "length ''EUR'' \<le> 32"
    by (simp_all add: create_market_line_def sample_arguments_def)
  from create_market_opens [OF sample_pack_checks found rt quote ts] ts show ?thesis by auto
qed

definition sample_repayment :: repayment where
  "sample_repayment = \<lparr> rp_amount = 10, rp_source_token = 41, rp_source_wallet = 42, rp_dest_token = 22,
     rp_reserve = 5, rp_obligation = 6, rp_reserves = [(5, None)], rp_market = 7 \<rparr>"

theorem repay_loan_refreshes_first_witness:
  "\<exists>t r ob rep. command_repay_loan (trusting sample_cluster) sample_config sample_repayment 0 = Inr [t] \<and>
     tx_instructions t = [r, ob, rep] \<and>
     (\<forall>w. send sample_rt w (Inr r) = process_refresh_reserve sample_rt 100 [writable 5, readonly (clock_id sample_rt)] w)"
proof -
  define ids where "ids = \<lparr> token_address = 200, rent_address = 2, staking_address = 300 :: pubkey \<rparr>"
  obtain r ob rep where "refresh_reserve_ix sample_rt 100 5 None = Inr r" "refresh_obligation_ix sample_rt 100 6 [5] = Inr ob"
    "repay_obligation_liquidity_ix sample_rt ids 100 10 41 22 5 6 7 42 = Inr rep"
    using built_total [of RefreshReserve] built_total [of RefreshObligation] built_total [of "RepayObligationLiquidity 10"]
    unfolding refresh_reserve_ix_def refresh_obligation_ix_def repay_obligation_liquidity_ix_def by simp metis
  then obtain ts where run: "command_repay_loan (trusting sample_cluster) sample_config sample_repayment 0 = Inr ts"
    by (auto simp: command_repay_loan_def repay_loan_instructions_def sample_repayment_def Let_def trusting_signs ids_def)
  have rt: "sample_rt = the_runtime (trusting sample_cluster)" "100 = cli_program_id sample_config"
    "ids = the_addresses (trusting sample_cluster)" by (simp_all add: ids_def)
  from repay_loan_refreshes_first [OF rt run] run show ?thesis
    by (auto simp: sample_repayment_def list_all2_Cons1)
qed

definition sample_new_reserve :: "nat new_reserve" where
  "sample_new_reserve = \<lparr> nr_ui_amount = 5, nr_fixed_price = None, nr_config = config sample_reserve,
     nr_source_liquidity = 41, nr_source_owner = 42, nr_market = 7, nr_market_owner = 8, nr_pyth_price = Some 60 \<rparr>"

theorem add_reserve_opens_witness:
  "\<exists>t1 t2. command_add_reserve (trusting sample_cluster) sample_config sample_new_reserve 0 = Inr [t1, t2] \<and>
     length (tx_instructions t1) = 4 \<and> length (tx_instructions t2) = 5"
proof -
  define ids where "ids = \<lparr> token_address = 200, rent_address = 2, staking_address = 300 :: pubkey \<rparr>"
  define ks where "ks = reserve_keypairs (trusting sample_cluster)"
  obtain ix where "init_reserve_ix sample_rt ids 100 5 None (config sample_reserve) 41 (rk_user_collateral ks)
      (rk_reserve ks) 20 (rk_liquidity_supply ks) (rk_fee_receiver ks) (rk_collateral_mint ks)
      (rk_collateral_supply ks) 7 8 (rk_transfer_authority ks) (Some 60) = Inr ix"
    using built_total [of "InitReserve 5 None (config sample_reserve)"]
    unfolding init_reserve_ix_def Let_def by (auto simp: price_fits_def)
  then obtain ts where run: "command_add_reserve (trusting sample_cluster) sample_config sample_new_reserve 0 = Inr ts"
    by (auto simp: command_add_reserve_def add_reserve_second_def Let_def sample_new_reserve_def ks_def ids_def
        sample_host_def trusting_signs lib_def)
  from add_reserve_opens [OF refl refl refl refl run] obtain t1 t2 where "ts = [t1, t2]"
    "length (tx_instructions t1) = 4" "length (tx_instructions t2) = 5" by (elim exE conjE) simp
  with run show ?thesis by blast
qed

definition update_reserve_line :: "(string \<times> string) list" where
  "update_reserve_line = [(''reserve'', ''5''), (''lending_market'', ''7''), (''lending_market_owner'', ''8''),
     (''loan_to_value_ratio'', ''300'')]"

theorem update_reserve_overlays_witness:
  "\<exists>t ix cfg. update_reserve_arm (trusting sample_cluster) sample_config (sample_arguments update_reserve_line) 0 = Inr [t] \<and>
     tx_instructions t = [ix] \<and> loan_to_value_ratio cfg = loan_to_value_ratio (config sample_reserve) \<and>
     (\<forall>w. send sample_rt w (Inr ix) = process_update_reserve sample_rt 100 cfg
        [writable 5, readonly 7, readonly (market_authority sample_rt 100 7), signer 8, readonly 2, readonly 200] w)"
proof -
  define ids where "ids = \<lparr> token_address = 200, rent_address = 2, staking_address = 300 :: pubkey \<rparr>"
  have parse: "parse_u64 ''300'' = Some 300" by (simp add: sample_parse)
  have read: "\<exists>x. read_update_reserve sample_host (sample_arguments update_reserve_line) = Inr (5, 7, 8, x)"
    by (simp add: read_update_reserve_def pubkey_or_none_of_def update_reserve_line_def sample_arguments_def
        sample_key_def sample_parse unwrap_def)
  have load: "unpack_checked sample_rt RESERVE_LEN reserve_is_initialized reserve_unpack_from_slice
      (acc_data (sample_world sample_obligation 5)) = Inr sample_reserve"
    using sample_load(1) by (simp add: unpack_reserve_def data_of_def acct_def)
  obtain x where x: "read_update_reserve sample_host (sample_arguments update_reserve_line) = Inr (5, 7, 8, x)"
    using read by blast
  obtain u where "update_reserve_ix sample_rt ids 100 (merge_config x (config sample_reserve)) 5 7 8 = Inr u"
    using built_total [of "UpdateReserve (merge_config x (config sample_reserve))"]
    unfolding update_reserve_ix_def Let_def by auto
  then obtain ts where run: "update_reserve_arm (trusting sample_cluster) sample_config (sample_arguments update_reserve_line) 0 = Inr ts"
    using x load by (auto simp: update_reserve_arm_def command_update_reserve_def trusting_signs ids_def)
  have rt: "sample_rt = the_runtime (trusting sample_cluster)" "100 = cli_program_id sample_config"
    "ids = the_addresses (trusting sample_cluster)" by (simp_all add: ids_def)
  have laws: "looks_up (the_host (trusting sample_cluster)) (sample_arguments update_reserve_line)"
    by (simp add: sample_looks_up)
  have given: "clap_value (sample_arguments update_reserve_line) ''loan_to_value_ratio'' = Some ''300''"
    "pubkey_of (sample_arguments update_reserve_line) ''reserve'' = Some 5"
    "pubkey_of (sample_arguments update_reserve_line) ''lending_market'' = Some 7"
    "Option.bind (clap_value (sample_arguments update_reserve_line) ''lending_market_owner'')
      (\<lambda>path. signer_from_path (sample_arguments update_reserve_line) path ''lending_market_owner'') = Some 8"
    by (simp_all add: sample_arguments_def update_reserve_line_def sample_key_def sample_parse)
  obtain data r pool t ix where ts: "ts = [t]" "tx_instructions t = [ix]"
    and data: "get_account (trusting sample_cluster) 0 5 = Inr data"
      "unpack_checked sample_rt RESERVE_LEN reserve_is_initialized reserve_unpack_from_slice data = Inr r"
    and sent: "\<forall>w. send sample_rt w (Inr ix) = process_update_reserve sample_rt 100
        (overlaid_config (sample_arguments update_reserve_line) pool (config r))
        [writable 5, readonly 7, readonly (market_authority sample_rt 100 7), signer 8,
         readonly (rent_address ids), readonly (token_address ids)] w"
    and kept: "loan_to_value_ratio (overlaid_config (sample_arguments update_reserve_line) pool (config r)) =
        loan_to_value_ratio (config r)"
    using update_reserve_overlays [OF rt laws run] unfolding given(2-4) option.inject
    by (elim exE conjE, hypsubst)
      (rule that, assumption+, drule spec [of _ "''300''"], drule spec [of _ 300], simp add: given(1) parse)
  have "r = sample_reserve" using data load by simp
  with sent kept have "\<exists>cfg. loan_to_value_ratio cfg = loan_to_value_ratio (config sample_reserve) \<and>
     (\<forall>w. send sample_rt w (Inr ix) = process_update_reserve sample_rt 100 cfg
        [writable 5, readonly 7, readonly (market_authority sample_rt 100 7), signer 8, readonly 2, readonly 200] w)"
    unfolding ids_def by auto
  with run ts show ?thesis by blast
qed


definition single_reward_request :: supply_request where
  "single_reward_request = \<lparr> sq_pool_owner = Some 8, sq_source_owner = Some 9, sq_pool = 5, sq_token_supply = 41,
     sq_mint = 20, sq_diff = 1000, sq_sub_token_supply = None, sq_sub_mint = None, sq_sub_diff = None \<rparr>"

theorem change_reward_supply_prepares_witness:
  "command_change_reward_supply sample_cluster sample_config single_reward_request 0 = Inl Panicked"
proof -
  have "sq_sub_token_supply single_reward_request = None \<and> 0 < sint (sq_diff single_reward_request) \<and>
      latest_blockhash sample_cluster 0 = Inr 0" by (simp add: single_reward_request_def)
  with change_reward_supply_prepares [of sample_cluster sample_config single_reward_request 0 _ 0] show ?thesis by blast
qed

end
