(* ===== verification/Pyth_Layout.thy ===== *)
theory Pyth_Layout
  imports Oracle
begin

text \<open>
  The C layout of Pyth's accounts in full (token-lending/program/src/pyth.rs): every field of
  \<open>Price\<close>, its components and \<open>Product\<close>, and the two casts \<open>load\<close> and \<open>load_mut\<close>. A mutable view is
  its value with the function that writes a new one back. The locale \<open>pod\<close> is bytemuck's contract of
  plain data (every value is its bytes and every buffer of the size is a value), interpreted for both
  accounts; the last lemma relates the full account to the fields \<open>Oracle\<close> reads.
\<close>

section \<open>Plain data\<close>

definition pod_load :: "nat \<Rightarrow> (byte list \<Rightarrow> 'a) \<Rightarrow> byte list \<Rightarrow> 'a result" where
  "pod_load len of_bytes data =
     (if length data < len then Inl Panic else Inr (of_bytes (take len data)))"

definition pod_load_mut ::
    "nat \<Rightarrow> (byte list \<Rightarrow> 'a) \<Rightarrow> ('a \<Rightarrow> byte list) \<Rightarrow> byte list \<Rightarrow> ('a \<times> ('a \<Rightarrow> byte list)) result" where
  "pod_load_mut len of_bytes to_bytes data =
     (if length data < len then Inl Panic
      else Inr (of_bytes (take len data), \<lambda>x. to_bytes x @ drop len data))"

locale pod =
  fixes size :: nat
    and valid :: "'a \<Rightarrow> bool"
    and of_bytes :: "byte list \<Rightarrow> 'a"
    and to_bytes :: "'a \<Rightarrow> byte list"
  assumes to_length: "valid x \<Longrightarrow> length (to_bytes x) = size"
    and of_to: "valid x \<Longrightarrow> of_bytes (to_bytes x) = x"
    and of_valid: "length bs = size \<Longrightarrow> valid (of_bytes bs)"
    and to_of: "length bs = size \<Longrightarrow> to_bytes (of_bytes bs) = bs"
begin

lemma view_agrees: "pod_load_mut size of_bytes to_bytes data = Inr (x, put) \<Longrightarrow> pod_load size of_bytes data = Inr x"
  by (auto simp: pod_load_mut_def pod_load_def split: if_splits)

text \<open>What is written through the view is what is loaded next; the bytes behind it stay.\<close>

lemma view_written:
  assumes "pod_load_mut size of_bytes to_bytes data = Inr (x, put)" "valid y"
  shows "pod_load size of_bytes (put y) = Inr y" "length (put y) = length data"
    "drop size (put y) = drop size data"
  using assms to_length [OF assms(2)] of_to [OF assms(2)]
  by (auto simp: pod_load_mut_def pod_load_def split: if_splits)

lemma view_unchanged: "pod_load_mut size of_bytes to_bytes data = Inr (x, put) \<Longrightarrow> put x = data"
  by (auto simp: pod_load_mut_def to_of split: if_splits)

lemma load_inject:
  assumes "pod_load size of_bytes a = Inr x" "pod_load size of_bytes b = Inr x"
  shows "take size a = take size b"
proof -
  from assms have "size \<le> length a" "size \<le> length b"
    "of_bytes (take size a) = x" "of_bytes (take size b) = x"
    by (auto simp: pod_load_def not_less split: if_splits)
  then show ?thesis using to_of [of "take size a"] to_of [of "take size b"] by simp
qed

end

section \<open>The accounts\<close>

definition MAGIC :: u32 where "MAGIC = 0xa1b2c3d4"
definition VERSION_1 :: u32 where "VERSION_1 = 1"
definition VERSION_2 :: u32 where "VERSION_2 = 2"
definition VERSION :: u32 where "VERSION = VERSION_2"
definition MAP_TABLE_SIZE :: nat where "MAP_TABLE_SIZE = 640"
definition PROD_ACCT_SIZE :: nat where "PROD_ACCT_SIZE = 512"
definition PROD_HDR_SIZE :: nat where "PROD_HDR_SIZE = 48"
definition PROD_ATTR_SIZE :: nat where "PROD_ATTR_SIZE = PROD_ACCT_SIZE - PROD_HDR_SIZE"

text \<open>
  The enumerations are four bytes; a field keeps the discriminant it holds, and the variant is
  \<open>None\<close> where no variant has that discriminant.
\<close>

datatype account_type = Account_Unknown | Account_Mapping | Account_Product | Account_Price
datatype price_status = Status_Unknown | Status_Trading | Status_Halted | Status_Auction
datatype corp_action = No_Corp_Act
datatype price_type = Type_Unknown | Type_Price | Type_TWAP | Type_Volatility

definition variant :: "'a list \<Rightarrow> u32 \<Rightarrow> 'a option" where
  "variant vs d = (if unat d < length vs then Some (vs ! unat d) else None)"

definition price_status_of :: "u32 \<Rightarrow> price_status option" where
  "price_status_of = variant [Status_Unknown, Status_Trading, Status_Halted, Status_Auction]"

definition corp_action_of :: "u32 \<Rightarrow> corp_action option" where
  "corp_action_of = variant [No_Corp_Act]"

definition price_type_of :: "u32 \<Rightarrow> price_type option" where
  "price_type_of = variant [Type_Unknown, Type_Price, Type_TWAP, Type_Volatility]"

record price_info =
  info_price :: u64
  info_conf :: u64
  info_status :: u32
  info_corp_act :: u32
  info_pub_slot :: u64

record price_comp =
  comp_publisher :: bytes32
  comp_agg :: price_info
  comp_latest :: price_info

record price_account =
  px_magic :: u32
  px_ver :: u32
  px_atype :: u32
  px_size :: u32
  px_ptype :: u32
  px_expo :: u32
  px_num :: u32
  px_unused :: u32
  px_curr_slot :: u64
  px_valid_slot :: u64
  px_twap :: u64
  px_avol :: u64
  px_drv0 :: u64
  px_drv1 :: u64
  px_drv2 :: u64
  px_drv3 :: u64
  px_drv4 :: u64
  px_drv5 :: u64
  px_prod :: bytes32
  px_next :: bytes32
  px_agg_pub :: bytes32
  px_agg :: price_info
  px_comp :: "price_comp list"

record product_account =
  pd_magic :: u32
  pd_ver :: u32
  pd_atype :: u32
  pd_size :: u32
  pd_px_acc :: bytes32
  pd_attr :: "byte list"

section \<open>Their bytes\<close>

definition price_info_of :: "byte list \<Rightarrow> price_info" where
  "price_info_of bs =
     (let f = layout [8, 8, 4, 4, 8] bs in
      \<lparr> info_price = from_le_bytes (f ! 0), info_conf = from_le_bytes (f ! 1),
        info_status = from_le_bytes (f ! 2), info_corp_act = from_le_bytes (f ! 3),
        info_pub_slot = from_le_bytes (f ! 4) \<rparr>)"

definition price_info_bytes :: "price_info \<Rightarrow> byte list" where
  "price_info_bytes i = concat
     [to_le_bytes 8 (info_price i), to_le_bytes 8 (info_conf i), to_le_bytes 4 (info_status i),
      to_le_bytes 4 (info_corp_act i), to_le_bytes 8 (info_pub_slot i)]"

definition price_comp_of :: "byte list \<Rightarrow> price_comp" where
  "price_comp_of bs =
     (let f = layout [32, 32, 32] bs in
      \<lparr> comp_publisher = bytes32_from (f ! 0), comp_agg = price_info_of (f ! 1),
        comp_latest = price_info_of (f ! 2) \<rparr>)"

definition price_comp_bytes :: "price_comp \<Rightarrow> byte list" where
  "price_comp_bytes c = concat
     [bytes32_to (comp_publisher c), price_info_bytes (comp_agg c), price_info_bytes (comp_latest c)]"

definition price_layout :: "nat list" where
  "price_layout =
     [4, 4, 4, 4, 4, 4, 4, 4, 8, 8, 8, 8, 8, 8, 8, 8, 8, 8, 32, 32, 32, 32, 32 * 96]"

definition price_account_of :: "byte list \<Rightarrow> price_account" where
  "price_account_of bs =
     (let f = layout price_layout bs in
      \<lparr> px_magic = from_le_bytes (f ! 0), px_ver = from_le_bytes (f ! 1), px_atype = from_le_bytes (f ! 2),
        px_size = from_le_bytes (f ! 3), px_ptype = from_le_bytes (f ! 4), px_expo = from_le_bytes (f ! 5),
        px_num = from_le_bytes (f ! 6), px_unused = from_le_bytes (f ! 7), px_curr_slot = from_le_bytes (f ! 8),
        px_valid_slot = from_le_bytes (f ! 9), px_twap = from_le_bytes (f ! 10), px_avol = from_le_bytes (f ! 11),
        px_drv0 = from_le_bytes (f ! 12), px_drv1 = from_le_bytes (f ! 13), px_drv2 = from_le_bytes (f ! 14),
        px_drv3 = from_le_bytes (f ! 15), px_drv4 = from_le_bytes (f ! 16), px_drv5 = from_le_bytes (f ! 17),
        px_prod = bytes32_from (f ! 18), px_next = bytes32_from (f ! 19), px_agg_pub = bytes32_from (f ! 20),
        px_agg = price_info_of (f ! 21), px_comp = map price_comp_of (layout (replicate 32 96) (f ! 22)) \<rparr>)"

definition price_account_bytes :: "price_account \<Rightarrow> byte list" where
  "price_account_bytes p = concat
     [to_le_bytes 4 (px_magic p), to_le_bytes 4 (px_ver p), to_le_bytes 4 (px_atype p),
      to_le_bytes 4 (px_size p), to_le_bytes 4 (px_ptype p), to_le_bytes 4 (px_expo p),
      to_le_bytes 4 (px_num p), to_le_bytes 4 (px_unused p), to_le_bytes 8 (px_curr_slot p),
      to_le_bytes 8 (px_valid_slot p), to_le_bytes 8 (px_twap p), to_le_bytes 8 (px_avol p),
      to_le_bytes 8 (px_drv0 p), to_le_bytes 8 (px_drv1 p), to_le_bytes 8 (px_drv2 p),
      to_le_bytes 8 (px_drv3 p), to_le_bytes 8 (px_drv4 p), to_le_bytes 8 (px_drv5 p),
      bytes32_to (px_prod p), bytes32_to (px_next p), bytes32_to (px_agg_pub p),
      price_info_bytes (px_agg p), concat (map price_comp_bytes (px_comp p))]"

definition product_account_of :: "byte list \<Rightarrow> product_account" where
  "product_account_of bs =
     (let f = layout [4, 4, 4, 4, 32, PROD_ATTR_SIZE] bs in
      \<lparr> pd_magic = from_le_bytes (f ! 0), pd_ver = from_le_bytes (f ! 1),
        pd_atype = from_le_bytes (f ! 2), pd_size = from_le_bytes (f ! 3),
        pd_px_acc = bytes32_from (f ! 4), pd_attr = f ! 5 \<rparr>)"

definition product_account_bytes :: "product_account \<Rightarrow> byte list" where
  "product_account_bytes p = concat
     [to_le_bytes 4 (pd_magic p), to_le_bytes 4 (pd_ver p), to_le_bytes 4 (pd_atype p),
      to_le_bytes 4 (pd_size p), bytes32_to (pd_px_acc p), pd_attr p]"

definition product_size :: nat where
  "product_size = 4 + 4 + 4 + 4 + 32 + PROD_ATTR_SIZE"

definition load_price :: "byte list \<Rightarrow> price_account result" where
  "load_price = pod_load pyth_price_size price_account_of"

definition load_product :: "byte list \<Rightarrow> product_account result" where
  "load_product = pod_load product_size product_account_of"

definition load_mut_price ::
    "byte list \<Rightarrow> (price_account \<times> (price_account \<Rightarrow> byte list)) result" where
  "load_mut_price = pod_load_mut pyth_price_size price_account_of price_account_bytes"

definition load_mut_product ::
    "byte list \<Rightarrow> (product_account \<times> (product_account \<Rightarrow> byte list)) result" where
  "load_mut_product = pod_load_mut product_size product_account_of product_account_bytes"

section \<open>Lemmas\<close>

lemma length_layout [simp]: "length (layout ns bs) = length ns"
  by (induction ns arbitrary: bs) simp_all

lemma layout_nth_length:
  "i < length ns \<Longrightarrow> sum_list ns \<le> length bs \<Longrightarrow> length (layout ns bs ! i) = ns ! i"
  by (induction ns arbitrary: bs i) (auto simp: nth_Cons' split: nat.split)

lemma concat_layout: "length bs = sum_list ns \<Longrightarrow> concat (layout ns bs) = bs"
  by (induction ns arbitrary: bs) simp_all

lemma layout_concat: "map length bss = ns \<Longrightarrow> layout ns (concat bss) = bss"
  by (induction bss arbitrary: ns) auto

lemma layout_all: "list_all2 (\<lambda>n b. length b = n) ns (layout ns bs)" if "sum_list ns \<le> length bs"
  using that by (induction ns arbitrary: bs) auto

lemma word_fields [simp]:
  "length b = 4 \<Longrightarrow> to_le_bytes 4 (from_le_bytes b :: u32) = b"
  "length b = 8 \<Longrightarrow> to_le_bytes 8 (from_le_bytes b :: u64) = b"
  "length b = 32 \<Longrightarrow> bytes32_to (bytes32_from b) = b"
  using to_from_le_bytes [where 'a = 32, of b] to_from_le_bytes [where 'a = 64, of b]
    to_from_le_bytes [where 'a = 256, of b]
  by (simp_all add: bytes32_to_def bytes32_from_def)

lemma word_field_32 [simp]: "from_le_bytes (to_le_bytes 4 (v :: u32)) = v"
  by (rule from_to_le_bytes) simp

text \<open>A buffer of the layout's size is its fields, one after the other.\<close>

lemma fields_joined:
  assumes "length bs = sum_list ns" "is = [0..<length ns]"
  shows "concat (map (nth (layout ns bs)) is) = bs"
  using assms map_nth [of "layout ns bs"] by (simp add: concat_layout)

lemma length_price_info [simp]: "length (price_info_bytes i) = 32"
  by (simp add: price_info_bytes_def)

lemma price_info_of_bytes [simp]: "price_info_of (price_info_bytes i) = i"
  by (simp add: price_info_of_def price_info_bytes_def layout_last del: layout.simps)

lemma price_info_bytes_of [simp]:
  assumes "length bs = 32" shows "price_info_bytes (price_info_of bs) = bs"
proof -
  define f where "f = layout [8, 8, 4, 4, 8] bs"
  have len: "length (f ! 0) = 8" "length (f ! 1) = 8" "length (f ! 2) = 4" "length (f ! 3) = 4"
    "length (f ! 4) = 8"
    using assms by (simp_all add: f_def layout_nth_length del: layout.simps)
  moreover have "concat (map (nth f) [0, 1, 2, 3, 4]) = bs"
    unfolding f_def using assms by (intro fields_joined) (simp, code_simp)
  ultimately show ?thesis
    by (simp add: price_info_bytes_def price_info_of_def f_def [symmetric] del: layout.simps)
qed

lemma length_price_comp [simp]: "length (price_comp_bytes c) = 96"
  by (simp add: price_comp_bytes_def)

lemma price_comp_of_bytes [simp]: "price_comp_of (price_comp_bytes c) = c"
  by (simp add: price_comp_of_def price_comp_bytes_def layout_last del: layout.simps)

lemma price_comp_bytes_of [simp]:
  assumes "length bs = 96" shows "price_comp_bytes (price_comp_of bs) = bs"
proof -
  define f where "f = layout [32, 32, 32] bs"
  have len: "length (f ! 0) = 32" "length (f ! 1) = 32" "length (f ! 2) = 32"
    using assms by (simp_all add: f_def layout_nth_length del: layout.simps)
  moreover have "concat (map (nth f) [0, 1, 2]) = bs"
    unfolding f_def using assms by (intro fields_joined) (simp, code_simp)
  ultimately show ?thesis
    by (simp add: price_comp_bytes_def price_comp_of_def f_def [symmetric] del: layout.simps)
qed

lemma price_comps_of_bytes:
  assumes "length cs = n"
  shows "map price_comp_of (layout (replicate n 96) (concat (map price_comp_bytes cs))) = cs"
proof -
  have "layout (replicate n 96) (concat (map price_comp_bytes cs)) = map price_comp_bytes cs"
    using assms by (intro layout_concat) (simp add: o_def map_replicate_const)
  then show ?thesis by (simp add: o_def)
qed

lemma price_comps_bytes_of:
  assumes "length bs = n * 96"
  shows "concat (map price_comp_bytes (map price_comp_of (layout (replicate n 96) bs))) = bs"
proof -
  have "map price_comp_bytes (map price_comp_of (layout (replicate n 96) bs)) = layout (replicate n 96) bs"
    using assms layout_nth_length [of _ "replicate n 96" bs]
    by (intro nth_equalityI) (simp_all add: sum_list_replicate)
  then show ?thesis using assms by (simp add: concat_layout sum_list_replicate)
qed

text \<open>A price has 32 components, and a product fills its attributes.\<close>

definition price_valid :: "price_account \<Rightarrow> bool" where
  "price_valid p = (length (px_comp p) = 32)"

definition product_valid :: "product_account \<Rightarrow> bool" where
  "product_valid p = (length (pd_attr p) = PROD_ATTR_SIZE)"

lemma length_price_comps: "length (concat (map price_comp_bytes cs)) = length cs * 96"
  by (induction cs) simp_all

lemma sum_price_layout [simp]: "sum_list price_layout = 3312" "length price_layout = 23"
  by (simp_all add: price_layout_def)

lemma price_account_of_bytes:
  assumes "price_valid p" shows "price_account_of (price_account_bytes p) = p"
proof -
  have "length (concat (map price_comp_bytes (px_comp p))) = 3072"
    using assms by (simp add: price_valid_def length_price_comps)
  then show ?thesis using assms
    by (simp add: price_account_of_def price_account_bytes_def price_layout_def layout_last
        price_comps_of_bytes price_valid_def del: layout.simps)
qed

lemma price_account_bytes_of:
  assumes "length bs = pyth_price_size" shows "price_account_bytes (price_account_of bs) = bs"
proof -
  define f where "f = layout price_layout bs"
  have bs: "sum_list price_layout \<le> length bs" using assms by (simp add: pyth_price_size_def)
  have len: "length (f ! 0) = 4" "length (f ! 1) = 4" "length (f ! 2) = 4" "length (f ! 3) = 4"
    "length (f ! 4) = 4" "length (f ! 5) = 4" "length (f ! 6) = 4" "length (f ! 7) = 4"
    "length (f ! 8) = 8" "length (f ! 9) = 8" "length (f ! 10) = 8" "length (f ! 11) = 8"
    "length (f ! 12) = 8" "length (f ! 13) = 8" "length (f ! 14) = 8" "length (f ! 15) = 8"
    "length (f ! 16) = 8" "length (f ! 17) = 8" "length (f ! 18) = 32" "length (f ! 19) = 32"
    "length (f ! 20) = 32" "length (f ! 21) = 32"
    "length (f ! 22) = 32 * 96"
    using layout_nth_length [OF _ bs] unfolding f_def
    by (simp_all del: layout.simps) (simp_all add: price_layout_def)
  moreover have "concat (map (nth f) [0, 1, 2, 3, 4, 5, 6, 7, 8, 9, 10, 11, 12, 13, 14, 15, 16, 17, 18, 19, 20, 21, 22]) = bs"
    unfolding f_def using assms by (intro fields_joined) (simp add: pyth_price_size_def, code_simp)
  moreover note price_comps_bytes_of [OF len(23)]
  ultimately show ?thesis
    by (simp add: price_account_bytes_def price_account_of_def f_def [symmetric]
        del: layout.simps map_map)
qed

lemma product_account_of_bytes:
  "product_valid p \<Longrightarrow> product_account_of (product_account_bytes p) = p"
  by (simp add: product_account_of_def product_account_bytes_def product_valid_def layout_last
      del: layout.simps)

lemma product_account_bytes_of:
  assumes "length bs = product_size" shows "product_account_bytes (product_account_of bs) = bs"
proof -
  define f where "f = layout [4, 4, 4, 4, 32, PROD_ATTR_SIZE] bs"
  have len: "length (f ! 0) = 4" "length (f ! 1) = 4" "length (f ! 2) = 4" "length (f ! 3) = 4"
    "length (f ! 4) = 32"
    using assms by (simp_all add: f_def product_size_def layout_nth_length del: layout.simps)
  moreover have "concat (map (nth f) [0, 1, 2, 3, 4, 5]) = bs"
    unfolding f_def using assms by (intro fields_joined) (simp add: product_size_def, code_simp)
  ultimately show ?thesis
    by (simp add: product_account_bytes_def product_account_of_def f_def [symmetric] del: layout.simps)
qed

lemma price_account_length: "price_valid p \<Longrightarrow> length (price_account_bytes p) = pyth_price_size"
  by (simp add: price_account_bytes_def length_price_comps price_valid_def pyth_price_size_def)

lemma product_account_length: "product_valid p \<Longrightarrow> length (product_account_bytes p) = product_size"
  by (simp add: product_account_bytes_def product_valid_def product_size_def)

interpretation price: pod pyth_price_size price_valid price_account_of price_account_bytes
proof
  fix bs :: "byte list" assume "length bs = pyth_price_size"
  then show "price_valid (price_account_of bs)"
    by (simp add: price_valid_def price_account_of_def Let_def del: layout.simps)
qed (simp_all add: price_account_length price_account_of_bytes price_account_bytes_of)

interpretation product: pod product_size product_valid product_account_of product_account_bytes
proof
  fix bs :: "byte list" assume *: "length bs = product_size"
  then show "product_valid (product_account_of bs)"
    by (simp add: product_valid_def product_account_of_def Let_def layout_nth_length product_size_def
        del: layout.simps)
qed (simp_all add: product_account_length product_account_of_bytes product_account_bytes_of)

section \<open>What the processor reads\<close>

lemma layout_nth: "i < length ns \<Longrightarrow> layout ns bs ! i = take (ns ! i) (drop (sum_list (take i ns)) bs)"
  by (induction ns arbitrary: bs i) (auto simp: nth_Cons' take_Cons' add.commute split: nat.split)

lemma load_price_fields:
  "pyth_load data = attempt (load_price data) (\<lambda>p. Inr
     \<lparr> ptype = px_ptype p, expo = px_expo p, valid_slot = px_valid_slot p,
       agg_price = info_price (px_agg p), agg_status = info_status (px_agg p) \<rparr>)"
  by (simp add: pyth_load_def load_price_def pod_load_def price_account_of_def price_info_of_def
      layout_nth price_layout_def pyth_price_size_def drop_take min_def del: layout.simps)

text \<open>
  The cast reads whatever discriminant the bytes hold, also one that no variant of the enumeration
  has, for which the Rust program has no value.
\<close>

lemma px_ptype_at: "px_ptype (price_account_of bs) = from_le_bytes (take 4 (drop 16 bs))"
  by (simp add: price_account_of_def price_layout_def layout_nth del: layout.simps)

lemma load_price_any_type:
  "\<exists>data p. load_price data = Inr p \<and> price_type_of (px_ptype p) = None"
proof -
  obtain data :: "byte list" where data: "length data = 3312" "take 4 (drop 16 data) = [255, 255, 255, 255]"
  proof
    show "length (replicate 16 0 @ [255, 255, 255, 255] @ replicate 3292 (0 :: byte)) = 3312"
      by (simp only: length_append length_replicate) simp
    show "take 4 (drop 16 (replicate 16 0 @ [255, 255, 255, 255] @ replicate 3292 (0 :: byte))) =
        [255, 255, 255, 255]"
      by (simp only: drop_append drop_replicate length_replicate) simp
  qed
  have "px_ptype (price_account_of data) = from_le_bytes [255, 255, 255, 255]"
    by (simp only: px_ptype_at data)
  also have "\<dots> = (4294967295 :: u32)" by (simp add: from_le_bytes_def)
  finally have "price_type_of (px_ptype (price_account_of data)) = None"
    by (simp add: price_type_of_def variant_def)
  moreover have "load_price data = Inr (price_account_of data)"
    using data by (simp add: load_price_def pod_load_def pyth_price_size_def)
  ultimately show ?thesis by blast
qed

end
