(* ===== verification/Staking_Display.thy ===== *)
theory Staking_Display
  imports Display Staking_Rates Codec
begin

text \<open>
  What remains of the staking program's fixed-point types: conversion from integers, printing, and
  the implementation of \<open>Pack\<close> for its decimals (staking/program/src/math/decimal.rs and rate.rs),
  by which stake accounts and pools store them. The lending program has the same bytes from its helper
  \<open>pack_decimal\<close>, and the interpretation \<open>st_decimal\<close> gives the laws of \<open>packed\<close>.
\<close>

section \<open>Conversion and printing\<close>

definition st_decimal_from_u64 :: "u64 \<Rightarrow> decimal" where
  "st_decimal_from_u64 v = Decimal (st_decimal_wad * ucast v)"

definition st_decimal_from_u128 :: "u128 \<Rightarrow> decimal" where
  "st_decimal_from_u128 v = Decimal (st_decimal_wad * ucast v)"

definition st_decimal_display :: "decimal \<Rightarrow> string" where
  "st_decimal_display d = scaled_display (unat (decimal_bits d))"

definition st_rate_display :: "rate \<Rightarrow> string" where
  "st_rate_display r = scaled_display (unat (rate_bits r))"

lemma st_printing_as_lending:
  "st_decimal_from_u64 v = decimal_from_u64 v" "st_decimal_from_u128 w = decimal_from_u128 w"
  "st_decimal_display d = decimal_display d" "st_rate_display r = rate_display r"
  by (simp_all add: st_decimal_from_u64_def decimal_from_u64_def st_decimal_from_u128_def
      decimal_from_u128_def st_constants_as_lending st_decimal_display_def decimal_display_def
      st_rate_display_def rate_display_def)

lemma st_decimals_read_back:
  "read_scaled (st_decimal_display (st_decimal_from_u64 v)) = unat v * wad"
  by (simp add: st_printing_as_lending decimal_display_def read_scaled_display dec_def [symmetric])

section \<open>Storing\<close>

definition DECIMAL_LEN :: nat where
  "DECIMAL_LEN = 16"

definition st_decimal_put :: "decimal \<Rightarrow> byte list \<Rightarrow> byte list result" where
  "st_decimal_put d output =
     (case st_to_scaled_val d of Inl _ \<Rightarrow> Inl Panic | Inr v \<Rightarrow> Inr (u128_to v))"

definition st_decimal_get :: "byte list \<Rightarrow> decimal result" where
  "st_decimal_get input = Inr (st_decimal_from_scaled_val (u128_from input))"

definition st_decimal_pack_into_slice :: "decimal \<Rightarrow> byte list \<Rightarrow> byte list result" where
  "st_decimal_pack_into_slice d = write_array DECIMAL_LEN (st_decimal_put d)"

definition st_decimal_unpack_from_slice :: "byte list \<Rightarrow> decimal result" where
  "st_decimal_unpack_from_slice = read_array DECIMAL_LEN st_decimal_get"

lemma st_packing_as_lending:
  "st_decimal_put d output = pack_decimal d" "st_decimal_get input = Inr (unpack_decimal input)"
  by (auto simp: st_decimal_put_def pack_decimal_def st_to_scaled_val_def decimal_to_scaled_val_def
      ok_or_def st_decimal_get_def unpack_decimal_def st_conversions_as_lending split: option.splits)

interpretation st_decimal: packed DECIMAL_LEN "\<lambda>d. dec d < 2 ^ 128" st_decimal_put st_decimal_get
  by unfold_locales (auto simp: st_packing_as_lending DECIMAL_LEN_def pack_decimal_total)

lemma st_decimal_pack_roundtrip:
  "dec d < 2 ^ 128 \<Longrightarrow> DECIMAL_LEN \<le> length dst \<Longrightarrow>
     attempt (st_decimal_pack_into_slice d dst) st_decimal_unpack_from_slice = Inr d"
  unfolding st_decimal_pack_into_slice_def st_decimal_unpack_from_slice_def
  by (rule st_decimal.roundtrip)

text \<open>A decimal that does not fit into 16 bytes is not cut off: writing it panics.\<close>

lemma st_decimal_pack_refuses:
  "2 ^ 128 \<le> dec d \<Longrightarrow> st_decimal_pack_into_slice d dst = Inl Panic"
  by (auto simp: st_decimal_pack_into_slice_def write_array_def st_packing_as_lending pack_decimal_def
      decimal_to_scaled_val_def ok_or_def try_narrow_def dec_def attempt_def split: if_splits)

end
