(* ===== verification/Spec2Isabelle.thy ===== *)
theory Spec2Isabelle
  imports Instruction_Correct Refresh_Correct Staking_Admin Staking_Safe Pow_Correct Entry Cli_Runs
    Pyth_Layout Staking_Display
begin

text \<open>
  Verification of the Port Finance variable-rate lending protocol: two Solana programs written in
  Rust, the lending program (src/token-lending/program) and the staking program
  (src/staking/program), and the two command line programs that drive them
  (src/token-lending/cli, src/staking/cli).

  \<^bold>\<open>The system.\<close> A lending market holds reserves, one per token. Depositors put liquidity into a
  reserve and receive collateral tokens at the reserve's exchange rate; borrowers deposit collateral
  tokens into an obligation and borrow liquidity against its value; interest accrues by slots through
  a compounding rate; unhealthy obligations are liquidated; a reserve can lend everything for the
  length of a transaction (flash loans). Deposited collateral may be registered in a staking pool of
  the staking program, which pays rewards by slots. Both programs keep all state in account data, and
  handlers read it, check it, compute, write it back and call the token program.

  \<^bold>\<open>How the code is translated.\<close> A struct is a \<open>record\<close>, an enum a \<open>datatype\<close>, an unsigned integer a word
  of its width with the checked operations of the standard library (\<open>checked_add\<close> and so on return an
  option), a key and a 32-byte array a 256-bit word. A fallible function returns
  \<open>'a result = fault + 'a\<close>, where a \<open>fault\<close> is an error of the program or a panic, and \<open>attempt\<close> is
  Rust's \<open>?\<close>. The accounts of a transaction are a \<open>world\<close>, a map from addresses to accounts, so that an account
  passed twice is one account; a handler takes the runtime, the program's address, its arguments, the
  accounts passed and the world, and returns the new world. Everything under other crates (solana,
  spl_token, clap, the RPC client) is a parameter: a field of the records \<open>solana\<close>, \<open>addresses\<close>, \<open>cluster\<close>,
  \<open>host\<close> and \<open>arguments\<close>.

  \<^bold>\<open>Theories.\<close>

  \<^item> \<open>Prelude\<close> (integers, results, little-endian bytes), \<open>Errors\<close> (error.rs, results).
  \<^item> Fixed-point arithmetic (math/): \<open>Fixed_Point\<close> states the contract of a fixed-point type as the locale
    \<open>fixed_point\<close>; \<open>Decimals\<close> (decimal.rs) and \<open>Rates\<close> (rate.rs) model the two types and interpret it;
    \<open>Display\<close> prints them; \<open>Pow_Correct\<close> has the turns of the loop of \<open>try_pow\<close>.
  \<^item> States (state/): \<open>Last_Update\<close>, \<open>Lending_Market\<close>, \<open>Positions\<close> and \<open>Obligation\<close>, \<open>Reserve_Liquidity\<close>,
    \<open>Reserve_Collateral\<close>, \<open>Reserve_Fees\<close> and \<open>Reserve\<close>; their layout in \<open>Codec\<close>, \<open>Obligation_Pack\<close> and
    \<open>Reserve_Pack\<close>, under the locale \<open>packed\<close>. The entries of an obligation are read as a map through the locale
    \<open>positions\<close>.
  \<^item> \<open>Oracle\<close> (the part of pyth.rs the processor reads and the price functions of processor.rs) and
    \<open>Pyth_Layout\<close> (the accounts of pyth.rs in full, under the locale \<open>pod\<close>).
  \<^item> \<open>Wire\<close> and \<open>Instruction\<close> (instruction.rs: the instruction type, its encoding and decoding), \<open>Client\<close>
    (its builders).
  \<^item> The processor (processor.rs): \<open>Runtime\<close> (accounts, the parameters, calls to the token program),
    \<open>Processor_Common\<close> (repeated checks), \<open>Processor_Market\<close>, \<open>Processor_Deposit\<close>, \<open>Processor_Obligation\<close>,
    \<open>Processor_Loan\<close>, \<open>Processor_Flash\<close>, and \<open>Processor\<close> (the dispatch).
  \<^item> The staking program: \<open>Staking_Errors\<close>, \<open>Staking_Math\<close>, \<open>Staking_Rates\<close> and \<open>Staking_Display\<close> (its
    copies of the arithmetic, of printing and storing),
    \<open>Staking_State\<close> and \<open>Staking_Account\<close> (state/stake_account.rs), \<open>Staking_Pool\<close> and \<open>Staking_Pool_Pack\<close>
    (state/staking_pool.rs), \<open>Staking_Instruction\<close> and \<open>Staking_Client\<close> (instruction.rs), \<open>Staking_Handlers\<close>
    and \<open>Staking_Rewards\<close> (processor.rs).
  \<^item> \<open>Entry\<close> (the messages of the errors, and entrypoint.rs of both programs).
  \<^item> The command lines (main.rs): \<open>Arguments\<close> (numbers, validators, declarations, values), \<open>Command\<close>
    (transactions, signing, sending), \<open>Cli_Lending\<close> and \<open>Cli_Staking\<close>.

  The other theories hold the properties: \<open>Reserve_Correct\<close>, \<open>Reserve_Amounts\<close> and \<open>State_Correct\<close> (the
  pure operations of the states), \<open>Instruction_Correct\<close> (encodings), \<open>Storage\<close> and \<open>Staking_Storage\<close> (what is
  packed is unpacked again, the locale \<open>stored\<close>), \<open>Loan_Correct\<close>, \<open>Settlement_Correct\<close>, \<open>Collateral_Correct\<close>,
  \<open>Flash_Correct\<close>, \<open>Refresh_Correct\<close>, \<open>Health_Correct\<close> and \<open>Market_Correct\<close> (the handlers),
  \<open>Lending_Invariant\<close>, \<open>Lending_Steps\<close> and \<open>Lending_Runs\<close> (what holds in every reachable world),
  \<open>Staking_Correct\<close>, \<open>Staking_Safe\<close> and \<open>Staking_Admin\<close> (the staking program), \<open>Cli_Correct\<close>, \<open>Cli_Reads\<close> and
  \<open>Cli_Runs\<close> (the command lines; the locale \<open>command_line\<close> is what the two have in common).
  \<open>Sample_World\<close> and \<open>Staking_World\<close> are a concrete runtime and concrete worlds in which the handlers run.

  \<^bold>\<open>What is shown.\<close> For the pure operations: a deposit and an immediate redemption earn nothing, the
  amounts of a liquidation and the fees stay within their bounds, the borrow rate within its range,
  an operation on an obligation's entries is an update of a map, and every state and instruction is
  read back as it was written. For each handler: what a successful run has checked (signatures,
  ownership, freshness, limits) and what it leaves in the accounts, the calls to other programs
  included. For runs of the lending program in any order: every reserve has a valid configuration
  and every obligation is well formed. For runs of the staking program: the rewards paid, owed and
  still to come stay within what was put in. For the clients: every builder and every command
  reaches the handler it is named after with the accounts in the handler's order; commands sign with
  exactly the keys needed and change the ledger only by sending; the command lines on which a
  program panics although they were accepted are found exactly.

  \<^bold>\<open>What is relied on.\<close> \<open>pack_checks\<close>: the \<open>Pack\<close> trait refuses a buffer of another length and
  an uninitialised state. \<open>isolated\<close> and \<open>guarded\<close>: only the program that owns an account changes its
  data, accounts that become the program's are zeroed, and a called program does not call back.
  \<open>token_builders\<close>: spl_token's builders address the program given to them. \<open>addresses_found\<close>:
  \<open>find_program_address\<close> and \<open>create_program_address\<close> agree. \<open>prints_own_codes\<close>, \<open>accepted\<close>, \<open>looks_up\<close>,
  \<open>sign_accepts\<close> and \<open>builders_mark\<close>: what \<open>ProgramError::print\<close>, clap, solana_clap_utils, \<open>Transaction::sign\<close>
  and the builders of the system and token programs are documented to do. Each holds in the concrete
  runtime the witnesses use. A handler's theorem that names the token or receiver program asks that it is not
  the lending program itself, which the runtime's rule against re-entry guarantees.

  \<^bold>\<open>Termination.\<close> No fuel is used: every definition is total. The loops of \<open>try_pow\<close> and of the printed
  digits end by a measure, the others are recursions on lists. \<open>pow_within\<close> counts turns only to
  state how many \<open>try_pow\<close> takes.

  \<^bold>\<open>Not modelled.\<close> The TypeScript SDK (src/sdk), another language; tests, scripts, build and CI files; log
  messages and other printing; the macro that registers an entry point; floating-point parsing, scaling and rounding (parameters);
  the alignment of a cast account, which account data has.
  Between the reads of one command the ledger is taken not to change.
\<close>

end
